(* ===== verification/Prelude.thy ===== *)
theory Prelude
  imports Main "HOL-Library.Word" "HOL-Library.While_Combinator"
begin

text \<open>
  Shared vocabulary of the model of the \<open>azure-storage\<close> declarations
  (\<open>src/azure/azure-storage.d.ts\<close>): the types that name the declared
  dictionaries (\<open>Common.Metadata\<close>, \<open>Internal.Dictionary\<close>), optional
  arguments with their documented defaults, a generic decoder for the constant
  tables whose members carry a documented wire string, and the decimal
  rendering of numbers used where a declaration takes \<open>string | number\<close> or a
  date.  The lemmas here are shared by every component theory.
\<close>

named_theorems codec_simps "wire-string encoders and decoders of the constant tables"

type_synonym name = string

text \<open>\<open>Common.Metadata\<close> and \<open>Internal.Dictionary<string>\<close>: string-keyed objects.\<close>

type_synonym metadata = "string \<rightharpoonup> string"

type_synonym 'a dictionary = "string \<rightharpoonup> 'a"

text \<open>An optional argument with its documented default.\<close>

definition value_or :: "'a \<Rightarrow> 'a option \<Rightarrow> 'a" where
  "value_or d v = (case v of None \<Rightarrow> d | Some x \<Rightarrow> x)"

subsection \<open>Decoding a table of constants\<close>

text \<open>
  A constant table such as \<open>BlobUtilities.SnapshotDeleteOptions\<close> maps each
  member to a string.  Reading a string back finds the first member with that
  string, in declaration order.
\<close>

definition decode_table :: "'a list \<Rightarrow> ('a \<Rightarrow> string) \<Rightarrow> string \<Rightarrow> 'a option" where
  "decode_table vals enc s = find (\<lambda>x. enc x = s) vals"

subsection \<open>Decimal rendering of numbers\<close>

text \<open>
  Numbers that travel in headers and query strings (dates as seconds, sequence
  numbers, block numbers) are written in decimal and read back by the service.
\<close>

fun decimal :: "nat \<Rightarrow> string" where
  "decimal n = (if n < 10 then [char_of (48 + n)]
                else decimal (n div 10) @ [char_of (48 + n mod 10)])"

fun parse_digits :: "nat \<Rightarrow> string \<Rightarrow> nat option" where
  "parse_digits acc [] = Some acc"
| "parse_digits acc (c # cs) =
     (let d = of_char c in
      if 48 \<le> d \<and> d < 58 then parse_digits (10 * acc + (d - 48)) cs else None)"

definition parse_decimal :: "string \<Rightarrow> nat option" where
  "parse_decimal s = (if s = [] then None else parse_digits 0 s)"

declare decimal.simps [simp del]

subsection \<open>Lemmas\<close>

lemma value_or_simps [simp]: "value_or d None = d" "value_or d (Some x) = x"
  by (simp_all add: value_or_def)

lemma funpow_Suc_diff:
  "a < b \<Longrightarrow> (f ^^ (b - a)) x = (f ^^ (b - Suc a)) (f x)"
  by (metis Suc_diff_Suc funpow_Suc_right o_apply)

lemma decode_table_encode:
  assumes "x \<in> set vals" and "inj_on enc (set vals)"
  shows "decode_table vals enc (enc x) = Some x"
  using assms
proof (induction vals)
  case Nil
  then show ?case by simp
next
  case (Cons y ys)
  show ?case
  proof (cases "enc y = enc x")
    case True
    with Cons.prems have "y = x" by (auto dest: inj_onD)
    then show ?thesis by (simp add: decode_table_def)
  next
    case False
    with Cons.prems have "x \<in> set ys" and "inj_on enc (set ys)" by auto
    with Cons.IH False show ?thesis by (simp add: decode_table_def)
  qed
qed

lemma decode_table_Some:
  "decode_table vals enc s = Some x \<Longrightarrow> x \<in> set vals \<and> enc x = s"
  by (auto simp: decode_table_def find_Some_iff nth_mem)

lemma decode_table_None:
  "decode_table vals enc s = None \<longleftrightarrow> s \<notin> enc ` set vals"
  by (auto simp: decode_table_def find_None_iff)

lemma of_char_digit: "d < 10 \<Longrightarrow> of_char (char_of (48 + d :: nat) :: char) = (48 + d :: nat)"
  by (simp add: of_char_of)

lemma parse_digits_append:
  "parse_digits acc (xs @ ys) = Option.bind (parse_digits acc xs) (\<lambda>a. parse_digits a ys)"
  by (induction acc xs rule: parse_digits.induct) (simp_all add: Let_def)

lemma decimal_nonempty: "decimal n \<noteq> []"
  by (subst decimal.simps) simp

lemma parse_digits_decimal:
  "parse_digits acc (decimal n) = Some (acc * 10 ^ length (decimal n) + n)"
proof (induction n arbitrary: acc rule: decimal.induct)
  case (1 n)
  show ?case
  proof (cases "n < 10")
    case True
    then have "decimal n = [char_of (48 + n)]" by (subst decimal.simps) simp
    with True show ?thesis by (simp add: of_char_digit)
  next
    case False
    let ?L = "length (decimal (n div 10))"
    have IH: "parse_digits acc (decimal (n div 10)) = Some (acc * 10 ^ ?L + n div 10)"
      using "1.IH" False by simp
    have "n mod 10 < 10" by simp
    then have "parse_digits (acc * 10 ^ ?L + n div 10) [char_of (48 + n mod 10)]
             = Some (10 * (acc * 10 ^ ?L + n div 10) + n mod 10)"
      by (simp add: of_char_digit)
    moreover have "10 * (acc * 10 ^ ?L + n div 10) + n mod 10 = acc * 10 ^ Suc ?L + n"
      by simp
    moreover have "decimal n = decimal (n div 10) @ [char_of (48 + n mod 10)]"
      using False by (subst decimal.simps) simp
    ultimately show ?thesis
      using IH by (simp add: parse_digits_append)
  qed
qed

lemma parse_decimal_decimal [simp]: "parse_decimal (decimal n) = Some n"
  by (simp add: parse_decimal_def decimal_nonempty parse_digits_decimal)

lemma digit_chars [simp]:
  "char_of (48::nat) = CHR ''0''" "char_of (49::nat) = CHR ''1''" "char_of (50::nat) = CHR ''2''"
  "char_of (51::nat) = CHR ''3''" "char_of (52::nat) = CHR ''4''" "char_of (53::nat) = CHR ''5''"
  "char_of (54::nat) = CHR ''6''" "char_of (55::nat) = CHR ''7''" "char_of (56::nat) = CHR ''8''"
  "char_of (57::nat) = CHR ''9''"
  by (simp_all add: char_of_def bit_0)

lemma decimal_inj: "decimal m = decimal n \<Longrightarrow> m = n"
  by (metis option.inject parse_decimal_decimal)

lemma ran_upd_subset: "ran (m(a \<mapsto> b)) \<subseteq> insert b (ran m)"
  by (auto simp: ran_def)

lemma ran_del_subset: "ran (m(a := None)) \<subseteq> ran m"
  by (auto simp: ran_def)

lemma decimal_not_wildcard: "decimal k \<noteq> ''*''"
proof
  assume "decimal k = ''*''"
  then have "parse_decimal ''*'' = Some k" by (metis parse_decimal_decimal)
  then show False by (simp add: parse_decimal_def)
qed

text \<open>Sorted lists: the element after a filtered prefix, and filtering a set's
  sorted enumeration.\<close>

lemma sorted_filter_nth:
  "sorted_wrt (<) (xs :: 'a::linorder list) \<Longrightarrow> k < length xs \<Longrightarrow> filter (\<lambda>y. xs ! k \<le> y) xs = drop k xs"
proof (induction xs arbitrary: k)
  case (Cons x xs)
  show ?case
  proof (cases k)
    case 0
    from Cons.prems have "\<forall>y\<in>set xs. x < y" by simp
    then have "\<forall>y\<in>set xs. x \<le> y" by (auto simp: order_le_less)
    with 0 show ?thesis by (simp add: filter_True)
  next
    case (Suc j)
    with Cons.prems have "x < xs ! j" by (simp add: nth_mem)
    then have "\<not> xs ! j \<le> x" by (simp add: not_le)
    with Cons Suc show ?thesis by auto
  qed
qed simp

lemma filter_sorted_list_of_set:
  assumes "finite A"
  shows "filter P (sorted_list_of_set A) = sorted_list_of_set {x \<in> A. P x}"
proof -
  let ?l = "filter P (sorted_list_of_set A)"
  have fin: "finite {x \<in> A. P x}" using assms by simp
  have "sorted_wrt (<) ?l" by (simp add: sorted_wrt_filter)
  moreover have set: "set ?l = {x \<in> A. P x}" using assms by auto
  moreover have "length ?l = card {x \<in> A. P x}"
    using distinct_card [of ?l] set by simp
  ultimately have "sorted_list_of_set {x \<in> A. P x} = ?l"
    using sorted_list_of_set_unique [OF fin, of ?l] by blast
  then show ?thesis by simp
qed

end
