(* ===== verification/Constants.thy ===== *)
theory Constants
  imports Prelude
begin

text \<open>
  The constant tables of \<open>src/azure/azure-storage.d.ts\<close>
  (namespaces \<open>BlobUtilities\<close>, \<open>FileUtilities\<close>, \<open>TableUtilities\<close> and
  \<open>StorageUtilities\<close>, lines 15--378).  Each table becomes a datatype with the
  source's member names, and a function giving the wire string of each member
  as its \<open>@default\<close> comment documents it (\<open>None\<close> for the members documented
  as \<open>NULL\<close>).  Numeric \<open>enum\<close>s get their TypeScript numbering: implicit
  members count from 0, \<open>LocationMode\<close> has explicit initialisers.
  The shared-access permission tables are in theory \<open>Permissions\<close>.
  Every decoder is \<open>decode_table\<close> over the members in declaration order, and
  the lemmas show that it inverts the encoder.
\<close>

subsection \<open>BlobUtilities\<close>

text \<open>\<open>BlobUtilities.AccessConditions\<close>: the names of the conditional headers.\<close>

datatype AccessConditions =
  DATE_MODIFIED_SINCE | DATE_UNMODIFIED_SINCE | ETAG_MATCH | ETAG_NONE_MATCH

fun AccessConditions_header :: "AccessConditions \<Rightarrow> string" where
  "AccessConditions_header DATE_MODIFIED_SINCE = ''If-Modified-Since''"
| "AccessConditions_header DATE_UNMODIFIED_SINCE = ''If-Unmodified-Since''"
| "AccessConditions_header ETAG_MATCH = ''If-Match''"
| "AccessConditions_header ETAG_NONE_MATCH = ''If-None-Match''"

datatype BlobContainerPublicAccessType = OFF | CONTAINER | BLOB

fun BlobContainerPublicAccessType_value :: "BlobContainerPublicAccessType \<Rightarrow> string option" where
  "BlobContainerPublicAccessType_value OFF = None"
| "BlobContainerPublicAccessType_value CONTAINER = Some ''container''"
| "BlobContainerPublicAccessType_value BLOB = Some ''blob''"

text \<open>Reading the \<open>publicAccessLevel\<close> option back: an absent value is \<open>OFF\<close>.\<close>

fun parse_BlobContainerPublicAccessType :: "string option \<Rightarrow> BlobContainerPublicAccessType option" where
  "parse_BlobContainerPublicAccessType None = Some OFF"
| "parse_BlobContainerPublicAccessType (Some s) =
     (if s = ''container'' then Some CONTAINER else if s = ''blob'' then Some BLOB else None)"

datatype BlobListingDetails = SNAPSHOTS | METADATA | UNCOMMITTED_BLOBS

fun BlobListingDetails_value :: "BlobListingDetails \<Rightarrow> string" where
  "BlobListingDetails_value SNAPSHOTS = ''snapshots''"
| "BlobListingDetails_value METADATA = ''metadata''"
| "BlobListingDetails_value UNCOMMITTED_BLOBS = ''uncommittedblobs''"

definition BlobListingDetails_members :: "BlobListingDetails list" where
  "BlobListingDetails_members = [SNAPSHOTS, METADATA, UNCOMMITTED_BLOBS]"

definition parse_BlobListingDetails :: "string \<Rightarrow> BlobListingDetails option" where
  "parse_BlobListingDetails = decode_table BlobListingDetails_members BlobListingDetails_value"

text \<open>\<open>BlobUtilities.BlockListFilter\<close>: a numeric enum whose members document
  string values.  Its member \<open>ALL\<close> is \<open>ALL_FILTER\<close> here (\<open>ALL\<close> is a
  keyword of the logic).\<close>

datatype BlockListFilter = ALL_FILTER | COMITTED | UNCOMMITTED

fun BlockListFilter_ordinal :: "BlockListFilter \<Rightarrow> nat" where
  "BlockListFilter_ordinal ALL_FILTER = 0"
| "BlockListFilter_ordinal COMITTED = 1"
| "BlockListFilter_ordinal UNCOMMITTED = 2"

fun BlockListFilter_value :: "BlockListFilter \<Rightarrow> string" where
  "BlockListFilter_value ALL_FILTER = ''all''"
| "BlockListFilter_value COMITTED = ''comitted''"
| "BlockListFilter_value UNCOMMITTED = ''uncommitted''"

definition BlockListFilter_members :: "BlockListFilter list" where
  "BlockListFilter_members = [ALL_FILTER, COMITTED, UNCOMMITTED]"

definition parse_BlockListFilter :: "string \<Rightarrow> BlockListFilter option" where
  "parse_BlockListFilter = decode_table BlockListFilter_members BlockListFilter_value"

text \<open>\<open>BlobUtilities.SequenceNumberAction\<close>; its member \<open>MAX\<close> is
  \<open>MAX_ACTION\<close> here (\<open>MAX\<close> is a binder of the logic).\<close>

datatype SequenceNumberAction = MAX_ACTION | UPDATE | INCREMENT

fun SequenceNumberAction_ordinal :: "SequenceNumberAction \<Rightarrow> nat" where
  "SequenceNumberAction_ordinal MAX_ACTION = 0"
| "SequenceNumberAction_ordinal UPDATE = 1"
| "SequenceNumberAction_ordinal INCREMENT = 2"

fun SequenceNumberAction_value :: "SequenceNumberAction \<Rightarrow> string" where
  "SequenceNumberAction_value MAX_ACTION = ''max''"
| "SequenceNumberAction_value UPDATE = ''update''"
| "SequenceNumberAction_value INCREMENT = ''increment''"

definition SequenceNumberAction_members :: "SequenceNumberAction list" where
  "SequenceNumberAction_members = [MAX_ACTION, UPDATE, INCREMENT]"

definition parse_SequenceNumberAction :: "string \<Rightarrow> SequenceNumberAction option" where
  "parse_SequenceNumberAction = decode_table SequenceNumberAction_members SequenceNumberAction_value"

datatype SnapshotDeleteOptions = SNAPSHOTS_ONLY | BLOB_AND_SNAPSHOTS

fun SnapshotDeleteOptions_value :: "SnapshotDeleteOptions \<Rightarrow> string" where
  "SnapshotDeleteOptions_value SNAPSHOTS_ONLY = ''only''"
| "SnapshotDeleteOptions_value BLOB_AND_SNAPSHOTS = ''include''"

definition parse_SnapshotDeleteOptions :: "string \<Rightarrow> SnapshotDeleteOptions option" where
  "parse_SnapshotDeleteOptions =
     decode_table [SNAPSHOTS_ONLY, BLOB_AND_SNAPSHOTS] SnapshotDeleteOptions_value"

subsection \<open>FileUtilities\<close>

text \<open>\<open>FileUtilities.ListingDetails\<close> has the single member \<open>METADATA\<close>; its
  constructor is \<open>FileListingDetails.METADATA\<close>, beside the blob table's.\<close>

datatype FileListingDetails = FILE_METADATA

fun FileListingDetails_value :: "FileListingDetails \<Rightarrow> string" where
  "FileListingDetails_value FILE_METADATA = ''metadata''"

datatype SharePublicAccessType = SHARE_OFF | SHARE | FILE

fun SharePublicAccessType_value :: "SharePublicAccessType \<Rightarrow> string option" where
  "SharePublicAccessType_value SHARE_OFF = None"
| "SharePublicAccessType_value SHARE = Some ''share''"
| "SharePublicAccessType_value FILE = Some ''file''"

subsection \<open>TableUtilities\<close>

datatype EdmType = STRING | BINARY | INT64 | INT32 | DOUBLE | DATETIME | GUID | BOOLEAN

fun EdmType_value :: "EdmType \<Rightarrow> string" where
  "EdmType_value STRING = ''Edm.String''"
| "EdmType_value BINARY = ''Edm.Binary''"
| "EdmType_value INT64 = ''Edm.Int64''"
| "EdmType_value INT32 = ''Edm.Int32''"
| "EdmType_value DOUBLE = ''Edm.Double''"
| "EdmType_value DATETIME = ''Edm.DateTime''"
| "EdmType_value GUID = ''Edm.Guid''"
| "EdmType_value BOOLEAN = ''Edm.Boolean''"

definition EdmType_members :: "EdmType list" where
  "EdmType_members = [STRING, BINARY, INT64, INT32, DOUBLE, DATETIME, GUID, BOOLEAN]"

definition parse_EdmType :: "string \<Rightarrow> EdmType option" where
  "parse_EdmType = decode_table EdmType_members EdmType_value"

datatype PayloadFormat = FULL_METADATA | MINIMAL_METADATA | NO_METADATA

fun PayloadFormat_value :: "PayloadFormat \<Rightarrow> string" where
  "PayloadFormat_value FULL_METADATA = ''application/json;odata=fullmetadata''"
| "PayloadFormat_value MINIMAL_METADATA = ''application/json;odata=minimalmetadata''"
| "PayloadFormat_value NO_METADATA = ''application/json;odata=nometadata''"

definition parse_PayloadFormat :: "string \<Rightarrow> PayloadFormat option" where
  "parse_PayloadFormat =
     decode_table [FULL_METADATA, MINIMAL_METADATA, NO_METADATA] PayloadFormat_value"

datatype QueryComparisons =
  EQUAL | NOT_EQUAL | GREATER_THAN | GREATER_THAN_OR_EQUAL | LESS_THAN | LESS_THAN_OR_EQUAL

fun QueryComparisons_value :: "QueryComparisons \<Rightarrow> string" where
  "QueryComparisons_value EQUAL = ''eq''"
| "QueryComparisons_value NOT_EQUAL = ''ne''"
| "QueryComparisons_value GREATER_THAN = ''gt''"
| "QueryComparisons_value GREATER_THAN_OR_EQUAL = ''ge''"
| "QueryComparisons_value LESS_THAN = ''lt''"
| "QueryComparisons_value LESS_THAN_OR_EQUAL = ''le''"

definition QueryComparisons_members :: "QueryComparisons list" where
  "QueryComparisons_members =
     [EQUAL, NOT_EQUAL, GREATER_THAN, GREATER_THAN_OR_EQUAL, LESS_THAN, LESS_THAN_OR_EQUAL]"

definition parse_QueryComparisons :: "string \<Rightarrow> QueryComparisons option" where
  "parse_QueryComparisons = decode_table QueryComparisons_members QueryComparisons_value"

datatype TableOperators = AND | NOT | OR

fun TableOperators_value :: "TableOperators \<Rightarrow> string" where
  "TableOperators_value AND = ''and''"
| "TableOperators_value NOT = ''not''"
| "TableOperators_value OR = ''or''"

definition parse_TableOperators :: "string \<Rightarrow> TableOperators option" where
  "parse_TableOperators = decode_table [AND, NOT, OR] TableOperators_value"

subsection \<open>StorageUtilities\<close>

datatype LocationMode =
  PRIMARY_ONLY | PRIMARY_THEN_SECONDARY | SECONDARY_ONLY | SECONDARY_THEN_PRIMARY

fun LocationMode_value :: "LocationMode \<Rightarrow> nat" where
  "LocationMode_value PRIMARY_ONLY = 0"
| "LocationMode_value PRIMARY_THEN_SECONDARY = 1"
| "LocationMode_value SECONDARY_ONLY = 2"
| "LocationMode_value SECONDARY_THEN_PRIMARY = 3"

text \<open>The reverse mapping TypeScript gives a numeric enum (\<open>LocationMode[n]\<close>).\<close>

fun LocationMode_of_value :: "nat \<Rightarrow> LocationMode option" where
  "LocationMode_of_value n =
     (if n = 0 then Some PRIMARY_ONLY
      else if n = 1 then Some PRIMARY_THEN_SECONDARY
      else if n = 2 then Some SECONDARY_ONLY
      else if n = 3 then Some SECONDARY_THEN_PRIMARY
      else None)"

declare BlobListingDetails_members_def [codec_simps] parse_BlobListingDetails_def [codec_simps]
  BlockListFilter_members_def [codec_simps] parse_BlockListFilter_def [codec_simps]
  SequenceNumberAction_members_def [codec_simps] parse_SequenceNumberAction_def [codec_simps]
  parse_SnapshotDeleteOptions_def [codec_simps] EdmType_members_def [codec_simps]
  parse_EdmType_def [codec_simps] parse_PayloadFormat_def [codec_simps]
  QueryComparisons_members_def [codec_simps] parse_QueryComparisons_def [codec_simps]
  parse_TableOperators_def [codec_simps] decode_table_def [codec_simps]

lemma parse_EdmType_value [simp]: "parse_EdmType (EdmType_value t) = Some t"
  by (cases t) (simp_all add: codec_simps)

subsection \<open>Properties of the constant tables\<close>

text \<open>The numbering of \<open>StorageUtilities.LocationMode\<close> and TypeScript's
  reverse mapping agree: a number names a mode exactly when it is that mode's
  value, so the four values 0 to 3 are distinct and nothing else names a mode.\<close>

theorem LocationMode_reverse_mapping:
  "LocationMode_of_value n = Some m \<longleftrightarrow> LocationMode_value m = n"
  by (cases m) auto

text \<open>Reading an \<open>EdmType\<close> name back gives the type it was written from,
  and only the eight documented names are read as types.\<close>

theorem EdmType_roundtrip:
  "parse_EdmType s = Some t \<longleftrightarrow> EdmType_value t = s"
proof
  assume "parse_EdmType s = Some t"
  then show "EdmType_value t = s"
    using decode_table_Some [of EdmType_members EdmType_value s t] by (simp add: parse_EdmType_def)
next
  assume "EdmType_value t = s"
  then show "parse_EdmType s = Some t" using parse_EdmType_value [of t] by simp
qed

text \<open>The documented value of \<open>BlockListFilter.COMITTED\<close> is \<open>comitted\<close>,
  while the value of \<open>UNCOMMITTED\<close>, \<open>uncommitted\<close>, spells the same word with a
  double \<open>m\<close>: the committed filter's documented string is not the word the
  uncommitted one negates.\<close>

theorem BlockListFilter_comitted:
  "BlockListFilter_value UNCOMMITTED = ''un'' @ ''committed'' \<and>
   BlockListFilter_value COMITTED \<noteq> ''committed''"
  by simp

end
