(* ===== verification/AccessCondition.thy ===== *)
theory AccessCondition
  imports Constants
begin

text \<open>
  Namespace \<open>AccessCondition\<close> of \<open>src/azure/azure-storage.d.ts\<close>
  (lines 381--428): the \<open>AccessConditions\<close> object, a map from header names to
  header values, and its seven generators.  Each generator's comment names the
  HTTP conditional header it sets and states when the guarded operation is
  performed; the header names are the defaults of
  \<open>BlobUtilities.AccessConditions\<close> (theory \<open>Constants\<close>).  The service
  evaluates the headers against the resource's ETag and last-modified time
  (the \<open>etag\<close> and \<open>lastModified\<close> fields of \<open>BlobResult\<close> and
  \<open>ContainerResult\<close>), as HTTP conditional requests are evaluated; the
  evaluation is \<open>conditions_hold\<close>.  The main lemma, \<open>generate_refines\<close>,
  shows that every generator implements the contract its comment states.
  Dates are carried as seconds in decimal (\<open>decimal\<close> of the prelude).
\<close>

type_synonym conditions = "string \<rightharpoonup> string"

text \<open>The part of a blob's or container's properties the conditions read.\<close>

record resource =
  etag :: string
  lastModified :: nat

abbreviation hdr :: "AccessConditions \<Rightarrow> string" where
  "hdr \<equiv> AccessConditions_header"

subsection \<open>The generators\<close>

definition generateEmptyCondition :: conditions where
  "generateEmptyCondition = Map.empty"

definition generateIfNotExistsCondition :: conditions where
  "generateIfNotExistsCondition = [hdr ETAG_NONE_MATCH \<mapsto> ''*'']"

definition generateIfExistsCondition :: conditions where
  "generateIfExistsCondition = [hdr ETAG_MATCH \<mapsto> ''*'']"

definition generateIfNoneMatchCondition :: "string \<Rightarrow> conditions" where
  "generateIfNoneMatchCondition e = [hdr ETAG_NONE_MATCH \<mapsto> e]"

definition generateIfMatchCondition :: "string \<Rightarrow> conditions" where
  "generateIfMatchCondition e = [hdr ETAG_MATCH \<mapsto> e]"

definition generateIfModifiedSinceCondition :: "nat \<Rightarrow> conditions" where
  "generateIfModifiedSinceCondition t = [hdr DATE_MODIFIED_SINCE \<mapsto> decimal t]"

definition generateIfNotModifiedSinceCondition :: "nat \<Rightarrow> conditions" where
  "generateIfNotModifiedSinceCondition t = [hdr DATE_UNMODIFIED_SINCE \<mapsto> decimal t]"

subsection \<open>Evaluation of the conditional headers\<close>

text \<open>
  An entity tag condition matches an existing resource whose ETag is the value,
  or any existing resource for the wildcard \<open>*\<close>.  A date that does not parse
  is ignored, as HTTP prescribes; a date condition on a missing resource fails,
  since a missing resource has no modification time.
\<close>

definition etag_matches :: "string \<Rightarrow> resource option \<Rightarrow> bool" where
  "etag_matches v r = (case r of None \<Rightarrow> False | Some p \<Rightarrow> v = ''*'' \<or> v = etag p)"

definition date_holds :: "(nat \<Rightarrow> nat \<Rightarrow> bool) \<Rightarrow> string \<Rightarrow> resource option \<Rightarrow> bool" where
  "date_holds cmp v r =
     (case parse_decimal v of
        None \<Rightarrow> True
      | Some t \<Rightarrow> (case r of None \<Rightarrow> False | Some p \<Rightarrow> cmp t (lastModified p)))"

definition header_holds :: "conditions \<Rightarrow> AccessConditions \<Rightarrow> resource option \<Rightarrow> bool" where
  "header_holds c h r =
     (case c (hdr h) of
        None \<Rightarrow> True
      | Some v \<Rightarrow>
          (case h of
             ETAG_MATCH \<Rightarrow> etag_matches v r
           | ETAG_NONE_MATCH \<Rightarrow> \<not> etag_matches v r
           | DATE_MODIFIED_SINCE \<Rightarrow> date_holds (\<lambda>t m. t < m) v r
           | DATE_UNMODIFIED_SINCE \<Rightarrow> date_holds (\<lambda>t m. m \<le> t) v r))"

definition conditions_hold :: "conditions \<Rightarrow> resource option \<Rightarrow> bool" where
  "conditions_hold c r =
     (header_holds c ETAG_MATCH r \<and> header_holds c ETAG_NONE_MATCH r \<and>
      header_holds c DATE_MODIFIED_SINCE r \<and> header_holds c DATE_UNMODIFIED_SINCE r)"

subsection \<open>The contracts stated by the comments\<close>

datatype condition_spec =
    Always
  | IfNotExists
  | IfExists
  | IfNoneMatch string
  | IfMatch string
  | IfModifiedSince nat
  | IfNotModifiedSince nat

text \<open>What each generator's comment promises: when the operation is performed.\<close>

fun spec_holds :: "condition_spec \<Rightarrow> resource option \<Rightarrow> bool" where
  "spec_holds Always r = True"
| "spec_holds IfNotExists r = (r = None)"
| "spec_holds IfExists r = (r \<noteq> None)"
| "spec_holds (IfNoneMatch e) r = (case r of None \<Rightarrow> True | Some p \<Rightarrow> etag p \<noteq> e)"
| "spec_holds (IfMatch e) r = (case r of None \<Rightarrow> False | Some p \<Rightarrow> etag p = e)"
| "spec_holds (IfModifiedSince t) r = (case r of None \<Rightarrow> False | Some p \<Rightarrow> t < lastModified p)"
| "spec_holds (IfNotModifiedSince t) r = (case r of None \<Rightarrow> False | Some p \<Rightarrow> lastModified p \<le> t)"

text \<open>Which generator the caller uses for each contract.\<close>

fun generate :: "condition_spec \<Rightarrow> conditions" where
  "generate Always = generateEmptyCondition"
| "generate IfNotExists = generateIfNotExistsCondition"
| "generate IfExists = generateIfExistsCondition"
| "generate (IfNoneMatch e) = generateIfNoneMatchCondition e"
| "generate (IfMatch e) = generateIfMatchCondition e"
| "generate (IfModifiedSince t) = generateIfModifiedSinceCondition t"
| "generate (IfNotModifiedSince t) = generateIfNotModifiedSinceCondition t"

text \<open>An ETag given to a generator is a real entity tag, not the wildcard.\<close>

fun spec_wf :: "condition_spec \<Rightarrow> bool" where
  "spec_wf (IfNoneMatch e) = (e \<noteq> ''*'')"
| "spec_wf (IfMatch e) = (e \<noteq> ''*'')"
| "spec_wf _ = True"

text \<open>The header a contract's generator sets, if any.\<close>

fun spec_header :: "condition_spec \<Rightarrow> AccessConditions option" where
  "spec_header Always = None"
| "spec_header IfNotExists = Some ETAG_NONE_MATCH"
| "spec_header IfExists = Some ETAG_MATCH"
| "spec_header (IfNoneMatch e) = Some ETAG_NONE_MATCH"
| "spec_header (IfMatch e) = Some ETAG_MATCH"
| "spec_header (IfModifiedSince t) = Some DATE_MODIFIED_SINCE"
| "spec_header (IfNotModifiedSince t) = Some DATE_UNMODIFIED_SINCE"

lemmas generator_defs =
  generateEmptyCondition_def generateIfNotExistsCondition_def generateIfExistsCondition_def
  generateIfNoneMatchCondition_def generateIfMatchCondition_def
  generateIfModifiedSinceCondition_def generateIfNotModifiedSinceCondition_def

lemmas evaluation_defs = conditions_hold_def header_holds_def etag_matches_def date_holds_def

subsection \<open>Lemmas\<close>

text \<open>The four header names are pairwise distinct, so each generator sets one
  header and leaves the other three absent.\<close>

lemma hdr_inject [simp]: "hdr h = hdr h' \<longleftrightarrow> h = h'"
  by (cases h; cases h') simp_all

lemma header_holds_absent [simp]: "c (hdr h) = None \<Longrightarrow> header_holds c h r"
  by (simp add: header_holds_def)

lemma header_holds_single:
  "header_holds [hdr h \<mapsto> v] h' r = (h' \<noteq> h \<or> header_holds [hdr h \<mapsto> v] h r)"
  by (cases "h' = h") simp_all

lemma conditions_hold_single:
  "conditions_hold [hdr h \<mapsto> v] r = header_holds [hdr h \<mapsto> v] h r"
  by (cases h) (simp_all add: conditions_hold_def)

lemma conditions_hold_empty: "conditions_hold Map.empty r"
  by (simp add: conditions_hold_def)

lemma header_holds_own:
  "header_holds [hdr h \<mapsto> v] h r =
     (case h of
        ETAG_MATCH \<Rightarrow> etag_matches v r
      | ETAG_NONE_MATCH \<Rightarrow> \<not> etag_matches v r
      | DATE_MODIFIED_SINCE \<Rightarrow> date_holds (\<lambda>t m. t < m) v r
      | DATE_UNMODIFIED_SINCE \<Rightarrow> date_holds (\<lambda>t m. m \<le> t) v r)"
  by (simp add: header_holds_def)

lemma date_holds_decimal:
  "date_holds cmp (decimal t) r = (case r of None \<Rightarrow> False | Some p \<Rightarrow> cmp t (lastModified p))"
  by (simp add: date_holds_def)

lemma generate_contract:
  "spec_wf s \<Longrightarrow> conditions_hold (generate s) r = spec_holds s r"
  by (cases s) (simp_all only: generate.simps generator_defs conditions_hold_single header_holds_own
      conditions_hold_empty, auto simp: etag_matches_def date_holds_decimal split: option.splits)

lemma header_holds_merge:
  assumes "dom c1 \<inter> dom c2 = {}"
  shows "header_holds (c1 ++ c2) h r = (header_holds c1 h r \<and> header_holds c2 h r)"
proof (cases "c2 (hdr h)")
  case None
  then show ?thesis by (simp add: header_holds_def map_add_def)
next
  case (Some v)
  with assms have "c1 (hdr h) = None" by blast
  with Some show ?thesis by (simp add: header_holds_def)
qed

lemma conditions_hold_merge:
  assumes "dom c1 \<inter> dom c2 = {}"
  shows "conditions_hold (c1 ++ c2) r = (conditions_hold c1 r \<and> conditions_hold c2 r)"
  using header_holds_merge [OF assms] by (auto simp: conditions_hold_def)

subsection \<open>Properties of the generators\<close>

text \<open>C4: every generator of \<open>AccessCondition\<close> implements the contract its
  comment states: the service performs the operation exactly when the comment
  says it is performed (for the ETag generators, given a real entity tag).\<close>

theorem generate_refines:
  "spec_wf s \<Longrightarrow> conditions_hold (generate s) r = spec_holds s r"
  by (rule generate_contract)

theorem generate_refines_witness:
  "spec_wf (IfMatch ''\"0x8D1\"'') \<and>
   conditions_hold (generate (IfMatch ''\"0x8D1\"'')) (Some \<lparr>etag = ''\"0x8D1\"'', lastModified = 5\<rparr>) \<and>
   \<not> conditions_hold (generate (IfMatch ''\"0x8D1\"'')) (Some \<lparr>etag = ''\"0x8D2\"'', lastModified = 5\<rparr>)"
  using generate_refines [of "IfMatch ''\"0x8D1\"''"] by simp

text \<open>Conditions from generators that set different headers can be put in
  one \<open>accessConditions\<close> object, and the operation is then performed exactly
  when both contracts hold.\<close>

theorem generate_merge:
  assumes "spec_wf s1" and "spec_wf s2" and "dom (generate s1) \<inter> dom (generate s2) = {}"
  shows "conditions_hold (generate s1 ++ generate s2) r = (spec_holds s1 r \<and> spec_holds s2 r)"
  using conditions_hold_merge [OF assms(3)] generate_contract [OF assms(1)] generate_contract [OF assms(2)]
  by simp

theorem generate_merge_witness:
  "spec_wf (IfMatch ''\"0x8D1\"'') \<and> spec_wf (IfNotModifiedSince 10) \<and>
   dom (generate (IfMatch ''\"0x8D1\"'')) \<inter> dom (generate (IfNotModifiedSince 10)) = {} \<and>
   conditions_hold (generate (IfMatch ''\"0x8D1\"'') ++ generate (IfNotModifiedSince 10))
     (Some \<lparr>etag = ''\"0x8D1\"'', lastModified = 7\<rparr>)"
proof -
  have d: "dom (generate (IfMatch ''\"0x8D1\"'')) \<inter> dom (generate (IfNotModifiedSince 10)) = {}"
    by (simp add: generator_defs)
  show ?thesis
    using generate_merge [of "IfMatch ''\"0x8D1\"''" "IfNotModifiedSince 10", OF _ _ d] d by simp
qed

text \<open>The comment of \<open>generateIfMatchCondition\<close> promises that the operation
  is performed only if the resource's ETag matches the given value, but the
  value is sent as an \<open>If-Match\<close> header, where \<open>*\<close> matches every existing
  resource: \<open>generateIfMatchCondition(''*'')\<close> is \<open>generateIfExistsCondition()\<close>
  and is met by a resource whose ETag is not \<open>*\<close>.\<close>

theorem generateIfMatch_wildcard:
  "generateIfMatchCondition ''*'' = generateIfExistsCondition \<and>
   conditions_hold (generateIfMatchCondition ''*'') (Some \<lparr>etag = ''\"0x8D1\"'', lastModified = 0\<rparr>) \<and>
   \<not> spec_holds (IfMatch ''*'') (Some \<lparr>etag = ''\"0x8D1\"'', lastModified = 0\<rparr>)"
  by (simp add: generator_defs evaluation_defs)

end
