(* ===== verification/RetryPolicy.thy ===== *)
theory RetryPolicy
  imports Constants
begin

text \<open>
  The retry filters of \<open>src/azure/azure-storage.d.ts\<close>: the interface
  \<open>Filters.IRetryPolicyFilter\<close> and \<open>Filters.RetryInfo\<close> (lines 432--461), the
  request options \<open>Common.DefaultOptions\<close> that drive them (lines 513--535), and
  the classes \<open>ExponentialRetryPolicyFilter\<close>, \<open>LinearRetryPolicyFilter\<close> and
  \<open>RetryPolicyFilter\<close> (lines 575--687).

  \<open>retry_handle\<close> is \<open>RetryPolicyFilter._handle(self, requestOptions, next)\<close>:
  it sends the request, and while the response is not valid and
  \<open>self.shouldRetry\<close> says to retry, it waits the returned interval and sends
  again, to the next location of the request's \<open>LocationMode\<close>.  The maximum
  execution time of \<open>DefaultOptions\<close> is checked before each retry.  The
  network is an oracle \<open>send\<close>: for the attempt number and the location it gives
  the status code and how long the attempt took, in milliseconds.  A user's
  \<open>shouldRetry\<close> may retry for ever, so the loop is a
  \<open>partial_function (option)\<close>; the lemmas show that it returns whenever the
  policy bounds its retries, as the exponential and linear filters do.
  Which status codes a filter treats as transient is not declared by the
  source; it is the parameter \<open>transient\<close> of the two concrete filters.
\<close>

datatype location = PRIMARY | SECONDARY

record DefaultOptions =
  locationMode :: "LocationMode option"
  timeoutIntervalInMs :: "nat option"
  maximumExecutionTimeInMs :: "nat option"
  clientRequestId :: "string option"
  useNagleAlgorithm :: "bool option"

definition no_options :: DefaultOptions where
  "no_options = \<lparr>locationMode = None, timeoutIntervalInMs = None,
     maximumExecutionTimeInMs = None, clientRequestId = None, useNagleAlgorithm = None\<rparr>"

text \<open>\<open>Filters.RetryInfo\<close>: whether to retry and after how many milliseconds.\<close>

record RetryInfo =
  retryable :: bool
  interval :: nat

text \<open>The request options as the filter sees them while it retries.\<close>

record retry_request =
  options :: DefaultOptions
  mode :: LocationMode
  currentRetryCount :: nat
  currentLocation :: location
  elapsedMs :: nat

subsection \<open>Locations\<close>

text \<open>The comments of \<open>StorageUtilities.LocationMode\<close>: the first location, and
  the location of the next attempt.\<close>

fun initial_location :: "LocationMode \<Rightarrow> location" where
  "initial_location PRIMARY_ONLY = PRIMARY"
| "initial_location PRIMARY_THEN_SECONDARY = PRIMARY"
| "initial_location SECONDARY_ONLY = SECONDARY"
| "initial_location SECONDARY_THEN_PRIMARY = SECONDARY"

fun other_location :: "location \<Rightarrow> location" where
  "other_location PRIMARY = SECONDARY"
| "other_location SECONDARY = PRIMARY"

fun next_location :: "LocationMode \<Rightarrow> location \<Rightarrow> location" where
  "next_location PRIMARY_ONLY l = PRIMARY"
| "next_location SECONDARY_ONLY l = SECONDARY"
| "next_location PRIMARY_THEN_SECONDARY l = other_location l"
| "next_location SECONDARY_THEN_PRIMARY l = other_location l"

subsection \<open>The retry loop\<close>

text \<open>\<open>Internal.WebResource.validResponse(statusCode)\<close>: a 2xx status.\<close>

definition validResponse :: "nat \<Rightarrow> bool" where
  "validResponse code = (200 \<le> code \<and> code < 300)"

text \<open>The maximum execution time, checked before a retry is started.\<close>

definition before_deadline :: "DefaultOptions \<Rightarrow> nat \<Rightarrow> bool" where
  "before_deadline opts t = (case maximumExecutionTimeInMs opts of None \<Rightarrow> True | Some m \<Rightarrow> t < m)"

definition retry_next :: "retry_request \<Rightarrow> nat \<Rightarrow> retry_request" where
  "retry_next rq t =
     rq\<lparr>currentRetryCount := Suc (currentRetryCount rq), elapsedMs := t,
        currentLocation := next_location (mode rq) (currentLocation rq)\<rparr>"

text \<open>The result is the last status code and the request as it was last sent.\<close>

partial_function (option) retry_handle ::
  "(nat \<Rightarrow> retry_request \<Rightarrow> RetryInfo) \<Rightarrow> (nat \<Rightarrow> location \<Rightarrow> nat \<times> nat) \<Rightarrow>
   retry_request \<Rightarrow> (nat \<times> retry_request) option"
where
  "retry_handle shouldRetry send rq =
     (case send (currentRetryCount rq) (currentLocation rq) of
        (code, dur) \<Rightarrow>
          (let now = elapsedMs rq + dur in
           if validResponse code then Some (code, rq)
           else
             (let info = shouldRetry code (rq\<lparr>elapsedMs := now\<rparr>) in
              if retryable info \<and> before_deadline (options rq) (now + interval info)
              then retry_handle shouldRetry send (retry_next rq (now + interval info))
              else Some (code, rq))))"

text \<open>A policy that retries only while fewer than \<open>N\<close> retries were made.\<close>

definition bounded_policy :: "nat \<Rightarrow> (nat \<Rightarrow> retry_request \<Rightarrow> RetryInfo) \<Rightarrow> bool" where
  "bounded_policy N shouldRetry =
     (\<forall>code rq. retryable (shouldRetry code rq) \<longrightarrow> currentRetryCount rq < N)"

subsection \<open>The filters\<close>

record RetryPolicyFilter =
  retryCount :: nat
  retryInterval :: nat

record ExponentialRetryPolicyFilter = RetryPolicyFilter +
  minRetryInterval :: nat
  maxRetryInterval :: nat

definition DEFAULT_CLIENT_RETRY_COUNT :: nat where
  "DEFAULT_CLIENT_RETRY_COUNT = 3"

definition DEFAULT_CLIENT_RETRY_INTERVAL :: nat where
  "DEFAULT_CLIENT_RETRY_INTERVAL = 30000"

definition DEFAULT_CLIENT_MIN_RETRY_INTERVAL :: nat where
  "DEFAULT_CLIENT_MIN_RETRY_INTERVAL = 3000"

definition DEFAULT_CLIENT_MAX_RETRY_INTERVAL :: nat where
  "DEFAULT_CLIENT_MAX_RETRY_INTERVAL = 90000"

definition new_ExponentialRetryPolicyFilter ::
  "nat option \<Rightarrow> nat option \<Rightarrow> nat option \<Rightarrow> nat option \<Rightarrow> ExponentialRetryPolicyFilter" where
  "new_ExponentialRetryPolicyFilter rc ri mn mx =
     \<lparr>retryCount = value_or DEFAULT_CLIENT_RETRY_COUNT rc,
      retryInterval = value_or DEFAULT_CLIENT_RETRY_INTERVAL ri,
      minRetryInterval = value_or DEFAULT_CLIENT_MIN_RETRY_INTERVAL mn,
      maxRetryInterval = value_or DEFAULT_CLIENT_MAX_RETRY_INTERVAL mx\<rparr>"

definition new_LinearRetryPolicyFilter :: "nat option \<Rightarrow> nat option \<Rightarrow> RetryPolicyFilter" where
  "new_LinearRetryPolicyFilter rc ri =
     \<lparr>retryCount = value_or DEFAULT_CLIENT_RETRY_COUNT rc,
      retryInterval = value_or DEFAULT_CLIENT_RETRY_INTERVAL ri\<rparr>"

text \<open>The exponential back-off: the first retry waits the minimum interval, each
  later one adds a doubling multiple of the retry interval, capped at the maximum.\<close>

definition exponential_interval :: "ExponentialRetryPolicyFilter \<Rightarrow> nat \<Rightarrow> nat" where
  "exponential_interval f n =
     min (maxRetryInterval f) (minRetryInterval f + (2 ^ n - 1) * retryInterval f)"

definition exponential_shouldRetry ::
  "(nat \<Rightarrow> bool) \<Rightarrow> ExponentialRetryPolicyFilter \<Rightarrow> nat \<Rightarrow> retry_request \<Rightarrow> RetryInfo" where
  "exponential_shouldRetry transient f code rq =
     \<lparr>retryable = (currentRetryCount rq < retryCount f \<and> transient code),
      interval = exponential_interval f (currentRetryCount rq)\<rparr>"

definition linear_shouldRetry ::
  "(nat \<Rightarrow> bool) \<Rightarrow> RetryPolicyFilter \<Rightarrow> nat \<Rightarrow> retry_request \<Rightarrow> RetryInfo" where
  "linear_shouldRetry transient f code rq =
     \<lparr>retryable = (currentRetryCount rq < retryCount f \<and> transient code),
      interval = retryInterval f\<rparr>"

definition ExponentialRetryPolicyFilter_handle ::
  "(nat \<Rightarrow> bool) \<Rightarrow> ExponentialRetryPolicyFilter \<Rightarrow> (nat \<Rightarrow> location \<Rightarrow> nat \<times> nat) \<Rightarrow>
   retry_request \<Rightarrow> (nat \<times> retry_request) option" where
  "ExponentialRetryPolicyFilter_handle transient f send rq =
     retry_handle (exponential_shouldRetry transient f) send rq"

definition LinearRetryPolicyFilter_handle ::
  "(nat \<Rightarrow> bool) \<Rightarrow> RetryPolicyFilter \<Rightarrow> (nat \<Rightarrow> location \<Rightarrow> nat \<times> nat) \<Rightarrow>
   retry_request \<Rightarrow> (nat \<times> retry_request) option" where
  "LinearRetryPolicyFilter_handle transient f send rq =
     retry_handle (linear_shouldRetry transient f) send rq"

text \<open>A fresh request: no retry yet, sent at time 0 to the mode's first location.\<close>

definition start_request :: "LocationMode \<Rightarrow> DefaultOptions \<Rightarrow> retry_request" where
  "start_request defaultLocationMode opts =
     (let m = value_or defaultLocationMode (locationMode opts) in
      \<lparr>options = opts, mode = m, currentRetryCount = 0,
       currentLocation = initial_location m, elapsedMs = 0\<rparr>)"

text \<open>The location of the \<open>k\<close>-th retry as the comments of
  \<open>StorageUtilities.LocationMode\<close> describe it: the named location only, or the
  two locations taken in turn starting with the first named.\<close>

fun attempt_location :: "LocationMode \<Rightarrow> nat \<Rightarrow> location" where
  "attempt_location PRIMARY_ONLY k = PRIMARY"
| "attempt_location SECONDARY_ONLY k = SECONDARY"
| "attempt_location PRIMARY_THEN_SECONDARY k = (if even k then PRIMARY else SECONDARY)"
| "attempt_location SECONDARY_THEN_PRIMARY k = (if even k then SECONDARY else PRIMARY)"

text \<open>What a run of the loop keeps: the options and the mode; the retry count
  only grows, the location follows the mode, time only passes; a run that made
  no retry returns the request unchanged, and a retry starts before the
  deadline.\<close>

definition retry_outcome :: "retry_request \<Rightarrow> retry_request \<Rightarrow> bool" where
  "retry_outcome rq rq' =
     (options rq' = options rq \<and> mode rq' = mode rq \<and>
      currentRetryCount rq \<le> currentRetryCount rq' \<and>
      currentLocation rq' =
        (next_location (mode rq) ^^ (currentRetryCount rq' - currentRetryCount rq)) (currentLocation rq) \<and>
      elapsedMs rq \<le> elapsedMs rq' \<and>
      (currentRetryCount rq' = currentRetryCount rq \<longrightarrow> rq' = rq) \<and>
      (currentRetryCount rq' \<noteq> currentRetryCount rq \<longrightarrow> before_deadline (options rq) (elapsedMs rq')))"

subsection \<open>Lemmas of the retry loop\<close>

lemma retry_handle_eq:
  assumes "send (currentRetryCount rq) (currentLocation rq) = (code, dur)"
  shows "retry_handle sr send rq =
     (let now = elapsedMs rq + dur; info = sr code (rq\<lparr>elapsedMs := now\<rparr>) in
      if validResponse code then Some (code, rq)
      else if retryable info \<and> before_deadline (options rq) (now + interval info)
      then retry_handle sr send (retry_next rq (now + interval info))
      else Some (code, rq))"
  by (subst retry_handle.simps) (simp add: assms Let_def)

lemma retry_next_simps [simp]:
  "options (retry_next rq t) = options rq"
  "mode (retry_next rq t) = mode rq"
  "currentRetryCount (retry_next rq t) = Suc (currentRetryCount rq)"
  "currentLocation (retry_next rq t) = next_location (mode rq) (currentLocation rq)"
  "elapsedMs (retry_next rq t) = t"
  by (simp_all add: retry_next_def)

lemma retry_handle_returns:
  assumes "bounded_policy N sr"
  shows "\<exists>y. retry_handle sr send rq = Some y"
proof (induction "N - currentRetryCount rq" arbitrary: rq rule: less_induct)
  case less
  obtain code dur where s: "send (currentRetryCount rq) (currentLocation rq) = (code, dur)"
    by fastforce
  define now where "now = elapsedMs rq + dur"
  define info where "info = sr code (rq\<lparr>elapsedMs := now\<rparr>)"
  show ?case
  proof (cases "\<not> validResponse code \<and> retryable info \<and> before_deadline (options rq) (now + interval info)")
    case True
    then have "currentRetryCount rq < N"
      using assms unfolding bounded_policy_def info_def by fastforce
    then have "N - currentRetryCount (retry_next rq (now + interval info)) < N - currentRetryCount rq"
      by simp
    then obtain y where "retry_handle sr send (retry_next rq (now + interval info)) = Some y"
      using less by blast
    with True show ?thesis
      by (simp add: retry_handle_eq [where send = send and rq = rq, OF s] Let_def now_def info_def)
  next
    case False
    then show ?thesis
      by (auto simp: retry_handle_eq [where send = send and rq = rq, OF s] Let_def now_def info_def)
  qed
qed

lemma retry_outcome_refl: "retry_outcome rq rq"
  by (simp add: retry_outcome_def)

lemma retry_outcome_next:
  assumes "retry_outcome (retry_next rq t) rq'" and "elapsedMs rq \<le> t"
    and "before_deadline (options rq) t"
  shows "retry_outcome rq rq'"
proof -
  let ?n = "retry_next rq t"
  have le: "Suc (currentRetryCount rq) \<le> currentRetryCount rq'"
    using assms(1) by (simp add: retry_outcome_def)
  have fp: "(next_location (mode rq) ^^ (currentRetryCount rq' - currentRetryCount rq)) (currentLocation rq)
      = (next_location (mode rq) ^^ (currentRetryCount rq' - Suc (currentRetryCount rq)))
          (next_location (mode rq) (currentLocation rq))"
    using le by (intro funpow_Suc_diff) simp
  have loc: "currentLocation rq' =
      (next_location (mode rq) ^^ (currentRetryCount rq' - currentRetryCount rq)) (currentLocation rq)"
    using assms(1) unfolding fp by (simp add: retry_outcome_def)
  have dl: "before_deadline (options rq) (elapsedMs rq')"
  proof (cases "currentRetryCount rq' = currentRetryCount ?n")
    case True
    with assms(1) have "rq' = ?n" by (simp add: retry_outcome_def)
    with assms(3) show ?thesis by simp
  next
    case False
    with assms(1) show ?thesis by (simp add: retry_outcome_def)
  qed
  show ?thesis
    using assms(1,2) le loc dl by (auto simp: retry_outcome_def)
qed

lemma retry_handle_rule:
  assumes ret: "retry_handle sr send rq = Some r"
    and stop: "\<And>rq code dur. send (currentRetryCount rq) (currentLocation rq) = (code, dur) \<Longrightarrow>
       \<not> (\<not> validResponse code \<and> retryable (sr code (rq\<lparr>elapsedMs := elapsedMs rq + dur\<rparr>)) \<and>
          before_deadline (options rq) (elapsedMs rq + dur + interval (sr code (rq\<lparr>elapsedMs := elapsedMs rq + dur\<rparr>)))) \<Longrightarrow>
       P rq (code, rq)"
    and step: "\<And>rq code dur r. send (currentRetryCount rq) (currentLocation rq) = (code, dur) \<Longrightarrow>
       \<not> validResponse code \<Longrightarrow> retryable (sr code (rq\<lparr>elapsedMs := elapsedMs rq + dur\<rparr>)) \<Longrightarrow>
       before_deadline (options rq) (elapsedMs rq + dur + interval (sr code (rq\<lparr>elapsedMs := elapsedMs rq + dur\<rparr>))) \<Longrightarrow>
       P (retry_next rq (elapsedMs rq + dur + interval (sr code (rq\<lparr>elapsedMs := elapsedMs rq + dur\<rparr>)))) r \<Longrightarrow> P rq r"
  shows "P rq r"
proof (rule retry_handle.raw_induct [where P = "\<lambda>sr' send' rq r. sr' = sr \<longrightarrow> send' = send \<longrightarrow> P rq r", OF _ ret, simplified])
  fix rh :: "(nat \<Rightarrow> retry_request \<Rightarrow> RetryInfo) \<Rightarrow> (nat \<Rightarrow> location \<Rightarrow> nat \<times> nat) \<Rightarrow> retry_request \<Rightarrow> (nat \<times> retry_request) option"
  fix sr' send' rq r
  assume IH: "\<And>sr'' send'' rq r. rh sr'' send'' rq = Some r \<Longrightarrow> sr'' = sr \<longrightarrow> send'' = send \<longrightarrow> P rq r"
    and eq: "(case send' (currentRetryCount rq) (currentLocation rq) of
        (code, dur) \<Rightarrow>
          (let now = elapsedMs rq + dur in
           if validResponse code then Some (code, rq)
           else
             (let info = sr' code (rq\<lparr>elapsedMs := now\<rparr>) in
              if retryable info \<and> before_deadline (options rq) (now + interval info)
              then rh sr' send' (retry_next rq (now + interval info))
              else Some (code, rq)))) = Some r"
  show "sr' = sr \<longrightarrow> send' = send \<longrightarrow> P rq r"
  proof (intro impI)
    assume "sr' = sr" and "send' = send"
    obtain code dur where s: "send (currentRetryCount rq) (currentLocation rq) = (code, dur)"
      by fastforce
    define info where "info = sr code (rq\<lparr>elapsedMs := elapsedMs rq + dur\<rparr>)"
    define t where "t = elapsedMs rq + dur + interval info"
    show "P rq r"
    proof (cases "\<not> validResponse code \<and> retryable info \<and> before_deadline (options rq) t")
      case True
      with eq \<open>sr' = sr\<close> \<open>send' = send\<close> have "rh sr send (retry_next rq t) = Some r"
        by (simp add: s Let_def info_def t_def)
      then have "P (retry_next rq t) r" using IH by blast
      with True show ?thesis unfolding t_def info_def by (rule_tac step [OF s]) simp_all
    next
      case False
      with eq \<open>sr' = sr\<close> \<open>send' = send\<close> have "r = (code, rq)"
        by (auto simp: s Let_def info_def t_def split: if_splits)
      with s False show ?thesis unfolding t_def info_def by (simp add: stop)
    qed
  qed
qed

lemma retry_handle_outcome:
  assumes "retry_handle sr send rq = Some r"
  shows "retry_outcome rq (snd r)"
proof (rule retry_handle_rule [where P = "\<lambda>rq r. retry_outcome rq (snd r)", OF assms])
  fix rq :: retry_request and code dur
  show "retry_outcome rq (snd (code, rq))" by (simp add: retry_outcome_refl)
next
  fix rq :: retry_request and code dur r
  let ?t = "elapsedMs rq + dur + interval (sr code (rq\<lparr>elapsedMs := elapsedMs rq + dur\<rparr>))"
  assume "before_deadline (options rq) ?t" and "retry_outcome (retry_next rq ?t) (snd r)"
  then show "retry_outcome rq (snd r)" by (rule_tac retry_outcome_next) simp_all
qed

lemma retry_handle_bounded:
  assumes "retry_handle sr send rq = Some r" and "bounded_policy N sr"
  shows "currentRetryCount rq \<le> N \<longrightarrow> currentRetryCount (snd r) \<le> N"
proof (rule retry_handle_rule [where P = "\<lambda>rq r. currentRetryCount rq \<le> N \<longrightarrow> currentRetryCount (snd r) \<le> N", OF assms(1)])
  fix rq :: retry_request and code dur
  show "currentRetryCount rq \<le> N \<longrightarrow> currentRetryCount (snd (code, rq)) \<le> N" by simp
next
  fix rq :: retry_request and code dur r
  let ?t = "elapsedMs rq + dur + interval (sr code (rq\<lparr>elapsedMs := elapsedMs rq + dur\<rparr>))"
  assume "retryable (sr code (rq\<lparr>elapsedMs := elapsedMs rq + dur\<rparr>))"
  with assms(2) have "currentRetryCount (rq\<lparr>elapsedMs := elapsedMs rq + dur\<rparr>) < N"
    unfolding bounded_policy_def by blast
  then have "currentRetryCount rq < N" by simp
  moreover assume "currentRetryCount (retry_next rq ?t) \<le> N \<longrightarrow> currentRetryCount (snd r) \<le> N"
  ultimately show "currentRetryCount rq \<le> N \<longrightarrow> currentRetryCount (snd r) \<le> N" by simp
qed

lemma retry_handle_last:
  assumes "retry_handle sr send rq = Some r"
  shows "\<exists>dur. send (currentRetryCount (snd r)) (currentLocation (snd r)) = (fst r, dur)"
  by (rule retry_handle_rule [where P = "\<lambda>rq r. \<exists>dur. send (currentRetryCount (snd r)) (currentLocation (snd r)) = (fst r, dur)", OF assms]) simp_all

lemma exponential_bounded: "bounded_policy (retryCount f) (exponential_shouldRetry transient f)"
  by (simp add: bounded_policy_def exponential_shouldRetry_def)

lemma linear_bounded: "bounded_policy (retryCount f) (linear_shouldRetry transient f)"
  by (simp add: bounded_policy_def linear_shouldRetry_def)

lemma other_location_funpow: "(other_location ^^ k) l = (if even k then l else other_location l)"
  by (induction k) (auto, (cases l; simp)+)

lemma next_location_funpow:
  "(next_location m ^^ k) (initial_location m) = attempt_location m k"
proof (cases m)
  case PRIMARY_ONLY
  then show ?thesis by (induction k) auto
next
  case SECONDARY_ONLY
  then show ?thesis by (induction k) auto
next
  case PRIMARY_THEN_SECONDARY
  have "next_location PRIMARY_THEN_SECONDARY = other_location" by (rule ext) simp
  with PRIMARY_THEN_SECONDARY show ?thesis by (simp add: other_location_funpow)
next
  case SECONDARY_THEN_PRIMARY
  have "next_location SECONDARY_THEN_PRIMARY = other_location" by (rule ext) simp
  with SECONDARY_THEN_PRIMARY show ?thesis by (simp add: other_location_funpow)
qed

lemma start_request_simps [simp]:
  "options (start_request d opts) = opts"
  "mode (start_request d opts) = value_or d (locationMode opts)"
  "currentRetryCount (start_request d opts) = 0"
  "currentLocation (start_request d opts) = initial_location (value_or d (locationMode opts))"
  "elapsedMs (start_request d opts) = 0"
  by (simp_all add: start_request_def Let_def)

text \<open>A run of the exponential filter with a retry count of 1 against a service that
  always answers 503, in any location mode: one retry, after the minimum interval
  of 3000 ms.\<close>

lemma exponential_run_example:
  assumes "locationMode opts = None" and "before_deadline opts 3010"
  shows "ExponentialRetryPolicyFilter_handle (\<lambda>c. 500 \<le> c)
           (new_ExponentialRetryPolicyFilter (Some 1) None None None) (\<lambda>k l. (503, 10))
           (start_request m opts)
         = Some (503, retry_next (start_request m opts) 3010)"
proof -
  let ?f = "new_ExponentialRetryPolicyFilter (Some 1) None None None"
  let ?sr = "exponential_shouldRetry (\<lambda>c. 500 \<le> c) ?f"
  let ?send = "\<lambda>(k::nat) (l::location). (503::nat, 10::nat)"
  let ?rq = "start_request m opts"
  have s0: "?send (currentRetryCount ?rq) (currentLocation ?rq) = (503, 10)" by simp
  have s1: "?send (currentRetryCount (retry_next ?rq 3010)) (currentLocation (retry_next ?rq 3010)) = (503, 10)"
    by simp
  have step1: "retry_handle ?sr ?send (retry_next ?rq 3010) = Some (503, retry_next ?rq 3010)"
    unfolding retry_handle_eq [where send = ?send and rq = "retry_next ?rq 3010", OF s1]
    by (simp add: validResponse_def exponential_shouldRetry_def new_ExponentialRetryPolicyFilter_def)
  have step0: "retry_handle ?sr ?send ?rq = retry_handle ?sr ?send (retry_next ?rq 3010)"
    unfolding retry_handle_eq [where send = ?send and rq = ?rq, OF s0]
    using assms(2)
    by (simp add: validResponse_def exponential_shouldRetry_def
        new_ExponentialRetryPolicyFilter_def exponential_interval_def
        DEFAULT_CLIENT_MIN_RETRY_INTERVAL_def DEFAULT_CLIENT_MAX_RETRY_INTERVAL_def
        DEFAULT_CLIENT_RETRY_INTERVAL_def)
  show ?thesis
    unfolding ExponentialRetryPolicyFilter_handle_def step0 step1 ..
qed

subsection \<open>Properties of the retry filters\<close>

text \<open>C1: \<open>ExponentialRetryPolicyFilter.handle\<close> always returns: whatever the
  service answers and whatever the filter's settings, the retry loop ends with
  a final status code and request.\<close>

theorem ExponentialRetryPolicyFilter_handle_returns:
  "\<exists>r. ExponentialRetryPolicyFilter_handle transient f send rq = Some r"
  unfolding ExponentialRetryPolicyFilter_handle_def
  by (rule retry_handle_returns [OF exponential_bounded])

text \<open>C2: the exponential filter makes at most \<open>retryCount\<close> retries, so a request
  is sent at most \<open>retryCount + 1\<close> times.\<close>

theorem ExponentialRetryPolicyFilter_attempts:
  assumes "ExponentialRetryPolicyFilter_handle transient f send (start_request d opts) = Some (code, rq')"
  shows "currentRetryCount rq' \<le> retryCount f"
  using retry_handle_bounded [OF assms [unfolded ExponentialRetryPolicyFilter_handle_def] exponential_bounded]
  by simp

theorem ExponentialRetryPolicyFilter_attempts_witness:
  "ExponentialRetryPolicyFilter_handle (\<lambda>c. 500 \<le> c)
     (new_ExponentialRetryPolicyFilter (Some 1) None None None) (\<lambda>k l. (503, 10))
     (start_request PRIMARY_THEN_SECONDARY no_options)
   = Some (503, retry_next (start_request PRIMARY_THEN_SECONDARY no_options) 3010) \<and>
   currentRetryCount (retry_next (start_request PRIMARY_THEN_SECONDARY no_options) 3010)
     \<le> retryCount (new_ExponentialRetryPolicyFilter (Some 1) None None None)"
proof -
  have run: "ExponentialRetryPolicyFilter_handle (\<lambda>c. 500 \<le> c)
     (new_ExponentialRetryPolicyFilter (Some 1) None None None) (\<lambda>k l. (503, 10))
     (start_request PRIMARY_THEN_SECONDARY no_options)
   = Some (503, retry_next (start_request PRIMARY_THEN_SECONDARY no_options) 3010)"
    by (rule exponential_run_example) (simp_all add: no_options_def before_deadline_def)
  show ?thesis using run ExponentialRetryPolicyFilter_attempts [OF run] by simp
qed

text \<open>C3: \<open>RetryPolicyFilter._handle\<close> checks the maximum execution time before
  each retry: with \<open>maximumExecutionTimeInMs = m\<close>, every retry it starts starts
  before \<open>m\<close> milliseconds have passed, whatever the user's \<open>shouldRetry\<close>.\<close>

theorem retry_handle_deadline:
  assumes "retry_handle sr send rq = Some (code, rq')"
    and "maximumExecutionTimeInMs (options rq) = Some m"
    and "currentRetryCount rq' \<noteq> currentRetryCount rq"
  shows "elapsedMs rq' < m"
  using retry_handle_outcome [OF assms(1)] assms(2,3)
  by (simp add: retry_outcome_def before_deadline_def)

theorem retry_handle_deadline_witness:
  "retry_handle (exponential_shouldRetry (\<lambda>c. 500 \<le> c) (new_ExponentialRetryPolicyFilter (Some 1) None None None))
     (\<lambda>k l. (503, 10)) (start_request PRIMARY_THEN_SECONDARY (no_options\<lparr>maximumExecutionTimeInMs := Some 5000\<rparr>))
   = Some (503, retry_next (start_request PRIMARY_THEN_SECONDARY (no_options\<lparr>maximumExecutionTimeInMs := Some 5000\<rparr>)) 3010) \<and>
   elapsedMs (retry_next (start_request PRIMARY_THEN_SECONDARY (no_options\<lparr>maximumExecutionTimeInMs := Some 5000\<rparr>)) 3010) < 5000"
proof -
  let ?opts = "no_options\<lparr>maximumExecutionTimeInMs := Some 5000\<rparr>"
  have run: "retry_handle (exponential_shouldRetry (\<lambda>c. 500 \<le> c) (new_ExponentialRetryPolicyFilter (Some 1) None None None))
     (\<lambda>k l. (503, 10)) (start_request PRIMARY_THEN_SECONDARY ?opts)
   = Some (503, retry_next (start_request PRIMARY_THEN_SECONDARY ?opts) 3010)"
    using exponential_run_example [of ?opts]
    by (simp add: ExponentialRetryPolicyFilter_handle_def no_options_def before_deadline_def)
  have "elapsedMs (retry_next (start_request PRIMARY_THEN_SECONDARY ?opts) 3010) < 5000"
    by (rule retry_handle_deadline [OF run]) (simp_all add: no_options_def)
  with run show ?thesis by simp
qed

lemma attempt_location_Suc: "next_location m (attempt_location m k) = attempt_location m (Suc k)"
  using next_location_funpow [where m = m and k = "Suc k"] by (simp add: next_location_funpow)

text \<open>The loop only ever asks \<open>send\<close> for the \<open>k\<close>-th attempt at the \<open>k\<close>-th
  location of its mode: two senders that answer alike there give the same
  outcome.\<close>

lemma retry_handle_agree:
  assumes ret: "retry_handle sr send1 rq = Some r"
    and loc: "currentLocation rq = attempt_location (mode rq) (currentRetryCount rq)"
    and agree: "\<And>k. currentRetryCount rq \<le> k \<Longrightarrow>
       send1 k (attempt_location (mode rq) k) = send2 k (attempt_location (mode rq) k)"
  shows "retry_handle sr send2 rq = Some r"
proof -
  have "currentLocation rq = attempt_location (mode rq) (currentRetryCount rq) \<longrightarrow>
        (\<forall>k. currentRetryCount rq \<le> k \<longrightarrow>
           send1 k (attempt_location (mode rq) k) = send2 k (attempt_location (mode rq) k)) \<longrightarrow>
        retry_handle sr send2 rq = Some r"
  proof (rule retry_handle_rule [OF ret])
    fix rq :: retry_request and code dur
    assume s: "send1 (currentRetryCount rq) (currentLocation rq) = (code, dur)"
      and halt: "\<not> (\<not> validResponse code \<and> retryable (sr code (rq\<lparr>elapsedMs := elapsedMs rq + dur\<rparr>)) \<and>
          before_deadline (options rq) (elapsedMs rq + dur + interval (sr code (rq\<lparr>elapsedMs := elapsedMs rq + dur\<rparr>))))"
    show "currentLocation rq = attempt_location (mode rq) (currentRetryCount rq) \<longrightarrow>
        (\<forall>k. currentRetryCount rq \<le> k \<longrightarrow>
           send1 k (attempt_location (mode rq) k) = send2 k (attempt_location (mode rq) k)) \<longrightarrow>
        retry_handle sr send2 rq = Some (code, rq)"
    proof (intro impI)
      assume l: "currentLocation rq = attempt_location (mode rq) (currentRetryCount rq)"
        and a: "\<forall>k. currentRetryCount rq \<le> k \<longrightarrow>
           send1 k (attempt_location (mode rq) k) = send2 k (attempt_location (mode rq) k)"
      have s2: "send2 (currentRetryCount rq) (currentLocation rq) = (code, dur)"
        using s a l by simp
      show "retry_handle sr send2 rq = Some (code, rq)"
        using halt by (auto simp: retry_handle_eq [where send = send2 and rq = rq, OF s2] Let_def)
    qed
  next
    fix rq :: retry_request and code dur r
    let ?t = "elapsedMs rq + dur + interval (sr code (rq\<lparr>elapsedMs := elapsedMs rq + dur\<rparr>))"
    assume s: "send1 (currentRetryCount rq) (currentLocation rq) = (code, dur)"
      and go: "\<not> validResponse code" "retryable (sr code (rq\<lparr>elapsedMs := elapsedMs rq + dur\<rparr>))"
        "before_deadline (options rq) ?t"
      and IH: "currentLocation (retry_next rq ?t) = attempt_location (mode (retry_next rq ?t)) (currentRetryCount (retry_next rq ?t)) \<longrightarrow>
        (\<forall>k. currentRetryCount (retry_next rq ?t) \<le> k \<longrightarrow>
           send1 k (attempt_location (mode (retry_next rq ?t)) k) = send2 k (attempt_location (mode (retry_next rq ?t)) k)) \<longrightarrow>
        retry_handle sr send2 (retry_next rq ?t) = Some r"
    show "currentLocation rq = attempt_location (mode rq) (currentRetryCount rq) \<longrightarrow>
        (\<forall>k. currentRetryCount rq \<le> k \<longrightarrow>
           send1 k (attempt_location (mode rq) k) = send2 k (attempt_location (mode rq) k)) \<longrightarrow>
        retry_handle sr send2 rq = Some r"
    proof (intro impI)
      assume l: "currentLocation rq = attempt_location (mode rq) (currentRetryCount rq)"
        and a: "\<forall>k. currentRetryCount rq \<le> k \<longrightarrow>
           send1 k (attempt_location (mode rq) k) = send2 k (attempt_location (mode rq) k)"
      have s2: "send2 (currentRetryCount rq) (currentLocation rq) = (code, dur)"
        using s a l by simp
      have "retry_handle sr send2 (retry_next rq ?t) = Some r"
        using IH l a by (simp add: attempt_location_Suc)
      with go show "retry_handle sr send2 rq = Some r"
        by (simp add: retry_handle_eq [where send = send2 and rq = rq, OF s2] Let_def)
    qed
  qed
  with loc agree show ?thesis by blast
qed

text \<open>C5: the location of every attempt is the one \<open>StorageUtilities.LocationMode\<close>
  documents: the primary (secondary) location only, or the two locations in turn
  starting with the one named first.\<close>

theorem retry_handle_location:
  assumes "retry_handle sr send (start_request d opts) = Some (code, rq')"
  shows "currentLocation rq' = attempt_location (mode rq') (currentRetryCount rq')"
  using retry_handle_outcome [OF assms]
  by (simp add: retry_outcome_def next_location_funpow)

theorem retry_handle_location_witness:
  "retry_handle (exponential_shouldRetry (\<lambda>c. 500 \<le> c) (new_ExponentialRetryPolicyFilter (Some 1) None None None))
     (\<lambda>k l. (503, 10)) (start_request PRIMARY_THEN_SECONDARY no_options)
   = Some (503, retry_next (start_request PRIMARY_THEN_SECONDARY no_options) 3010) \<and>
   currentLocation (retry_next (start_request PRIMARY_THEN_SECONDARY no_options) 3010) = SECONDARY"
proof -
  have run: "retry_handle (exponential_shouldRetry (\<lambda>c. 500 \<le> c) (new_ExponentialRetryPolicyFilter (Some 1) None None None))
     (\<lambda>k l. (503, 10)) (start_request PRIMARY_THEN_SECONDARY no_options)
   = Some (503, retry_next (start_request PRIMARY_THEN_SECONDARY no_options) 3010)"
    using exponential_run_example [of no_options]
    by (simp add: ExponentialRetryPolicyFilter_handle_def no_options_def before_deadline_def)
  show ?thesis using run retry_handle_location [OF run] by (simp add: no_options_def)
qed

text \<open>A failure that the filter does not consider transient is not retried:
  the exponential filter returns the first response as it is.\<close>

theorem ExponentialRetryPolicyFilter_no_retry:
  assumes "send (currentRetryCount rq) (currentLocation rq) = (code, dur)"
    and "\<not> validResponse code" and "\<not> transient code"
  shows "ExponentialRetryPolicyFilter_handle transient f send rq = Some (code, rq)"
  using assms
  by (simp add: ExponentialRetryPolicyFilter_handle_def retry_handle_eq [where send = send and rq = rq, OF assms(1)]
      exponential_shouldRetry_def Let_def)

theorem ExponentialRetryPolicyFilter_no_retry_witness:
  "ExponentialRetryPolicyFilter_handle (\<lambda>c. 500 \<le> c) (new_ExponentialRetryPolicyFilter None None None None)
     (\<lambda>k l. (404, 7)) (start_request PRIMARY_ONLY no_options)
   = Some (404, start_request PRIMARY_ONLY no_options)"
  by (rule ExponentialRetryPolicyFilter_no_retry [where dur = 7]) (simp_all add: validResponse_def)

text \<open>C6: the linear filter returns, after at most \<open>retryCount\<close> retries.\<close>

theorem LinearRetryPolicyFilter_bounded:
  "\<exists>code rq'. LinearRetryPolicyFilter_handle transient f send (start_request d opts) = Some (code, rq') \<and>
     currentRetryCount rq' \<le> retryCount f"
proof -
  obtain r where r: "LinearRetryPolicyFilter_handle transient f send (start_request d opts) = Some r"
    using retry_handle_returns [OF linear_bounded] unfolding LinearRetryPolicyFilter_handle_def by blast
  have "currentRetryCount (snd r) \<le> retryCount f"
    using retry_handle_bounded [OF r [unfolded LinearRetryPolicyFilter_handle_def] linear_bounded] by simp
  with r show ?thesis by (cases r) auto
qed

text \<open>The exponential back-off never shrinks from one retry to the next.\<close>

theorem exponential_interval_mono:
  assumes "m \<le> n"
  shows "exponential_interval f m \<le> exponential_interval f n"
proof -
  have "(2::nat) ^ m \<le> 2 ^ n" using assms by (simp add: power_increasing)
  then have "(2 ^ m - 1) * retryInterval f \<le> (2 ^ n - 1) * retryInterval f"
    by (intro mult_right_mono diff_le_mono) simp_all
  then show ?thesis unfolding exponential_interval_def by (intro min.mono) simp_all
qed

theorem exponential_interval_mono_witness:
  "(1::nat) \<le> 2 \<and>
   exponential_interval (new_ExponentialRetryPolicyFilter None None None None) 1
     \<le> exponential_interval (new_ExponentialRetryPolicyFilter None None None None) 2"
  using exponential_interval_mono [of 1 2 "new_ExponentialRetryPolicyFilter None None None None"]
  by simp

end
