(* ===== verification/ServiceClient.thy ===== *)
theory ServiceClient
  imports RetryPolicy
begin

text \<open>
  The client of \<open>src/azure/azure-storage.d.ts\<close>: \<open>Common.HostConfiguration\<close>
  (lines 508--511), \<open>StorageServiceClient\<close> (lines 689--752), the
  \<open>BlobService\<close> constructors (lines 767--782), \<open>getUrl\<close> (lines 1741--1759)
  and the \<open>createBlobService*\<close> functions (lines 2438--2462).

  A host argument is \<open>string | HostConfiguration\<close>; a string defines the
  primary host only.  The credentials follow the field comments: the account
  name and key, a SAS token, or anonymous access "only when no other credentials
  are found".  The constructors leave the default location mode at primary only.
  \<open>client_request\<close> runs one request of a client through a retry policy
  (theory \<open>RetryPolicy\<close>), sending each attempt to the host of its location;
  a request whose location mode needs a location the client has no host for is
  refused with \<open>SecondaryNotConfigured\<close>.
\<close>

record HostConfiguration =
  primaryHost :: string
  secondaryHost :: "string option"

datatype host_arg = HostString string | HostConfig HostConfiguration

definition normalize_host :: "host_arg \<Rightarrow> HostConfiguration" where
  "normalize_host h =
     (case h of HostString s \<Rightarrow> \<lparr>primaryHost = s, secondaryHost = None\<rparr> | HostConfig c \<Rightarrow> c)"

text \<open>\<open>Common.IStorageCredentials\<close> as the constructor chooses them.\<close>

datatype credentials = SharedKey string string | SharedAccessSignature string | Anonymous

text \<open>A filter attached with \<open>withFilter\<close>.\<close>

datatype filter =
    ExponentialRetry ExponentialRetryPolicyFilter
  | LinearRetry RetryPolicyFilter

text \<open>\<open>Filters.IProxy\<close>, the proxy \<open>setProxy\<close> tunnels requests through.\<close>

record IProxy =
  proxyHost :: "string option"
  port :: "nat option"
  proxyAuth :: "string option"
  proxyHeaders :: "(string \<times> string) list"
  proxyKey :: "string option"
  ca :: "string option"
  cert :: "string option"

record StorageServiceClient =
  storageAccount :: "string option"
  storageAccessKey :: "string option"
  sasToken :: "string option"
  anonymous :: bool
  storageCredentials :: credentials
  host :: "HostConfiguration option"
  usePathStyleUri :: bool
  defaultLocationMode :: LocationMode
  filters :: "filter list"
  proxy :: "IProxy option"

definition choose_credentials :: "string option \<Rightarrow> string option \<Rightarrow> string option \<Rightarrow> credentials" where
  "choose_credentials acct key sas =
     (case (acct, key) of
        (Some a, Some k) \<Rightarrow> SharedKey a k
      | _ \<Rightarrow> (case sas of Some t \<Rightarrow> SharedAccessSignature t | None \<Rightarrow> Anonymous))"

definition new_StorageServiceClient ::
  "string option \<Rightarrow> string option \<Rightarrow> host_arg option \<Rightarrow> bool \<Rightarrow> string option \<Rightarrow> StorageServiceClient" where
  "new_StorageServiceClient acct key h pathStyle sas =
     (let cred = choose_credentials acct key sas in
      \<lparr>storageAccount = acct, storageAccessKey = key, sasToken = sas,
       anonymous = (cred = Anonymous), storageCredentials = cred,
       host = map_option normalize_host h, usePathStyleUri = pathStyle,
       defaultLocationMode = PRIMARY_ONLY, filters = [], proxy = None\<rparr>)"

definition withFilter :: "filter \<Rightarrow> StorageServiceClient \<Rightarrow> StorageServiceClient" where
  "withFilter f c = c\<lparr>filters := f # filters c\<rparr>"

text \<open>\<open>setProxy(proxy)\<close>: "Sets proxy object specified by caller ... If null or
  undefined, clears proxy."  The proxy is a tunnel: it changes how a request
  travels, not the host it is addressed to.\<close>

definition setProxy :: "IProxy option \<Rightarrow> StorageServiceClient \<Rightarrow> StorageServiceClient" where
  "setProxy p c = c\<lparr>proxy := p\<rparr>"

definition new_BlobService :: "string \<Rightarrow> string \<Rightarrow> host_arg option \<Rightarrow> string option \<Rightarrow> StorageServiceClient" where
  "new_BlobService acct key h sas = new_StorageServiceClient (Some acct) (Some key) h False sas"

definition createBlobService :: "string \<Rightarrow> string \<Rightarrow> host_arg option \<Rightarrow> StorageServiceClient" where
  "createBlobService acct key h = new_BlobService acct key h None"

definition createBlobServiceAnonymous :: "host_arg option \<Rightarrow> StorageServiceClient" where
  "createBlobServiceAnonymous h = new_StorageServiceClient None None h False None"

definition createBlobServiceWithSas :: "host_arg \<Rightarrow> string \<Rightarrow> StorageServiceClient" where
  "createBlobServiceWithSas h sas = new_StorageServiceClient None None (Some h) False (Some sas)"

subsection \<open>Hosts and requests\<close>

text \<open>The host of a location: a client built without a host uses its account's
  default endpoint, which is a primary host.\<close>

definition location_host :: "StorageServiceClient \<Rightarrow> location \<Rightarrow> string option" where
  "location_host c l =
     (case l of
        PRIMARY \<Rightarrow> Some (case host c of None \<Rightarrow> [] | Some hc \<Rightarrow> primaryHost hc)
      | SECONDARY \<Rightarrow> (case host c of None \<Rightarrow> None | Some hc \<Rightarrow> secondaryHost hc))"

text \<open>The locations a mode may send to, as its comment names them.\<close>

fun mode_locations :: "LocationMode \<Rightarrow> location list" where
  "mode_locations PRIMARY_ONLY = [PRIMARY]"
| "mode_locations SECONDARY_ONLY = [SECONDARY]"
| "mode_locations PRIMARY_THEN_SECONDARY = [PRIMARY, SECONDARY]"
| "mode_locations SECONDARY_THEN_PRIMARY = [SECONDARY, PRIMARY]"

datatype client_error = SecondaryNotConfigured

definition client_request ::
  "StorageServiceClient \<Rightarrow> (nat \<Rightarrow> retry_request \<Rightarrow> RetryInfo) \<Rightarrow> (string \<Rightarrow> nat \<Rightarrow> nat \<times> nat) \<Rightarrow>
   DefaultOptions \<Rightarrow> (client_error + nat \<times> retry_request) option" where
  "client_request c sr send opts =
     (let rq = start_request (defaultLocationMode c) opts in
      if list_all (\<lambda>l. location_host c l \<noteq> None) (mode_locations (mode rq))
      then map_option Inr (retry_handle sr (\<lambda>k l. send (the (location_host c l)) k) rq)
      else Some (Inl SecondaryNotConfigured))"

text \<open>\<open>getUrl(container, blob, sasToken, primary)\<close>: the endpoint of the chosen
  location, the container, the blob if any, and the token as query string.\<close>

definition getUrl ::
  "StorageServiceClient \<Rightarrow> string \<Rightarrow> string option \<Rightarrow> string option \<Rightarrow> bool \<Rightarrow> string option" where
  "getUrl c container blob sas primary =
     map_option (\<lambda>h. h @ ''/'' @ container @
                      (case blob of None \<Rightarrow> [] | Some b \<Rightarrow> ''/'' @ b) @
                      (case sas of None \<Rightarrow> [] | Some t \<Rightarrow> ''?'' @ t))
       (location_host c (if primary then PRIMARY else SECONDARY))"

subsection \<open>Lemmas\<close>

lemma attempt_location_in_mode: "attempt_location m k \<in> set (mode_locations m)"
  by (cases m) auto

lemma new_client_simps [simp]:
  "defaultLocationMode (new_StorageServiceClient acct key h p sas) = PRIMARY_ONLY"
  "host (new_StorageServiceClient acct key h p sas) = map_option normalize_host h"
  "storageCredentials (new_StorageServiceClient acct key h p sas) = choose_credentials acct key sas"
  "anonymous (new_StorageServiceClient acct key h p sas) = (choose_credentials acct key sas = Anonymous)"
  "filters (new_StorageServiceClient acct key h p sas) = []"
  "proxy (new_StorageServiceClient acct key h p sas) = None"
  by (simp_all add: new_StorageServiceClient_def Let_def)

lemma client_request_Inr:
  assumes "client_request c sr send opts = Some (Inr (code, rq'))"
  shows "list_all (\<lambda>l. location_host c l \<noteq> None) (mode_locations (mode rq')) \<and>
         currentLocation rq' = attempt_location (mode rq') (currentRetryCount rq')"
proof -
  let ?rq = "start_request (defaultLocationMode c) opts"
  have ok: "list_all (\<lambda>l. location_host c l \<noteq> None) (mode_locations (mode ?rq))"
    and run: "retry_handle sr (\<lambda>k l. send (the (location_host c l)) k) ?rq = Some (code, rq')"
    using assms by (auto simp: client_request_def Let_def split: if_splits)
  from retry_handle_outcome [OF run] ok show ?thesis
    by (simp add: retry_outcome_def next_location_funpow)
qed

subsection \<open>Properties of the client\<close>

text \<open>The \<open>createBlobService*\<close> functions give the credentials their
  comments name: the account and key, the SAS token, or anonymous access, and
  \<open>anonymous\<close> is set exactly for the last.\<close>

theorem createBlobService_credentials:
  "storageCredentials (createBlobService acct key h) = SharedKey acct key \<and>
   \<not> anonymous (createBlobService acct key h) \<and>
   storageCredentials (createBlobServiceWithSas h' tok) = SharedAccessSignature tok \<and>
   \<not> anonymous (createBlobServiceWithSas h' tok) \<and>
   storageCredentials (createBlobServiceAnonymous h'') = Anonymous \<and>
   anonymous (createBlobServiceAnonymous h'')"
  by (simp add: createBlobService_def new_BlobService_def createBlobServiceWithSas_def
      createBlobServiceAnonymous_def choose_credentials_def)

text \<open>A client whose host was given as a string has no secondary host, so a
  request with location mode \<open>SECONDARY_ONLY\<close> is refused before anything is
  sent.\<close>

theorem string_host_no_secondary:
  "client_request (createBlobService acct key (Some (HostString h))) sr send
     (opts\<lparr>locationMode := Some SECONDARY_ONLY\<rparr>) = Some (Inl SecondaryNotConfigured)"
  by (simp add: client_request_def Let_def createBlobService_def new_BlobService_def
      location_host_def normalize_host_def start_request_def)

text \<open>\<open>getUrl\<close> builds the blob URL on the primary endpoint, and on the
  secondary endpoint only when the client has one.\<close>

theorem getUrl_endpoints:
  "getUrl (createBlobService acct key (Some (HostString h))) c (Some b) None True = Some (h @ ''/'' @ c @ ''/'' @ b) \<and>
   getUrl (createBlobService acct key (Some (HostString h))) c (Some b) None False = None \<and>
   getUrl (createBlobService acct key (Some (HostConfig \<lparr>primaryHost = h, secondaryHost = Some h2\<rparr>))) c None (Some t) False
     = Some (h2 @ ''/'' @ c @ ''?'' @ t)"
  by (simp add: getUrl_def createBlobService_def new_BlobService_def location_host_def normalize_host_def)

lemma setProxy_simps [simp]:
  "host (setProxy p c) = host c"
  "defaultLocationMode (setProxy p c) = defaultLocationMode c"
  "proxy (setProxy p c) = p"
  "setProxy p' (setProxy p c) = setProxy p' c"
  by (simp_all add: setProxy_def)

lemma setProxy_location_host [simp]: "location_host (setProxy p c) l = location_host c l"
  by (cases l) (simp_all add: location_host_def)

text \<open>A proxy set with \<open>setProxy\<close> keeps every request's host, location and
  retries, and the URLs \<open>getUrl\<close> builds; \<open>setProxy None\<close> clears it again.\<close>

theorem setProxy_tunnels:
  "client_request (setProxy p c) sr send opts = client_request c sr send opts \<and>
   getUrl (setProxy p c) container b sas primary = getUrl c container b sas primary \<and>
   proxy (setProxy p c) = p \<and> setProxy None (setProxy p c) = setProxy None c"
  by (simp add: client_request_def getUrl_def)

end
