(* ===== verification/Permissions.thy ===== *)
theory Permissions
  imports Prelude
begin

text \<open>
  The four \<open>SharedAccessPermissions\<close> tables of
  \<open>src/azure/azure-storage.d.ts\<close> (\<open>BlobUtilities\<close> lines 109--126,
  \<open>FileUtilities\<close> 153--170, \<open>QueueUtilities\<close> 193--210, \<open>TableUtilities\<close>
  328--345) and the shared access policy of \<open>Common.SignedIdentifier\<close>
  (lines 486--497), whose \<open>Permissions\<close> string lists the granted permissions
  by their one-letter values.  The members of the four tables share names
  (\<open>READ\<close>, \<open>DELETE\<close>, \<open>ADD\<close>, \<open>UPDATE\<close>), so each constructor carries its
  service as a prefix.  A table is the list of its members with their letters,
  in declaration order; \<open>perm_string\<close> writes a set of permissions in that
  order and \<open>parse_perms\<close> reads a string back, accepting the letters only in
  that order.  The lemmas show the two are inverse for every table whose
  letters are distinct, which each of the four is.
\<close>

datatype BlobSharedAccessPermissions = BLOB_READ | BLOB_WRITE | BLOB_DELETE | BLOB_LIST

definition Blob_SharedAccessPermissions :: "(BlobSharedAccessPermissions \<times> char) list" where
  "Blob_SharedAccessPermissions =
     [(BLOB_READ, CHR ''r''), (BLOB_WRITE, CHR ''w''), (BLOB_DELETE, CHR ''d''), (BLOB_LIST, CHR ''l'')]"

datatype FileSharedAccessPermissions = FILE_READ | FILE_WRITE | FILE_DELETE | FILE_LIST

definition File_SharedAccessPermissions :: "(FileSharedAccessPermissions \<times> char) list" where
  "File_SharedAccessPermissions =
     [(FILE_READ, CHR ''r''), (FILE_WRITE, CHR ''w''), (FILE_DELETE, CHR ''d''), (FILE_LIST, CHR ''l'')]"

datatype QueueSharedAccessPermissions = QUEUE_READ | QUEUE_ADD | QUEUE_UPDATE | QUEUE_PROCESS

definition Queue_SharedAccessPermissions :: "(QueueSharedAccessPermissions \<times> char) list" where
  "Queue_SharedAccessPermissions =
     [(QUEUE_READ, CHR ''r''), (QUEUE_ADD, CHR ''a''), (QUEUE_UPDATE, CHR ''u''), (QUEUE_PROCESS, CHR ''p'')]"

datatype TableSharedAccessPermissions = TABLE_QUERY | TABLE_ADD | TABLE_UPDATE | TABLE_DELETE

definition Table_SharedAccessPermissions :: "(TableSharedAccessPermissions \<times> char) list" where
  "Table_SharedAccessPermissions =
     [(TABLE_QUERY, CHR ''r''), (TABLE_ADD, CHR ''a''), (TABLE_UPDATE, CHR ''u''), (TABLE_DELETE, CHR ''d'')]"

subsection \<open>Permission strings\<close>

fun perm_string :: "('a \<times> char) list \<Rightarrow> 'a set \<Rightarrow> string" where
  "perm_string [] ps = []"
| "perm_string ((p, c) # tbl) ps = (if p \<in> ps then c # perm_string tbl ps else perm_string tbl ps)"

fun parse_perms :: "('a \<times> char) list \<Rightarrow> string \<Rightarrow> 'a set option" where
  "parse_perms tbl [] = Some {}"
| "parse_perms [] (c # cs) = None"
| "parse_perms ((p, d) # tbl) (c # cs) =
     (if c = d then map_option (insert p) (parse_perms tbl cs) else parse_perms tbl (c # cs))"

text \<open>A table is well formed when its members and its letters are distinct.\<close>

definition table_wf :: "('a \<times> char) list \<Rightarrow> bool" where
  "table_wf tbl = (distinct (map fst tbl) \<and> distinct (map snd tbl))"

subsection \<open>Shared access policies\<close>

text \<open>\<open>SignedIdentifier.AccessPolicy\<close>: times are seconds; \<open>Start\<close> is optional,
  \<open>Expiry\<close> is required.\<close>

record AccessPolicy =
  Permissions :: "string option"
  Start :: "nat option"
  Expiry :: nat

record SignedIdentifier =
  Id :: "string option"
  AccessPolicy :: "AccessPolicy option"

text \<open>A policy is in force from its start (immediately when none is given) until
  it expires.\<close>

definition policy_active :: "AccessPolicy \<Rightarrow> nat \<Rightarrow> bool" where
  "policy_active pol t = (value_or 0 (Start pol) \<le> t \<and> t < Expiry pol)"

text \<open>The permissions a policy grants on a service, read with that service's table.\<close>

definition policy_grants :: "('a \<times> char) list \<Rightarrow> AccessPolicy \<Rightarrow> nat \<Rightarrow> 'a \<Rightarrow> bool" where
  "policy_grants tbl pol t p =
     (policy_active pol t \<and>
      (case Permissions pol of
         None \<Rightarrow> False
       | Some s \<Rightarrow> (case parse_perms tbl s of None \<Rightarrow> False | Some ps \<Rightarrow> p \<in> ps)))"

subsection \<open>Lemmas\<close>

lemma perm_string_empty_iff: "perm_string tbl ps = [] \<longleftrightarrow> ps \<inter> fst ` set tbl = {}"
  by (induction tbl ps rule: perm_string.induct) auto

lemma perm_string_letters: "set (perm_string tbl ps) \<subseteq> snd ` set tbl"
  by (induction tbl ps rule: perm_string.induct) auto

lemma parse_perms_members: "parse_perms tbl s = Some ps \<Longrightarrow> ps \<subseteq> fst ` set tbl"
  by (induction tbl s arbitrary: ps rule: parse_perms.induct) (auto split: if_splits)

lemma perm_string_insert_other:
  "p \<notin> fst ` set tbl \<Longrightarrow> perm_string tbl (insert p ps) = perm_string tbl ps"
  by (induction tbl ps rule: perm_string.induct) auto

lemma parse_perm_string:
  "table_wf tbl \<Longrightarrow> parse_perms tbl (perm_string tbl ps) = Some (ps \<inter> fst ` set tbl)"
proof (induction tbl)
  case Nil
  then show ?case by simp
next
  case (Cons e tbl)
  obtain p d where e: "e = (p, d)" by fastforce
  from Cons.prems e have wf: "table_wf tbl" and d: "d \<notin> snd ` set tbl"
    by (auto simp: table_wf_def)
  show ?case
  proof (cases "p \<in> ps")
    case True
    with Cons.IH wf e show ?thesis by auto
  next
    case False
    show ?thesis
    proof (cases "perm_string tbl ps")
      case Nil
      then have "ps \<inter> fst ` set tbl = {}" by (simp only: perm_string_empty_iff)
      with Nil False e show ?thesis by auto
    next
      case (Cons c cs)
      then have "c \<in> snd ` set tbl" using perm_string_letters [of tbl ps] by auto
      with d have "c \<noteq> d" by auto
      with Cons False e Cons.IH [OF wf] show ?thesis by auto
    qed
  qed
qed

lemma perm_string_parse:
  "table_wf tbl \<Longrightarrow> parse_perms tbl s = Some ps \<Longrightarrow> perm_string tbl ps = s"
proof (induction tbl s arbitrary: ps rule: parse_perms.induct)
  case (1 tbl)
  then show ?case by (simp add: perm_string_empty_iff)
next
  case (2 c cs)
  then show ?case by simp
next
  case (3 p d tbl c cs)
  then have wf: "table_wf tbl" and p: "p \<notin> fst ` set tbl" by (auto simp: table_wf_def)
  show ?case
  proof (cases "c = d")
    case True
    with "3.prems" obtain qs where qs: "parse_perms tbl cs = Some qs" and ps: "ps = insert p qs"
      by auto
    from "3.IH"(1) [OF True wf qs] have "perm_string tbl qs = cs" .
    with True ps p show ?thesis by (simp add: perm_string_insert_other)
  next
    case False
    with "3.prems" have q: "parse_perms tbl (c # cs) = Some ps" by simp
    then have "p \<notin> ps" using parse_perms_members [OF q] p by blast
    with "3.IH"(2) [OF False wf q] show ?thesis by simp
  qed
qed

lemmas permission_tables =
  Blob_SharedAccessPermissions_def File_SharedAccessPermissions_def
  Queue_SharedAccessPermissions_def Table_SharedAccessPermissions_def

lemma tables_wf:
  "table_wf Blob_SharedAccessPermissions" "table_wf File_SharedAccessPermissions"
  "table_wf Queue_SharedAccessPermissions" "table_wf Table_SharedAccessPermissions"
  by (simp_all add: table_wf_def permission_tables)

lemma tables_members:
  "fst ` set Blob_SharedAccessPermissions = UNIV" "fst ` set File_SharedAccessPermissions = UNIV"
  "fst ` set Queue_SharedAccessPermissions = UNIV" "fst ` set Table_SharedAccessPermissions = UNIV"
proof -
  have b: "x \<in> fst ` set Blob_SharedAccessPermissions" for x
    by (cases x) (simp_all add: permission_tables image_iff)
  have f: "y \<in> fst ` set File_SharedAccessPermissions" for y
    by (cases y) (simp_all add: permission_tables image_iff)
  have q: "z \<in> fst ` set Queue_SharedAccessPermissions" for z
    by (cases z) (simp_all add: permission_tables image_iff)
  have t: "w \<in> fst ` set Table_SharedAccessPermissions" for w
    by (cases w) (simp_all add: permission_tables image_iff)
  show "fst ` set Blob_SharedAccessPermissions = UNIV" using b by blast
  show "fst ` set File_SharedAccessPermissions = UNIV" using f by blast
  show "fst ` set Queue_SharedAccessPermissions = UNIV" using q by blast
  show "fst ` set Table_SharedAccessPermissions = UNIV" using t by blast
qed

lemma parse_perm_string_full:
  "table_wf tbl \<Longrightarrow> fst ` set tbl = UNIV \<Longrightarrow> parse_perms tbl (perm_string tbl ps) = Some ps"
  by (simp add: parse_perm_string)

subsection \<open>Properties of the permission strings\<close>

text \<open>For each of the four services, writing a set of shared access
  permissions as its permission string and reading the string back gives the
  same set.\<close>

theorem SharedAccessPermissions_roundtrip:
  "parse_perms Blob_SharedAccessPermissions (perm_string Blob_SharedAccessPermissions bs) = Some bs \<and>
   parse_perms File_SharedAccessPermissions (perm_string File_SharedAccessPermissions fs) = Some fs \<and>
   parse_perms Queue_SharedAccessPermissions (perm_string Queue_SharedAccessPermissions qs) = Some qs \<and>
   parse_perms Table_SharedAccessPermissions (perm_string Table_SharedAccessPermissions ts) = Some ts"
  by (simp add: parse_perm_string_full tables_wf tables_members)

text \<open>A permission string the blob table accepts is the canonical string of
  the permissions it grants: the letters appear once each, in the table's
  order \<open>r\<close>, \<open>w\<close>, \<open>d\<close>, \<open>l\<close>.\<close>

theorem Blob_permissions_canonical:
  assumes "parse_perms Blob_SharedAccessPermissions s = Some ps"
  shows "perm_string Blob_SharedAccessPermissions ps = s"
  by (rule perm_string_parse [OF tables_wf(1) assms])

theorem Blob_permissions_canonical_witness:
  "parse_perms Blob_SharedAccessPermissions ''rl'' = Some {BLOB_READ, BLOB_LIST} \<and>
   perm_string Blob_SharedAccessPermissions {BLOB_READ, BLOB_LIST} = ''rl'' \<and>
   parse_perms Blob_SharedAccessPermissions ''lr'' = None"
proof -
  have p: "parse_perms Blob_SharedAccessPermissions ''rl'' = Some {BLOB_READ, BLOB_LIST}"
    by (simp add: permission_tables insert_commute)
  have n: "parse_perms Blob_SharedAccessPermissions ''lr'' = None"
    by (simp add: permission_tables)
  show ?thesis using p n Blob_permissions_canonical [OF p] by simp
qed

text \<open>A blob access policy whose \<open>Permissions\<close> string was written from a
  set of permissions grants exactly those permissions, and only while the
  policy is in force.\<close>

theorem policy_grants_blob:
  "policy_grants Blob_SharedAccessPermissions
     \<lparr>Permissions = Some (perm_string Blob_SharedAccessPermissions ps), Start = st, Expiry = ex\<rparr> t p
   \<longleftrightarrow> value_or 0 st \<le> t \<and> t < ex \<and> p \<in> ps"
  by (simp add: policy_grants_def policy_active_def parse_perm_string_full tables_wf tables_members)

end
