(* ===== verification/TableEntity.thy ===== *)
theory TableEntity
  imports Constants
begin

text \<open>
  Table entity properties of \<open>src/azure/azure-storage.d.ts\<close>
  (\<open>TableUtilities.Entity\<close>, \<open>EntityConstructor\<close>, \<open>EntityGenerator\<close> and
  \<open>entityGenerator\<close>, lines 251--281).  An entity property is a value with an
  optional Edm type tag (fields \<open>_\<close> and \<open>$\<close> of the source, here
  \<open>entity_value\<close> and \<open>entity_type\<close>); \<open>Entity(value)\<close> leaves the tag out and
  \<open>Entity(value, type)\<close> sets it.  Each typed generator (\<open>Int32\<close>, ...,
  \<open>DateTime\<close>) tags its value with the documented name of its \<open>EdmType\<close>.
\<close>

record 'a Entity =
  entity_value :: 'a
  entity_type :: "string option"

definition Entity_new :: "'a \<Rightarrow> string option \<Rightarrow> 'a Entity" where
  "Entity_new v ty = \<lparr>entity_value = v, entity_type = ty\<rparr>"

definition entityGenerator_Int32 :: "'a \<Rightarrow> 'a Entity" where
  "entityGenerator_Int32 v = Entity_new v (Some (EdmType_value INT32))"

definition entityGenerator_Int64 :: "'a \<Rightarrow> 'a Entity" where
  "entityGenerator_Int64 v = Entity_new v (Some (EdmType_value INT64))"

definition entityGenerator_Binary :: "'a \<Rightarrow> 'a Entity" where
  "entityGenerator_Binary v = Entity_new v (Some (EdmType_value BINARY))"

definition entityGenerator_Boolean :: "'a \<Rightarrow> 'a Entity" where
  "entityGenerator_Boolean v = Entity_new v (Some (EdmType_value BOOLEAN))"

definition entityGenerator_String :: "'a \<Rightarrow> 'a Entity" where
  "entityGenerator_String v = Entity_new v (Some (EdmType_value STRING))"

definition entityGenerator_Guid :: "'a \<Rightarrow> 'a Entity" where
  "entityGenerator_Guid v = Entity_new v (Some (EdmType_value GUID))"

definition entityGenerator_Double :: "'a \<Rightarrow> 'a Entity" where
  "entityGenerator_Double v = Entity_new v (Some (EdmType_value DOUBLE))"

definition entityGenerator_DateTime :: "'a \<Rightarrow> 'a Entity" where
  "entityGenerator_DateTime v = Entity_new v (Some (EdmType_value DATETIME))"

text \<open>The generator a caller picks for an Edm type.\<close>

fun entityGenerator :: "EdmType \<Rightarrow> 'a \<Rightarrow> 'a Entity" where
  "entityGenerator INT32 = entityGenerator_Int32"
| "entityGenerator INT64 = entityGenerator_Int64"
| "entityGenerator BINARY = entityGenerator_Binary"
| "entityGenerator BOOLEAN = entityGenerator_Boolean"
| "entityGenerator STRING = entityGenerator_String"
| "entityGenerator GUID = entityGenerator_Guid"
| "entityGenerator DOUBLE = entityGenerator_Double"
| "entityGenerator DATETIME = entityGenerator_DateTime"

text \<open>The Edm type a property's tag names, if it has a tag the table knows.\<close>

definition entity_EdmType :: "'a Entity \<Rightarrow> EdmType option" where
  "entity_EdmType e = (case entity_type e of None \<Rightarrow> None | Some s \<Rightarrow> parse_EdmType s)"

lemmas generator_defs =
  entityGenerator_Int32_def entityGenerator_Int64_def entityGenerator_Binary_def
  entityGenerator_Boolean_def entityGenerator_String_def entityGenerator_Guid_def
  entityGenerator_Double_def entityGenerator_DateTime_def

subsection \<open>Properties of the entity generators\<close>

text \<open>Every typed generator of \<open>entityGenerator\<close> keeps the value and tags
  it with a type name that reads back as the generator's Edm type.\<close>

theorem entityGenerator_tags:
  "entity_value (entityGenerator t v) = v \<and> entity_EdmType (entityGenerator t v) = Some t"
  by (cases t) (simp_all add: generator_defs Entity_new_def entity_EdmType_def del: EdmType_value.simps)

end
