(* ===== verification/Lease.thy ===== *)
theory Lease
  imports Prelude
begin

text \<open>
  Leases on a blob or a container: \<open>acquireLease\<close>, \<open>renewLease\<close>,
  \<open>changeLease\<close>, \<open>releaseLease\<close> and \<open>breakLease\<close> of \<open>BlobService\<close>
  (\<open>src/azure/azure-storage.d.ts\<close> lines 802--818, 913--931, 952--972,
  1893--1911, 934--950), with \<open>LeaseResult\<close> (lines 2150--2165) and the lease
  options \<open>AcquireLeaseOptions\<close> and \<open>BreakLeaseOptions\<close> (lines 2230--2236,
  2272--2276).  The comments fix the guards: a finite lease lasts 15 to 60
  seconds and the default never expires; a break period is 0 to 60 seconds; a
  broken lease "ensures that another client cannot acquire a new lease until the
  current lease period has expired", and without a period a fixed lease breaks
  when its remaining period elapses while an infinite one breaks at once.
  Time is in seconds.  A lease without a proposed identifier gets one made from
  the time of the request.  \<open>lease_step\<close> is the state machine of one lease
  (the operations and the passing of time); the lemmas bound every reachable
  state and show the guarantee of a break.
\<close>

datatype lease_duration = Infinite | Fixed nat

text \<open>A lease: free, held with an identifier, a duration and an expiry time
  (ignored for an infinite lease), breaking until a time, or broken.  A held
  lease whose expiry has passed is expired: free again, but its holder may still
  renew it.\<close>

datatype lease_state =
    Available
  | Leased string lease_duration nat
  | Breaking string nat
  | Broken

datatype lease_error =
    InvalidLeaseDuration
  | InvalidBreakPeriod
  | LeaseAlreadyPresent
  | LeaseIsBreaking
  | LeaseIdMismatch
  | LeaseNotPresent

record LeaseResult =
  lease_id :: "string option"
  lease_time :: "nat option"

fun lease_secs :: "lease_duration \<Rightarrow> nat" where
  "lease_secs Infinite = 0"
| "lease_secs (Fixed d) = d"

definition duration_of :: "nat option \<Rightarrow> lease_duration" where
  "duration_of d = (case d of None \<Rightarrow> Infinite | Some s \<Rightarrow> Fixed s)"

definition valid_duration :: "nat option \<Rightarrow> bool" where
  "valid_duration d = (case d of None \<Rightarrow> True | Some s \<Rightarrow> 15 \<le> s \<and> s \<le> 60)"

text \<open>Whether a held or breaking lease still binds at time \<open>now\<close>.\<close>

fun lease_active :: "lease_state \<Rightarrow> nat \<Rightarrow> bool" where
  "lease_active (Leased i Infinite e) now = True"
| "lease_active (Leased i (Fixed d) e) now = (now < e)"
| "lease_active (Breaking i e) now = (now < e)"
| "lease_active _ now = False"

text \<open>The state as seen at \<open>now\<close>: a break whose period has elapsed is broken.\<close>

fun lease_at :: "lease_state \<Rightarrow> nat \<Rightarrow> lease_state" where
  "lease_at (Breaking i e) now = (if now < e then Breaking i e else Broken)"
| "lease_at s now = s"

definition grant :: "string \<Rightarrow> lease_duration \<Rightarrow> nat \<Rightarrow> lease_state" where
  "grant i d now = Leased i d (now + lease_secs d)"

definition acquireLease ::
  "nat \<Rightarrow> nat option \<Rightarrow> string option \<Rightarrow> lease_state \<Rightarrow> lease_error + LeaseResult \<times> lease_state" where
  "acquireLease now dur pid st =
     (if \<not> valid_duration dur then Inl InvalidLeaseDuration
      else
        (let i = value_or (''lease-'' @ decimal now) pid;
             ok = Inr (\<lparr>lease_id = Some i, lease_time = None\<rparr>, grant i (duration_of dur) now) in
         case lease_at st now of
           Leased j d e \<Rightarrow>
             (if lease_active (Leased j d e) now \<and> pid \<noteq> Some j then Inl LeaseAlreadyPresent else ok)
         | Breaking j e \<Rightarrow> Inl LeaseIsBreaking
         | _ \<Rightarrow> ok))"

definition renewLease :: "nat \<Rightarrow> string \<Rightarrow> lease_state \<Rightarrow> lease_error + LeaseResult \<times> lease_state" where
  "renewLease now i st =
     (case lease_at st now of
        Leased j d e \<Rightarrow>
          (if i = j then Inr (\<lparr>lease_id = Some i, lease_time = None\<rparr>, grant i d now)
           else Inl LeaseIdMismatch)
      | Breaking j e \<Rightarrow> Inl LeaseIsBreaking
      | _ \<Rightarrow> Inl LeaseNotPresent)"

definition changeLease ::
  "nat \<Rightarrow> string \<Rightarrow> string \<Rightarrow> lease_state \<Rightarrow> lease_error + LeaseResult \<times> lease_state" where
  "changeLease now i i' st =
     (case lease_at st now of
        Leased j d e \<Rightarrow>
          (if \<not> lease_active (Leased j d e) now then Inl LeaseNotPresent
           else if i = j then Inr (\<lparr>lease_id = Some i', lease_time = None\<rparr>, Leased i' d e)
           else Inl LeaseIdMismatch)
      | Breaking j e \<Rightarrow> Inl LeaseIsBreaking
      | _ \<Rightarrow> Inl LeaseNotPresent)"

definition releaseLease :: "nat \<Rightarrow> string \<Rightarrow> lease_state \<Rightarrow> lease_error + LeaseResult \<times> lease_state" where
  "releaseLease now i st =
     (case lease_at st now of
        Leased j d e \<Rightarrow>
          (if i = j then Inr (\<lparr>lease_id = None, lease_time = None\<rparr>, Available) else Inl LeaseIdMismatch)
      | Breaking j e \<Rightarrow>
          (if i = j then Inr (\<lparr>lease_id = None, lease_time = None\<rparr>, Available) else Inl LeaseIdMismatch)
      | _ \<Rightarrow> Inl LeaseNotPresent)"

text \<open>The time a break takes: the given period, but never longer than what is
  left of a finite lease; without a period, what is left of a finite lease, and
  nothing for an infinite one.\<close>

definition break_period :: "nat \<Rightarrow> nat option \<Rightarrow> lease_duration \<Rightarrow> nat \<Rightarrow> nat" where
  "break_period now p d e =
     (case d of
        Infinite \<Rightarrow> value_or 0 p
      | Fixed s \<Rightarrow> (case p of None \<Rightarrow> e - now | Some q \<Rightarrow> min q (e - now)))"

definition breaking :: "string \<Rightarrow> nat \<Rightarrow> nat \<Rightarrow> LeaseResult \<times> lease_state" where
  "breaking i now q =
     (\<lparr>lease_id = None, lease_time = Some q\<rparr>, if q = 0 then Broken else Breaking i (now + q))"

definition breakLease :: "nat \<Rightarrow> nat option \<Rightarrow> lease_state \<Rightarrow> lease_error + LeaseResult \<times> lease_state" where
  "breakLease now p st =
     (if \<not> (case p of None \<Rightarrow> True | Some q \<Rightarrow> q \<le> 60) then Inl InvalidBreakPeriod
      else
        (case lease_at st now of
           Leased j d e \<Rightarrow>
             (if lease_active (Leased j d e) now then Inr (breaking j now (break_period now p d e))
              else Inr (\<lparr>lease_id = None, lease_time = Some 0\<rparr>, Broken))
         | Breaking j e \<Rightarrow>
             (case p of
                Some q \<Rightarrow> if now + q < e then Inr (breaking j now q)
                          else Inr (\<lparr>lease_id = None, lease_time = Some (e - now)\<rparr>, Breaking j e)
              | None \<Rightarrow> Inr (\<lparr>lease_id = None, lease_time = Some (e - now)\<rparr>, Breaking j e))
         | Broken \<Rightarrow> Inr (\<lparr>lease_id = None, lease_time = Some 0\<rparr>, Broken)
         | Available \<Rightarrow> Inl LeaseNotPresent))"

subsection \<open>The state machine of one lease\<close>

datatype lease_op =
    Acquire "nat option" "string option"
  | Renew string
  | Change string string
  | Release string
  | Break "nat option"

fun lease_apply :: "nat \<Rightarrow> lease_op \<Rightarrow> lease_state \<Rightarrow> lease_error + LeaseResult \<times> lease_state" where
  "lease_apply now (Acquire d p) st = acquireLease now d p st"
| "lease_apply now (Renew i) st = renewLease now i st"
| "lease_apply now (Change i i') st = changeLease now i i' st"
| "lease_apply now (Release i) st = releaseLease now i st"
| "lease_apply now (Break p) st = breakLease now p st"

inductive lease_step :: "nat \<times> lease_state \<Rightarrow> nat \<times> lease_state \<Rightarrow> bool" where
  tick: "lease_step (now, st) (Suc now, st)"
| op: "lease_apply now oper st = Inr (r, st') \<Longrightarrow> lease_step (now, st) (now, st')"

inductive lease_reachable :: "nat \<times> lease_state \<Rightarrow> bool" where
  start: "lease_reachable (0, Available)"
| step: "lease_reachable c \<Longrightarrow> lease_step c c' \<Longrightarrow> lease_reachable c'"

text \<open>What every reachable lease satisfies: a finite lease lasts 15 to 60 seconds
  and ends within its duration, a break ends within 60 seconds.\<close>

fun lease_wf :: "nat \<Rightarrow> lease_state \<Rightarrow> bool" where
  "lease_wf now (Leased i (Fixed d) e) = (15 \<le> d \<and> d \<le> 60 \<and> e \<le> now + d)"
| "lease_wf now (Breaking i e) = (e \<le> now + 60)"
| "lease_wf now _ = True"

subsection \<open>Lemmas\<close>

inductive_cases lease_stepE: "lease_step (now, st) c'"

lemma lease_at_cases:
  "lease_at st now = Leased j d e \<Longrightarrow> st = Leased j d e"
  "lease_at st now = Breaking j e \<Longrightarrow> st = Breaking j e \<and> now < e"
  by (cases st; simp split: if_splits)+

lemma lease_wf_Leased:
  "lease_wf now (Leased i d e) \<longleftrightarrow> (case d of Infinite \<Rightarrow> True | Fixed s \<Rightarrow> 15 \<le> s \<and> s \<le> 60 \<and> e \<le> now + s)"
  by (cases d) simp_all

lemma lease_wf_tick: "lease_wf now st \<Longrightarrow> lease_wf (Suc now) st"
  by (induction now st rule: lease_wf.induct) auto

lemma lease_wf_grant: "valid_duration dur \<Longrightarrow> lease_wf now (grant i (duration_of dur) now)"
  by (auto simp: grant_def duration_of_def valid_duration_def split: option.splits)

lemma lease_wf_regrant: "lease_wf now (Leased j d e) \<Longrightarrow> lease_wf now (grant i d now)"
  by (cases d) (auto simp: grant_def)

lemma lease_wf_breaking: "q \<le> 60 \<Longrightarrow> lease_wf now (snd (breaking i now q))"
  by (simp add: breaking_def)

lemma break_period_le:
  assumes "lease_wf now (Leased j d e)" and "case p of None \<Rightarrow> True | Some q \<Rightarrow> q \<le> 60"
  shows "break_period now p d e \<le> 60"
  using assms by (cases d) (auto simp: break_period_def split: option.splits)

lemma lease_apply_wf:
  assumes "lease_apply now oper st = Inr (r, st')" and "lease_wf now st"
  shows "lease_wf now st'"
proof (cases oper)
  case (Acquire dur p)
  with assms show ?thesis
    by (auto simp: acquireLease_def Let_def lease_wf_grant split: if_splits lease_state.splits)
next
  case (Renew i)
  with assms show ?thesis
    by (auto simp: renewLease_def dest: lease_at_cases intro: lease_wf_regrant split: if_splits lease_state.splits)
next
  case (Change i i')
  with assms show ?thesis
    by (cases "lease_at st now") (auto simp: changeLease_def lease_wf_Leased dest: lease_at_cases split: if_splits)
next
  case (Release i)
  with assms show ?thesis
    by (auto simp: releaseLease_def split: if_splits lease_state.splits)
next
  case (Break p)
  show ?thesis
  proof (cases "lease_at st now")
    case (Leased j d e)
    with assms Break show ?thesis
      using break_period_le [of now j d e p] lease_at_cases(1) [OF Leased]
      by (auto simp: breakLease_def breaking_def split: if_splits)
  next
    case (Breaking j e)
    with assms Break show ?thesis
      using lease_at_cases(2) [OF Breaking]
      by (auto simp: breakLease_def breaking_def split: if_splits option.splits)
  qed (use assms Break in \<open>auto simp: breakLease_def split: if_splits\<close>)
qed

lemma lease_example_reachable:
  "lease_reachable (0, Leased ''x'' (Fixed 15) 15)"
proof -
  have "lease_apply 0 (Acquire (Some 15) (Some ''x'')) Available
        = Inr (\<lparr>lease_id = Some ''x'', lease_time = None\<rparr>, Leased ''x'' (Fixed 15) 15)"
    by (simp add: acquireLease_def valid_duration_def grant_def duration_of_def Let_def)
  then show ?thesis by (blast intro: lease_reachable.step lease_reachable.start lease_step.op)
qed

subsection \<open>Properties of leases\<close>

text \<open>C8: in every state a lease can reach from a free blob, a finite lease lasts
  15 to 60 seconds and expires within its duration, and a break ends within 60
  seconds.\<close>

theorem lease_reachable_bounds:
  assumes "lease_reachable (now, st)"
  shows "lease_wf now st"
proof -
  have "lease_reachable c \<Longrightarrow> lease_wf (fst c) (snd c)" for c
  proof (induction rule: lease_reachable.induct)
    case start
    then show ?case by simp
  next
    case (step c c')
    then show ?case
      by (cases c) (auto elim!: lease_stepE intro: lease_wf_tick lease_apply_wf)
  qed
  from this [OF assms] show ?thesis by simp
qed

theorem lease_reachable_bounds_witness:
  "lease_reachable (0, Leased ''x'' (Fixed 15) 15) \<and> lease_wf 0 (Leased ''x'' (Fixed 15) 15)"
  using lease_reachable_bounds [OF lease_example_reachable] lease_example_reachable by simp

text \<open>While a lease is breaking, nobody can acquire it, not even its
  holder: the break ensures that another client cannot take a new lease until
  the period has elapsed.\<close>

theorem breaking_blocks_acquire:
  assumes "now < e"
  shows "\<exists>err. acquireLease now d p (Breaking i e) = Inl err"
  using assms by (simp add: acquireLease_def Let_def)

theorem breaking_blocks_acquire_witness:
  "(10::nat) < 30 \<and> acquireLease 10 None (Some ''y'') (Breaking ''x'' 30) = Inl LeaseIsBreaking"
  using breaking_blocks_acquire [of 10 30 None "Some ''y''" "''x''"]
  by (simp add: acquireLease_def valid_duration_def Let_def)

text \<open>C9: once the break period has elapsed, a lease with a valid duration can be
  acquired again.\<close>

theorem broken_allows_acquire:
  assumes "e \<le> now" and "valid_duration d"
  shows "\<exists>r st'. acquireLease now d p (Breaking i e) = Inr (r, st')"
  using assms by (simp add: acquireLease_def Let_def)

theorem broken_allows_acquire_witness:
  "(30::nat) \<le> 30 \<and> valid_duration (Some 20) \<and>
   acquireLease 30 (Some 20) (Some ''y'') (Breaking ''x'' 30)
     = Inr (\<lparr>lease_id = Some ''y'', lease_time = None\<rparr>, Leased ''y'' (Fixed 20) 50)"
proof -
  have v: "valid_duration (Some 20)" by (simp add: valid_duration_def)
  obtain r st' where "acquireLease 30 (Some 20) (Some ''y'') (Breaking ''x'' 30) = Inr (r, st')"
    using broken_allows_acquire [OF _ v, of 30 30 "Some ''y''" "''x''"] by auto
  then show ?thesis using v
    by (simp add: acquireLease_def grant_def duration_of_def Let_def)
qed

text \<open>While a lease is active, a request that does not present its
  identifier cannot acquire it.\<close>

theorem active_lease_exclusive:
  assumes "lease_active (Leased j dd e) now" and "p \<noteq> Some j"
  shows "\<exists>err. acquireLease now d p (Leased j dd e) = Inl err"
  using assms by (simp add: acquireLease_def Let_def)

theorem active_lease_exclusive_witness:
  "lease_active (Leased ''x'' (Fixed 30) 40) 20 \<and> Some ''y'' \<noteq> Some ''x'' \<and>
   acquireLease 20 None (Some ''y'') (Leased ''x'' (Fixed 30) 40) = Inl LeaseAlreadyPresent"
  using active_lease_exclusive [of "''x''" "Fixed 30" 40 20 "Some ''y''" None]
  by (simp add: acquireLease_def valid_duration_def Let_def)

end
