(* ===== verification/BlobStore.thy ===== *)
theory BlobStore
  imports AccessCondition Lease Permissions
begin

text \<open>
  The blob service of \<open>src/azure/azure-storage.d.ts\<close> (class \<open>BlobService\<close>,
  lines 754--2073, with its option interfaces, lines 2201--2418) as a store of
  containers and blobs that each documented operation reads and updates.  The
  store keeps a clock; every write stamps the written resource with the clock
  as its last-modified time and the clock's decimal as its ETag, and advances
  the clock, so an ETag names one version of a resource.  The blobs of a
  container are a map; the blocks staged by \<open>createBlockFromText\<close> wait, per
  blob name, until \<open>commitBlocks\<close> writes the blob from them.  Writes honour the
  request's access conditions (theory \<open>AccessCondition\<close>) against the resource
  as it is, and the lease of the resource (theory \<open>Lease\<close>): a resource with an
  active lease is written only by a request that names the lease.  Every
  operation returns its result and the new store, or the error the service
  reports, with the store unchanged.
\<close>

datatype BlobType = BlockBlob | AppendBlob | PageBlob

text \<open>\<open>BlobService.Headers\<close>: the content headers of a blob, each optional.\<close>

record Headers =
  cacheControl :: "string option"
  contentType :: "string option"
  contentEncoding :: "string option"
  contentLanguage :: "string option"
  contentDisposition :: "string option"

definition no_headers :: Headers where
  "no_headers = \<lparr>cacheControl = None, contentType = None, contentEncoding = None,
     contentLanguage = None, contentDisposition = None\<rparr>"

record blob =
  blobType :: BlobType
  blobProps :: resource
  content :: string
  blobMetadata :: metadata
  committedBlocks :: "(string \<times> string) list"
  sequenceNumber :: nat
  snapshots :: "(string \<times> string) list"
  blobLease :: lease_state
  validPages :: "nat list"
  blobHeaders :: Headers

record container =
  containerProps :: resource
  containerMetadata :: metadata
  publicAccessLevel :: BlobContainerPublicAccessType
  blobs :: "string \<rightharpoonup> blob"
  uncommitted :: "string \<Rightarrow> (string \<times> string) list"
  containerLease :: lease_state
  signedIdentifiers :: "SignedIdentifier list"

record store =
  containers :: "string \<rightharpoonup> container"
  clock :: nat

text \<open>The error an operation passes to its callback: the service's error codes
  (\<open>InvalidRange\<close> for a read range that starts beyond the blob), and
  \<open>LocalFileNotFound\<close> for a local file the library cannot open.\<close>

datatype storage_error =
    ContainerAlreadyExists
  | ContainerNotFound
  | BlobNotFound
  | ConditionNotMet
  | LeaseIdMissing
  | LeaseIdMismatchWithBlobOperation
  | LeaseNotPresentWithBlobOperation
  | InvalidBlockList
  | InvalidBlobType
  | AppendPositionConditionNotMet
  | MaxBlobSizeConditionNotMet
  | SnapshotsPresent
  | InvalidDeleteOptions
  | SequenceNumberOutOfRange
  | InvalidPageRange
  | OutOfRangeQueryParameterValue
  | InvalidUri
  | InvalidRange
  | LocalFileNotFound
  | NoPendingCopyOperation

text \<open>\<open>Common.AccessConditionsOptions\<close> and \<open>BlobService.LeaseIdOptions\<close> as one
  write option: the access conditions and the lease identifier a request carries.\<close>

record LeaseAndAccessConditionsOptions =
  accessConditions :: "conditions option"
  leaseId :: "string option"

definition no_conditions :: LeaseAndAccessConditionsOptions where
  "no_conditions = \<lparr>accessConditions = None, leaseId = None\<rparr>"

subsection \<open>Checks shared by the operations\<close>

definition fresh_props :: "store \<Rightarrow> resource" where
  "fresh_props s = \<lparr>etag = decimal (clock s), lastModified = clock s\<rparr>"

definition tick :: "store \<Rightarrow> store" where
  "tick s = s\<lparr>clock := Suc (clock s)\<rparr>"

definition conditions_ok :: "LeaseAndAccessConditionsOptions \<Rightarrow> resource option \<Rightarrow> bool" where
  "conditions_ok opts r = conditions_hold (value_or Map.empty (accessConditions opts)) r"

text \<open>The lease rule of a write: an active lease needs its identifier, and a
  lease identifier on a resource without an active lease is refused.\<close>

definition lease_check :: "nat \<Rightarrow> lease_state \<Rightarrow> string option \<Rightarrow> storage_error option" where
  "lease_check now l lid =
     (if lease_active l now then
        (case lid of
           None \<Rightarrow> Some LeaseIdMissing
         | Some i \<Rightarrow> (case l of
                        Leased j d e \<Rightarrow> if i = j then None else Some LeaseIdMismatchWithBlobOperation
                      | Breaking j e \<Rightarrow> if i = j then None else Some LeaseIdMismatchWithBlobOperation
                      | _ \<Rightarrow> None))
      else (case lid of None \<Rightarrow> None | Some i \<Rightarrow> Some LeaseNotPresentWithBlobOperation))"

text \<open>The checks of a write to a resource that may not exist yet: the lease of
  the existing resource, then the access conditions.\<close>

definition write_check ::
  "nat \<Rightarrow> (resource \<times> lease_state) option \<Rightarrow> LeaseAndAccessConditionsOptions \<Rightarrow> storage_error option" where
  "write_check now cur opts =
     (case cur of
        None \<Rightarrow> if conditions_ok opts None then None else Some ConditionNotMet
      | Some (p, l) \<Rightarrow>
          (case lease_check now l (leaseId opts) of
             Some err \<Rightarrow> Some err
           | None \<Rightarrow> if conditions_ok opts (Some p) then None else Some ConditionNotMet))"

definition put_container :: "string \<Rightarrow> container \<Rightarrow> store \<Rightarrow> store" where
  "put_container n c s = s\<lparr>containers := (containers s)(n \<mapsto> c)\<rparr>"

definition put_blob :: "string \<Rightarrow> container \<Rightarrow> string \<Rightarrow> blob \<Rightarrow> store \<Rightarrow> store" where
  "put_blob n c b x s = put_container n (c\<lparr>blobs := (blobs c)(b \<mapsto> x)\<rparr>) s"

subsection \<open>Containers\<close>

text \<open>\<open>BlobService.ContainerResult\<close>, the part the model fills in.\<close>

record ContainerResult =
  containerName :: string
  containerResultProps :: resource
  containerResultMetadata :: metadata
  containerResultAccess :: "string option"
  containerResultSignedIdentifiers :: "SignedIdentifier list"

definition container_result :: "string \<Rightarrow> container \<Rightarrow> ContainerResult" where
  "container_result n c =
     \<lparr>containerName = n, containerResultProps = containerProps c,
      containerResultMetadata = containerMetadata c,
      containerResultAccess = BlobContainerPublicAccessType_value (publicAccessLevel c),
      containerResultSignedIdentifiers = signedIdentifiers c\<rparr>"

definition new_container :: "store \<Rightarrow> metadata \<Rightarrow> BlobContainerPublicAccessType \<Rightarrow> container" where
  "new_container s meta acc =
     \<lparr>containerProps = fresh_props s, containerMetadata = meta, publicAccessLevel = acc,
      blobs = Map.empty, uncommitted = (\<lambda>_. []), containerLease = Available,
      signedIdentifiers = []\<rparr>"

definition createContainer ::
  "string \<Rightarrow> metadata \<Rightarrow> BlobContainerPublicAccessType \<Rightarrow> store \<Rightarrow> storage_error + ContainerResult \<times> store" where
  "createContainer n meta acc s =
     (case containers s n of
        Some c \<Rightarrow> Inl ContainerAlreadyExists
      | None \<Rightarrow> let c = new_container s meta acc in Inr (container_result n c, tick (put_container n c s)))"

definition createContainerIfNotExists ::
  "string \<Rightarrow> metadata \<Rightarrow> BlobContainerPublicAccessType \<Rightarrow> store \<Rightarrow> storage_error + bool \<times> store" where
  "createContainerIfNotExists n meta acc s =
     (case createContainer n meta acc s of
        Inl ContainerAlreadyExists \<Rightarrow> Inr (False, s)
      | Inl err \<Rightarrow> Inl err
      | Inr (r, s') \<Rightarrow> Inr (True, s'))"

definition deleteContainer :: "string \<Rightarrow> string option \<Rightarrow> store \<Rightarrow> storage_error + unit \<times> store" where
  "deleteContainer n lid s =
     (case containers s n of
        None \<Rightarrow> Inl ContainerNotFound
      | Some c \<Rightarrow>
          (case lease_check (clock s) (containerLease c) lid of
             Some err \<Rightarrow> Inl err
           | None \<Rightarrow> Inr ((), tick (s\<lparr>containers := (containers s)(n := None)\<rparr>))))"

definition deleteContainerIfExists :: "string \<Rightarrow> string option \<Rightarrow> store \<Rightarrow> storage_error + bool \<times> store" where
  "deleteContainerIfExists n lid s =
     (case deleteContainer n lid s of
        Inl ContainerNotFound \<Rightarrow> Inr (False, s)
      | Inl err \<Rightarrow> Inl err
      | Inr (u, s') \<Rightarrow> Inr (True, s'))"

definition doesContainerExist :: "string \<Rightarrow> store \<Rightarrow> bool" where
  "doesContainerExist n s = (containers s n \<noteq> None)"

definition getContainerMetadata :: "string \<Rightarrow> store \<Rightarrow> storage_error + ContainerResult" where
  "getContainerMetadata n s =
     (case containers s n of None \<Rightarrow> Inl ContainerNotFound | Some c \<Rightarrow> Inr (container_result n c))"

text \<open>\<open>setContainerMetadata\<close> "overwrites all existing metadata".\<close>

definition setContainerMetadata ::
  "string \<Rightarrow> metadata \<Rightarrow> LeaseAndAccessConditionsOptions \<Rightarrow> store \<Rightarrow> storage_error + ContainerResult \<times> store" where
  "setContainerMetadata n meta opts s =
     (case containers s n of
        None \<Rightarrow> Inl ContainerNotFound
      | Some c \<Rightarrow>
          (case write_check (clock s) (Some (containerProps c, containerLease c)) opts of
             Some err \<Rightarrow> Inl err
           | None \<Rightarrow>
               let c' = c\<lparr>containerMetadata := meta, containerProps := fresh_props s\<rparr>
               in Inr (container_result n c', tick (put_container n c' s))))"

subsection \<open>Blobs\<close>

text \<open>\<open>BlobService.BlobResult\<close>, the part the model fills in.\<close>

record BlobResult =
  blobResultContainer :: string
  blobResultName :: string
  blobResultProps :: resource
  blobResultType :: BlobType
  blobResultMetadata :: metadata
  blobResultLength :: nat
  blobResultSequenceNumber :: nat
  blobResultHeaders :: Headers

definition blob_result :: "string \<Rightarrow> string \<Rightarrow> blob \<Rightarrow> BlobResult" where
  "blob_result n b x =
     \<lparr>blobResultContainer = n, blobResultName = b, blobResultProps = blobProps x,
      blobResultType = blobType x, blobResultMetadata = blobMetadata x,
      blobResultLength = length (content x), blobResultSequenceNumber = sequenceNumber x,
      blobResultHeaders = blobHeaders x\<rparr>"

text \<open>\<open>BlobService.BlobContentOptions\<close>: the write options, the metadata, and the
  content headers \<open>contentType\<close>, \<open>contentEncoding\<close>, \<open>contentLanguage\<close>,
  \<open>cacheControl\<close> and \<open>contentDisposition\<close>, which are the fields of
  \<open>BlobService.Headers\<close> and are kept as one \<open>Headers\<close> value
  (\<open>contentMD5\<close>, a hash of the content, is not modelled).\<close>

record BlobContentOptions = LeaseAndAccessConditionsOptions +
  blobContentMetadata :: "metadata option"
  contentSettings :: Headers

definition blob_options :: "metadata option \<Rightarrow> LeaseAndAccessConditionsOptions \<Rightarrow> BlobContentOptions" where
  "blob_options meta o' =
     \<lparr>accessConditions = accessConditions o', leaseId = leaseId o', blobContentMetadata = meta,
      contentSettings = no_headers\<rparr>"

text \<open>The headers a written blob keeps: those of the request, with the content type
  defaulting to \<open>application/octet-stream\<close> ("The default type is
  application/octet-stream").\<close>

definition DEFAULT_CONTENT_TYPE :: string where
  "DEFAULT_CONTENT_TYPE = ''application/octet-stream''"

definition blob_content_headers :: "BlobContentOptions \<Rightarrow> Headers" where
  "blob_content_headers opts =
     (contentSettings opts)\<lparr>contentType := Some (value_or DEFAULT_CONTENT_TYPE (contentType (contentSettings opts)))\<rparr>"

text \<open>A call without its options argument.\<close>

definition no_blob_options :: BlobContentOptions where
  "no_blob_options = blob_options None no_conditions"

definition blob_at :: "string \<Rightarrow> string \<Rightarrow> store \<Rightarrow> blob option" where
  "blob_at n b s = (case containers s n of None \<Rightarrow> None | Some c \<Rightarrow> blobs c b)"

definition blob_guard :: "blob option \<Rightarrow> (resource \<times> lease_state) option" where
  "blob_guard x = map_option (\<lambda>y. (blobProps y, blobLease y)) x"

text \<open>Writing a whole blob (\<open>createBlockBlobFromText\<close>, \<open>createOrReplaceAppendBlob\<close>,
  \<open>createPageBlob\<close>, \<open>commitBlocks\<close>): "If the blob already exists on the service,
  it will be overwritten"; the blob keeps its lease and its snapshots, and takes
  the new type, content, metadata and a fresh ETag; a new page blob has no
  valid pages (all its pages read as zeros).\<close>

definition write_blob ::
  "store \<Rightarrow> blob option \<Rightarrow> BlobType \<Rightarrow> string \<Rightarrow> metadata \<Rightarrow> Headers \<Rightarrow> (string \<times> string) list \<Rightarrow> nat \<Rightarrow> blob" where
  "write_blob s old ty txt meta hs blocks sq =
     \<lparr>blobType = ty, blobProps = fresh_props s, content = txt, blobMetadata = meta,
      committedBlocks = blocks, sequenceNumber = sq,
      snapshots = (case old of None \<Rightarrow> [] | Some y \<Rightarrow> snapshots y),
      blobLease = (case old of None \<Rightarrow> Available | Some y \<Rightarrow> blobLease y), validPages = [],
      blobHeaders = hs\<rparr>"

text \<open>The frame of every whole-blob write: the container must exist, then the
  lease and the access conditions are checked against the blob as it is.\<close>

definition put_whole_blob ::
  "string \<Rightarrow> string \<Rightarrow> BlobType \<Rightarrow> string \<Rightarrow> (string \<times> string) list \<Rightarrow> nat \<Rightarrow> BlobContentOptions \<Rightarrow> store
   \<Rightarrow> storage_error + BlobResult \<times> store" where
  "put_whole_blob n b ty txt blocks sq opts s =
     (case containers s n of
        None \<Rightarrow> Inl ContainerNotFound
      | Some c \<Rightarrow>
          (case write_check (clock s) (blob_guard (blobs c b)) (LeaseAndAccessConditionsOptions.truncate opts) of
             Some err \<Rightarrow> Inl err
           | None \<Rightarrow>
               let x = write_blob s (blobs c b) ty txt (value_or Map.empty (blobContentMetadata opts)) (blob_content_headers opts) blocks sq;
                   c' = c\<lparr>uncommitted := (uncommitted c)(b := [])\<rparr>
               in Inr (blob_result n b x, tick (put_blob n c' b x s))))"

definition createBlockBlobFromText ::
  "string \<Rightarrow> string \<Rightarrow> string \<Rightarrow> BlobContentOptions \<Rightarrow> store \<Rightarrow> storage_error + BlobResult \<times> store" where
  "createBlockBlobFromText n b txt opts s = put_whole_blob n b BlockBlob txt [] 0 opts s"

definition createOrReplaceAppendBlob ::
  "string \<Rightarrow> string \<Rightarrow> BlobContentOptions \<Rightarrow> store \<Rightarrow> storage_error + BlobResult \<times> store" where
  "createOrReplaceAppendBlob n b opts s = put_whole_blob n b AppendBlob [] [] 0 opts s"

definition doesBlobExist :: "string \<Rightarrow> string \<Rightarrow> store \<Rightarrow> storage_error + bool" where
  "doesBlobExist n b s =
     (case containers s n of None \<Rightarrow> Inl ContainerNotFound | Some c \<Rightarrow> Inr (blobs c b \<noteq> None))"

text \<open>\<open>getBlobToText\<close>: "text will contain the blob contents, and blockBlob will
  contain the blob information".\<close>

definition getBlobToText :: "string \<Rightarrow> string \<Rightarrow> store \<Rightarrow> storage_error + string \<times> BlobResult" where
  "getBlobToText n b s =
     (case containers s n of
        None \<Rightarrow> Inl ContainerNotFound
      | Some c \<Rightarrow> (case blobs c b of
                     None \<Rightarrow> Inl BlobNotFound
                   | Some x \<Rightarrow> Inr (content x, blob_result n b x)))"

definition getBlobMetadata :: "string \<Rightarrow> string \<Rightarrow> store \<Rightarrow> storage_error + BlobResult" where
  "getBlobMetadata n b s =
     (case getBlobToText n b s of Inl err \<Rightarrow> Inl err | Inr (t, r) \<Rightarrow> Inr r)"

text \<open>The frame of a write to an existing blob: container, blob, lease, conditions.\<close>

definition update_blob ::
  "string \<Rightarrow> string \<Rightarrow> LeaseAndAccessConditionsOptions \<Rightarrow> (blob \<Rightarrow> storage_error + 'r \<times> blob) \<Rightarrow> store
   \<Rightarrow> storage_error + 'r \<times> store" where
  "update_blob n b opts f s =
     (case containers s n of
        None \<Rightarrow> Inl ContainerNotFound
      | Some c \<Rightarrow>
          (case blobs c b of
             None \<Rightarrow> Inl BlobNotFound
           | Some x \<Rightarrow>
               (case write_check (clock s) (Some (blobProps x, blobLease x)) opts of
                  Some err \<Rightarrow> Inl err
                | None \<Rightarrow> (case f x of
                             Inl err \<Rightarrow> Inl err
                           | Inr (r, x') \<Rightarrow> Inr (r, tick (put_blob n c b x' s))))))"

definition setBlobMetadata ::
  "string \<Rightarrow> string \<Rightarrow> metadata \<Rightarrow> LeaseAndAccessConditionsOptions \<Rightarrow> store \<Rightarrow> storage_error + BlobResult \<times> store" where
  "setBlobMetadata n b meta opts s =
     update_blob n b opts
       (\<lambda>x. let x' = x\<lparr>blobMetadata := meta, blobProps := fresh_props s\<rparr> in Inr (blob_result n b x', x')) s"

subsection \<open>Block blobs: staging and committing blocks\<close>

text \<open>\<open>createBlockFromText\<close> stages a block under its identifier for the blob; a
  block staged again under the same identifier replaces the earlier one.  The
  blob itself, if any, is unchanged until the commit.\<close>

definition stage_block :: "string \<Rightarrow> string \<Rightarrow> (string \<times> string) list \<Rightarrow> (string \<times> string) list" where
  "stage_block i txt bs = filter (\<lambda>p. fst p \<noteq> i) bs @ [(i, txt)]"

definition createBlockFromText ::
  "string \<Rightarrow> string \<Rightarrow> string \<Rightarrow> string \<Rightarrow> LeaseAndAccessConditionsOptions \<Rightarrow> store \<Rightarrow> storage_error + unit \<times> store" where
  "createBlockFromText i n b txt opts s =
     (case containers s n of
        None \<Rightarrow> Inl ContainerNotFound
      | Some c \<Rightarrow>
          (case blobs c b of
             Some x \<Rightarrow> (case lease_check (clock s) (blobLease x) (leaseId opts) of
                          Some err \<Rightarrow> Inl err
                        | None \<Rightarrow> Inr ((), put_container n (c\<lparr>uncommitted := (uncommitted c)(b := stage_block i txt (uncommitted c b))\<rparr>) s))
           | None \<Rightarrow> Inr ((), put_container n (c\<lparr>uncommitted := (uncommitted c)(b := stage_block i txt (uncommitted c b))\<rparr>) s)))"

text \<open>\<open>commitBlocks\<close>: "a block must have been successfully written to the server in a
  prior createBlock operation"; an identifier is looked up among the staged
  blocks first, then among the blocks the blob already has, and an identifier
  found in neither makes the block list invalid.\<close>

primrec resolve_blocks ::
  "(string \<times> string) list \<Rightarrow> (string \<times> string) list \<Rightarrow> string list \<Rightarrow> (string \<times> string) list option" where
  "resolve_blocks staged committed [] = Some []"
| "resolve_blocks staged committed (i # is) =
     (case map_of staged i of
        Some t \<Rightarrow> map_option (Cons (i, t)) (resolve_blocks staged committed is)
      | None \<Rightarrow> (case map_of committed i of
                   Some t \<Rightarrow> map_option (Cons (i, t)) (resolve_blocks staged committed is)
                 | None \<Rightarrow> None))"

text \<open>\<open>BlobService.BlockListResult\<close>.\<close>

record BlockListResult =
  CommittedBlocks :: "string list option"
  UncommittedBlocks :: "string list option"

definition commitBlocks ::
  "string \<Rightarrow> string \<Rightarrow> string list \<Rightarrow> BlobContentOptions \<Rightarrow> store \<Rightarrow> storage_error + BlockListResult \<times> store" where
  "commitBlocks n b ids opts s =
     (case containers s n of
        None \<Rightarrow> Inl ContainerNotFound
      | Some c \<Rightarrow>
          (let committed = (case blobs c b of Some x \<Rightarrow> if blobType x = BlockBlob then committedBlocks x else [] | None \<Rightarrow> []) in
           case resolve_blocks (uncommitted c b) committed ids of
             None \<Rightarrow> Inl InvalidBlockList
           | Some bs \<Rightarrow>
               (case put_whole_blob n b BlockBlob (concat (map snd bs)) bs 0 opts s of
                  Inl err \<Rightarrow> Inl err
                | Inr (r, s') \<Rightarrow> Inr (\<lparr>CommittedBlocks = Some (map fst bs), UncommittedBlocks = Some []\<rparr>, s'))))"

text \<open>\<open>listBlocks\<close> with a \<open>BlobUtilities.BlockListFilter\<close>: the committed list, the
  uncommitted list, or both.\<close>

definition listBlocks :: "string \<Rightarrow> string \<Rightarrow> BlockListFilter \<Rightarrow> store \<Rightarrow> storage_error + BlockListResult" where
  "listBlocks n b flt s =
     (case containers s n of
        None \<Rightarrow> Inl ContainerNotFound
      | Some c \<Rightarrow>
          (if blobs c b = None \<and> uncommitted c b = [] then Inl BlobNotFound
           else
             let committed = (case blobs c b of Some x \<Rightarrow> map fst (committedBlocks x) | None \<Rightarrow> []);
                 staged = map fst (uncommitted c b) in
             Inr \<lparr>CommittedBlocks = (if flt = UNCOMMITTED then None else Some committed),
                  UncommittedBlocks = (if flt = COMITTED then None else Some staged)\<rparr>))"

subsection \<open>Append blobs\<close>

text \<open>\<open>BlobService.AppendBlockOptions\<close>: "The append will succeed only if the end
  position of the blob is equal to" \<open>appendPosition\<close>, and the blob may not grow
  beyond \<open>maxBlobSize\<close>.\<close>

record AppendBlockOptions = LeaseAndAccessConditionsOptions +
  maxBlobSize :: "nat option"
  appendPosition :: "nat option"

definition appendBlockFromText ::
  "string \<Rightarrow> string \<Rightarrow> string \<Rightarrow> AppendBlockOptions \<Rightarrow> store \<Rightarrow> storage_error + BlobResult \<times> store" where
  "appendBlockFromText n b txt opts s =
     update_blob n b (LeaseAndAccessConditionsOptions.truncate opts)
       (\<lambda>x. if blobType x \<noteq> AppendBlob then Inl InvalidBlobType
            else if (case appendPosition opts of None \<Rightarrow> False | Some p \<Rightarrow> p \<noteq> length (content x))
              then Inl AppendPositionConditionNotMet
            else if (case maxBlobSize opts of None \<Rightarrow> False | Some m \<Rightarrow> m < length (content x) + length txt)
              then Inl MaxBlobSizeConditionNotMet
            else let x' = x\<lparr>content := content x @ txt, blobProps := fresh_props s\<rparr>
                 in Inr (blob_result n b x', x')) s"

subsection \<open>Page blobs and their sequence number\<close>

text \<open>"The value of the sequence number must be between 0 and 2^63 - 1."\<close>

definition seq_max :: nat where
  "seq_max = 2 ^ 63 - 1"

text \<open>\<open>BlobService.PageBlobContentOptions\<close>: the blob options and the initial
  sequence number, a decimal string (\<open>x-ms-blob-sequence-number\<close>).\<close>

record PageBlobContentOptions = BlobContentOptions +
  pageSequenceNumber :: "string option"

text \<open>A \<open>createPageBlob\<close> call whose options give at most the sequence number.\<close>

definition page_options :: "string option \<Rightarrow> PageBlobContentOptions" where
  "page_options sq =
     \<lparr>accessConditions = None, leaseId = None, blobContentMetadata = None, contentSettings = no_headers,
      pageSequenceNumber = sq\<rparr>"

text \<open>Pages are 512 bytes; a page blob's length is a whole number of pages.\<close>

definition PAGE_SIZE :: nat where
  "PAGE_SIZE = 512"

definition createPageBlob ::
  "string \<Rightarrow> string \<Rightarrow> nat \<Rightarrow> PageBlobContentOptions \<Rightarrow> store \<Rightarrow> storage_error + BlobResult \<times> store" where
  "createPageBlob n b len opts s =
     (case (case pageSequenceNumber opts of None \<Rightarrow> Some 0 | Some t \<Rightarrow> parse_decimal t) of
        None \<Rightarrow> Inl SequenceNumberOutOfRange
      | Some sq \<Rightarrow>
          if seq_max < sq then Inl SequenceNumberOutOfRange
          else if len mod PAGE_SIZE \<noteq> 0 then Inl InvalidPageRange
          else put_whole_blob n b PageBlob (replicate len (CHR 0x00)) [] sq (BlobContentOptions.truncate opts) s)"

text \<open>\<open>setPageBlobSequenceNumber\<close> with a \<open>BlobUtilities.SequenceNumberAction\<close>:
  \<open>max\<close> keeps the larger of the stored and the given number, \<open>update\<close> sets the
  given number, \<open>increment\<close> adds one and takes no number ("Set this parameter to
  null if this operation is an increment action").\<close>

definition next_sequence_number :: "SequenceNumberAction \<Rightarrow> nat option \<Rightarrow> nat \<Rightarrow> storage_error + nat" where
  "next_sequence_number act sq cur =
     (case (act, sq) of
        (INCREMENT, None) \<Rightarrow> if cur < seq_max then Inr (Suc cur) else Inl SequenceNumberOutOfRange
      | (INCREMENT, Some v) \<Rightarrow> Inl SequenceNumberOutOfRange
      | (_, None) \<Rightarrow> Inl SequenceNumberOutOfRange
      | (MAX_ACTION, Some v) \<Rightarrow> if seq_max < v then Inl SequenceNumberOutOfRange else Inr (max cur v)
      | (UPDATE, Some v) \<Rightarrow> if seq_max < v then Inl SequenceNumberOutOfRange else Inr v)"

definition setPageBlobSequenceNumber ::
  "string \<Rightarrow> string \<Rightarrow> SequenceNumberAction \<Rightarrow> nat option \<Rightarrow> LeaseAndAccessConditionsOptions \<Rightarrow> store
   \<Rightarrow> storage_error + BlobResult \<times> store" where
  "setPageBlobSequenceNumber n b act sq opts s =
     update_blob n b opts
       (\<lambda>x. if blobType x \<noteq> PageBlob then Inl InvalidBlobType
            else case next_sequence_number act sq (sequenceNumber x) of
                   Inl err \<Rightarrow> Inl err
                 | Inr v \<Rightarrow> let x' = x\<lparr>sequenceNumber := v, blobProps := fresh_props s\<rparr>
                            in Inr (blob_result n b x', x')) s"

subsection \<open>Snapshots and deletion\<close>

text \<open>\<open>createBlobSnapshot\<close>: "Creates a read-only snapshot of a blob"; the result is
  the snapshot's identifier, the time it was taken.  The blob is unchanged.\<close>

definition createBlobSnapshot ::
  "string \<Rightarrow> string \<Rightarrow> LeaseAndAccessConditionsOptions \<Rightarrow> store \<Rightarrow> storage_error + string \<times> store" where
  "createBlobSnapshot n b opts s =
     (case containers s n of
        None \<Rightarrow> Inl ContainerNotFound
      | Some c \<Rightarrow>
          (case blobs c b of
             None \<Rightarrow> Inl BlobNotFound
           | Some x \<Rightarrow>
               (case write_check (clock s) (Some (blobProps x, blobLease x)) opts of
                  Some err \<Rightarrow> Inl err
                | None \<Rightarrow> let sid = decimal (clock s)
                          in Inr (sid, tick (put_blob n c b (x\<lparr>snapshots := snapshots x @ [(sid, content x)]\<rparr>) s)))))"

text \<open>\<open>BlobService.DeleteBlobOptions\<close>: the snapshot to delete, or the
  \<open>deleteSnapshots\<close> option, one of \<open>BlobUtilities.SnapshotDeleteOptions\<close>.\<close>

record DeleteBlobOptions = LeaseAndAccessConditionsOptions +
  snapshotId :: "string option"
  deleteSnapshots :: "string option"

text \<open>\<open>deleteBlob\<close>, after its comment: "If the blob has snapshots, you must include
  the deleteSnapshots option or the blob service will return an error and
  nothing will be deleted.  If you are deleting a specific snapshot using the
  snapshotId option, the deleteSnapshots option must NOT be included."  With
  \<open>only\<close> the snapshots go and the blob stays; with \<open>include\<close> both go.\<close>

definition deleteBlob :: "string \<Rightarrow> string \<Rightarrow> DeleteBlobOptions \<Rightarrow> store \<Rightarrow> storage_error + unit \<times> store" where
  "deleteBlob n b opts s =
     (case containers s n of
        None \<Rightarrow> Inl ContainerNotFound
      | Some c \<Rightarrow>
          (case blobs c b of
             None \<Rightarrow> Inl BlobNotFound
           | Some x \<Rightarrow>
               (case write_check (clock s) (Some (blobProps x, blobLease x)) (LeaseAndAccessConditionsOptions.truncate opts) of
                  Some err \<Rightarrow> Inl err
                | None \<Rightarrow>
                    (case (snapshotId opts, deleteSnapshots opts) of
                       (Some sid, Some d) \<Rightarrow> Inl InvalidDeleteOptions
                     | (Some sid, None) \<Rightarrow>
                         if map_of (snapshots x) sid = None then Inl BlobNotFound
                         else Inr ((), tick (put_blob n c b (x\<lparr>snapshots := filter (\<lambda>p. fst p \<noteq> sid) (snapshots x)\<rparr>) s))
                     | (None, None) \<Rightarrow>
                         if snapshots x \<noteq> [] then Inl SnapshotsPresent
                         else Inr ((), tick (put_container n (c\<lparr>blobs := (blobs c)(b := None)\<rparr>) s))
                     | (None, Some d) \<Rightarrow>
                         (case parse_SnapshotDeleteOptions d of
                            None \<Rightarrow> Inl InvalidDeleteOptions
                          | Some SNAPSHOTS_ONLY \<Rightarrow> Inr ((), tick (put_blob n c b (x\<lparr>snapshots := []\<rparr>) s))
                          | Some BLOB_AND_SNAPSHOTS \<Rightarrow> Inr ((), tick (put_container n (c\<lparr>blobs := (blobs c)(b := None)\<rparr>) s)))))))"

definition deleteBlobIfExists :: "string \<Rightarrow> string \<Rightarrow> DeleteBlobOptions \<Rightarrow> store \<Rightarrow> storage_error + bool \<times> store" where
  "deleteBlobIfExists n b opts s =
     (case deleteBlob n b opts s of
        Inl BlobNotFound \<Rightarrow> Inr (False, s)
      | Inl err \<Rightarrow> Inl err
      | Inr (u, s') \<Rightarrow> Inr (True, s'))"

subsection \<open>Blob and container leases\<close>

text \<open>\<open>acquireLease\<close>, \<open>renewLease\<close>, \<open>changeLease\<close>, \<open>releaseLease\<close> and
  \<open>breakLease\<close> of \<open>BlobService\<close>: "If container and blob are specified, acquires
  a blob lease.  Otherwise, if only container is specified and blob is null,
  acquires a container lease."  Each is the lease operation of theory \<open>Lease\<close>
  at the store's clock on the resource's lease, performed only when the
  request's access conditions (their options extend
  \<open>Common.AccessConditionsOptions\<close>) hold for the resource.\<close>

definition blob_lease_op ::
  "string \<Rightarrow> string \<Rightarrow> lease_op \<Rightarrow> conditions option \<Rightarrow> store
   \<Rightarrow> (storage_error + lease_error) + LeaseResult \<times> store" where
  "blob_lease_op n b oper acc s =
     (case containers s n of
        None \<Rightarrow> Inl (Inl ContainerNotFound)
      | Some c \<Rightarrow>
          (case blobs c b of
             None \<Rightarrow> Inl (Inl BlobNotFound)
           | Some x \<Rightarrow>
               if \<not> conditions_hold (value_or Map.empty acc) (Some (blobProps x)) then Inl (Inl ConditionNotMet)
               else (case lease_apply (clock s) oper (blobLease x) of
                       Inl err \<Rightarrow> Inl (Inr err)
                     | Inr (r, l) \<Rightarrow> Inr (r, put_blob n c b (x\<lparr>blobLease := l\<rparr>) s))))"

definition container_lease_op ::
  "string \<Rightarrow> lease_op \<Rightarrow> conditions option \<Rightarrow> store \<Rightarrow> (storage_error + lease_error) + LeaseResult \<times> store" where
  "container_lease_op n oper acc s =
     (case containers s n of
        None \<Rightarrow> Inl (Inl ContainerNotFound)
      | Some c \<Rightarrow>
          if \<not> conditions_hold (value_or Map.empty acc) (Some (containerProps c)) then Inl (Inl ConditionNotMet)
          else (case lease_apply (clock s) oper (containerLease c) of
                  Inl err \<Rightarrow> Inl (Inr err)
                | Inr (r, l) \<Rightarrow> Inr (r, put_container n (c\<lparr>containerLease := l\<rparr>) s)))"

definition lease_request ::
  "string \<Rightarrow> string option \<Rightarrow> lease_op \<Rightarrow> conditions option \<Rightarrow> store
   \<Rightarrow> (storage_error + lease_error) + LeaseResult \<times> store" where
  "lease_request n b oper acc s =
     (case b of Some b' \<Rightarrow> blob_lease_op n b' oper acc s | None \<Rightarrow> container_lease_op n oper acc s)"

subsection \<open>Lemmas\<close>

lemma store_update_simps [simp]:
  "containers (tick s) = containers s"
  "clock (tick s) = Suc (clock s)"
  "containers (put_container n c s) = (containers s)(n \<mapsto> c)"
  "clock (put_container n c s) = clock s"
  by (simp_all add: tick_def put_container_def)

lemma next_sequence_number_le:
  "next_sequence_number act sq cur = Inr v \<Longrightarrow> cur \<le> seq_max \<Longrightarrow> v \<le> seq_max"
  by (auto simp: next_sequence_number_def split: SequenceNumberAction.splits option.splits if_splits)

lemma resolve_blocks_staged:
  "set ids \<subseteq> fst ` set staged \<Longrightarrow>
   resolve_blocks staged committed ids = Some (map (\<lambda>i. (i, the (map_of staged i))) ids)"
proof (induction ids)
  case (Cons i js)
  then obtain t where "map_of staged i = Some t"
    by (auto dest: weak_map_of_SomeI)
  with Cons show ?case by simp
qed simp

lemma resolve_blocks_None:
  "resolve_blocks staged committed ids = None \<longleftrightarrow>
   (\<exists>i\<in>set ids. map_of staged i = None \<and> map_of committed i = None)"
  by (induction ids) (auto split: option.splits)

lemma put_whole_blob_Inr:
  assumes "put_whole_blob n b ty txt blocks sq opts s = Inr (r, s')"
  shows "\<exists>c. containers s n = Some c \<and> r = blob_result n b (write_blob s (blobs c b) ty txt (value_or Map.empty (blobContentMetadata opts)) (blob_content_headers opts) blocks sq)
           \<and> s' = tick (put_blob n (c\<lparr>uncommitted := (uncommitted c)(b := [])\<rparr>) b
                  (write_blob s (blobs c b) ty txt (value_or Map.empty (blobContentMetadata opts)) (blob_content_headers opts) blocks sq) s)"
  using assms by (auto simp: put_whole_blob_def Let_def split: option.splits)

lemma getBlobToText_put_blob [simp]:
  "getBlobToText n b (tick (put_blob n c b x s)) = Inr (content x, blob_result n b x)"
  by (simp add: getBlobToText_def tick_def put_blob_def put_container_def)

lemma createContainer_Inr:
  "createContainer n m a s = Inr (r, s') \<Longrightarrow>
   containers s n = None \<and> s' = tick (put_container n (new_container s m a) s)"
  by (auto simp: createContainer_def Let_def split: option.splits)

lemma blob_at_put_blob [simp]: "blob_at n b (tick (put_blob n c b x s)) = Some x"
  by (simp add: blob_at_def put_blob_def)

lemma write_check_Some_blob:
  assumes "\<not> conditions_ok opts (Some p)"
  shows "write_check now (Some (p, l)) opts \<noteq> None"
  using assms by (auto simp: write_check_def split: option.splits)

lemma put_whole_blob_refused:
  assumes "containers s n = Some c" and "blobs c b = Some x"
    and "\<not> conditions_ok (LeaseAndAccessConditionsOptions.truncate opts) (Some (blobProps x))"
  shows "isl (put_whole_blob n b ty txt blocks sq opts s)"
  using assms write_check_Some_blob [OF assms(3), of "clock s" "blobLease x"]
  by (auto simp: put_whole_blob_def blob_guard_def split: option.splits)

lemma conditions_ok_ifMatch:
  assumes "accessConditions opts = Some (generateIfMatchCondition (decimal k))"
  shows "conditions_ok (LeaseAndAccessConditionsOptions.truncate opts) (Some p) \<longleftrightarrow> etag p = decimal k"
proof -
  have "conditions_hold (generate (IfMatch (decimal k))) (Some p) = spec_holds (IfMatch (decimal k)) (Some p)"
    by (rule generate_contract) (simp add: decimal_not_wildcard)
  then show ?thesis
    using assms by (simp add: conditions_ok_def LeaseAndAccessConditionsOptions.truncate_def)
qed

lemma blob_lease_op_Inr:
  assumes "blob_lease_op n b oper acc s = Inr (lr, s1)"
  obtains c x l where "containers s n = Some c" "blobs c b = Some x"
    "lease_apply (clock s) oper (blobLease x) = Inr (lr, l)" "s1 = put_blob n c b (x\<lparr>blobLease := l\<rparr>) s"
  using assms by (auto simp: blob_lease_op_def split: option.splits sum.splits if_splits)

lemma container_lease_op_Inr:
  assumes "container_lease_op n oper acc s = Inr (lr, s1)"
  obtains c l where "containers s n = Some c"
    "lease_apply (clock s) oper (containerLease c) = Inr (lr, l)" "s1 = put_container n (c\<lparr>containerLease := l\<rparr>) s"
  using assms by (auto simp: container_lease_op_def split: option.splits sum.splits if_splits)

lemma acquire_grants:
  assumes "acquireLease now d p st = Inr (lr, l)"
  shows "\<exists>i dd. lease_id lr = Some i \<and> l = Leased i dd (now + lease_secs dd) \<and> lease_active l now"
  using assms
  by (auto simp: acquireLease_def valid_duration_def grant_def duration_of_def Let_def
      split: if_splits lease_state.splits option.splits)

lemma update_blob_Inr:
  assumes "update_blob n b opts f s = Inr (r, s')"
  obtains c x x' where "containers s n = Some c" "blobs c b = Some x"
    "write_check (clock s) (Some (blobProps x, blobLease x)) opts = None"
    "f x = Inr (r, x')" "s' = tick (put_blob n c b x' s)"
  using assms by (auto simp: update_blob_def split: option.splits sum.splits)

end
