(* ===== verification/PageBlob.thy ===== *)
theory PageBlob
  imports BlobStore
begin

text \<open>
  The pages of a page blob (\<open>src/azure/azure-storage.d.ts\<close>):
  \<open>createPagesFromStream\<close> (lines 1322--1341), \<open>clearPageRange\<close> (974--992),
  \<open>listPageRanges\<close> (1877--1891) with \<open>ListPageRangesOptions\<close> (2401--2407) and
  \<open>PageRangesResult\<close> (2186), and \<open>resizePageBlob\<close> (1933--1949).  A page blob is
  a sequence of 512-byte pages; a blob records, besides its content, the
  sorted list of its valid pages (\<open>validPages\<close>): those written since they
  were last cleared.  A page write or clear covers whole pages, from a
  \<open>rangeStart\<close> on a page boundary to a \<open>rangeEnd\<close> just before one, inside the
  blob; \<open>listPageRanges\<close> reports the valid pages as maximal runs of bytes.  The
  stream of \<open>createPagesFromStream\<close> is modelled by the text it delivers.
\<close>

text \<open>A byte range of whole pages inside a blob of \<open>len\<close> bytes.\<close>

definition page_range_ok :: "nat \<Rightarrow> nat \<Rightarrow> nat \<Rightarrow> bool" where
  "page_range_ok len rangeStart rangeEnd =
     (rangeStart mod PAGE_SIZE = 0 \<and> Suc rangeEnd mod PAGE_SIZE = 0 \<and> rangeStart \<le> rangeEnd \<and> rangeEnd < len)"

definition range_pages :: "nat \<Rightarrow> nat \<Rightarrow> nat list" where
  "range_pages rangeStart rangeEnd = [rangeStart div PAGE_SIZE..<Suc rangeEnd div PAGE_SIZE]"

text \<open>The bytes of \<open>txt\<close> with those from \<open>a\<close> on replaced by \<open>d\<close>.\<close>

definition splice_at :: "string \<Rightarrow> nat \<Rightarrow> string \<Rightarrow> string" where
  "splice_at txt a d = take a txt @ d @ drop (a + length d) txt"

definition add_pages :: "nat list \<Rightarrow> nat list \<Rightarrow> nat list" where
  "add_pages ps qs = sorted_list_of_set (set ps \<union> set qs)"

definition remove_pages :: "nat list \<Rightarrow> nat list \<Rightarrow> nat list" where
  "remove_pages ps qs = filter (\<lambda>q. q \<notin> set qs) ps"

text \<open>The frame of a page operation: a page blob and a range of whole pages.\<close>

definition page_update ::
  "nat \<Rightarrow> nat \<Rightarrow> (blob \<Rightarrow> storage_error + 'r \<times> blob) \<Rightarrow> blob \<Rightarrow> storage_error + 'r \<times> blob" where
  "page_update rangeStart rangeEnd f x =
     (if blobType x \<noteq> PageBlob then Inl InvalidBlobType
      else if \<not> page_range_ok (length (content x)) rangeStart rangeEnd then Inl InvalidPageRange
      else f x)"

text \<open>\<open>createPagesFromStream\<close>: "Updates a page blob from a stream"; the stream
  must deliver exactly the bytes of the range.\<close>

definition createPagesFromStream ::
  "string \<Rightarrow> string \<Rightarrow> string \<Rightarrow> nat \<Rightarrow> nat \<Rightarrow> LeaseAndAccessConditionsOptions \<Rightarrow> store
   \<Rightarrow> storage_error + BlobResult \<times> store" where
  "createPagesFromStream n b readStream rangeStart rangeEnd opts s =
     update_blob n b opts
       (page_update rangeStart rangeEnd
          (\<lambda>x. if length readStream \<noteq> Suc rangeEnd - rangeStart then Inl InvalidPageRange
               else let x' = x\<lparr>content := splice_at (content x) rangeStart readStream,
                               validPages := add_pages (validPages x) (range_pages rangeStart rangeEnd),
                               blobProps := fresh_props s\<rparr>
                    in Inr (blob_result n b x', x'))) s"

text \<open>\<open>clearPageRange\<close>: "Clears a range of pages": they read as zeros and are
  no longer valid.\<close>

definition clearPageRange ::
  "string \<Rightarrow> string \<Rightarrow> nat \<Rightarrow> nat \<Rightarrow> LeaseAndAccessConditionsOptions \<Rightarrow> store \<Rightarrow> storage_error + unit \<times> store" where
  "clearPageRange n b rangeStart rangeEnd opts s =
     update_blob n b opts
       (page_update rangeStart rangeEnd
          (\<lambda>x. Inr ((), x\<lparr>content := splice_at (content x) rangeStart (replicate (Suc rangeEnd - rangeStart) CHR 0x00),
                         validPages := remove_pages (validPages x) (range_pages rangeStart rangeEnd),
                         blobProps := fresh_props s\<rparr>))) s"

text \<open>\<open>resizePageBlob\<close>: the new size is a whole number of pages; pages beyond
  it are dropped, new pages read as zeros.\<close>

definition resizePageBlob ::
  "string \<Rightarrow> string \<Rightarrow> nat \<Rightarrow> LeaseAndAccessConditionsOptions \<Rightarrow> store \<Rightarrow> storage_error + BlobResult \<times> store" where
  "resizePageBlob n b sz opts s =
     update_blob n b opts
       (\<lambda>x. if blobType x \<noteq> PageBlob then Inl InvalidBlobType
            else if sz mod PAGE_SIZE \<noteq> 0 then Inl InvalidPageRange
            else let x' = x\<lparr>content := take sz (content x) @ replicate (sz - length (content x)) CHR 0x00,
                            validPages := filter (\<lambda>q. q < sz div PAGE_SIZE) (validPages x),
                            blobProps := fresh_props s\<rparr>
                 in Inr (blob_result n b x', x')) s"

subsection \<open>Listing page ranges\<close>

text \<open>Maximal runs of consecutive pages, as first and last page.\<close>

fun page_runs :: "nat list \<Rightarrow> (nat \<times> nat) list" where
  "page_runs [] = []"
| "page_runs (q # qs) =
     (case page_runs qs of
        [] \<Rightarrow> [(q, q)]
      | (a, e) # rs \<Rightarrow> if Suc q = a then (q, e) # rs else (q, q) # (a, e) # rs)"

text \<open>An element of \<open>BlobService.PageRangesResult\<close>: \<open>{start, end}\<close>, bytes.\<close>

record PageRange =
  pageStart :: nat
  pageEnd :: nat

definition byte_range :: "nat \<times> nat \<Rightarrow> PageRange" where
  "byte_range r = \<lparr>pageStart = PAGE_SIZE * fst r, pageEnd = PAGE_SIZE * Suc (snd r) - 1\<rparr>"

text \<open>\<open>ListPageRangesOptions\<close>: \<open>rangeStart\<close> and \<open>rangeEnd\<close> are decimal strings;
  only the pages that meet the range are listed when both are given.\<close>

record ListPageRangesOptions = LeaseAndAccessConditionsOptions +
  listRangeStart :: "string option"
  listRangeEnd :: "string option"

definition page_window :: "ListPageRangesOptions \<Rightarrow> (nat \<Rightarrow> bool) option" where
  "page_window opts =
     (case (listRangeStart opts, listRangeEnd opts) of
        (Some a, Some e) \<Rightarrow>
          (case (parse_decimal a, parse_decimal e) of
             (Some lo, Some hi) \<Rightarrow> Some (\<lambda>q. PAGE_SIZE * q \<le> hi \<and> lo < PAGE_SIZE * Suc q)
           | _ \<Rightarrow> None)
      | _ \<Rightarrow> Some (\<lambda>q. True))"

definition listPageRanges ::
  "string \<Rightarrow> string \<Rightarrow> ListPageRangesOptions \<Rightarrow> store \<Rightarrow> storage_error + PageRange list" where
  "listPageRanges n b opts s =
     (case blob_at n b s of
        None \<Rightarrow> (case containers s n of None \<Rightarrow> Inl ContainerNotFound | Some c \<Rightarrow> Inl BlobNotFound)
      | Some x \<Rightarrow>
          if blobType x \<noteq> PageBlob then Inl InvalidBlobType
          else (case page_window opts of
                  None \<Rightarrow> Inl InvalidPageRange
                | Some w \<Rightarrow> Inr (map byte_range (page_runs (filter w (validPages x))))))"

text \<open>What a page blob's valid pages satisfy: sorted, and inside the blob.\<close>

definition pages_wf :: "blob \<Rightarrow> bool" where
  "pages_wf x = (sorted_wrt (<) (validPages x) \<and> (\<forall>q\<in>set (validPages x). PAGE_SIZE * Suc q \<le> length (content x)))"

text \<open>The pages a list of runs stands for.\<close>

definition expand_runs :: "(nat \<times> nat) list \<Rightarrow> nat list" where
  "expand_runs rs = concat (map (\<lambda>(a, e). [a..<Suc e]) rs)"

definition all_pages :: ListPageRangesOptions where
  "all_pages = \<lparr>accessConditions = None, leaseId = None, listRangeStart = None, listRangeEnd = None\<rparr>"


subsection \<open>Lemmas\<close>

lemma length_splice: "a + length d \<le> length txt \<Longrightarrow> length (splice_at txt a d) = length txt"
  by (simp add: splice_at_def)

lemma take_drop_splice: "a + length d \<le> length txt \<Longrightarrow> take (length d) (drop a (splice_at txt a d)) = d"
  by (simp add: splice_at_def)

lemma page_range_bytes:
  assumes "page_range_ok len a e"
  shows "a + (Suc e - a) \<le> len" and "a div PAGE_SIZE * PAGE_SIZE = a" and "Suc e div PAGE_SIZE * PAGE_SIZE = Suc e"
  using assms by (auto simp: page_range_ok_def PAGE_SIZE_def)

lemma range_pages_inside:
  assumes "page_range_ok len a e" and "q \<in> set (range_pages a e)"
  shows "PAGE_SIZE * Suc q \<le> len"
proof -
  from assms(2) have "Suc q \<le> Suc e div PAGE_SIZE" by (simp add: range_pages_def)
  then have "PAGE_SIZE * Suc q \<le> PAGE_SIZE * (Suc e div PAGE_SIZE)" by (rule mult_le_mono2)
  also have "\<dots> = Suc e" using page_range_bytes(3) [OF assms(1)] by (simp add: mult.commute)
  finally show ?thesis using assms(1) by (simp add: page_range_ok_def)
qed

lemma pages_wf_updates [simp]:
  "pages_wf (x\<lparr>blobProps := p\<rparr>) = pages_wf x"
  "pages_wf (x\<lparr>blobMetadata := m\<rparr>) = pages_wf x"
  "pages_wf (x\<lparr>snapshots := v\<rparr>) = pages_wf x"
  "pages_wf (x\<lparr>sequenceNumber := q\<rparr>) = pages_wf x"
  "pages_wf (x\<lparr>blobLease := l\<rparr>) = pages_wf x"
  "pages_wf (x\<lparr>blobHeaders := h\<rparr>) = pages_wf x"
  by (simp_all add: pages_wf_def)

lemma pages_wf_grow:
  "pages_wf x \<Longrightarrow> length (content x) \<le> length t \<Longrightarrow> pages_wf (x\<lparr>content := t\<rparr>)"
  by (fastforce simp: pages_wf_def)

lemma pages_wf_write: "pages_wf (write_blob s old ty txt meta hs blocks sq)"
  by (simp add: pages_wf_def write_blob_def)

lemma pages_wf_add:
  assumes "pages_wf x" and "page_range_ok (length (content x)) a e" and "length d = Suc e - a"
  shows "pages_wf (x\<lparr>content := splice_at (content x) a d, validPages := add_pages (validPages x) (range_pages a e),
                     blobProps := p\<rparr>)"
proof -
  have len: "length (splice_at (content x) a d) = length (content x)"
    using page_range_bytes(1) [OF assms(2)] assms(3) by (simp add: length_splice)
  show ?thesis
    using assms(1) range_pages_inside [OF assms(2)] len
    by (auto simp: pages_wf_def add_pages_def)
qed

lemma pages_wf_remove:
  assumes "pages_wf x" and "page_range_ok (length (content x)) a e"
  shows "pages_wf (x\<lparr>content := splice_at (content x) a (replicate (Suc e - a) CHR 0x00),
                     validPages := remove_pages (validPages x) (range_pages a e), blobProps := p\<rparr>)"
proof -
  have len: "length (splice_at (content x) a (replicate (Suc e - a) CHR 0x00)) = length (content x)"
    using page_range_bytes(1) [OF assms(2)] by (simp add: length_splice)
  show ?thesis
    using assms(1) len by (auto simp: pages_wf_def remove_pages_def sorted_wrt_filter)
qed

lemma pages_wf_resize:
  assumes "pages_wf x" and "sz mod PAGE_SIZE = 0"
  shows "pages_wf (x\<lparr>content := take sz (content x) @ replicate (sz - length (content x)) CHR 0x00,
                     validPages := filter (\<lambda>q. q < sz div PAGE_SIZE) (validPages x), blobProps := p\<rparr>)"
proof -
  have "PAGE_SIZE * Suc q \<le> sz" if "q < sz div PAGE_SIZE" for q
  proof -
    from that have "Suc q \<le> sz div PAGE_SIZE" by simp
    then have "PAGE_SIZE * Suc q \<le> PAGE_SIZE * (sz div PAGE_SIZE)" by (rule mult_le_mono2)
    also have "\<dots> = sz" using assms(2) by (metis add_0_right mult_div_mod_eq)
    finally show ?thesis .
  qed
  then show ?thesis
    using assms(1) by (auto simp: pages_wf_def sorted_wrt_filter min_def)
qed

lemma page_runs_props:
  assumes "sorted_wrt (<) qs"
  shows "expand_runs (page_runs qs) = qs \<and> (\<forall>(a, e)\<in>set (page_runs qs). a \<le> e)
         \<and> successively (\<lambda>(a, e) (c, d). Suc e < c) (page_runs qs)"
  using assms
proof (induction qs)
  case Nil
  then show ?case by (simp add: expand_runs_def)
next
  case (Cons q qs)
  then have IH: "expand_runs (page_runs qs) = qs" "\<forall>(a, e)\<in>set (page_runs qs). a \<le> e"
      "successively (\<lambda>(a, e) (c, d). Suc e < c) (page_runs qs)" and lt: "\<forall>y\<in>set qs. q < y"
    by simp_all
  show ?case
  proof (cases "page_runs qs")
    case Nil
    with IH(1) show ?thesis by (simp add: expand_runs_def)
  next
    case (Cons r rs)
    obtain a e where r: "r = (a, e)" by fastforce
    have ae: "a \<le> e" using IH(2) Cons r by auto
    have qs: "qs = [a..<Suc e] @ expand_runs rs"
      using IH(1) Cons r by (simp add: expand_runs_def)
    then have "a \<in> set qs" using ae by auto
    with lt have qa: "q < a" by blast
    show ?thesis
    proof (cases "Suc q = a")
      case True
      have "[q..<Suc e] = q # [a..<Suc e]" using True ae by (simp add: upt_conv_Cons)
      with True Cons r qs IH(2,3) ae show ?thesis
        by (cases rs) (auto simp: expand_runs_def)
    next
      case False
      with qa have "Suc q < a" by simp
      with Cons r qs IH(2,3) ae show ?thesis
        by (auto simp: expand_runs_def)
    qed
  qed
qed



lemma set_expand_runs: "set (expand_runs rs) = (\<Union>(a, e)\<in>set rs. {a..e})"
  by (auto simp: expand_runs_def simp del: upt_Suc)

lemma page_runs_member:
  assumes "sorted_wrt (<) qs"
  shows "q \<in> set qs \<longleftrightarrow> (\<exists>(a, e)\<in>set (page_runs qs). a \<le> q \<and> q \<le> e)"
proof -
  have "set qs = set (expand_runs (page_runs qs))" using page_runs_props [OF assms] by simp
  then show ?thesis by (auto simp: set_expand_runs split_def)
qed

lemma byte_range_covers:
  "a \<le> i div PAGE_SIZE \<Longrightarrow> i div PAGE_SIZE \<le> e \<Longrightarrow> pageStart (byte_range (a, e)) \<le> i \<and> i \<le> pageEnd (byte_range (a, e))"
  by (auto simp: byte_range_def PAGE_SIZE_def)

lemma page_listed:
  assumes "sorted_wrt (<) qs" and "i div PAGE_SIZE \<in> set qs"
  shows "\<exists>pr\<in>set (map byte_range (page_runs qs)). pageStart pr \<le> i \<and> i \<le> pageEnd pr"
  using assms page_runs_member [OF assms(1)] byte_range_covers by fastforce

lemma range_pages_member:
  assumes "page_range_ok len a e" and "a \<le> i" and "i \<le> e"
  shows "i div PAGE_SIZE \<in> set (range_pages a e)"
proof -
  have "a div PAGE_SIZE \<le> i div PAGE_SIZE" using assms(2) by (rule div_le_mono)
  moreover have "i div PAGE_SIZE < Suc e div PAGE_SIZE"
  proof -
    have "i < Suc e div PAGE_SIZE * PAGE_SIZE" using page_range_bytes(3) [OF assms(1)] assms(3) by simp
    then show ?thesis by (simp add: less_mult_imp_div_less)
  qed
  ultimately show ?thesis by (simp add: range_pages_def)
qed


lemma runs_avoid_range:
  assumes sorted: "sorted_wrt (<) qs" and out: "\<forall>q\<in>set qs. q \<notin> set (range_pages a e)"
    and ok: "page_range_ok len a e"
  shows "\<forall>pr\<in>set (map byte_range (page_runs qs)). pageEnd pr < a \<or> e < pageStart pr"
proof
  fix pr assume "pr \<in> set (map byte_range (page_runs qs))"
  then obtain a' e' where r: "(a', e') \<in> set (page_runs qs)" and pr: "pr = byte_range (a', e')" by auto
  have le: "a' \<le> e'" using page_runs_props [OF sorted] r by auto
  show "pageEnd pr < a \<or> e < pageStart pr"
  proof (rule ccontr)
    assume "\<not> (pageEnd pr < a \<or> e < pageStart pr)"
    then have hi: "a < 512 * Suc e'" and lo: "512 * a' \<le> e"
      by (auto simp: pr byte_range_def PAGE_SIZE_def)
    let ?q = "max a' (a div 512)"
    have "a div 512 < Suc e'" using hi by (simp add: less_mult_imp_div_less mult.commute)
    then have "?q \<le> e'" using le by simp
    then have "?q \<in> set qs" using page_runs_member [OF sorted] r by fastforce
    moreover have "?q \<in> set (range_pages a e)"
    proof -
      have "a' \<le> e div 512" using div_le_mono [OF lo, of 512] by simp
      moreover have "e div 512 < Suc e div 512"
        using page_range_bytes(3) [OF ok] by (simp add: less_mult_imp_div_less PAGE_SIZE_def)
      moreover have "a div 512 \<le> e div 512" using ok by (simp add: page_range_ok_def div_le_mono)
      ultimately show ?thesis by (simp add: range_pages_def PAGE_SIZE_def)
    qed
    ultimately show False using out by blast
  qed
qed

lemma listPageRanges_put [simp]:
  "blobType x = PageBlob \<Longrightarrow>
   listPageRanges n b all_pages (tick (put_blob n c b x s)) = Inr (map byte_range (page_runs (validPages x)))"
  by (simp add: listPageRanges_def page_window_def all_pages_def)

text \<open>C35: \<open>listPageRanges\<close> merges the sorted valid pages into runs: the runs,
  expanded, give back exactly the pages in order, each run is non-empty, and two
  consecutive runs are separated by at least one invalid page, so every run is maximal.\<close>

theorem page_runs_correct:
  assumes "sorted_wrt (<) qs"
  shows "expand_runs (page_runs qs) = qs \<and> (\<forall>(a, e)\<in>set (page_runs qs). a \<le> e)
         \<and> successively (\<lambda>(a, e) (c, d). Suc e < c) (page_runs qs)"
  using assms by (rule page_runs_props)

theorem page_runs_correct_witness:
  "page_runs [1, 2, 4] = [(1, 2), (4, 4)] \<and> expand_runs (page_runs [1, 2, 4]) = [1, 2, 4]"
  using page_runs_correct [of "[1, 2, 4]"] by simp

end
