(* ===== verification/BlobProperties.thy ===== *)
theory BlobProperties
  imports BlobStore
begin

text \<open>
  Properties and access control lists of \<open>BlobService\<close>
  (\<open>src/azure/azure-storage.d.ts\<close>): \<open>getBlobProperties\<close> (lines 1602--1618),
  \<open>setBlobProperties\<close> (1969--1985) with \<open>BlobService.Headers\<close> (2188--2199),
  \<open>getContainerProperties\<close> (1703--1715), \<open>getContainerAcl\<close> (1675--1687) and
  \<open>setContainerAcl\<close> (1987--2001) with \<open>Common.SignedIdentifier\<close> (486--497), and
  \<open>generateSharedAccessSignature\<close> (1570--1584).  A container keeps its signed
  identifiers, the stored access policies a shared access signature can name.  A
  signature is a token whose cryptographic signing is not modelled: the model
  keeps what the token carries (the container, the blob, and the
  \<open>SignedIdentifier\<close> it was generated from) and how the service evaluates it:
  a token that names an identifier is governed by the container's stored policy
  of that identifier, so that changing or removing the stored policy changes or
  revokes every token issued under it; a token without an identifier carries its
  own policy.
\<close>

subsection \<open>Reading and writing properties\<close>

text \<open>\<open>getBlobProperties\<close>: "Returns all user-defined metadata, standard HTTP
  properties, and system properties for the blob.  It does not return or modify
  the content of the blob."\<close>

definition getBlobProperties :: "string \<Rightarrow> string \<Rightarrow> store \<Rightarrow> storage_error + BlobResult" where
  "getBlobProperties n b s =
     (case containers s n of
        None \<Rightarrow> Inl ContainerNotFound
      | Some c \<Rightarrow> (case blobs c b of None \<Rightarrow> Inl BlobNotFound | Some x \<Rightarrow> Inr (blob_result n b x)))"

text \<open>\<open>setBlobProperties(container, blob, properties)\<close>: "Sets user-defined properties
  for the specified blob or snapshot.  It does not modify or return the content of
  the blob."  The blob's content headers become the given ones.\<close>

definition setBlobProperties ::
  "string \<Rightarrow> string \<Rightarrow> Headers \<Rightarrow> LeaseAndAccessConditionsOptions \<Rightarrow> store \<Rightarrow> storage_error + BlobResult \<times> store" where
  "setBlobProperties n b hs opts s =
     update_blob n b opts
       (\<lambda>x. let x' = x\<lparr>blobHeaders := hs, blobProps := fresh_props s\<rparr> in Inr (blob_result n b x', x')) s"

text \<open>\<open>getContainerProperties\<close>: "Retrieves a container and its properties".\<close>

definition getContainerProperties :: "string \<Rightarrow> store \<Rightarrow> storage_error + ContainerResult" where
  "getContainerProperties n s =
     (case containers s n of None \<Rightarrow> Inl ContainerNotFound | Some c \<Rightarrow> Inr (container_result n c))"

subsection \<open>Container access control lists\<close>

text \<open>\<open>getContainerAcl\<close>: "Gets the container's ACL"; the result's
  \<open>signedIdentifiers\<close> are the container's.\<close>

definition getContainerAcl :: "string \<Rightarrow> store \<Rightarrow> storage_error + ContainerResult" where
  "getContainerAcl n s =
     (case containers s n of None \<Rightarrow> Inl ContainerNotFound | Some c \<Rightarrow> Inr (container_result n c))"

text \<open>\<open>setContainerAcl(container, signedIdentifiers, options)\<close>: "Updates the
  container's ACL": the container's signed identifiers become the given array,
  under the lease and access conditions of the options.\<close>

definition setContainerAcl ::
  "string \<Rightarrow> SignedIdentifier list \<Rightarrow> LeaseAndAccessConditionsOptions \<Rightarrow> store \<Rightarrow> storage_error + ContainerResult \<times> store" where
  "setContainerAcl n sids opts s =
     (case containers s n of
        None \<Rightarrow> Inl ContainerNotFound
      | Some c \<Rightarrow>
          (case write_check (clock s) (Some (containerProps c, containerLease c)) opts of
             Some err \<Rightarrow> Inl err
           | None \<Rightarrow>
               let c' = c\<lparr>signedIdentifiers := sids, containerProps := fresh_props s\<rparr>
               in Inr (container_result n c', tick (put_container n c' s))))"

subsection \<open>Shared access signatures\<close>

text \<open>What a shared access signature carries: the container, the blob (none for a
  container signature) and the \<open>sharedAccessPolicy\<close> it was generated from.\<close>

record SasToken =
  sasContainer :: string
  sasBlob :: "string option"
  sasPolicy :: SignedIdentifier

text \<open>\<open>generateSharedAccessSignature(container, blob, sharedAccessPolicy)\<close> and
  its container overload (blob omitted).\<close>

definition generateSharedAccessSignature :: "string \<Rightarrow> string option \<Rightarrow> SignedIdentifier \<Rightarrow> SasToken" where
  "generateSharedAccessSignature n b pol = \<lparr>sasContainer = n, sasBlob = b, sasPolicy = pol\<rparr>"

text \<open>The stored policy of an identifier: the first signed identifier of the list
  with that \<open>Id\<close>.\<close>

definition stored_policy :: "SignedIdentifier list \<Rightarrow> string \<Rightarrow> AccessPolicy option" where
  "stored_policy sids i =
     (case find (\<lambda>si. Id si = Some i) sids of None \<Rightarrow> None | Some si \<Rightarrow> AccessPolicy si)"

text \<open>The policy that governs a token in a store: the stored policy of its
  identifier when it names one (none if the container has no such identifier, or
  no longer exists), its own policy otherwise.\<close>

definition sas_policy :: "store \<Rightarrow> SasToken \<Rightarrow> AccessPolicy option" where
  "sas_policy s tok =
     (case Id (sasPolicy tok) of
        None \<Rightarrow> AccessPolicy (sasPolicy tok)
      | Some i \<Rightarrow> (case containers s (sasContainer tok) of
                    None \<Rightarrow> None
                  | Some c \<Rightarrow> stored_policy (signedIdentifiers c) i))"

text \<open>Whether the service grants blob permission \<open>p\<close> at time \<open>t\<close> to a request
  carrying the token.\<close>

definition sas_grants :: "store \<Rightarrow> SasToken \<Rightarrow> nat \<Rightarrow> BlobSharedAccessPermissions \<Rightarrow> bool" where
  "sas_grants s tok t p =
     (case sas_policy s tok of None \<Rightarrow> False | Some pol \<Rightarrow> policy_grants Blob_SharedAccessPermissions pol t p)"

end
