(* ===== verification/CopyBlob.thy ===== *)
theory CopyBlob
  imports BlobStore ServiceClient
begin

text \<open>
  \<open>BlobService.startCopyBlob\<close> (\<open>src/azure/azure-storage.d.ts\<close>, lines
  2057--2073) with \<open>StartCopyOptions\<close> (2409--2417): "Starts to copy a blob to a
  destination within the storage account.  The Copy Blob operation copies the
  entire committed blob."  The source is named by its URI, as \<open>getUrl\<close> (theory
  \<open>ServiceClient\<close>) builds it: the endpoint of the client's account, the
  container, the blob, and possibly a query string.  A copy within the account
  completes at once, so the model copies synchronously: the source must exist
  and satisfy its lease identifier and access conditions, the destination is
  written under its own, and the destination then holds the source's type,
  content, blocks, pages and headers, with the options' metadata if any and the
  source's otherwise.  \<open>abortCopyBlob\<close> (lines 784--800) therefore finds no
  pending copy.
\<close>

text \<open>\<open>BlobService.StartCopyOptions\<close>: the destination's lease and access
  conditions, the metadata, and the source's lease identifier and access
  conditions.\<close>

record StartCopyOptions = LeaseAndAccessConditionsOptions +
  copyMetadata :: "metadata option"
  sourceLeaseId :: "string option"
  sourceAccessConditions :: "conditions option"

text \<open>A URI's container and blob, when it is a blob URI of the client's account:
  the endpoint and a slash, the container up to the next slash, the blob up to
  the query string.\<close>

definition parse_blob_url :: "StorageServiceClient \<Rightarrow> string \<Rightarrow> (string \<times> string) option" where
  "parse_blob_url c uri =
     (case location_host c PRIMARY of
        None \<Rightarrow> None
      | Some h \<Rightarrow>
          if take (Suc (length h)) uri \<noteq> h @ ''/'' then None
          else (let p = takeWhile (\<lambda>ch. ch \<noteq> CHR ''?'') (drop (Suc (length h)) uri);
                    n = takeWhile (\<lambda>ch. ch \<noteq> CHR ''/'') p;
                    rest = dropWhile (\<lambda>ch. ch \<noteq> CHR ''/'') p
                in if rest = [] then None else Some (n, tl rest)))"

text \<open>The source's lease rule for \<open>sourceLeaseId\<close>: when given, it must be the
  source's active lease.\<close>

definition source_lease_ok :: "nat \<Rightarrow> lease_state \<Rightarrow> string option \<Rightarrow> bool" where
  "source_lease_ok now l lid =
     (case lid of
        None \<Rightarrow> True
      | Some i \<Rightarrow> lease_active l now \<and> (case l of Leased j d e \<Rightarrow> i = j | Breaking j e \<Rightarrow> i = j | _ \<Rightarrow> False))"

definition startCopyBlob ::
  "StorageServiceClient \<Rightarrow> string \<Rightarrow> string \<Rightarrow> string \<Rightarrow> StartCopyOptions \<Rightarrow> store
   \<Rightarrow> storage_error + BlobResult \<times> store" where
  "startCopyBlob cl sourceUri tn tb opts s =
     (case parse_blob_url cl sourceUri of
        None \<Rightarrow> Inl InvalidUri
      | Some (sn, sb) \<Rightarrow>
          (case blob_at sn sb s of
             None \<Rightarrow> (case containers s sn of None \<Rightarrow> Inl ContainerNotFound | Some _ \<Rightarrow> Inl BlobNotFound)
           | Some x \<Rightarrow>
               if \<not> source_lease_ok (clock s) (blobLease x) (sourceLeaseId opts) then Inl LeaseIdMismatchWithBlobOperation
               else if \<not> conditions_hold (value_or Map.empty (sourceAccessConditions opts)) (Some (blobProps x))
               then Inl ConditionNotMet
               else (case containers s tn of
                       None \<Rightarrow> Inl ContainerNotFound
                     | Some c \<Rightarrow>
                         (case write_check (clock s) (blob_guard (blobs c tb)) (LeaseAndAccessConditionsOptions.truncate opts) of
                            Some err \<Rightarrow> Inl err
                          | None \<Rightarrow>
                              let old = blobs c tb;
                                  y = x\<lparr>blobProps := fresh_props s,
                                        blobMetadata := value_or (blobMetadata x) (copyMetadata opts),
                                        snapshots := (case old of None \<Rightarrow> [] | Some z \<Rightarrow> snapshots z),
                                        blobLease := (case old of None \<Rightarrow> Available | Some z \<Rightarrow> blobLease z)\<rparr>
                              in Inr (blob_result tn tb y,
                                     tick (put_blob tn (c\<lparr>uncommitted := (uncommitted c)(tb := [])\<rparr>) tb y s))))))"

text \<open>\<open>abortCopyBlob(container, blob, copyid, options)\<close>: "Abort a blob copy
  operation" on the destination blob, under its lease (\<open>LeaseIdOptions\<close>).  A
  copy of the model completes within \<open>startCopyBlob\<close>, so no copy is ever pending
  and the service answers \<open>NoPendingCopyOperation\<close>, leaving the blob as it is.\<close>

definition abortCopyBlob ::
  "string \<Rightarrow> string \<Rightarrow> string \<Rightarrow> LeaseAndAccessConditionsOptions \<Rightarrow> store \<Rightarrow> storage_error + BlobResult \<times> store" where
  "abortCopyBlob n b copyid opts s =
     (case containers s n of
        None \<Rightarrow> Inl ContainerNotFound
      | Some c \<Rightarrow>
          (case blobs c b of
             None \<Rightarrow> Inl BlobNotFound
           | Some x \<Rightarrow>
               (case lease_check (clock s) (blobLease x) (leaseId opts) of
                  Some err \<Rightarrow> Inl err
                | None \<Rightarrow> Inl NoPendingCopyOperation)))"


subsection \<open>Lemmas\<close>

lemma parse_getUrl:
  assumes "getUrl c n (Some b) sas True = Some u" and "CHR ''/'' \<notin> set n"
    and "CHR ''?'' \<notin> set n" and "CHR ''?'' \<notin> set b"
  shows "parse_blob_url c u = Some (n, b)"
proof -
  obtain h where h: "location_host c PRIMARY = Some h"
    and u: "u = h @ ''/'' @ n @ ''/'' @ b @ (case sas of None \<Rightarrow> [] | Some t \<Rightarrow> ''?'' @ t)"
    using assms(1) by (auto simp: getUrl_def)
  have tw: "takeWhile (\<lambda>ch. ch \<noteq> CHR ''?'') (n @ ''/'' @ b @ (case sas of None \<Rightarrow> [] | Some t \<Rightarrow> ''?'' @ t))
            = n @ ''/'' @ b"
  proof -
    have "\<forall>x\<in>set n. x \<noteq> CHR ''?''" "\<forall>x\<in>set b. x \<noteq> CHR ''?''" using assms(3,4) by auto
    then show ?thesis by (cases sas) (simp_all add: takeWhile_append2)
  qed
  have "takeWhile (\<lambda>ch. ch \<noteq> CHR ''/'') (n @ ''/'' @ b) = n"
    and "dropWhile (\<lambda>ch. ch \<noteq> CHR ''/'') (n @ ''/'' @ b) = ''/'' @ b"
  proof -
    have "\<forall>x\<in>set n. x \<noteq> CHR ''/''" using assms(2) by auto
    then show "takeWhile (\<lambda>ch. ch \<noteq> CHR ''/'') (n @ ''/'' @ b) = n"
      and "dropWhile (\<lambda>ch. ch \<noteq> CHR ''/'') (n @ ''/'' @ b) = ''/'' @ b"
      by (simp_all add: takeWhile_append2 dropWhile_append2)
  qed
  then show ?thesis
    using h tw by (simp add: parse_blob_url_def u Let_def)
qed

text \<open>C32: the URI \<open>getUrl\<close> builds for a blob on the primary endpoint reads back
  as that container and blob (whatever query string it carries), when the
  container name has no slash and neither name has a question mark.\<close>

theorem parse_getUrl_roundtrip:
  assumes "getUrl c n (Some b) sas True = Some u" and "CHR ''/'' \<notin> set n"
    and "CHR ''?'' \<notin> set n" and "CHR ''?'' \<notin> set b"
  shows "parse_blob_url c u = Some (n, b)"
  using assms by (rule parse_getUrl)

theorem parse_getUrl_roundtrip_witness:
  "parse_blob_url (createBlobService ''acct'' ''key'' (Some (HostString ''https://acct.blob'')))
     (the (getUrl (createBlobService ''acct'' ''key'' (Some (HostString ''https://acct.blob''))) ''c'' (Some ''b'') (Some ''sig'') True))
   = Some (''c'', ''b'')"
proof -
  let ?c = "createBlobService ''acct'' ''key'' (Some (HostString ''https://acct.blob''))"
  have "getUrl ?c ''c'' (Some ''b'') (Some ''sig'') True = Some (the (getUrl ?c ''c'' (Some ''b'') (Some ''sig'') True))"
    by (simp add: getUrl_def createBlobService_def new_BlobService_def location_host_def new_StorageServiceClient_def
        Let_def normalize_host_def)
  from parse_getUrl_roundtrip [OF this] show ?thesis by simp
qed

end
