(* ===== verification/BlobService.thy ===== *)
theory BlobService
  imports BlobStore PageBlob BlobProperties CopyBlob
begin

text \<open>
  The blob service as a state machine: the operations of theories \<open>BlobStore\<close>
  and \<open>PageBlob\<close> that change the store, named by \<open>store_op\<close> and applied by
  \<open>store_apply\<close>; a step is an operation that succeeds or the clock advancing,
  and \<open>store_reachable\<close> holds of the stores reachable from an empty account.
  The invariant \<open>store_wf\<close> is preserved by every operation (one lemma per
  operation), hence holds in every reachable store; the properties of the
  operations are proved here, with witnesses built by \<open>run_ops\<close> from an empty
  account.
\<close>

subsection \<open>The service as a state machine\<close>

text \<open>The operations that change the store, with their arguments, and one step
  of the service: an operation that succeeds, or the clock advancing.\<close>

datatype store_op =
    OpCreateContainer string metadata BlobContainerPublicAccessType
  | OpDeleteContainer string "string option"
  | OpSetContainerMetadata string metadata LeaseAndAccessConditionsOptions
  | OpCreateBlockBlob string string string BlobContentOptions
  | OpCreateBlock string string string string LeaseAndAccessConditionsOptions
  | OpCommitBlocks string string "string list" BlobContentOptions
  | OpCreateAppendBlob string string BlobContentOptions
  | OpAppendBlock string string string AppendBlockOptions
  | OpCreatePageBlob string string nat PageBlobContentOptions
  | OpSetSequenceNumber string string SequenceNumberAction "nat option" LeaseAndAccessConditionsOptions
  | OpSetBlobMetadata string string metadata LeaseAndAccessConditionsOptions
  | OpCreateSnapshot string string LeaseAndAccessConditionsOptions
  | OpDeleteBlob string string DeleteBlobOptions
  | OpLease string "string option" lease_op "conditions option"
  | OpCreatePages string string string nat nat LeaseAndAccessConditionsOptions
  | OpClearPages string string nat nat LeaseAndAccessConditionsOptions
  | OpResizePageBlob string string nat LeaseAndAccessConditionsOptions
  | OpSetBlobProperties string string Headers LeaseAndAccessConditionsOptions
  | OpSetContainerAcl string "SignedIdentifier list" LeaseAndAccessConditionsOptions
  | OpStartCopy StorageServiceClient string string string StartCopyOptions

definition new_store :: "('e + 'r \<times> store) \<Rightarrow> store option" where
  "new_store r = (case r of Inl e \<Rightarrow> None | Inr (v, s') \<Rightarrow> Some s')"

fun store_apply :: "store_op \<Rightarrow> store \<Rightarrow> store option" where
  "store_apply (OpCreateContainer n m a) s = new_store (createContainer n m a s)"
| "store_apply (OpDeleteContainer n l) s = new_store (deleteContainer n l s)"
| "store_apply (OpSetContainerMetadata n m o') s = new_store (setContainerMetadata n m o' s)"
| "store_apply (OpCreateBlockBlob n b t o') s = new_store (createBlockBlobFromText n b t o' s)"
| "store_apply (OpCreateBlock i n b t o') s = new_store (createBlockFromText i n b t o' s)"
| "store_apply (OpCommitBlocks n b is o') s = new_store (commitBlocks n b is o' s)"
| "store_apply (OpCreateAppendBlob n b o') s = new_store (createOrReplaceAppendBlob n b o' s)"
| "store_apply (OpAppendBlock n b t o') s = new_store (appendBlockFromText n b t o' s)"
| "store_apply (OpCreatePageBlob n b l o') s = new_store (createPageBlob n b l o' s)"
| "store_apply (OpSetSequenceNumber n b a v o') s = new_store (setPageBlobSequenceNumber n b a v o' s)"
| "store_apply (OpSetBlobMetadata n b m o') s = new_store (setBlobMetadata n b m o' s)"
| "store_apply (OpCreateSnapshot n b o') s = new_store (createBlobSnapshot n b o' s)"
| "store_apply (OpDeleteBlob n b o') s = new_store (deleteBlob n b o' s)"
| "store_apply (OpLease n b l a) s = new_store (lease_request n b l a s)"
| "store_apply (OpCreatePages n b d a e o') s = new_store (createPagesFromStream n b d a e o' s)"
| "store_apply (OpClearPages n b a e o') s = new_store (clearPageRange n b a e o' s)"
| "store_apply (OpResizePageBlob n b z o') s = new_store (resizePageBlob n b z o' s)"
| "store_apply (OpSetBlobProperties n b h o') s = new_store (setBlobProperties n b h o' s)"
| "store_apply (OpSetContainerAcl n a o') s = new_store (setContainerAcl n a o' s)"
| "store_apply (OpStartCopy cl u n b o') s = new_store (startCopyBlob cl u n b o' s)"

inductive store_step :: "store \<Rightarrow> store \<Rightarrow> bool" where
  wait: "store_step s (tick s)"
| apply_op: "store_apply oper s = Some s' \<Longrightarrow> store_step s s'"

text \<open>A sequence of operations, each on the store the previous one left; the
  sequence stops at the first failure.\<close>

fun run_ops :: "store_op list \<Rightarrow> store \<Rightarrow> store option" where
  "run_ops [] s = Some s"
| "run_ops (oper # ops) s = Option.bind (store_apply oper s) (run_ops ops)"

definition empty_store :: store where
  "empty_store = \<lparr>containers = Map.empty, clock = 0\<rparr>"

inductive store_reachable :: "store \<Rightarrow> bool" where
  start: "store_reachable empty_store"
| step: "store_reachable s \<Longrightarrow> store_step s s' \<Longrightarrow> store_reachable s'"

text \<open>The invariant of the store: every resource was written before the current
  time and carries the ETag of its write, every sequence number is in range,
  and every lease is well formed (\<open>lease_wf\<close>).\<close>

definition resource_wf :: "nat \<Rightarrow> resource \<Rightarrow> bool" where
  "resource_wf now r = (lastModified r < now \<and> etag r = decimal (lastModified r))"

definition blob_wf :: "nat \<Rightarrow> blob \<Rightarrow> bool" where
  "blob_wf now x =
     (resource_wf now (blobProps x) \<and> sequenceNumber x \<le> seq_max \<and> lease_wf now (blobLease x) \<and> pages_wf x)"

definition container_wf :: "nat \<Rightarrow> container \<Rightarrow> bool" where
  "container_wf now c =
     (resource_wf now (containerProps c) \<and> lease_wf now (containerLease c) \<and> finite (dom (blobs c))
      \<and> (\<forall>x\<in>ran (blobs c). blob_wf now x))"

definition store_wf :: "store \<Rightarrow> bool" where
  "store_wf s = (finite (dom (containers s)) \<and> (\<forall>c\<in>ran (containers s). container_wf (clock s) c))"

subsection \<open>Lemmas\<close>

lemma resource_wf_Suc: "resource_wf now r \<Longrightarrow> resource_wf (Suc now) r"
  by (simp add: resource_wf_def)

lemma blob_wf_Suc: "blob_wf now x \<Longrightarrow> blob_wf (Suc now) x"
  by (simp add: blob_wf_def resource_wf_Suc lease_wf_tick)

lemma container_wf_Suc: "container_wf now c \<Longrightarrow> container_wf (Suc now) c"
  by (simp add: container_wf_def resource_wf_Suc lease_wf_tick blob_wf_Suc)

lemma resource_wf_fresh: "resource_wf (Suc (clock s)) (fresh_props s)"
  by (simp add: resource_wf_def fresh_props_def)

lemma store_wf_tick: "store_wf s \<Longrightarrow> store_wf (tick s)"
  by (simp add: store_wf_def tick_def container_wf_Suc)

lemma store_wf_put_container:
  "store_wf s \<Longrightarrow> container_wf (clock s) c \<Longrightarrow> store_wf (put_container n c s)"
  unfolding store_wf_def put_container_def using ran_upd_subset by fastforce

lemma store_wf_put_tick:
  "store_wf s \<Longrightarrow> container_wf (Suc (clock s)) c \<Longrightarrow> store_wf (tick (put_container n c s))"
  unfolding store_wf_def put_container_def tick_def using ran_upd_subset container_wf_Suc by fastforce

lemma store_wf_delete:
  "store_wf s \<Longrightarrow> store_wf (tick (s\<lparr>containers := (containers s)(n := None)\<rparr>))"
  unfolding store_wf_def tick_def using ran_del_subset container_wf_Suc by fastforce

lemma store_wf_container:
  "store_wf s \<Longrightarrow> containers s n = Some c \<Longrightarrow> container_wf (clock s) c"
  by (auto simp: store_wf_def ran_def)

lemma container_wf_blob:
  "container_wf now c \<Longrightarrow> blobs c b = Some x \<Longrightarrow> blob_wf now x"
  by (auto simp: container_wf_def ran_def)

lemma container_wf_put_blob:
  "container_wf now c \<Longrightarrow> blob_wf now x \<Longrightarrow> container_wf now (c\<lparr>blobs := (blobs c)(b \<mapsto> x)\<rparr>)"
  unfolding container_wf_def using ran_upd_subset by fastforce

lemma container_wf_del_blob:
  "container_wf now c \<Longrightarrow> container_wf now (c\<lparr>blobs := (blobs c)(b := None)\<rparr>)"
  unfolding container_wf_def using ran_del_subset by fastforce

lemma container_wf_uncommitted [simp]:
  "container_wf now (c\<lparr>uncommitted := u\<rparr>) = container_wf now c"
  by (simp add: container_wf_def)

lemma blob_wf_write:
  assumes "case old of None \<Rightarrow> True | Some y \<Rightarrow> blob_wf (clock s) y" and "sq \<le> seq_max"
  shows "blob_wf (Suc (clock s)) (write_blob s old ty txt meta hs blocks sq)"
  using assms by (auto simp: blob_wf_def write_blob_def resource_wf_fresh pages_wf_def lease_wf_tick split: option.splits)

lemma put_whole_blob_wf:
  assumes "put_whole_blob n b ty txt blocks sq opts s = Inr (r, s')" and "store_wf s" and "sq \<le> seq_max"
  shows "store_wf s'"
proof -
  obtain c where c: "containers s n = Some c" and cwf: "container_wf (clock s) c"
    using assms(1,2) by (auto simp: put_whole_blob_def store_wf_container split: option.splits)
  have old: "case blobs c b of None \<Rightarrow> True | Some y \<Rightarrow> blob_wf (clock s) y"
    using cwf by (auto split: option.splits intro: container_wf_blob)
  let ?x = "write_blob s (blobs c b) ty txt (value_or Map.empty (blobContentMetadata opts)) (blob_content_headers opts) blocks sq"
  have "container_wf (Suc (clock s)) ((c\<lparr>uncommitted := (uncommitted c)(b := [])\<rparr>)\<lparr>blobs := (blobs c)(b \<mapsto> ?x)\<rparr>)"
  proof -
    have "container_wf (Suc (clock s)) (c\<lparr>uncommitted := (uncommitted c)(b := [])\<rparr>)"
      using container_wf_Suc [OF cwf] by simp
    from container_wf_put_blob [OF this blob_wf_write [OF old assms(3)], of b]
    show ?thesis by simp
  qed
  then show ?thesis
    using assms(1,2) c by (auto simp: put_whole_blob_def put_blob_def Let_def intro: store_wf_put_tick split: option.splits)
qed

lemma update_blob_wf:
  assumes "update_blob n b opts f s = Inr (r, s')" and "store_wf s"
    and "\<And>x r x'. blob_wf (clock s) x \<Longrightarrow> f x = Inr (r, x') \<Longrightarrow> blob_wf (Suc (clock s)) x'"
  shows "store_wf s'"
proof -
  obtain c x r0 x' where c: "containers s n = Some c" and x: "blobs c b = Some x"
    and f: "f x = Inr (r0, x')" and s': "s' = tick (put_blob n c b x' s)"
    using assms(1) by (auto simp: update_blob_def split: option.splits sum.splits)
  have cwf: "container_wf (clock s) c" using store_wf_container [OF assms(2) c] .
  have "blob_wf (Suc (clock s)) x'" using assms(3) [OF container_wf_blob [OF cwf x] f] .
  then have "container_wf (Suc (clock s)) (c\<lparr>blobs := (blobs c)(b \<mapsto> x')\<rparr>)"
    by (rule container_wf_put_blob [OF container_wf_Suc [OF cwf]])
  then show ?thesis unfolding s' put_blob_def by (rule store_wf_put_tick [OF assms(2)])
qed

lemma blob_wf_updates [simp]:
  "blob_wf now (x\<lparr>snapshots := v\<rparr>) = blob_wf now x"
  "blob_wf now (x\<lparr>blobMetadata := m\<rparr>) = blob_wf now x"
  by (simp_all add: blob_wf_def)

lemma blob_wf_refresh:
  "blob_wf (clock s) x \<Longrightarrow> v \<le> seq_max \<Longrightarrow> blob_wf (Suc (clock s)) (x\<lparr>sequenceNumber := v, blobProps := fresh_props s\<rparr>)"
  "blob_wf (clock s) x \<Longrightarrow> blob_wf (Suc (clock s)) (x\<lparr>blobProps := fresh_props s\<rparr>)"
  "blob_wf (clock s) x \<Longrightarrow> blob_wf (Suc (clock s)) (x\<lparr>blobHeaders := h, blobProps := fresh_props s\<rparr>)"
  by (simp_all add: blob_wf_def resource_wf_fresh lease_wf_tick)

lemma container_wf_new: "container_wf (Suc (clock s)) (new_container s meta acc)"
  by (simp add: container_wf_def new_container_def resource_wf_fresh)

lemma container_wf_refresh:
  "container_wf (clock s) c \<Longrightarrow> container_wf (Suc (clock s)) (c\<lparr>containerMetadata := m, containerProps := fresh_props s\<rparr>)"
  "container_wf (clock s) c \<Longrightarrow> container_wf (Suc (clock s)) (c\<lparr>signedIdentifiers := a, containerProps := fresh_props s\<rparr>)"
  using container_wf_Suc [of "clock s" c] by (simp_all add: container_wf_def resource_wf_fresh)

lemma store_wf_put_blob:
  "store_wf s \<Longrightarrow> containers s n = Some c \<Longrightarrow> blob_wf (clock s) x \<Longrightarrow> store_wf (put_blob n c b x s)"
  unfolding put_blob_def
  by (rule store_wf_put_container) (auto intro: container_wf_put_blob store_wf_container)

lemma store_wf_blob:
  "store_wf s \<Longrightarrow> containers s n = Some c \<Longrightarrow> blobs c b = Some x \<Longrightarrow> blob_wf (clock s) x"
  by (blast intro: container_wf_blob store_wf_container)

lemma blob_wf_copy:
  assumes "blob_wf (clock s) x" and "case old of None \<Rightarrow> True | Some z \<Rightarrow> blob_wf (clock s) z"
  shows "blob_wf (Suc (clock s)) (x\<lparr>blobProps := fresh_props s, blobMetadata := m,
           snapshots := (case old of None \<Rightarrow> [] | Some z \<Rightarrow> snapshots z),
           blobLease := (case old of None \<Rightarrow> Available | Some z \<Rightarrow> blobLease z)\<rparr>)"
  using assms by (auto simp: blob_wf_def resource_wf_fresh lease_wf_tick split: option.splits)

lemma startCopyBlob_wf:
  assumes "startCopyBlob cl u n b o' s = Inr (r, s')" and "store_wf s"
  shows "store_wf s'"
proof -
  obtain sn sb x c where x: "blob_at sn sb s = Some x" and c: "containers s n = Some c"
    and s': "s' = tick (put_blob n (c\<lparr>uncommitted := (uncommitted c)(b := [])\<rparr>) b
       (x\<lparr>blobProps := fresh_props s, blobMetadata := value_or (blobMetadata x) (copyMetadata o'),
          snapshots := (case blobs c b of None \<Rightarrow> [] | Some z \<Rightarrow> snapshots z),
          blobLease := (case blobs c b of None \<Rightarrow> Available | Some z \<Rightarrow> blobLease z)\<rparr>) s)"
    using assms(1) by (auto simp: startCopyBlob_def Let_def split: option.splits if_splits)
  have xwf: "blob_wf (clock s) x"
    using x assms(2) by (auto simp: blob_at_def split: option.splits intro: store_wf_blob)
  have cwf: "container_wf (clock s) c" using assms(2) c by (rule store_wf_container)
  have old: "case blobs c b of None \<Rightarrow> True | Some z \<Rightarrow> blob_wf (clock s) z"
    using cwf by (auto split: option.splits intro: container_wf_blob)
  have "container_wf (Suc (clock s)) (c\<lparr>uncommitted := (uncommitted c)(b := [])\<rparr>)"
    using container_wf_Suc [OF cwf] by simp
  from container_wf_put_blob [OF this blob_wf_copy [OF xwf old]]
  show ?thesis
    using assms(2) by (auto simp: s' put_blob_def intro: store_wf_put_tick)
qed

lemma blob_wf_seq: "blob_wf now x \<Longrightarrow> sequenceNumber x \<le> seq_max"
  by (simp add: blob_wf_def)

lemma blob_wf_lease_of: "blob_wf now x \<Longrightarrow> lease_wf now (blobLease x)"
  by (simp add: blob_wf_def)

lemma blob_wf_lease: "blob_wf now x \<Longrightarrow> lease_wf now l \<Longrightarrow> blob_wf now (x\<lparr>blobLease := l\<rparr>)"
  by (simp add: blob_wf_def)

lemma new_store_Some: "new_store r = Some s' \<longleftrightarrow> (\<exists>v. r = Inr (v, s'))"
  by (auto simp: new_store_def split: sum.splits)

lemma createContainer_wf:
  "createContainer n m a s = Inr (r, s') \<Longrightarrow> store_wf s \<Longrightarrow> store_wf s'"
  by (auto simp: createContainer_def Let_def container_wf_new intro: store_wf_put_tick split: option.splits)

lemma deleteContainer_wf:
  "deleteContainer n l s = Inr (r, s') \<Longrightarrow> store_wf s \<Longrightarrow> store_wf s'"
  by (auto simp: deleteContainer_def store_wf_delete split: option.splits)

lemma setContainerMetadata_wf:
  "setContainerMetadata n m o' s = Inr (r, s') \<Longrightarrow> store_wf s \<Longrightarrow> store_wf s'"
  by (auto simp: setContainerMetadata_def Let_def intro!: store_wf_put_tick container_wf_refresh
      dest: store_wf_container split: option.splits)

lemma setContainerAcl_wf:
  "setContainerAcl n a o' s = Inr (r, s') \<Longrightarrow> store_wf s \<Longrightarrow> store_wf s'"
  by (auto simp: setContainerAcl_def Let_def intro!: store_wf_put_tick container_wf_refresh
      dest: store_wf_container split: option.splits)

lemma createBlockFromText_wf:
  "createBlockFromText i n b t o' s = Inr (r, s') \<Longrightarrow> store_wf s \<Longrightarrow> store_wf s'"
  by (auto simp: createBlockFromText_def intro!: store_wf_put_container dest: store_wf_container
      split: option.splits)

lemma commitBlocks_wf:
  "commitBlocks n b is o' s = Inr (r, s') \<Longrightarrow> store_wf s \<Longrightarrow> store_wf s'"
  by (auto simp: commitBlocks_def Let_def seq_max_def intro: put_whole_blob_wf split: option.splits sum.splits)

lemma createPageBlob_wf:
  "createPageBlob n b l o' s = Inr (r, s') \<Longrightarrow> store_wf s \<Longrightarrow> store_wf s'"
  by (auto simp: createPageBlob_def intro: put_whole_blob_wf split: option.splits if_splits)

lemma blob_wf_pages: "blob_wf now x \<Longrightarrow> pages_wf x"
  by (simp add: blob_wf_def)

lemma blob_wf_page_update:
  "blob_wf (clock s) x \<Longrightarrow> pages_wf (x'\<lparr>blobProps := fresh_props s\<rparr>) \<Longrightarrow> sequenceNumber x' = sequenceNumber x
   \<Longrightarrow> blobLease x' = blobLease x \<Longrightarrow> blob_wf (Suc (clock s)) (x'\<lparr>blobProps := fresh_props s\<rparr>)"
  by (simp add: blob_wf_def resource_wf_fresh lease_wf_tick)

lemma blob_wf_append:
  "blob_wf (clock s) x \<Longrightarrow> blob_wf (Suc (clock s)) (x\<lparr>content := content x @ t, blobProps := fresh_props s\<rparr>)"
  using blob_wf_page_update [of s x "x\<lparr>content := content x @ t\<rparr>"] pages_wf_grow [OF blob_wf_pages, of "clock s" x]
  by simp

lemma blob_wf_add_pages:
  "blob_wf (clock s) x \<Longrightarrow> page_range_ok (length (content x)) a e \<Longrightarrow> length d = Suc e - a \<Longrightarrow>
   blob_wf (Suc (clock s)) (x\<lparr>content := splice_at (content x) a d,
     validPages := add_pages (validPages x) (range_pages a e), blobProps := fresh_props s\<rparr>)"
  using blob_wf_page_update [of s x "x\<lparr>content := splice_at (content x) a d,
      validPages := add_pages (validPages x) (range_pages a e)\<rparr>"]
    pages_wf_add [OF blob_wf_pages, of "clock s" x a e d "fresh_props s"]
  by simp

lemma blob_wf_remove_pages:
  "blob_wf (clock s) x \<Longrightarrow> page_range_ok (length (content x)) a e \<Longrightarrow>
   blob_wf (Suc (clock s)) (x\<lparr>content := splice_at (content x) a (replicate (Suc e - a) CHR 0x00),
     validPages := remove_pages (validPages x) (range_pages a e), blobProps := fresh_props s\<rparr>)"
  using blob_wf_page_update [of s x "x\<lparr>content := splice_at (content x) a (replicate (Suc e - a) CHR 0x00),
      validPages := remove_pages (validPages x) (range_pages a e)\<rparr>"]
    pages_wf_remove [OF blob_wf_pages, of "clock s" x a e "fresh_props s"]
  by simp

lemma blob_wf_resize:
  "blob_wf (clock s) x \<Longrightarrow> z mod PAGE_SIZE = 0 \<Longrightarrow>
   blob_wf (Suc (clock s)) (x\<lparr>content := take z (content x) @ replicate (z - length (content x)) CHR 0x00,
     validPages := filter (\<lambda>q. q < z div PAGE_SIZE) (validPages x), blobProps := fresh_props s\<rparr>)"
  using blob_wf_page_update [of s x "x\<lparr>content := take z (content x) @ replicate (z - length (content x)) CHR 0x00,
      validPages := filter (\<lambda>q. q < z div PAGE_SIZE) (validPages x)\<rparr>"]
    pages_wf_resize [OF blob_wf_pages, of "clock s" x z "fresh_props s"]
  by simp

lemma appendBlockFromText_wf:
  "appendBlockFromText n b t o' s = Inr (r, s') \<Longrightarrow> store_wf s \<Longrightarrow> store_wf s'"
  unfolding appendBlockFromText_def
  by (erule update_blob_wf) (auto simp: Let_def blob_wf_append split: if_splits)

lemma createPagesFromStream_wf:
  "createPagesFromStream n b d a e o' s = Inr (r, s') \<Longrightarrow> store_wf s \<Longrightarrow> store_wf s'"
  unfolding createPagesFromStream_def
  by (erule update_blob_wf)
     (auto simp: Let_def page_update_def blob_wf_add_pages split: if_splits)

lemma clearPageRange_wf:
  "clearPageRange n b a e o' s = Inr (r, s') \<Longrightarrow> store_wf s \<Longrightarrow> store_wf s'"
  unfolding clearPageRange_def
  by (erule update_blob_wf)
     (auto simp: page_update_def blob_wf_remove_pages split: if_splits)

lemma resizePageBlob_wf:
  "resizePageBlob n b z o' s = Inr (r, s') \<Longrightarrow> store_wf s \<Longrightarrow> store_wf s'"
  unfolding resizePageBlob_def
  by (erule update_blob_wf)
     (auto simp: Let_def blob_wf_resize split: if_splits)

lemma setPageBlobSequenceNumber_wf:
  "setPageBlobSequenceNumber n b a v o' s = Inr (r, s') \<Longrightarrow> store_wf s \<Longrightarrow> store_wf s'"
  unfolding setPageBlobSequenceNumber_def
  by (erule update_blob_wf)
     (auto simp: Let_def split: if_splits sum.splits intro!: blob_wf_refresh(1)
       intro: next_sequence_number_le blob_wf_seq)

lemma setBlobMetadata_wf:
  "setBlobMetadata n b m o' s = Inr (r, s') \<Longrightarrow> store_wf s \<Longrightarrow> store_wf s'"
  unfolding setBlobMetadata_def
  by (erule update_blob_wf) (auto simp: Let_def blob_wf_refresh)

lemma setBlobProperties_wf:
  "setBlobProperties n b h o' s = Inr (r, s') \<Longrightarrow> store_wf s \<Longrightarrow> store_wf s'"
  unfolding setBlobProperties_def
  by (erule update_blob_wf) (auto simp: Let_def blob_wf_refresh)

lemma createBlobSnapshot_wf:
  "createBlobSnapshot n b o' s = Inr (r, s') \<Longrightarrow> store_wf s \<Longrightarrow> store_wf s'"
  by (auto simp: createBlobSnapshot_def Let_def intro!: store_wf_tick store_wf_put_blob
      intro: store_wf_blob split: option.splits)

lemma deleteBlob_wf:
  "deleteBlob n b o' s = Inr (r, s') \<Longrightarrow> store_wf s \<Longrightarrow> store_wf s'"
  by (auto simp: deleteBlob_def intro!: store_wf_tick store_wf_put_blob store_wf_put_container container_wf_del_blob
      intro: store_wf_blob dest: store_wf_container
      split: option.splits prod.splits if_splits SnapshotDeleteOptions.splits)

lemma blob_lease_op_wf:
  "blob_lease_op n b l a s = Inr (r, s') \<Longrightarrow> store_wf s \<Longrightarrow> store_wf s'"
  by (auto simp: blob_lease_op_def intro!: store_wf_put_blob blob_wf_lease
      intro: store_wf_blob lease_apply_wf [OF _ blob_wf_lease_of] split: option.splits sum.splits if_splits)

lemma container_wf_lease:
  "container_wf now c \<Longrightarrow> lease_wf now l \<Longrightarrow> container_wf now (c\<lparr>containerLease := l\<rparr>)"
  by (simp add: container_wf_def)

lemma container_wf_lease_of: "container_wf now c \<Longrightarrow> lease_wf now (containerLease c)"
  by (simp add: container_wf_def)

lemma container_lease_op_wf:
  "container_lease_op n l a s = Inr (r, s') \<Longrightarrow> store_wf s \<Longrightarrow> store_wf s'"
  by (auto simp: container_lease_op_def intro!: store_wf_put_container container_wf_lease
      intro: store_wf_container lease_apply_wf [OF _ container_wf_lease_of] split: option.splits sum.splits if_splits)

lemma lease_request_wf:
  "lease_request n b l a s = Inr (r, s') \<Longrightarrow> store_wf s \<Longrightarrow> store_wf s'"
  by (cases b) (auto simp: lease_request_def intro: blob_lease_op_wf container_lease_op_wf)

lemma store_apply_wf:
  assumes "store_apply oper s = Some s'" and "store_wf s"
  shows "store_wf s'"
  using assms
  by (cases oper)
     (auto simp: new_store_Some createBlockBlobFromText_def createOrReplaceAppendBlob_def
       intro: createContainer_wf deleteContainer_wf setContainerMetadata_wf createBlockFromText_wf
         commitBlocks_wf createPageBlob_wf appendBlockFromText_wf setPageBlobSequenceNumber_wf
         setBlobMetadata_wf createBlobSnapshot_wf deleteBlob_wf lease_request_wf put_whole_blob_wf
         createPagesFromStream_wf clearPageRange_wf resizePageBlob_wf setBlobProperties_wf setContainerAcl_wf startCopyBlob_wf)

inductive_cases store_stepE: "store_step s s'"

lemma run_ops_reachable:
  "run_ops ops s = Some s' \<Longrightarrow> store_reachable s \<Longrightarrow> store_reachable s'"
proof (induction ops arbitrary: s)
  case (Cons oper ops)
  then obtain s1 where "store_apply oper s = Some s1" and "run_ops ops s1 = Some s'"
    by (auto split: Option.bind_splits)
  with Cons show ?case by (blast intro: store_reachable.step store_step.apply_op)
qed simp

lemma run_ops_wf:
  "run_ops ops s = Some s' \<Longrightarrow> store_wf s \<Longrightarrow> store_wf s'"
proof (induction ops arbitrary: s)
  case (Cons oper ops)
  then obtain s1 where "store_apply oper s = Some s1" and "run_ops ops s1 = Some s'"
    by (auto split: Option.bind_splits)
  with Cons show ?case by (blast intro: store_apply_wf)
qed simp

lemma store_wf_empty: "store_wf empty_store"
  by (simp add: store_wf_def empty_store_def)

lemma reachable_store_wf:
  assumes "store_reachable s"
  shows "store_wf s"
  using assms
proof (induction rule: store_reachable.induct)
  case start
  then show ?case by (simp add: store_wf_def empty_store_def)
next
  case (step s s')
  from step.hyps(2) show ?case
    by (cases rule: store_stepE) (auto intro: store_wf_tick [OF step.IH] store_apply_wf [OF _ step.IH])
qed

lemma page_store_reachable:
  "run_ops ops empty_store = Some s \<Longrightarrow> store_wf s"
  by (rule reachable_store_wf, erule run_ops_reachable) (rule store_reachable.start)

lemmas store_eval =
  createContainer_def new_container_def createBlockBlobFromText_def createOrReplaceAppendBlob_def
  put_whole_blob_def write_check_def conditions_ok_def conditions_hold_empty blob_guard_def
  no_blob_options_def blob_options_def no_conditions_def write_blob_def fresh_props_def
  page_options_def PAGE_SIZE_def blob_content_headers_def no_headers_def DEFAULT_CONTENT_TYPE_def
  empty_store_def new_store_def Let_def LeaseAndAccessConditionsOptions.truncate_def
  BlobContentOptions.truncate_def createBlockFromText_def stage_block_def put_container_def put_blob_def
  tick_def commitBlocks_def createContainerIfNotExists_def doesContainerExist_def getBlobToText_def
  deleteBlob_def createBlobSnapshot_def appendBlockFromText_def update_blob_def
  setPageBlobSequenceNumber_def next_sequence_number_def createPageBlob_def blob_result_def seq_max_def
  deleteContainer_def doesBlobExist_def listBlocks_def blob_at_def deleteBlobIfExists_def lease_check_def
  blob_lease_op_def container_lease_op_def lease_request_def parse_SnapshotDeleteOptions_def decode_table_def

subsection \<open>Properties of the blob service\<close>

text \<open>C10: in every store the service can reach from an empty account by the
  documented operations (and the passing of time), every container and blob
  was written before the current time and carries the ETag of that write,
  every page blob's sequence number lies between 0 and 2^63 - 1, and every
  lease is well formed; an account holds finitely many containers and each
  container finitely many blobs.\<close>

theorem store_reachable_wf:
  assumes "store_reachable s"
  shows "store_wf s"
  using assms by (rule reachable_store_wf)

theorem store_reachable_wf_witness:
  "store_reachable (the (run_ops [OpCreateContainer ''c'' Map.empty OFF, OpCreateBlockBlob ''c'' ''b'' ''hi'' no_blob_options] empty_store))
   \<and> store_wf (the (run_ops [OpCreateContainer ''c'' Map.empty OFF, OpCreateBlockBlob ''c'' ''b'' ''hi'' no_blob_options] empty_store))"
proof -
  let ?s = "the (run_ops [OpCreateContainer ''c'' Map.empty OFF, OpCreateBlockBlob ''c'' ''b'' ''hi'' no_blob_options] empty_store)"
  have "run_ops [OpCreateContainer ''c'' Map.empty OFF, OpCreateBlockBlob ''c'' ''b'' ''hi'' no_blob_options] empty_store = Some ?s"
    by (simp add: store_eval)
  then have r: "store_reachable ?s" by (rule run_ops_reachable) (rule store_reachable.start)
  moreover have "store_wf ?s" using r by (rule store_reachable_wf)
  ultimately show ?thesis ..
qed

text \<open>C24: committing a list of staged block identifiers writes the blob as the
  concatenation of those blocks' texts, in the order of the list, and reports
  the list as the committed blocks.\<close>

theorem commitBlocks_getBlobToText:
  assumes "commitBlocks n b ids opts s = Inr (r, s')" and "containers s n = Some c"
    and "set ids \<subseteq> fst ` set (uncommitted c b)"
  shows "CommittedBlocks r = Some ids \<and>
         map_sum id fst (getBlobToText n b s') = Inr (concat (map (\<lambda>i. the (map_of (uncommitted c b) i)) ids))"
proof -
  let ?bs = "map (\<lambda>i. (i, the (map_of (uncommitted c b) i))) ids"
  have res: "resolve_blocks (uncommitted c b) committed ids = Some ?bs" for committed
    using resolve_blocks_staged [OF assms(3)] .
  obtain r0 where put: "put_whole_blob n b BlockBlob (concat (map snd ?bs)) ?bs 0 opts s = Inr (r0, s')"
    and r: "r = \<lparr>CommittedBlocks = Some ids, UncommittedBlocks = Some []\<rparr>"
    using assms(1,2) res by (auto simp: commitBlocks_def Let_def comp_def split: sum.splits)
  from put_whole_blob_Inr [OF put] show ?thesis
    by (auto simp: r comp_def write_blob_def)
qed

theorem commitBlocks_getBlobToText_witness:
  "map_sum id fst (getBlobToText ''c'' ''b''
      (snd (projr (commitBlocks ''c'' ''b'' [''2'', ''1''] no_blob_options
         (the (run_ops [OpCreateContainer ''c'' Map.empty OFF, OpCreateBlock ''1'' ''c'' ''b'' ''ab'' no_conditions,
                        OpCreateBlock ''2'' ''c'' ''b'' ''cd'' no_conditions] empty_store)))))) = Inr ''cdab''"
proof -
  let ?s = "the (run_ops [OpCreateContainer ''c'' Map.empty OFF, OpCreateBlock ''1'' ''c'' ''b'' ''ab'' no_conditions,
                        OpCreateBlock ''2'' ''c'' ''b'' ''cd'' no_conditions] empty_store)"
  let ?r = "commitBlocks ''c'' ''b'' [''2'', ''1''] no_blob_options ?s"
  have cm: "?r = Inr (fst (projr ?r), snd (projr ?r))" by (simp add: store_eval)
  have c: "containers ?s ''c'' = Some (the (containers ?s ''c''))" by (simp add: store_eval)
  have sub: "set [''2'', ''1''] \<subseteq> fst ` set (uncommitted (the (containers ?s ''c'')) ''b'')"
    by (simp add: store_eval)
  from commitBlocks_getBlobToText [OF cm c sub] show ?thesis by (simp add: store_eval)
qed

text \<open>C25: committing a block identifier that was never staged for the blob and is
  not one of its committed blocks fails with \<open>InvalidBlockList\<close>.\<close>

theorem commitBlocks_unknown_block:
  assumes "containers s n = Some c" and "i \<in> set ids" and "i \<notin> fst ` set (uncommitted c b)"
    and "\<forall>x. blobs c b = Some x \<longrightarrow> i \<notin> fst ` set (committedBlocks x)"
  shows "commitBlocks n b ids opts s = Inl InvalidBlockList"
proof -
  have "resolve_blocks (uncommitted c b)
          (case blobs c b of Some x \<Rightarrow> if blobType x = BlockBlob then committedBlocks x else [] | None \<Rightarrow> []) ids = None"
    unfolding resolve_blocks_None using assms(2-4)
    by (cases "blobs c b") (force simp: map_of_eq_None_iff)+
  then show ?thesis using assms(1) by (simp add: commitBlocks_def)
qed

theorem commitBlocks_unknown_block_witness:
  "commitBlocks ''c'' ''b'' [''x''] no_blob_options (the (run_ops [OpCreateContainer ''c'' Map.empty OFF] empty_store))
   = Inl InvalidBlockList"
proof -
  let ?s = "the (run_ops [OpCreateContainer ''c'' Map.empty OFF] empty_store)"
  have c: "containers ?s ''c'' = Some (the (containers ?s ''c''))" by (simp add: store_eval)
  show ?thesis
    by (rule commitBlocks_unknown_block [OF c]) (simp_all add: store_eval)
qed

text \<open>After \<open>createBlockBlobFromText\<close> succeeds, \<open>getBlobToText\<close> returns
  the text written and the blob information the write returned.\<close>

theorem createBlockBlobFromText_getBlobToText:
  assumes "createBlockBlobFromText n b txt opts s = Inr (r, s')"
  shows "getBlobToText n b s' = Inr (txt, r)"
  using put_whole_blob_Inr [OF assms [unfolded createBlockBlobFromText_def]]
  by (auto simp: write_blob_def)

theorem createBlockBlobFromText_getBlobToText_witness:
  "map_sum id fst (getBlobToText ''c'' ''b''
     (the (run_ops [OpCreateContainer ''c'' Map.empty OFF, OpCreateBlockBlob ''c'' ''b'' ''hi'' no_blob_options] empty_store)))
   = Inr ''hi''"
proof -
  let ?s = "the (run_ops [OpCreateContainer ''c'' Map.empty OFF] empty_store)"
  let ?r = "createBlockBlobFromText ''c'' ''b'' ''hi'' no_blob_options ?s"
  have d: "?r = Inr (fst (projr ?r), snd (projr ?r))" by (simp add: store_eval)
  have "the (run_ops [OpCreateContainer ''c'' Map.empty OFF, OpCreateBlockBlob ''c'' ''b'' ''hi'' no_blob_options] empty_store)
        = snd (projr ?r)" by (simp add: store_eval)
  with createBlockBlobFromText_getBlobToText [OF d] show ?thesis by simp
qed

text \<open>C37: a blob that has snapshots is never deleted by a \<open>deleteBlob\<close> without
  the \<open>deleteSnapshots\<close> option: the call fails or deletes one snapshot.\<close>

theorem deleteBlob_keeps_blob_with_snapshots:
  assumes "deleteBlob n b opts s = Inr (u, s')" and "blob_at n b s = Some x" and "snapshots x \<noteq> []"
    and "deleteSnapshots opts = None"
  shows "blob_at n b s' \<noteq> None"
  using assms
  by (auto simp: deleteBlob_def blob_at_def put_blob_def split: option.splits prod.splits if_splits)

theorem deleteBlob_keeps_blob_with_snapshots_witness:
  "blob_at ''c'' ''b''
     (snd (projr (deleteBlob ''c'' ''b'' \<lparr>accessConditions = None, leaseId = None, snapshotId = Some ''2'', deleteSnapshots = None\<rparr>
        (the (run_ops [OpCreateContainer ''c'' Map.empty OFF, OpCreateBlockBlob ''c'' ''b'' ''hi'' no_blob_options,
                       OpCreateSnapshot ''c'' ''b'' no_conditions, OpCreateSnapshot ''c'' ''b'' no_conditions] empty_store)))))
   \<noteq> None"
proof -
  let ?s = "the (run_ops [OpCreateContainer ''c'' Map.empty OFF, OpCreateBlockBlob ''c'' ''b'' ''hi'' no_blob_options,
                       OpCreateSnapshot ''c'' ''b'' no_conditions, OpCreateSnapshot ''c'' ''b'' no_conditions] empty_store)"
  let ?o = "\<lparr>accessConditions = None, leaseId = None, snapshotId = Some ''2'', deleteSnapshots = None\<rparr>"
  have d: "deleteBlob ''c'' ''b'' ?o ?s = Inr ((), snd (projr (deleteBlob ''c'' ''b'' ?o ?s)))"
    by (simp add: store_eval decimal.simps)
  have x: "blob_at ''c'' ''b'' ?s = Some (the (blob_at ''c'' ''b'' ?s))" by (simp add: store_eval)
  show ?thesis
    by (rule deleteBlob_keeps_blob_with_snapshots [OF d x]) (simp_all add: store_eval)
qed

text \<open>\<open>deleteBlob\<close> with \<open>deleteSnapshots = only\<close> removes the blob's
  snapshots and keeps the blob itself unchanged.\<close>

theorem deleteBlob_snapshots_only:
  assumes "deleteBlob n b opts s = Inr (u, s')" and "blob_at n b s = Some x"
    and "deleteSnapshots opts = Some (SnapshotDeleteOptions_value SNAPSHOTS_ONLY)"
  shows "blob_at n b s' = Some (x\<lparr>snapshots := []\<rparr>)"
  using assms
  by (auto simp: deleteBlob_def blob_at_def put_blob_def parse_SnapshotDeleteOptions_def decode_table_def
      split: option.splits prod.splits if_splits)

theorem deleteBlob_snapshots_only_witness:
  "blob_at ''c'' ''b''
     (snd (projr (deleteBlob ''c'' ''b'' \<lparr>accessConditions = None, leaseId = None, snapshotId = None, deleteSnapshots = Some ''only''\<rparr>
        (the (run_ops [OpCreateContainer ''c'' Map.empty OFF, OpCreateBlockBlob ''c'' ''b'' ''hi'' no_blob_options,
                       OpCreateSnapshot ''c'' ''b'' no_conditions] empty_store)))))
   = Some ((the (blob_at ''c'' ''b'' (the (run_ops [OpCreateContainer ''c'' Map.empty OFF, OpCreateBlockBlob ''c'' ''b'' ''hi'' no_blob_options,
                       OpCreateSnapshot ''c'' ''b'' no_conditions] empty_store))))\<lparr>snapshots := []\<rparr>)"
proof -
  let ?s = "the (run_ops [OpCreateContainer ''c'' Map.empty OFF, OpCreateBlockBlob ''c'' ''b'' ''hi'' no_blob_options,
                       OpCreateSnapshot ''c'' ''b'' no_conditions] empty_store)"
  let ?o = "\<lparr>accessConditions = None, leaseId = None, snapshotId = None, deleteSnapshots = Some ''only''\<rparr>"
  have d: "deleteBlob ''c'' ''b'' ?o ?s = Inr ((), snd (projr (deleteBlob ''c'' ''b'' ?o ?s)))"
    by (simp add: store_eval)
  have x: "blob_at ''c'' ''b'' ?s = Some (the (blob_at ''c'' ''b'' ?s))" by (simp add: store_eval)
  have o: "deleteSnapshots ?o = Some (SnapshotDeleteOptions_value SNAPSHOTS_ONLY)" by simp
  show ?thesis by (rule deleteBlob_snapshots_only [OF d x o])
qed

text \<open>A successful \<open>appendBlockFromText\<close> appends exactly the given text at
  the end of the blob, only at the requested \<open>appendPosition\<close>, and never
  lets the blob grow beyond \<open>maxBlobSize\<close>.\<close>

theorem appendBlockFromText_appends:
  assumes "appendBlockFromText n b txt opts s = Inr (r, s')" and "blob_at n b s = Some x"
  shows "map_sum id fst (getBlobToText n b s') = Inr (content x @ txt)
         \<and> (\<forall>p. appendPosition opts = Some p \<longrightarrow> p = length (content x))
         \<and> (\<forall>m. maxBlobSize opts = Some m \<longrightarrow> length (content x @ txt) \<le> m)"
  using assms
  by (auto simp: appendBlockFromText_def update_blob_def blob_at_def Let_def
      split: option.splits sum.splits if_splits)

theorem appendBlockFromText_appends_witness:
  "map_sum id fst (getBlobToText ''c'' ''a''
     (snd (projr (appendBlockFromText ''c'' ''a'' ''xy''
        \<lparr>accessConditions = None, leaseId = None, maxBlobSize = Some 2, appendPosition = Some 0\<rparr>
        (the (run_ops [OpCreateContainer ''c'' Map.empty OFF, OpCreateAppendBlob ''c'' ''a'' no_blob_options] empty_store))))))
   = Inr ''xy''"
proof -
  let ?s = "the (run_ops [OpCreateContainer ''c'' Map.empty OFF, OpCreateAppendBlob ''c'' ''a'' no_blob_options] empty_store)"
  let ?o = "\<lparr>accessConditions = None, leaseId = None, maxBlobSize = Some 2, appendPosition = Some 0\<rparr>"
  let ?r = "appendBlockFromText ''c'' ''a'' ''xy'' ?o ?s"
  have d: "?r = Inr (fst (projr ?r), snd (projr ?r))" by (simp add: store_eval)
  have x: "blob_at ''c'' ''a'' ?s = Some (the (blob_at ''c'' ''a'' ?s))" by (simp add: store_eval)
  from appendBlockFromText_appends [OF d x] show ?thesis by (simp add: store_eval)
qed

text \<open>C38: incrementing a page blob's sequence number takes no number, adds one,
  and succeeds only below 2^63 - 1: the number never wraps around.\<close>

theorem setPageBlobSequenceNumber_increment:
  assumes "setPageBlobSequenceNumber n b INCREMENT v opts s = Inr (r, s')" and "blob_at n b s = Some x"
  shows "v = None \<and> sequenceNumber x < seq_max \<and> blobResultSequenceNumber r = Suc (sequenceNumber x)"
  using assms
  by (auto simp: setPageBlobSequenceNumber_def update_blob_def blob_at_def next_sequence_number_def
      Let_def blob_result_def split: option.splits sum.splits if_splits)

theorem setPageBlobSequenceNumber_increment_witness:
  "blobResultSequenceNumber (fst (projr (setPageBlobSequenceNumber ''c'' ''p'' INCREMENT None no_conditions
      (the (run_ops [OpCreateContainer ''c'' Map.empty OFF,
         OpCreatePageBlob ''c'' ''p'' 512 (page_options (Some ''7''))]
         empty_store))))) = 8"
proof -
  let ?s = "the (run_ops [OpCreateContainer ''c'' Map.empty OFF,
         OpCreatePageBlob ''c'' ''p'' 512 (page_options (Some ''7''))]
         empty_store)"
  let ?r = "setPageBlobSequenceNumber ''c'' ''p'' INCREMENT None no_conditions ?s"
  have d: "?r = Inr (fst (projr ?r), snd (projr ?r))" by (simp add: store_eval parse_decimal_def)
  have x: "blob_at ''c'' ''p'' ?s = Some (the (blob_at ''c'' ''p'' ?s))" by (simp add: store_eval parse_decimal_def)
  from setPageBlobSequenceNumber_increment [OF d x] show ?thesis by (simp add: store_eval parse_decimal_def)
qed

text \<open>Once \<open>createContainerIfNotExists\<close> has created a container, a second
  call with any metadata and access level reports \<open>false\<close> and changes nothing.\<close>

theorem createContainerIfNotExists_idempotent:
  assumes "createContainerIfNotExists n m a s = Inr (True, s')"
  shows "createContainerIfNotExists n m' a' s' = Inr (False, s') \<and> doesContainerExist n s'"
proof -
  obtain r where "createContainer n m a s = Inr (r, s')"
    using assms by (auto simp: createContainerIfNotExists_def split: sum.splits storage_error.splits)
  from createContainer_Inr [OF this] have "containers s' n \<noteq> None"
    by (simp add: tick_def put_container_def)
  then show ?thesis
    by (auto simp: createContainerIfNotExists_def createContainer_def doesContainerExist_def)
qed

theorem createContainerIfNotExists_idempotent_witness:
  "createContainerIfNotExists ''c'' Map.empty BLOB
     (snd (projr (createContainerIfNotExists ''c'' Map.empty OFF empty_store)))
   = Inr (False, snd (projr (createContainerIfNotExists ''c'' Map.empty OFF empty_store)))"
proof -
  let ?r = "createContainerIfNotExists ''c'' Map.empty OFF empty_store"
  have "?r = Inr (True, snd (projr ?r))" by (simp add: store_eval)
  from createContainerIfNotExists_idempotent [OF this, of Map.empty BLOB] show ?thesis by simp
qed

text \<open>After \<open>deleteContainer\<close> the container and all its blobs are gone,
  and every other container is unchanged.\<close>

theorem deleteContainer_removes_blobs:
  assumes "deleteContainer n l s = Inr (u, s')"
  shows "doesBlobExist n b s' = Inl ContainerNotFound \<and> \<not> doesContainerExist n s'
         \<and> (\<forall>m. m \<noteq> n \<longrightarrow> containers s' m = containers s m)"
  using assms
  by (auto simp: deleteContainer_def doesBlobExist_def doesContainerExist_def split: option.splits)

theorem deleteContainer_removes_blobs_witness:
  "doesBlobExist ''c'' ''b'' (snd (projr (deleteContainer ''c'' None
     (the (run_ops [OpCreateContainer ''c'' Map.empty OFF, OpCreateBlockBlob ''c'' ''b'' ''hi'' no_blob_options] empty_store)))))
   = Inl ContainerNotFound"
proof -
  let ?s = "the (run_ops [OpCreateContainer ''c'' Map.empty OFF, OpCreateBlockBlob ''c'' ''b'' ''hi'' no_blob_options] empty_store)"
  let ?r = "deleteContainer ''c'' None ?s"
  have d: "?r = Inr ((), snd (projr ?r))" by (simp add: store_eval)
  from deleteContainer_removes_blobs [OF d, of "''b''"] show ?thesis by simp
qed

text \<open>Staging a block makes it the last of the uncommitted blocks that
  \<open>listBlocks\<close> reports (replacing an earlier block of the same identifier), and
  leaves the blob itself unchanged.\<close>

theorem createBlockFromText_listBlocks:
  assumes "createBlockFromText i n b txt opts s = Inr (u, s')" and "containers s n = Some c"
  shows "listBlocks n b UNCOMMITTED s' =
           Inr \<lparr>CommittedBlocks = None, UncommittedBlocks = Some (filter (\<lambda>j. j \<noteq> i) (map fst (uncommitted c b)) @ [i])\<rparr>
         \<and> blob_at n b s' = blob_at n b s"
  using assms
  by (auto simp: createBlockFromText_def listBlocks_def blob_at_def stage_block_def filter_map comp_def
      split: option.splits)

theorem createBlockFromText_listBlocks_witness:
  "listBlocks ''c'' ''b'' UNCOMMITTED
     (snd (projr (createBlockFromText ''1'' ''c'' ''b'' ''ab'' no_conditions
        (the (run_ops [OpCreateContainer ''c'' Map.empty OFF] empty_store)))))
   = Inr \<lparr>CommittedBlocks = None, UncommittedBlocks = Some [''1'']\<rparr>"
proof -
  let ?s = "the (run_ops [OpCreateContainer ''c'' Map.empty OFF] empty_store)"
  let ?r = "createBlockFromText ''1'' ''c'' ''b'' ''ab'' no_conditions ?s"
  have d: "?r = Inr ((), snd (projr ?r))" by (simp add: store_eval)
  have c: "containers ?s ''c'' = Some (the (containers ?s ''c''))" by (simp add: store_eval)
  from createBlockFromText_listBlocks [OF d c] show ?thesis by (simp add: store_eval)
qed

text \<open>\<open>deleteBlobIfExists\<close> on a blob that does not exist reports \<open>false\<close>
  and leaves the store unchanged.\<close>

theorem deleteBlobIfExists_absent:
  assumes "doesBlobExist n b s = Inr False"
  shows "deleteBlobIfExists n b opts s = Inr (False, s)"
  using assms
  by (auto simp: doesBlobExist_def deleteBlobIfExists_def deleteBlob_def split: option.splits)

theorem deleteBlobIfExists_absent_witness:
  "deleteBlobIfExists ''c'' ''b'' \<lparr>accessConditions = None, leaseId = None, snapshotId = None, deleteSnapshots = None\<rparr>
     (the (run_ops [OpCreateContainer ''c'' Map.empty OFF] empty_store))
   = Inr (False, the (run_ops [OpCreateContainer ''c'' Map.empty OFF] empty_store))"
  by (rule deleteBlobIfExists_absent) (simp add: store_eval)


text \<open>C13: once a lease is acquired on a container (\<open>acquireLease\<close> with a null
  blob), of any duration and with a proposed or a generated identifier,
  \<open>deleteContainer\<close> without a lease identifier fails with
  \<open>LeaseIdMissing\<close>, with another identifier fails, and with the lease's
  identifier deletes the container.\<close>

theorem leased_container_delete_needs_lease:
  assumes "lease_request n None (Acquire d p) acc s = Inr (lr, s1)"
  shows "deleteContainer n None s1 = Inl LeaseIdMissing
       \<and> (\<forall>j. Some j \<noteq> lease_id lr \<longrightarrow> deleteContainer n (Some j) s1 = Inl LeaseIdMismatchWithBlobOperation)
       \<and> (\<exists>s2. deleteContainer n (lease_id lr) s1 = Inr ((), s2))"
proof -
  obtain c l where c: "containers s n = Some c"
    and acq: "lease_apply (clock s) (Acquire d p) (containerLease c) = Inr (lr, l)"
    and s1: "s1 = put_container n (c\<lparr>containerLease := l\<rparr>) s"
    using container_lease_op_Inr [OF assms [unfolded lease_request_def, simplified]] by blast
  obtain i dd where i: "lease_id lr = Some i" and l: "l = Leased i dd (clock s + lease_secs dd)"
    and act: "lease_active l (clock s)"
    using acquire_grants [of "clock s" d p "containerLease c" lr l] acq by auto
  show ?thesis using act by (auto simp: s1 i l deleteContainer_def lease_check_def)
qed
theorem leased_container_delete_needs_lease_witness:
  "deleteContainer ''c'' None
     (snd (projr (lease_request ''c'' None (Acquire (Some 30) None) None
        (the (run_ops [OpCreateContainer ''c'' Map.empty OFF] empty_store)))))
   = Inl LeaseIdMissing"
proof -
  let ?s = "the (run_ops [OpCreateContainer ''c'' Map.empty OFF] empty_store)"
  let ?l = "lease_request ''c'' None (Acquire (Some 30) None) None ?s"
  have l: "?l = Inr (fst (projr ?l), snd (projr ?l))"
    by (simp add: store_eval acquireLease_def valid_duration_def grant_def duration_of_def)
  from leased_container_delete_needs_lease [OF l] show ?thesis by simp
qed

text \<open>C33: writing a range of pages with \<open>createPagesFromStream\<close> puts the
  stream's bytes at the range's offset, and afterwards \<open>listPageRanges\<close> reports
  page ranges that cover every byte of the written range.\<close>

theorem createPagesFromStream_listPageRanges:
  assumes "store_wf s" and "createPagesFromStream n b d a e opts s = Inr (r, s')"
  shows "\<exists>t rs. getBlobToText n b s' = Inr (t, r) \<and> take (length d) (drop a t) = d
           \<and> listPageRanges n b all_pages s' = Inr rs
           \<and> (\<forall>i. a \<le> i \<and> i \<le> e \<longrightarrow> (\<exists>pr\<in>set rs. pageStart pr \<le> i \<and> i \<le> pageEnd pr))"
proof -
  obtain c x x' where c: "containers s n = Some c" and x: "blobs c b = Some x"
    and f: "page_update a e (\<lambda>x. if length d \<noteq> Suc e - a then Inl InvalidPageRange
               else let x' = x\<lparr>content := splice_at (content x) a d,
                               validPages := add_pages (validPages x) (range_pages a e),
                               blobProps := fresh_props s\<rparr>
                    in Inr (blob_result n b x', x')) x = Inr (r, x')"
    and s': "s' = tick (put_blob n c b x' s)"
    using assms(2) unfolding createPagesFromStream_def by (rule update_blob_Inr)
  have ty: "blobType x = PageBlob" and ok: "page_range_ok (length (content x)) a e"
    and len: "length d = Suc e - a"
    using f by (auto simp: page_update_def split: if_splits)
  have x': "x' = x\<lparr>content := splice_at (content x) a d,
                    validPages := add_pages (validPages x) (range_pages a e), blobProps := fresh_props s\<rparr>"
    and r: "r = blob_result n b x'"
    using f ty ok len by (auto simp: page_update_def Let_def)
  have sorted: "sorted_wrt (<) (validPages x')" by (simp add: x' add_pages_def)
  have cover: "\<exists>pr\<in>set (map byte_range (page_runs (validPages x'))). pageStart pr \<le> i \<and> i \<le> pageEnd pr"
    if "a \<le> i" "i \<le> e" for i
  proof (rule page_listed [OF sorted])
    have "i div PAGE_SIZE \<in> set (range_pages a e)" by (rule range_pages_member [OF ok that])
    moreover have "finite (set (validPages x) \<union> set (range_pages a e))" by simp
    ultimately show "i div PAGE_SIZE \<in> set (validPages x')" by (simp add: x' add_pages_def)
  qed
  have "take (length d) (drop a (content x')) = d"
    using take_drop_splice [of a d "content x"] page_range_bytes(1) [OF ok] len by (simp add: x')
  then show ?thesis
    using cover ty by (auto simp: s' r x')
qed

theorem createPagesFromStream_listPageRanges_witness:
  "\<exists>rs. listPageRanges ''c'' ''p'' all_pages (snd (projr (createPagesFromStream ''c'' ''p'' (replicate 512 CHR ''x'') 0 511 no_conditions
      (the (run_ops [OpCreateContainer ''c'' Map.empty OFF,
         OpCreatePageBlob ''c'' ''p'' 1024 (page_options None)]
         empty_store))))) = Inr rs \<and> (\<exists>pr\<in>set rs. pageStart pr \<le> 100 \<and> 100 \<le> pageEnd pr)"
proof -
  let ?s = "the (run_ops [OpCreateContainer ''c'' Map.empty OFF,
         OpCreatePageBlob ''c'' ''p'' 1024 (page_options None)]
         empty_store)"
  let ?r = "createPagesFromStream ''c'' ''p'' (replicate 512 CHR ''x'') 0 511 no_conditions ?s"
  have "run_ops [OpCreateContainer ''c'' Map.empty OFF,
         OpCreatePageBlob ''c'' ''p'' 1024 (page_options None)]
         empty_store = Some ?s" by (simp add: store_eval createPageBlob_def)
  then have wf: "store_wf ?s" by (rule page_store_reachable)
  have d: "?r = Inr (fst (projr ?r), snd (projr ?r))"
    by (simp add: store_eval createPageBlob_def createPagesFromStream_def update_blob_def page_update_def
        page_range_ok_def PAGE_SIZE_def Let_def)
  from createPagesFromStream_listPageRanges [OF wf d] show ?thesis by fastforce
qed


text \<open>C36: \<open>createPagesFromStream\<close> succeeds only on a range that starts
  and ends on a 512-byte page boundary inside the blob and whose stream is exactly as
  long as the range; the blob keeps its length.\<close>

theorem createPagesFromStream_bounds:
  assumes "createPagesFromStream n b d a e opts s = Inr (r, s')" and "blob_at n b s = Some x"
  shows "a mod PAGE_SIZE = 0 \<and> Suc e mod PAGE_SIZE = 0 \<and> a \<le> e \<and> e < length (content x)
         \<and> length d = Suc e - a \<and> blobResultLength r = length (content x)"
proof -
  obtain c x0 x' where c: "containers s n = Some c" and x: "blobs c b = Some x0"
    and f: "page_update a e (\<lambda>x. if length d \<noteq> Suc e - a then Inl InvalidPageRange
               else let x' = x\<lparr>content := splice_at (content x) a d,
                               validPages := add_pages (validPages x) (range_pages a e),
                               blobProps := fresh_props s\<rparr>
                    in Inr (blob_result n b x', x')) x0 = Inr (r, x')"
    using assms(1) unfolding createPagesFromStream_def by (rule update_blob_Inr)
  have x0: "x0 = x" using assms(2) c x by (simp add: blob_at_def)
  have ok: "page_range_ok (length (content x)) a e" and len: "length d = Suc e - a"
    using f x0 by (auto simp: page_update_def split: if_splits)
  then have "r = blob_result n b (x\<lparr>content := splice_at (content x) a d,
                    validPages := add_pages (validPages x) (range_pages a e), blobProps := fresh_props s\<rparr>)"
    using f x0 by (auto simp: page_update_def Let_def split: if_splits)
  then show ?thesis
    using ok len page_range_bytes(1) [OF ok]
    by (simp add: page_range_ok_def blob_result_def length_splice)
qed

theorem createPagesFromStream_bounds_witness:
  "blobResultLength (fst (projr (createPagesFromStream ''c'' ''p'' (replicate 512 CHR ''x'') 0 511 no_conditions
      (the (run_ops [OpCreateContainer ''c'' Map.empty OFF,
         OpCreatePageBlob ''c'' ''p'' 1024 (page_options None)]
         empty_store))))) = 1024"
proof -
  let ?s = "the (run_ops [OpCreateContainer ''c'' Map.empty OFF,
         OpCreatePageBlob ''c'' ''p'' 1024 (page_options None)]
         empty_store)"
  let ?r = "createPagesFromStream ''c'' ''p'' (replicate 512 CHR ''x'') 0 511 no_conditions ?s"
  have d: "?r = Inr (fst (projr ?r), snd (projr ?r))"
    by (simp add: store_eval createPageBlob_def createPagesFromStream_def update_blob_def page_update_def
        page_range_ok_def PAGE_SIZE_def Let_def)
  have x: "blob_at ''c'' ''p'' ?s = Some (the (blob_at ''c'' ''p'' ?s))" by (simp add: store_eval createPageBlob_def)
  from createPagesFromStream_bounds [OF d x] show ?thesis by (simp add: store_eval createPageBlob_def)
qed

text \<open>C34: after \<open>clearPageRange\<close> the cleared bytes read as zeros and no
  page range that \<open>listPageRanges\<close> reports overlaps the cleared range.\<close>

theorem clearPageRange_listPageRanges:
  assumes "store_wf s" and "clearPageRange n b a e opts s = Inr (u, s')"
  shows "\<exists>t rs. map_sum id fst (getBlobToText n b s') = Inr t
           \<and> take (Suc e - a) (drop a t) = replicate (Suc e - a) CHR 0x00
           \<and> listPageRanges n b all_pages s' = Inr rs
           \<and> (\<forall>pr\<in>set rs. pageEnd pr < a \<or> e < pageStart pr)"
proof -
  obtain c x x' where c: "containers s n = Some c" and x: "blobs c b = Some x"
    and f: "page_update a e (\<lambda>x. Inr ((), x\<lparr>content := splice_at (content x) a (replicate (Suc e - a) CHR 0x00),
                         validPages := remove_pages (validPages x) (range_pages a e),
                         blobProps := fresh_props s\<rparr>)) x = Inr (u, x')"
    and s': "s' = tick (put_blob n c b x' s)"
    using assms(2) unfolding clearPageRange_def by (rule update_blob_Inr)
  have ty: "blobType x = PageBlob" and ok: "page_range_ok (length (content x)) a e"
    using f by (auto simp: page_update_def split: if_splits)
  have x': "x' = x\<lparr>content := splice_at (content x) a (replicate (Suc e - a) CHR 0x00),
                    validPages := remove_pages (validPages x) (range_pages a e), blobProps := fresh_props s\<rparr>"
    using f ty ok by (simp add: page_update_def)
  have "pages_wf x" using store_wf_blob [OF assms(1) c x] by (rule blob_wf_pages)
  then have sorted: "sorted_wrt (<) (validPages x')"
    by (simp add: x' pages_wf_def remove_pages_def sorted_wrt_filter)
  have out: "\<forall>q\<in>set (validPages x'). q \<notin> set (range_pages a e)" by (simp add: x' remove_pages_def)
  have "take (Suc e - a) (drop a (content x')) = replicate (Suc e - a) CHR 0x00"
    using page_range_bytes(1) [OF ok] take_drop_splice [of a "replicate (Suc e - a) CHR 0x00" "content x"]
    by (simp add: x')
  then show ?thesis
    using runs_avoid_range [OF sorted out ok] ty by (auto simp: s' x')
qed

theorem clearPageRange_listPageRanges_witness:
  "\<exists>rs. listPageRanges ''c'' ''p'' all_pages (snd (projr (clearPageRange ''c'' ''p'' 0 511 no_conditions
      (the (run_ops [OpCreateContainer ''c'' Map.empty OFF,
         OpCreatePageBlob ''c'' ''p'' 1024 (page_options None),
         OpCreatePages ''c'' ''p'' (replicate 1024 CHR ''x'') 0 1023 no_conditions]
         empty_store))))) = Inr rs \<and> (\<forall>pr\<in>set rs. 511 < pageStart pr)"
proof -
  let ?s = "the (run_ops [OpCreateContainer ''c'' Map.empty OFF,
         OpCreatePageBlob ''c'' ''p'' 1024 (page_options None),
         OpCreatePages ''c'' ''p'' (replicate 1024 CHR ''x'') 0 1023 no_conditions]
         empty_store)"
  let ?r = "clearPageRange ''c'' ''p'' 0 511 no_conditions ?s"
  have "run_ops [OpCreateContainer ''c'' Map.empty OFF,
         OpCreatePageBlob ''c'' ''p'' 1024 (page_options None),
         OpCreatePages ''c'' ''p'' (replicate 1024 CHR ''x'') 0 1023 no_conditions]
         empty_store = Some ?s"
    by (simp add: store_eval createPageBlob_def createPagesFromStream_def update_blob_def page_update_def
        page_range_ok_def PAGE_SIZE_def Let_def)
  then have wf: "store_wf ?s" by (rule page_store_reachable)
  have d: "?r = Inr ((), snd (projr ?r))"
    by (simp add: store_eval createPageBlob_def createPagesFromStream_def clearPageRange_def update_blob_def
        page_update_def page_range_ok_def PAGE_SIZE_def Let_def splice_at_def)
  from clearPageRange_listPageRanges [OF wf d] show ?thesis by auto
qed

end
