(* ===== verification/Listing.thy ===== *)
theory Listing
  imports BlobService RetryPolicy "HOL-Library.List_Lexorder" "HOL-Library.Char_ord"
begin

text \<open>
  Segmented listing of \<open>BlobService\<close>: \<open>listBlobsSegmented\<close>,
  \<open>listBlobsSegmentedWithPrefix\<close>, \<open>listContainersSegmented\<close> and
  \<open>listContainersSegmentedWithPrefix\<close> (lines 1796--1875), with
  \<open>Common.ContinuationToken\<close> (lines 499--502) and the \<open>maxResults\<close> of
  \<open>ListBlobsOptions\<close> and \<open>ListContainersOptions\<close> (lines 2384--2399).  The
  service lists names in lexicographic order; a segment holds at most
  \<open>maxResults\<close> entries (at most 5000, "maximum: 5000"; the service refuses 0)
  and, when more names remain, a continuation token whose \<open>nextMarker\<close> is the
  first name not yet returned.  A caller passes the token back as
  \<open>currentToken\<close> ("Please use 'null' or 'undefined' if this is the first
  operation") until no token comes back; \<open>follow_tokens\<close> is that loop.
\<close>

subsection \<open>Names in order and segments of them\<close>

text \<open>\<open>Common.ContinuationToken\<close>.\<close>

record ContinuationToken =
  nextMarker :: string
  targetLocation :: location

definition starts_with :: "string \<Rightarrow> string \<Rightarrow> bool" where
  "starts_with p x = (take (length p) x = p)"

text \<open>The names of a map in the service's order, those with a prefix.\<close>

definition listing_names :: "string \<Rightarrow> (string \<rightharpoonup> 'a) \<Rightarrow> string list" where
  "listing_names p m = filter (starts_with p) (sorted_list_of_set (dom m))"

definition names_from :: "string option \<Rightarrow> string list \<Rightarrow> string list" where
  "names_from marker names = (case marker of None \<Rightarrow> names | Some m \<Rightarrow> filter (\<lambda>x. m \<le> x) names)"

text \<open>One segment: the first \<open>k\<close> names from the marker on, and the marker of
  the rest if any remain.\<close>

definition segment :: "nat \<Rightarrow> string option \<Rightarrow> string list \<Rightarrow> string list \<times> string option" where
  "segment k marker names =
     (let rest = names_from marker names in
      (take k rest, if k < length rest then Some (rest ! k) else None))"

text \<open>\<open>maxResults\<close>: 5000 by default and at most 5000; a request for no entries
  at all is out of range.\<close>

definition page_size :: "nat option \<Rightarrow> storage_error + nat" where
  "page_size m =
     (case m of None \<Rightarrow> Inr 5000
      | Some k \<Rightarrow> if k = 0 then Inl OutOfRangeQueryParameterValue else Inr (min k 5000))"

subsection \<open>The listing operations\<close>

text \<open>\<open>BlobService.ListBlobsOptions\<close> and \<open>ListContainersOptions\<close>: the page size
  and \<open>include\<close> (here \<open>listInclude\<close>, since \<open>include\<close> is a keyword of
  Isabelle); \<open>delimiter\<close> is the directory listing's.\<close>

record ListBlobsOptions = DefaultOptions +
  maxResults :: "nat option"
  listInclude :: "string option"

text \<open>\<open>include\<close>: "one or more of the following subsets: '', 'metadata',
  'snapshots', 'uncommittedblobs'). Multiple values can be added separated with a
  comma (,)"; for containers "(allowed values: '', 'metadata')".  Metadata is
  returned only when asked for.  A \<open>BlobResult\<close> has no snapshot field, so a
  listed snapshot could not be told from its blob: the model lists blobs only.\<close>

fun split_on :: "char \<Rightarrow> string \<Rightarrow> string list" where
  "split_on d [] = [[]]"
| "split_on d (x # xs) = (let ws = split_on d xs in if x = d then [] # ws else (x # hd ws) # tl ws)"

definition include_has :: "string option \<Rightarrow> string \<Rightarrow> bool" where
  "include_has i item = (item \<in> set (split_on CHR '','' (value_or [] i)))"

definition listed_metadata :: "string option \<Rightarrow> metadata \<Rightarrow> metadata" where
  "listed_metadata i m = (if include_has i ''metadata'' then m else Map.empty)"

definition listed_blob :: "ListBlobsOptions \<Rightarrow> string \<Rightarrow> string \<Rightarrow> blob \<Rightarrow> BlobResult" where
  "listed_blob opts n b x =
     (blob_result n b x)\<lparr>blobResultMetadata := listed_metadata (listInclude opts) (blobMetadata x)\<rparr>"

definition listed_container :: "ListBlobsOptions \<Rightarrow> string \<Rightarrow> container \<Rightarrow> ContainerResult" where
  "listed_container opts n c =
     (container_result n c)\<lparr>containerResultMetadata := listed_metadata (listInclude opts) (containerMetadata c)\<rparr>"

text \<open>A listing call whose options set only \<open>maxResults\<close>.\<close>

definition list_options :: "nat option \<Rightarrow> ListBlobsOptions" where
  "list_options k =
     \<lparr>locationMode = None, timeoutIntervalInMs = None, maximumExecutionTimeInMs = None,
      clientRequestId = None, useNagleAlgorithm = None, maxResults = k, listInclude = None\<rparr>"

text \<open>\<open>BlobService.BlobListResult\<close> and \<open>ContainerListResult\<close>.\<close>

record BlobListResult =
  blobEntries :: "BlobResult list"
  blobContinuationToken :: "ContinuationToken option"

record ContainerListResult =
  containerEntries :: "ContainerResult list"
  containerContinuationToken :: "ContinuationToken option"

definition token_of :: "location \<Rightarrow> string option \<Rightarrow> ContinuationToken option" where
  "token_of loc m = map_option (\<lambda>x. \<lparr>nextMarker = x, targetLocation = loc\<rparr>) m"

text \<open>The listing is served at location \<open>loc\<close>, which the token records as its
  \<open>targetLocation\<close>.\<close>

definition listBlobsSegmentedWithPrefix ::
  "string \<Rightarrow> string \<Rightarrow> ContinuationToken option \<Rightarrow> ListBlobsOptions \<Rightarrow> location \<Rightarrow> store
   \<Rightarrow> storage_error + BlobListResult" where
  "listBlobsSegmentedWithPrefix n p tok opts loc s =
     (case containers s n of
        None \<Rightarrow> Inl ContainerNotFound
      | Some c \<Rightarrow>
          (case page_size (maxResults opts) of
             Inl err \<Rightarrow> Inl err
           | Inr k \<Rightarrow>
               let (names, next) = segment k (map_option nextMarker tok) (listing_names p (blobs c)) in
               Inr \<lparr>blobEntries = map (\<lambda>b. listed_blob opts n b (the (blobs c b))) names,
                    blobContinuationToken = token_of loc next\<rparr>))"

definition listBlobsSegmented ::
  "string \<Rightarrow> ContinuationToken option \<Rightarrow> ListBlobsOptions \<Rightarrow> location \<Rightarrow> store \<Rightarrow> storage_error + BlobListResult" where
  "listBlobsSegmented n tok opts loc s = listBlobsSegmentedWithPrefix n [] tok opts loc s"

definition listContainersSegmentedWithPrefix ::
  "string \<Rightarrow> ContinuationToken option \<Rightarrow> ListBlobsOptions \<Rightarrow> location \<Rightarrow> store
   \<Rightarrow> storage_error + ContainerListResult" where
  "listContainersSegmentedWithPrefix p tok opts loc s =
     (case page_size (maxResults opts) of
        Inl err \<Rightarrow> Inl err
      | Inr k \<Rightarrow>
          let (names, next) = segment k (map_option nextMarker tok) (listing_names p (containers s)) in
          Inr \<lparr>containerEntries = map (\<lambda>n. listed_container opts n (the (containers s n))) names,
               containerContinuationToken = token_of loc next\<rparr>)"

definition listContainersSegmented ::
  "ContinuationToken option \<Rightarrow> ListBlobsOptions \<Rightarrow> location \<Rightarrow> store \<Rightarrow> storage_error + ContainerListResult" where
  "listContainersSegmented tok opts loc s = listContainersSegmentedWithPrefix [] tok opts loc s"

subsection \<open>Following continuation tokens\<close>

text \<open>The caller's loop: list a segment, keep its entries, and list again from
  the returned token until none is returned.  The loop is a
  \<open>partial_function (option)\<close>: nothing in its code bounds the number of rounds,
  and \<open>follow_tokens_segments\<close> below proves that it ends against the service,
  whatever the page size.\<close>

partial_function (option) follow_tokens ::
  "('t option \<Rightarrow> 'e + 'a list \<times> 't option) \<Rightarrow> 't option \<Rightarrow> ('e + 'a list) option" where
  "follow_tokens seg tok =
     (case seg tok of
        Inl e \<Rightarrow> Some (Inl e)
      | Inr (es, None) \<Rightarrow> Some (Inr es)
      | Inr (es, Some t) \<Rightarrow> Option.bind (follow_tokens seg (Some t)) (\<lambda>r. Some (map_sum id ((@) es) r)))"

definition blob_segments ::
  "string \<Rightarrow> string \<Rightarrow> ListBlobsOptions \<Rightarrow> location \<Rightarrow> store \<Rightarrow> ContinuationToken option
   \<Rightarrow> storage_error + BlobResult list \<times> ContinuationToken option" where
  "blob_segments n p opts loc s tok =
     map_sum id (\<lambda>r. (blobEntries r, blobContinuationToken r)) (listBlobsSegmentedWithPrefix n p tok opts loc s)"

definition container_segments ::
  "string \<Rightarrow> ListBlobsOptions \<Rightarrow> location \<Rightarrow> store \<Rightarrow> ContinuationToken option
   \<Rightarrow> storage_error + ContainerResult list \<times> ContinuationToken option" where
  "container_segments p opts loc s tok =
     map_sum id (\<lambda>r. (containerEntries r, containerContinuationToken r)) (listContainersSegmentedWithPrefix p tok opts loc s)"

definition listAllBlobs ::
  "string \<Rightarrow> string \<Rightarrow> ListBlobsOptions \<Rightarrow> location \<Rightarrow> store \<Rightarrow> (storage_error + BlobResult list) option" where
  "listAllBlobs n p opts loc s = follow_tokens (blob_segments n p opts loc s) None"

definition listAllContainers ::
  "string \<Rightarrow> ListBlobsOptions \<Rightarrow> location \<Rightarrow> store \<Rightarrow> (storage_error + ContainerResult list) option" where
  "listAllContainers p opts loc s = follow_tokens (container_segments p opts loc s) None"

text \<open>The reference: one listing of every name with the prefix, in order.\<close>

definition blobs_reference :: "string \<Rightarrow> string \<Rightarrow> ListBlobsOptions \<Rightarrow> store \<Rightarrow> storage_error + BlobResult list" where
  "blobs_reference n p opts s =
     (case containers s n of
        None \<Rightarrow> Inl ContainerNotFound
      | Some c \<Rightarrow>
          (case page_size (maxResults opts) of
             Inl err \<Rightarrow> Inl err
           | Inr k \<Rightarrow> Inr (map (\<lambda>b. listed_blob opts n b (the (blobs c b))) (listing_names p (blobs c)))))"

definition containers_reference :: "string \<Rightarrow> ListBlobsOptions \<Rightarrow> store \<Rightarrow> storage_error + ContainerResult list" where
  "containers_reference p opts s =
     (case page_size (maxResults opts) of
        Inl err \<Rightarrow> Inl err
      | Inr k \<Rightarrow> Inr (map (\<lambda>n. listed_container opts n (the (containers s n))) (listing_names p (containers s))))"

text \<open>The \<open>include\<close> value splits at its commas and nothing is lost.\<close>

lemma split_on_nonempty: "split_on d s \<noteq> []"
  by (induction s) (simp_all add: Let_def)

lemma split_on_roundtrip:
  "concat (map (\<lambda>w. w @ [d]) (butlast (split_on d s))) @ last (split_on d s) = s"
proof (induction s)
  case Nil then show ?case by simp
next
  case (Cons x xs)
  then show ?case
    using split_on_nonempty [of d xs]
    by (cases "split_on d xs") (auto simp: Let_def)
qed

lemma split_on_pieces: "w \<in> set (split_on d s) \<Longrightarrow> d \<notin> set w"
proof (induction s arbitrary: w)
  case Nil then show ?case by simp
next
  case (Cons x xs)
  then show ?case
    using split_on_nonempty [of d xs]
    by (cases "split_on d xs") (auto simp: Let_def split: if_splits)
qed

lemma include_has_eval: "include_has (Some ''snapshots,metadata'') ''metadata'' \<and> \<not> include_has None ''metadata''"
  by (simp add: include_has_def value_or_def)
lemma names_from_sorted: "sorted_wrt (<) names \<Longrightarrow> sorted_wrt (<) (names_from m names)"
  by (cases m) (simp_all add: names_from_def sorted_wrt_filter)

lemma names_from_next:
  assumes "sorted_wrt (<) names" and "k < length (names_from m names)"
  shows "names_from (Some (names_from m names ! k)) names = drop k (names_from m names)"
proof -
  let ?rest = "names_from m names"
  let ?x = "?rest ! k"
  have "?x \<in> set ?rest" using assms(2) by simp
  then have up: "\<forall>y\<in>set names. ?x \<le> y \<longrightarrow> y \<in> set ?rest"
    by (cases m) (auto simp: names_from_def)
  have "filter (\<lambda>y. ?x \<le> y) names = filter (\<lambda>y. ?x \<le> y) ?rest"
  proof (cases m)
    case None then show ?thesis by (simp add: names_from_def)
  next
    case (Some a)
    with up show ?thesis
      by (auto simp: names_from_def filter_filter intro!: filter_cong)
  qed
  also have "\<dots> = drop k ?rest"
    using sorted_filter_nth [OF names_from_sorted [OF assms(1)] assms(2)] .
  finally show ?thesis by (simp add: names_from_def)
qed

lemma follow_tokens_segments:
  assumes seg: "\<And>tok. seg tok = Inr (map g (fst (segment k (mark tok) names)), map_option mk (snd (segment k (mark tok) names)))"
    and mark: "\<And>m. mark (Some (mk m)) = Some m"
    and k: "0 < k" and sorted: "sorted_wrt (<) names"
  shows "follow_tokens seg tok = Some (Inr (map g (names_from (mark tok) names)))"
proof (induction "length (names_from (mark tok) names)" arbitrary: tok rule: less_induct)
  case less
  let ?rest = "names_from (mark tok) names"
  show ?case
  proof (cases "k < length ?rest")
    case False
    then show ?thesis
      by (subst follow_tokens.simps) (simp add: seg segment_def Let_def)
  next
    case True
    let ?t = "mk (?rest ! k)"
    have nx: "names_from (mark (Some ?t)) names = drop k ?rest"
      unfolding mark using names_from_next [OF sorted True] .
    have "length (names_from (mark (Some ?t)) names) < length ?rest"
      unfolding nx using k True by simp
    then have IH: "follow_tokens seg (Some ?t) = Some (Inr (map g (drop k ?rest)))"
      using less [of "Some ?t"] unfolding nx by simp
    show ?thesis
      by (subst follow_tokens.simps)
         (simp add: seg segment_def Let_def True IH flip: map_append)
  qed
qed

lemma page_size_pos: "page_size m = Inr k \<Longrightarrow> 0 < k"
  by (auto simp: page_size_def split: option.splits if_splits)

lemma listing_names_sorted: "sorted_wrt (<) (listing_names p m)"
  by (simp add: listing_names_def sorted_wrt_filter)

lemma token_of_marker: "map_option nextMarker (Some (\<lparr>nextMarker = m, targetLocation = loc\<rparr>)) = Some m"
  by simp

lemma listAllBlobs_eq: "listAllBlobs n p opts loc s = Some (blobs_reference n p opts s)"
proof (cases "containers s n")
  case None
  then show ?thesis
    by (subst listAllBlobs_def, subst follow_tokens.simps)
       (simp add: blob_segments_def listBlobsSegmentedWithPrefix_def blobs_reference_def)
next
  case (Some c)
  show ?thesis
  proof (cases "page_size (maxResults opts)")
    case (Inl e)
    with Some show ?thesis
      by (subst listAllBlobs_def, subst follow_tokens.simps)
         (simp add: blob_segments_def listBlobsSegmentedWithPrefix_def blobs_reference_def)
  next
    case (Inr k)
    have "follow_tokens (blob_segments n p opts loc s) None =
          Some (Inr (map (\<lambda>b. listed_blob opts n b (the (blobs c b)))
            (names_from (map_option nextMarker (None :: ContinuationToken option)) (listing_names p (blobs c)))))"
      by (rule follow_tokens_segments [where k = k and mark = "map_option nextMarker"
            and mk = "\<lambda>m. \<lparr>nextMarker = m, targetLocation = loc\<rparr>"])
         (simp_all add: blob_segments_def listBlobsSegmentedWithPrefix_def Some Inr token_of_def
            split_def Let_def page_size_pos [OF Inr] listing_names_sorted)
    with Some Inr show ?thesis
      by (simp add: listAllBlobs_def blobs_reference_def names_from_def)
  qed
qed

lemma listAllContainers_eq: "listAllContainers p opts loc s = Some (containers_reference p opts s)"
proof (cases "page_size (maxResults opts)")
  case (Inl e)
  then show ?thesis
    by (subst listAllContainers_def, subst follow_tokens.simps)
       (simp add: container_segments_def listContainersSegmentedWithPrefix_def containers_reference_def)
next
  case (Inr k)
  have "follow_tokens (container_segments p opts loc s) None =
        Some (Inr (map (\<lambda>n. listed_container opts n (the (containers s n)))
          (names_from (map_option nextMarker (None :: ContinuationToken option)) (listing_names p (containers s)))))"
    by (rule follow_tokens_segments [where k = k and mark = "map_option nextMarker"
          and mk = "\<lambda>m. \<lparr>nextMarker = m, targetLocation = loc\<rparr>"])
       (simp_all add: container_segments_def listContainersSegmentedWithPrefix_def Inr token_of_def
          split_def Let_def page_size_pos [OF Inr] listing_names_sorted)
  with Inr show ?thesis
    by (simp add: listAllContainers_def containers_reference_def names_from_def)
qed

lemma listing_names_finite:
  "finite (dom m) \<Longrightarrow> listing_names p m = sorted_list_of_set {b. m b \<noteq> None \<and> starts_with p b}"
  unfolding listing_names_def
  by (simp add: filter_sorted_list_of_set dom_def)

lemmas listing_eval = store_eval list_options_def listBlobsSegmentedWithPrefix_def page_size_def
  listing_names_def segment_def names_from_def token_of_def starts_with_def split_def

text \<open>C21: following the continuation tokens of \<open>listBlobsSegmentedWithPrefix\<close>
  (\<open>listContainersSegmentedWithPrefix\<close>) until none is returned always ends, and
  the entries collected over all segments are exactly the one-shot listing of the
  container's blobs (the account's containers) with the prefix, in name order.\<close>

theorem listing_follow_tokens_equivalence:
  "listAllBlobs n p opts loc s = Some (blobs_reference n p opts s)
   \<and> listAllContainers p opts loc s = Some (containers_reference p opts s)"
  by (simp add: listAllBlobs_eq listAllContainers_eq)

theorem listing_follow_tokens_equivalence_witness:
  "\<exists>es. listAllBlobs ''c'' [] (list_options (Some 1)) PRIMARY
      (the (run_ops [OpCreateContainer ''c'' Map.empty OFF, OpCreateBlockBlob ''c'' ''b'' ''x'' no_blob_options,
                     OpCreateBlockBlob ''c'' ''a'' ''y'' no_blob_options] empty_store)) = Some (Inr es)"
  using listing_follow_tokens_equivalence [of "''c''" "[]" "list_options (Some 1)" PRIMARY
      "the (run_ops [OpCreateContainer ''c'' Map.empty OFF, OpCreateBlockBlob ''c'' ''b'' ''x'' no_blob_options,
                     OpCreateBlockBlob ''c'' ''a'' ''y'' no_blob_options] empty_store)"]
  by (simp add: blobs_reference_def list_options_def page_size_def store_eval)

text \<open>C22: on a reachable store, listing a container's blobs over all segments
  returns each blob whose name starts with the prefix exactly once, in name order,
  with the properties it has in the store and its metadata when \<open>include\<close> asks
  for it.\<close>

theorem listAllBlobs_complete:
  assumes "store_reachable s" and "containers s n = Some c"
    and "listAllBlobs n p opts loc s = Some (Inr es)"
  shows "map blobResultName es = sorted_list_of_set {b. blobs c b \<noteq> None \<and> starts_with p b}
       \<and> set (map blobResultName es) = {b. blobs c b \<noteq> None \<and> starts_with p b}
       \<and> (\<forall>e\<in>set es. map_option (listed_blob opts n (blobResultName e)) (blobs c (blobResultName e)) = Some e)"
proof -
  have fin: "finite (dom (blobs c))"
    using reachable_store_wf [OF assms(1)] store_wf_container [OF _ assms(2)]
    by (simp add: container_wf_def)
  have es: "es = map (\<lambda>b. listed_blob opts n b (the (blobs c b))) (sorted_list_of_set {b. blobs c b \<noteq> None \<and> starts_with p b})"
    using assms(2,3) by (simp add: listAllBlobs_eq blobs_reference_def listing_names_finite [OF fin]
        split: sum.splits)
  have fin': "finite {b. blobs c b \<noteq> None \<and> starts_with p b}"
    using fin by (rule rev_finite_subset) auto
  show ?thesis
    unfolding es using fin' by (auto simp: comp_def listed_blob_def blob_result_def)
qed


text \<open>\<open>maxResults\<close> of zero is refused; a segment has at most
  \<open>maxResults\<close> entries and never more than 5000, and a segment that carries a
  continuation token is full and the token names the location that was listed.\<close>

theorem listBlobsSegmented_bounds:
  "(maxResults opts = Some 0 \<longrightarrow> isl (listBlobsSegmentedWithPrefix n p tok opts loc s))
   \<and> (\<forall>r. listBlobsSegmentedWithPrefix n p tok opts loc s = Inr r \<longrightarrow>
        length (blobEntries r) \<le> min (value_or 5000 (maxResults opts)) 5000
        \<and> (\<forall>t. blobContinuationToken r = Some t \<longrightarrow>
               length (blobEntries r) = min (value_or 5000 (maxResults opts)) 5000 \<and> targetLocation t = loc))"
  by (auto simp: listBlobsSegmentedWithPrefix_def page_size_def segment_def token_of_def Let_def split_def
      split: option.splits if_splits)

theorem listBlobsSegmented_bounds_witness:
  "length (blobEntries (projr (listBlobsSegmentedWithPrefix ''c'' [] None (list_options (Some 1)) PRIMARY
      (the (run_ops [OpCreateContainer ''c'' Map.empty OFF, OpCreateBlockBlob ''c'' ''b'' ''x'' no_blob_options,
                     OpCreateBlockBlob ''c'' ''a'' ''y'' no_blob_options] empty_store))))) \<le> 1"
proof -
  let ?s = "the (run_ops [OpCreateContainer ''c'' Map.empty OFF, OpCreateBlockBlob ''c'' ''b'' ''x'' no_blob_options,
                     OpCreateBlockBlob ''c'' ''a'' ''y'' no_blob_options] empty_store)"
  let ?r = "listBlobsSegmentedWithPrefix ''c'' [] None (list_options (Some 1)) PRIMARY ?s"
  have r: "?r = Inr (projr ?r)" by (simp add: listing_eval)
  from listBlobsSegmented_bounds [of "list_options (Some 1)" "''c''" "[]" None PRIMARY ?s] r
  show ?thesis by (simp add: list_options_def)
qed

theorem listAllBlobs_complete_witness:
  "set (map blobResultName (projr (the (listAllBlobs ''c'' [] (list_options (Some 1)) PRIMARY
      (the (run_ops [OpCreateContainer ''c'' Map.empty OFF, OpCreateBlockBlob ''c'' ''b'' ''x'' no_blob_options,
                     OpCreateBlockBlob ''c'' ''a'' ''y'' no_blob_options] empty_store))))))
   = {''a'', ''b''}"
proof -
  let ?ops = "[OpCreateContainer ''c'' Map.empty OFF, OpCreateBlockBlob ''c'' ''b'' ''x'' no_blob_options,
                     OpCreateBlockBlob ''c'' ''a'' ''y'' no_blob_options]"
  let ?s = "the (run_ops ?ops empty_store)"
  let ?l = "listAllBlobs ''c'' [] (list_options (Some 1)) PRIMARY ?s"
  have "run_ops ?ops empty_store = Some ?s" by (simp add: store_eval)
  then have reach: "store_reachable ?s" by (rule run_ops_reachable) (rule store_reachable.start)
  have c: "containers ?s ''c'' = Some (the (containers ?s ''c''))" by (simp add: store_eval)
  have l: "?l = Some (Inr (projr (the ?l)))"
    by (simp add: listAllBlobs_eq blobs_reference_def list_options_def page_size_def store_eval)
  have "set (map blobResultName (projr (the ?l))) = {b. blobs (the (containers ?s ''c'')) b \<noteq> None \<and> starts_with [] b}"
    using listAllBlobs_complete [OF reach c l] by (rule conjunct1 [OF conjunct2])
  also have "\<dots> = {''a'', ''b''}"
    by (auto simp: store_eval starts_with_def split: if_splits)
  finally show ?thesis .
qed

end
