(* ===== verification/WebResource.thy ===== *)
theory WebResource
  imports Prelude
begin

text \<open>
  \<open>Internal.WebResource\<close> (\<open>src/azure/azure-storage.d.ts\<close>, lines 547--572): the
  request a service client builds before sending it.  The class declares the
  fields \<open>rawResponse\<close> and \<open>queryString\<close>; its builder methods set the HTTP
  method and path (\<open>get\<close>, \<open>put\<close>, \<open>post\<close>, \<open>merge\<close>, \<open>head\<close>, \<open>del\<close>), a
  property, the raw-response and headers-only flags, query options, headers, the
  body, and the \<open>x-ms-meta-\<close> headers of a metadata object, each returning the
  resource.  The model is the resource as a record and each builder as a
  function on it; dictionaries (\<open>Internal.Dictionary\<close>) are maps.  A value that
  JavaScript may leave \<open>undefined\<close> (\<open>withQueryOption\<close>'s value and default, the
  metadata of \<open>addOptionalMetadataHeaders\<close>) is an option.  The verb and path
  the builders set are the fields \<open>requestMethod\<close> and \<open>path\<close>.
\<close>

datatype http_method = GET | PUT | POST | MERGE | HEAD | DELETE

record WebResource =
  rawResponse :: bool
  queryString :: "string dictionary"
  requestMethod :: "http_method option"
  path :: string
  properties :: "string dictionary"
  headersOnly :: bool
  headers :: "string dictionary"
  body :: "string option"

text \<open>\<open>constructor()\<close>: no method yet, empty dictionaries, flags off.\<close>

definition new_WebResource :: WebResource where
  "new_WebResource =
     \<lparr>rawResponse = False, queryString = Map.empty, requestMethod = None, path = [],
      properties = Map.empty, headersOnly = False, headers = Map.empty, body = None\<rparr>"

text \<open>The verb methods: \<open>get(path)\<close> and the others set the method and the path.\<close>

definition with_verb :: "http_method \<Rightarrow> string \<Rightarrow> WebResource \<Rightarrow> WebResource" where
  "with_verb m p r = r\<lparr>requestMethod := Some m, path := p\<rparr>"

definition get :: "string \<Rightarrow> WebResource \<Rightarrow> WebResource" where
  "get p r = with_verb GET p r"

definition put :: "string \<Rightarrow> WebResource \<Rightarrow> WebResource" where
  "put p r = with_verb PUT p r"

definition post :: "string \<Rightarrow> WebResource \<Rightarrow> WebResource" where
  "post p r = with_verb POST p r"

definition merge :: "string \<Rightarrow> WebResource \<Rightarrow> WebResource" where
  "merge p r = with_verb MERGE p r"

definition head :: "string \<Rightarrow> WebResource \<Rightarrow> WebResource" where
  "head p r = with_verb HEAD p r"

definition del :: "string \<Rightarrow> WebResource \<Rightarrow> WebResource" where
  "del p r = with_verb DELETE p r"

definition withProperty :: "string \<Rightarrow> string \<Rightarrow> WebResource \<Rightarrow> WebResource" where
  "withProperty name v r = r\<lparr>properties := (properties r)(name \<mapsto> v)\<rparr>"

definition withRawResponse :: "bool \<Rightarrow> WebResource \<Rightarrow> WebResource" where
  "withRawResponse b r = r\<lparr>rawResponse := b\<rparr>"

definition withHeadersOnly :: "bool \<Rightarrow> WebResource \<Rightarrow> WebResource" where
  "withHeadersOnly b r = r\<lparr>headersOnly := b\<rparr>"

text \<open>\<open>withQueryOption(name, value, defaultValue)\<close>: the value when there is one,
  otherwise the default when there is one, otherwise the query is unchanged.\<close>

definition withQueryOption :: "string \<Rightarrow> string option \<Rightarrow> string option \<Rightarrow> WebResource \<Rightarrow> WebResource" where
  "withQueryOption name v dflt r =
     (case v of
        Some x \<Rightarrow> r\<lparr>queryString := (queryString r)(name \<mapsto> x)\<rparr>
      | None \<Rightarrow> (case dflt of
                   Some d \<Rightarrow> r\<lparr>queryString := (queryString r)(name \<mapsto> d)\<rparr>
                 | None \<Rightarrow> r))"

text \<open>\<open>withQueryOptions(queryOptions)\<close> and \<open>withHeaders(headers)\<close>: every entry of
  the dictionary is set, over what was there.\<close>

definition withQueryOptions :: "string dictionary \<Rightarrow> WebResource \<Rightarrow> WebResource" where
  "withQueryOptions qo r = r\<lparr>queryString := queryString r ++ qo\<rparr>"

definition withHeader :: "string \<Rightarrow> string \<Rightarrow> WebResource \<Rightarrow> WebResource" where
  "withHeader name v r = r\<lparr>headers := (headers r)(name \<mapsto> v)\<rparr>"

definition withHeaders :: "string dictionary \<Rightarrow> WebResource \<Rightarrow> WebResource" where
  "withHeaders hs r = r\<lparr>headers := headers r ++ hs\<rparr>"

definition withBody :: "string \<Rightarrow> WebResource \<Rightarrow> WebResource" where
  "withBody b r = r\<lparr>body := Some b\<rparr>"

text \<open>The metadata header of key \<open>k\<close> is \<open>x-ms-meta-k\<close>.\<close>

definition META_PREFIX :: string where
  "META_PREFIX = ''x-ms-meta-''"

definition metadata_headers :: "metadata \<Rightarrow> string dictionary" where
  "metadata_headers md =
     (\<lambda>h. if take (length META_PREFIX) h = META_PREFIX then md (drop (length META_PREFIX) h) else None)"

definition addOptionalMetadataHeaders :: "metadata option \<Rightarrow> WebResource \<Rightarrow> WebResource" where
  "addOptionalMetadataHeaders md r =
     (case md of None \<Rightarrow> r | Some m \<Rightarrow> withHeaders (metadata_headers m) r)"

text \<open>The metadata a service reads back from the headers of a request.\<close>

definition headers_metadata :: "string dictionary \<Rightarrow> metadata" where
  "headers_metadata hs = (\<lambda>k. hs (META_PREFIX @ k))"

subsection \<open>Lemmas\<close>

lemma headers_metadata_add:
  "headers_metadata (hs ++ metadata_headers m) = headers_metadata hs ++ m"
  by (auto simp: headers_metadata_def metadata_headers_def map_add_def fun_eq_iff split: option.splits)

lemma metadata_headers_other:
  "take (length META_PREFIX) h \<noteq> META_PREFIX \<Longrightarrow> (hs ++ metadata_headers m) h = hs h"
  by (simp add: metadata_headers_def map_add_def)

lemma fold_withHeader:
  "fold (\<lambda>(k, v). withHeader k v) xs r = r\<lparr>headers := headers r ++ map_of (rev xs)\<rparr>"
proof (induction xs arbitrary: r)
  case Nil
  then show ?case by simp
next
  case (Cons kv xs)
  obtain k v where kv: "kv = (k, v)" by fastforce
  have "(headers r)(k \<mapsto> v) ++ map_of (rev xs) = headers r ++ map_of (rev xs @ [(k, v)])"
    by (auto simp: map_add_def map_of_append fun_eq_iff split: option.splits)
  then show ?case
    using Cons.IH [of "withHeader k v r"] by (simp add: kv withHeader_def fun_upd_def)
qed

text \<open>C39: a metadata object added to a request reads back from its headers: the
  \<open>x-ms-meta-\<close> headers then carry the new keys over the old ones (exactly the
  metadata, on a new resource), every other header is unchanged, and an absent
  metadata object changes nothing.\<close>

theorem addOptionalMetadataHeaders_roundtrip:
  "headers_metadata (headers (addOptionalMetadataHeaders (Some m) r)) = headers_metadata (headers r) ++ m
   \<and> headers_metadata (headers (addOptionalMetadataHeaders (Some m) new_WebResource)) = m
   \<and> (\<forall>h. take (length META_PREFIX) h \<noteq> META_PREFIX \<longrightarrow> headers (addOptionalMetadataHeaders (Some m) r) h = headers r h)
   \<and> addOptionalMetadataHeaders None r = r"
  by (simp add: addOptionalMetadataHeaders_def withHeaders_def headers_metadata_add metadata_headers_other)
     (simp add: new_WebResource_def headers_metadata_def)

theorem addOptionalMetadataHeaders_roundtrip_witness:
  "headers (addOptionalMetadataHeaders (Some [''a'' \<mapsto> ''1'']) new_WebResource) ''x-ms-meta-a'' = Some ''1''
   \<and> headers (addOptionalMetadataHeaders (Some [''a'' \<mapsto> ''1'']) new_WebResource) ''Content-Type'' = None"
  using addOptionalMetadataHeaders_roundtrip [of "[''a'' \<mapsto> ''1'']" new_WebResource]
  by (simp add: addOptionalMetadataHeaders_def withHeaders_def metadata_headers_def META_PREFIX_def
      new_WebResource_def)

text \<open>\<open>withHeaders\<close> on a dictionary given as a list of entries is
  \<open>withHeader\<close> on each entry, from the last to the first, so that the first entry
  of a key wins; nothing but the headers changes.\<close>

theorem withHeaders_fold:
  "withHeaders (map_of xs) r = fold (\<lambda>(k, v). withHeader k v) (rev xs) r"
  by (simp add: fold_withHeader withHeaders_def)

text \<open>\<open>withQueryOption\<close> sets the query option to its value when one is given,
  to the default otherwise, and leaves the query unchanged when neither is given;
  no other option and no other field changes.\<close>

theorem withQueryOption_value_default:
  "queryString (withQueryOption name v d r) name =
     (case v of Some x \<Rightarrow> Some x | None \<Rightarrow> (case d of Some y \<Rightarrow> Some y | None \<Rightarrow> queryString r name))
   \<and> (\<forall>k. k \<noteq> name \<longrightarrow> queryString (withQueryOption name v d r) k = queryString r k)
   \<and> withQueryOption name v d r = r\<lparr>queryString := queryString (withQueryOption name v d r)\<rparr>"
  by (simp add: withQueryOption_def split: option.splits)

theorem withQueryOption_value_default_witness:
  "queryString (withQueryOption ''timeout'' None (Some ''30'') new_WebResource) ''timeout'' = Some ''30''
   \<and> queryString (withQueryOption ''timeout'' (Some ''5'') (Some ''30'') new_WebResource) ''comp'' = None"
  using withQueryOption_value_default [of "''timeout''" None "Some ''30''" new_WebResource]
    withQueryOption_value_default [of "''timeout''" "Some ''5''" "Some ''30''" new_WebResource]
  by (simp add: new_WebResource_def)

end
