(* ===== verification/AppendText.thy ===== *)
theory AppendText
  imports BlobService
begin

text \<open>
  The append-blob upload procedures of \<open>BlobService\<close>
  (\<open>src/azure/azure-storage.d.ts\<close>): \<open>AppendFromText\<close> (lines 912--932) and
  \<open>createAppendBlobFromText\<close> (1069--1093) with \<open>AppendFromTextOptions\<close>
  (2250--2271).  Their comments say that "the API internally uses the
  append-offset conditional header to avoid duplicate blocks" and that it "should
  be used strictly in a single writer scenario"; with
  \<open>absorbConditionalErrorsOnRetry\<close> a retried append whose offset condition fails
  is reported as a success.  The model makes the two requests of the procedure
  explicit: the client reads the blob's length (\<open>append_offset\<close>), then appends
  with \<open>appendPosition\<close> set to it (\<open>append_attempt\<close>), so that another
  writer's request can be placed between them.
\<close>

text \<open>\<open>BlobService.AppendFromTextOptions\<close>: the content options and
  \<open>absorbConditionalErrorsOnRetry\<close> (the MD5 flags are not modelled).\<close>

record AppendFromTextOptions = BlobContentOptions +
  absorbConditionalErrorsOnRetry :: "bool option"

text \<open>A call without its options argument.\<close>

definition no_append_options :: AppendFromTextOptions where
  "no_append_options =
     \<lparr>accessConditions = None, leaseId = None, blobContentMetadata = None, contentSettings = no_headers,
      absorbConditionalErrorsOnRetry = None\<rparr>"

text \<open>The first request: the append offset is the blob's current length.\<close>

definition append_offset :: "string \<Rightarrow> string \<Rightarrow> store \<Rightarrow> storage_error + nat" where
  "append_offset n b s = map_sum id blobResultLength (getBlobProperties n b s)"

text \<open>The append request of the procedure: the lease of the options and the
  offset as \<open>appendPosition\<close>.\<close>

definition append_options :: "nat \<Rightarrow> AppendFromTextOptions \<Rightarrow> AppendBlockOptions" where
  "append_options pos opts =
     \<lparr>accessConditions = None, leaseId = leaseId opts, maxBlobSize = None, appendPosition = Some pos\<rparr>"

text \<open>One attempt of the append; \<open>retried\<close> says whether it repeats an attempt
  whose answer was lost.  On a retry, an offset failure is absorbed when the
  options ask for it: the blob is reported as it is.\<close>

definition append_attempt ::
  "string \<Rightarrow> string \<Rightarrow> string \<Rightarrow> nat \<Rightarrow> AppendFromTextOptions \<Rightarrow> bool \<Rightarrow> store \<Rightarrow> storage_error + BlobResult \<times> store" where
  "append_attempt n b txt pos opts retried s =
     (case appendBlockFromText n b txt (append_options pos opts) s of
        Inl AppendPositionConditionNotMet \<Rightarrow>
          if retried \<and> absorbConditionalErrorsOnRetry opts = Some True
          then (case getBlobProperties n b s of Inl e \<Rightarrow> Inl e | Inr r \<Rightarrow> Inr (r, s))
          else Inl AppendPositionConditionNotMet
      | res \<Rightarrow> res)"

text \<open>\<open>AppendFromText\<close>: "Appends to an append blob from a text string.  Assumes
  the blob already exists on the service."  Without another writer, the two
  requests follow each other.\<close>

definition AppendFromText ::
  "string \<Rightarrow> string \<Rightarrow> string \<Rightarrow> AppendFromTextOptions \<Rightarrow> store \<Rightarrow> storage_error + BlobResult \<times> store" where
  "AppendFromText n b txt opts s =
     (case append_offset n b s of
        Inl e \<Rightarrow> Inl e
      | Inr pos \<Rightarrow> append_attempt n b txt pos opts False s)"

text \<open>\<open>createAppendBlobFromText\<close>: "Uploads an append blob from a text string.  If
  the blob already exists on the service, it will be overwritten."  The blob is
  created under the options' conditions, then the text is appended.\<close>

definition createAppendBlobFromText ::
  "string \<Rightarrow> string \<Rightarrow> string \<Rightarrow> AppendFromTextOptions \<Rightarrow> store \<Rightarrow> storage_error + BlobResult \<times> store" where
  "createAppendBlobFromText n b txt opts s =
     (case createOrReplaceAppendBlob n b (BlobContentOptions.truncate opts) s of
        Inl e \<Rightarrow> Inl e
      | Inr (r, s1) \<Rightarrow> AppendFromText n b txt opts s1)"

subsection \<open>Lemmas\<close>

lemma appendBlockFromText_Inr:
  assumes "appendBlockFromText n b txt o' s = Inr (r, s')"
  shows "\<exists>c x. containers s n = Some c \<and> blobs c b = Some x \<and> blobType x = AppendBlob
           \<and> (\<forall>p. appendPosition o' = Some p \<longrightarrow> p = length (content x))
           \<and> r = blob_result n b (x\<lparr>content := content x @ txt, blobProps := fresh_props s\<rparr>)
           \<and> s' = tick (put_blob n c b (x\<lparr>content := content x @ txt, blobProps := fresh_props s\<rparr>) s)"
  using assms
  by (auto simp: appendBlockFromText_def update_blob_def Let_def split: option.splits sum.splits if_splits)

lemma append_offset_Inr:
  "append_offset n b s = Inr pos \<Longrightarrow> \<exists>x. blob_at n b s = Some x \<and> pos = length (content x)"
  by (auto simp: append_offset_def getBlobProperties_def blob_at_def blob_result_def split: option.splits)

lemma append_position_refused:
  assumes "blob_at n b s = Some x" and "blobType x = AppendBlob" and "pos \<noteq> length (content x)"
    and "write_check (clock s) (Some (blobProps x, blobLease x)) (LeaseAndAccessConditionsOptions.truncate (append_options pos opts)) = None"
  shows "appendBlockFromText n b txt (append_options pos opts) s = Inl AppendPositionConditionNotMet"
  using assms by (auto simp: appendBlockFromText_def update_blob_def blob_at_def append_options_def
      split: option.splits)

lemma AppendFromText_appends:
  assumes "AppendFromText n b txt opts s = Inr (r, s')" and "blob_at n b s = Some x"
  shows "blobType x = AppendBlob \<and> (\<exists>x'. blob_at n b s' = Some x' \<and> content x' = content x @ txt)"
proof -
  obtain pos where pos: "append_offset n b s = Inr pos"
    and a: "append_attempt n b txt pos opts False s = Inr (r, s')"
    using assms(1) by (auto simp: AppendFromText_def split: sum.splits)
  have "appendBlockFromText n b txt (append_options pos opts) s = Inr (r, s')"
    using a by (auto simp: append_attempt_def split: sum.splits storage_error.splits)
  then obtain c x0 where c: "containers s n = Some c" and x0: "blobs c b = Some x0" and ty: "blobType x0 = AppendBlob"
    and s': "s' = tick (put_blob n c b (x0\<lparr>content := content x0 @ txt, blobProps := fresh_props s\<rparr>) s)"
    by (blast dest: appendBlockFromText_Inr)
  have "x0 = x" using assms(2) c x0 by (simp add: blob_at_def)
  then show ?thesis using ty by (simp add: s')
qed

lemma append_write_check:
  "leaseId opts = None \<Longrightarrow> \<not> lease_active l now \<Longrightarrow>
   write_check now (Some (p, l)) (LeaseAndAccessConditionsOptions.truncate (append_options pos opts)) = None"
  by (simp add: write_check_def lease_check_def conditions_ok_def append_options_def
      LeaseAndAccessConditionsOptions.truncate_def conditions_hold_empty)

lemma appendBlockFromText_keeps_lease:
  "appendBlockFromText n b u o2 s = Inr (r2, s1) \<Longrightarrow> blob_at n b s = Some x \<Longrightarrow>
   \<exists>x1. blob_at n b s1 = Some x1 \<and> content x1 = content x @ u \<and> blobType x1 = AppendBlob
        \<and> blobLease x1 = blobLease x \<and> clock s1 = Suc (clock s)"
  by (drule appendBlockFromText_Inr) (auto simp: blob_at_def tick_def put_blob_def put_container_def)

lemma append_retry_absorbed:
  assumes "blob_at n b s1 = Some x1" and "blobType x1 = AppendBlob" and "pos \<noteq> length (content x1)"
    and "leaseId opts = None" and "\<not> lease_active (blobLease x1) (clock s1)"
  shows "append_attempt n b txt pos opts r s1 =
           (if r \<and> absorbConditionalErrorsOnRetry opts = Some True
            then Inr (blob_result n b x1, s1) else Inl AppendPositionConditionNotMet)"
proof -
  have "write_check (clock s1) (Some (blobProps x1, blobLease x1))
          (LeaseAndAccessConditionsOptions.truncate (append_options pos opts)) = None"
    using assms(4,5) by (rule append_write_check)
  with assms(1-3) have "appendBlockFromText n b txt (append_options pos opts) s1 = Inl AppendPositionConditionNotMet"
    by (rule append_position_refused)
  then show ?thesis
    using assms(1) by (auto simp: append_attempt_def getBlobProperties_def blob_at_def split: option.splits)
qed

lemmas append_eval = store_eval AppendFromText_def append_offset_def append_attempt_def append_options_def
  getBlobProperties_def appendBlockFromText_def update_blob_def no_append_options_def blob_result_def
  createAppendBlobFromText_def

text \<open>Without another writer, \<open>AppendFromText\<close> on an existing blob
  succeeds only on an append blob and appends exactly its text at the end.\<close>

theorem AppendFromText_single_writer:
  assumes "AppendFromText n b txt opts s = Inr (r, s')" and "blob_at n b s = Some x"
  shows "blobType x = AppendBlob \<and> (\<exists>x'. blob_at n b s' = Some x' \<and> content x' = content x @ txt)"
  using assms by (rule AppendFromText_appends)

theorem AppendFromText_single_writer_witness:
  "map_sum id fst (getBlobToText ''c'' ''a'' (snd (projr (AppendFromText ''c'' ''a'' ''xy'' no_append_options
      (the (run_ops [OpCreateContainer ''c'' Map.empty OFF, OpCreateAppendBlob ''c'' ''a'' no_blob_options] empty_store))))))
   = Inr ''xy''"
proof -
  let ?s = "the (run_ops [OpCreateContainer ''c'' Map.empty OFF, OpCreateAppendBlob ''c'' ''a'' no_blob_options] empty_store)"
  let ?r = "AppendFromText ''c'' ''a'' ''xy'' no_append_options ?s"
  have d: "?r = Inr (fst (projr ?r), snd (projr ?r))" by (simp add: append_eval)
  have x: "blob_at ''c'' ''a'' ?s = Some (the (blob_at ''c'' ''a'' ?s))" by (simp add: store_eval blob_at_def)
  from AppendFromText_single_writer [OF d x] obtain x' where
    "blob_at ''c'' ''a'' (snd (projr ?r)) = Some x'" "content x' = content (the (blob_at ''c'' ''a'' ?s)) @ ''xy''"
    by blast
  moreover have "content (the (blob_at ''c'' ''a'' ?s)) = []" by (simp add: store_eval blob_at_def)
  ultimately show ?thesis by (auto simp: blob_at_def getBlobToText_def split: option.splits)
qed

text \<open>C19: "This API should be used strictly in a single writer scenario": when
  another writer appends between the procedure's offset read and its append, the
  append is refused with \<open>AppendPositionConditionNotMet\<close>, so the text is never
  written at a wrong offset; but a retried attempt with
  \<open>absorbConditionalErrorsOnRetry\<close> then reports success without appending.\<close>

theorem AppendFromText_interleaving:
  assumes "append_offset n b s = Inr pos"
    and "appendBlockFromText n b u o2 s = Inr (r2, s1)" and "u \<noteq> []"
    and "leaseId opts = None" and "blob_at n b s = Some x" and "\<not> lease_active (blobLease x) (Suc (clock s))"
  shows "append_attempt n b txt pos opts False s1 = Inl AppendPositionConditionNotMet
         \<and> (absorbConditionalErrorsOnRetry opts = Some True \<longrightarrow>
              (\<exists>r'. append_attempt n b txt pos opts True s1 = Inr (r', s1)))"
proof -
  obtain x1 where x1: "blob_at n b s1 = Some x1" "content x1 = content x @ u" "blobType x1 = AppendBlob"
    "blobLease x1 = blobLease x" "clock s1 = Suc (clock s)"
    using appendBlockFromText_keeps_lease [OF assms(2,5)] by blast
  have "pos = length (content x)" using append_offset_Inr [OF assms(1)] assms(5) by auto
  then have "pos \<noteq> length (content x1)" using x1(2) assms(3) by simp
  from append_retry_absorbed [OF x1(1) x1(3) this assms(4)] x1(4,5) assms(6) show ?thesis
    by simp
qed

theorem AppendFromText_interleaving_witness:
  "append_attempt ''c'' ''a'' ''xy'' 0 no_append_options False
     (snd (projr (appendBlockFromText ''c'' ''a'' ''u'' (append_options 0 no_append_options)
        (the (run_ops [OpCreateContainer ''c'' Map.empty OFF, OpCreateAppendBlob ''c'' ''a'' no_blob_options] empty_store)))))
   = Inl AppendPositionConditionNotMet"
proof -
  let ?s = "the (run_ops [OpCreateContainer ''c'' Map.empty OFF, OpCreateAppendBlob ''c'' ''a'' no_blob_options] empty_store)"
  let ?o = "appendBlockFromText ''c'' ''a'' ''u'' (append_options 0 no_append_options) ?s"
  have off: "append_offset ''c'' ''a'' ?s = Inr 0" by (simp add: append_eval)
  have d: "?o = Inr (fst (projr ?o), snd (projr ?o))" by (simp add: append_eval)
  have x: "blob_at ''c'' ''a'' ?s = Some (the (blob_at ''c'' ''a'' ?s))" by (simp add: store_eval blob_at_def)
  have l: "\<not> lease_active (blobLease (the (blob_at ''c'' ''a'' ?s))) (Suc (clock ?s))"
    by (simp add: append_eval blob_at_def)
  from AppendFromText_interleaving [OF off d _ _ x l] show ?thesis
    by (simp add: no_append_options_def)
qed

text \<open>C20: "uses the append-offset conditional header to avoid duplicate blocks":
  when an append succeeded but its answer was lost, the retried append does not
  append the text a second time; it is refused with
  \<open>AppendPositionConditionNotMet\<close>, or reported as a success when
  \<open>absorbConditionalErrorsOnRetry\<close> is set.\<close>

theorem append_retry_no_duplicate:
  assumes "append_attempt n b txt pos opts False s = Inr (r1, s1)" and "txt \<noteq> []"
    and "leaseId opts = None" and "blob_at n b s = Some x" and "\<not> lease_active (blobLease x) (Suc (clock s))"
  shows "(\<exists>x1. blob_at n b s1 = Some x1 \<and> content x1 = content x @ txt)
         \<and> (absorbConditionalErrorsOnRetry opts = Some True \<longrightarrow>
              (\<exists>r'. append_attempt n b txt pos opts True s1 = Inr (r', s1)))
         \<and> (absorbConditionalErrorsOnRetry opts \<noteq> Some True \<longrightarrow>
              append_attempt n b txt pos opts True s1 = Inl AppendPositionConditionNotMet)"
proof -
  have a: "appendBlockFromText n b txt (append_options pos opts) s = Inr (r1, s1)"
    using assms(1) by (auto simp: append_attempt_def split: sum.splits storage_error.splits)
  obtain x1 where x1: "blob_at n b s1 = Some x1" "content x1 = content x @ txt" "blobType x1 = AppendBlob"
    "blobLease x1 = blobLease x" "clock s1 = Suc (clock s)"
    using appendBlockFromText_keeps_lease [OF a assms(4)] by blast
  have "pos = length (content x)"
    using appendBlockFromText_Inr [OF a] assms(4) by (auto simp: blob_at_def append_options_def)
  then have "pos \<noteq> length (content x1)" using x1(2) assms(2) by simp
  from append_retry_absorbed [OF x1(1) x1(3) this assms(3)] x1 assms(5) show ?thesis
    by auto
qed

theorem append_retry_no_duplicate_witness:
  "append_attempt ''c'' ''a'' ''xy'' 0 (no_append_options\<lparr>absorbConditionalErrorsOnRetry := Some True\<rparr>) True
     (snd (projr (append_attempt ''c'' ''a'' ''xy'' 0 (no_append_options\<lparr>absorbConditionalErrorsOnRetry := Some True\<rparr>) False
        (the (run_ops [OpCreateContainer ''c'' Map.empty OFF, OpCreateAppendBlob ''c'' ''a'' no_blob_options] empty_store)))))
   \<noteq> Inl AppendPositionConditionNotMet"
proof -
  let ?s = "the (run_ops [OpCreateContainer ''c'' Map.empty OFF, OpCreateAppendBlob ''c'' ''a'' no_blob_options] empty_store)"
  let ?opts = "no_append_options\<lparr>absorbConditionalErrorsOnRetry := Some True\<rparr>"
  let ?a = "append_attempt ''c'' ''a'' ''xy'' 0 ?opts False ?s"
  have d: "?a = Inr (fst (projr ?a), snd (projr ?a))" by (simp add: append_eval)
  have x: "blob_at ''c'' ''a'' ?s = Some (the (blob_at ''c'' ''a'' ?s))" by (simp add: store_eval blob_at_def)
  have l: "\<not> lease_active (blobLease (the (blob_at ''c'' ''a'' ?s))) (Suc (clock ?s))"
    by (simp add: append_eval blob_at_def)
  from append_retry_no_duplicate [OF d _ _ x l] show ?thesis
    by (auto simp: no_append_options_def)
qed

text \<open>After \<open>createAppendBlobFromText\<close> succeeds, the blob is an append blob
  whose text is exactly the uploaded text, whatever it held before.\<close>

theorem createAppendBlobFromText_getBlobToText:
  assumes "createAppendBlobFromText n b txt opts s = Inr (r, s')"
  shows "map_sum id fst (getBlobToText n b s') = Inr txt \<and> blobResultType r = AppendBlob"
proof -
  obtain r1 s1 where c: "createOrReplaceAppendBlob n b (BlobContentOptions.truncate opts) s = Inr (r1, s1)"
    and a: "AppendFromText n b txt opts s1 = Inr (r, s')"
    using assms by (auto simp: createAppendBlobFromText_def split: sum.splits)
  obtain c0 where s1: "s1 = tick (put_blob n (c0\<lparr>uncommitted := (uncommitted c0)(b := [])\<rparr>) b
      (write_blob s (blobs c0 b) AppendBlob [] (value_or Map.empty (blobContentMetadata (BlobContentOptions.truncate opts)))
         (blob_content_headers (BlobContentOptions.truncate opts)) [] 0) s)"
    using put_whole_blob_Inr [OF c [unfolded createOrReplaceAppendBlob_def]] by blast
  let ?x = "write_blob s (blobs c0 b) AppendBlob [] (value_or Map.empty (blobContentMetadata (BlobContentOptions.truncate opts)))
         (blob_content_headers (BlobContentOptions.truncate opts)) [] 0"
  have x: "blob_at n b s1 = Some ?x" by (simp add: s1)
  obtain x' where x': "blob_at n b s' = Some x'" "content x' = txt"
    using AppendFromText_appends [OF a x] by (auto simp: write_blob_def)
  obtain pos where "append_attempt n b txt pos opts False s1 = Inr (r, s')"
    using a by (auto simp: AppendFromText_def split: sum.splits)
  then have "appendBlockFromText n b txt (append_options pos opts) s1 = Inr (r, s')"
    by (auto simp: append_attempt_def split: sum.splits storage_error.splits)
  from appendBlockFromText_Inr [OF this] have "blobResultType r = AppendBlob"
    by (auto simp: blob_result_def)
  moreover have "map_sum id fst (getBlobToText n b s') = Inr txt"
    using x' by (auto simp: getBlobToText_def blob_at_def split: option.splits)
  ultimately show ?thesis by simp
qed

theorem createAppendBlobFromText_getBlobToText_witness:
  "map_sum id fst (getBlobToText ''c'' ''a'' (snd (projr (createAppendBlobFromText ''c'' ''a'' ''hello'' no_append_options
      (the (run_ops [OpCreateContainer ''c'' Map.empty OFF] empty_store)))))) = Inr ''hello''"
proof -
  let ?s = "the (run_ops [OpCreateContainer ''c'' Map.empty OFF] empty_store)"
  let ?r = "createAppendBlobFromText ''c'' ''a'' ''hello'' no_append_options ?s"
  have d: "?r = Inr (fst (projr ?r), snd (projr ?r))" by (simp add: append_eval)
  from createAppendBlobFromText_getBlobToText [OF d] show ?thesis by blast
qed

end
