(* ===== verification/BlockUpload.thy ===== *)
theory BlockUpload
  imports BlobService
begin

text \<open>
  Uploading a block blob from a stream (\<open>src/azure/azure-storage.d.ts\<close>):
  \<open>createBlockBlobFromStream\<close> (lines 1131--1150), \<open>createBlockFromStream\<close>
  (1173--1192), \<open>getBlockId\<close> (1669--1673), \<open>CreateFromFileOptions\<close> and
  \<open>CreateFromStreamOptions\<close> (2284--2300), and the service defaults
  \<open>singleBlobPutThresholdInBytes\<close> and \<open>parallelOperationThreadCount\<close> of the
  \<open>BlobService\<close> class comment (754--766).  A blob no larger than the threshold is
  sent in one request (\<open>createBlockBlobFromText\<close>); a larger one "must be
  separated into blocks": the stream is cut into blocks, each block is staged under
  the identifier \<open>getBlockId\<close> gives its number, up to
  \<open>parallelOperationThreadCount\<close> stagings at a time and so in any order, and the
  list of identifiers is committed with \<open>commitBlocks\<close>.  A stream is its content;
  \<open>streamLength\<close> is the caller's statement of that content's length, which the
  library uses to choose between the two ways.  The block size and the prefix
  \<open>generateBlockIdPrefix\<close> draws at random when \<open>blockIdPrefix\<close> is not given are
  arguments.
\<close>

subsection \<open>Block identifiers\<close>

text \<open>The defaults of a \<open>BlobService\<close> that govern uploads.\<close>

record BlobServiceDefaults =
  singleBlobPutThresholdInBytes :: nat
  parallelOperationThreadCount :: nat

text \<open>\<open>getBlockId(prefix, number)\<close>: "Get a block id according to prefix and block
  number": the prefix, a dash, and the number in decimal, padded with zeros to six
  digits, as the library writes it.\<close>

definition BLOCK_ID_DIGITS :: nat where
  "BLOCK_ID_DIGITS = 6"

definition zero_pad :: "nat \<Rightarrow> string \<Rightarrow> string" where
  "zero_pad w t = replicate (w - length t) (CHR ''0'') @ t"

definition getBlockId :: "string \<Rightarrow> nat \<Rightarrow> string" where
  "getBlockId prefix number = prefix @ ''-'' @ zero_pad BLOCK_ID_DIGITS (decimal number)"

text \<open>How a block identifier of a prefix reads back as its number.\<close>

definition block_number :: "string \<Rightarrow> string \<Rightarrow> nat option" where
  "block_number prefix i =
     (if take (Suc (length prefix)) i = prefix @ ''-'' then parse_decimal (drop (Suc (length prefix)) i) else None)"

subsection \<open>Cutting a stream into blocks\<close>

text \<open>The blocks of a stream: consecutive pieces of \<open>k\<close> characters, the last one
  possibly shorter.\<close>

function chunks :: "nat \<Rightarrow> 'a list \<Rightarrow> 'a list list" where
  "chunks k xs = (if xs = [] then [] else if k = 0 then [xs] else take k xs # chunks k (drop k xs))"
  by pat_completeness auto

termination by (relation "measure (length \<circ> snd)") auto

declare chunks.simps [simp del]

text \<open>The block list of an upload: the blocks, numbered from zero, under their
  identifiers.\<close>

definition block_list :: "string \<Rightarrow> nat \<Rightarrow> string \<Rightarrow> (string \<times> string) list" where
  "block_list prefix k data = (let cs = chunks k data in zip (map (getBlockId prefix) [0..<length cs]) cs)"

subsection \<open>Staging and committing\<close>

text \<open>\<open>createBlockFromStream(blockId, container, blob, stream, streamLength, options)\<close>
  stages the stream's content as a block (\<open>CreateBlockOptions\<close>' MD5 fields are
  not modelled).\<close>

definition createBlockFromStream ::
  "string \<Rightarrow> string \<Rightarrow> string \<Rightarrow> string \<Rightarrow> nat \<Rightarrow> LeaseAndAccessConditionsOptions \<Rightarrow> store
   \<Rightarrow> storage_error + unit \<times> store" where
  "createBlockFromStream i n b stream streamLength opts s = createBlockFromText i n b stream opts s"

text \<open>Staging blocks in the order the requests complete; the first failure ends
  the upload.\<close>

fun stage_blocks ::
  "string \<Rightarrow> string \<Rightarrow> (string \<times> string) list \<Rightarrow> LeaseAndAccessConditionsOptions \<Rightarrow> store \<Rightarrow> storage_error + store" where
  "stage_blocks n b [] opts s = Inr s"
| "stage_blocks n b ((i, t) # bs) opts s =
     (case createBlockFromText i n b t opts s of
        Inl err \<Rightarrow> Inl err
      | Inr (u, s') \<Rightarrow> stage_blocks n b bs opts s')"

text \<open>The block upload: stage the blocks in the order \<open>order\<close> the parallel
  requests complete in, commit the identifiers in the order of the blob, and
  report the blob's properties.\<close>

definition commit_upload ::
  "string \<Rightarrow> string \<Rightarrow> (string \<times> string) list \<Rightarrow> (string \<times> string) list \<Rightarrow> BlobContentOptions \<Rightarrow> store
   \<Rightarrow> storage_error + BlobResult \<times> store" where
  "commit_upload n b bs order opts s =
     (case stage_blocks n b order (LeaseAndAccessConditionsOptions.truncate opts) s of
        Inl err \<Rightarrow> Inl err
      | Inr s1 \<Rightarrow>
          (case commitBlocks n b (map fst bs) opts s1 of
             Inl err \<Rightarrow> Inl err
           | Inr (lr, s2) \<Rightarrow> map_sum id (\<lambda>r. (r, s2)) (getBlobProperties n b s2)))"

text \<open>\<open>BlobService.CreateFromFileOptions\<close>: the content options and
  \<open>blockIdPrefix\<close> (the thread count is the service default's; the MD5 flag is
  not modelled).  \<open>CreateFromStreamOptions\<close> adds the speed summary and MD5 flag,
  neither modelled.\<close>

record CreateFromFileOptions = BlobContentOptions +
  blockIdPrefix :: "string option"

type_synonym CreateFromStreamOptions = CreateFromFileOptions

text \<open>\<open>createBlockBlobFromStream(container, blob, stream, streamLength, options)\<close>
  with the block size \<open>k\<close> and the generated prefix \<open>rnd\<close>; the blocks are
  staged in their own order.\<close>

definition createBlockBlobFromStream ::
  "BlobServiceDefaults \<Rightarrow> nat \<Rightarrow> string \<Rightarrow> string \<Rightarrow> string \<Rightarrow> string \<Rightarrow> nat \<Rightarrow> CreateFromStreamOptions \<Rightarrow> store
   \<Rightarrow> storage_error + BlobResult \<times> store" where
  "createBlockBlobFromStream cfg k rnd n b stream streamLength opts s =
     (let copts = BlobContentOptions.truncate opts in
      if streamLength \<le> singleBlobPutThresholdInBytes cfg then createBlockBlobFromText n b stream copts s
      else let bs = block_list (value_or rnd (blockIdPrefix opts)) k stream in commit_upload n b bs bs copts s)"

text \<open>The store with the committed block list of one blob replaced, if the blob
  exists: the only difference between a block upload and a single put.\<close>

definition set_committed :: "string \<Rightarrow> string \<Rightarrow> (string \<times> string) list \<Rightarrow> store \<Rightarrow> store" where
  "set_committed n b bs s =
     s\<lparr>containers := (containers s)(n := map_option (\<lambda>c. c\<lparr>blobs := (blobs c)(b := map_option (\<lambda>x. x\<lparr>committedBlocks := bs\<rparr>) (blobs c b))\<rparr>) (containers s n))\<rparr>"

subsection \<open>Lemmas\<close>

lemma chunks_concat: "concat (chunks k xs) = xs"
  by (induction k xs rule: chunks.induct) (subst chunks.simps, simp)

lemma chunks_bounds: "0 < k \<Longrightarrow> c \<in> set (chunks k xs) \<Longrightarrow> c \<noteq> [] \<and> length c \<le> k"
proof (induction k xs rule: chunks.induct)
  case (1 k xs)
  then show ?case by (subst (asm) chunks.simps) (auto split: if_splits)
qed

lemma length_chunks: "0 < k \<Longrightarrow> length (chunks k xs) = (length xs + k - 1) div k"
proof (induction k xs rule: chunks.induct)
  case (1 k xs)
  show ?case
  proof (cases "xs = []")
    case False
    show ?thesis
    proof (cases "length xs \<le> k")
      case True
      have k: "k \<le> length xs + k - 1" using False by (cases xs) auto
      have "(length xs + k - 1) div k = Suc ((length xs + k - 1 - k) div k)"
        using 1(2) k by (simp add: le_div_geq)
      also have "(length xs + k - 1 - k) div k = 0"
        using True False 1(2) by (cases xs) (auto intro: div_less)
      finally show ?thesis using False True by (subst chunks.simps) (simp add: chunks.simps)
    next
      case le: False
      then have "(length xs + k - 1) div k = Suc ((length xs - k + k - 1) div k)"
        using 1(2) by (simp add: le_div_geq)
      with False le 1 show ?thesis by (subst chunks.simps) simp
    qed
  qed (simp add: chunks.simps 1(2))
qed

lemma parse_digits_zeros: "parse_digits 0 (replicate j (CHR ''0'') @ t) = parse_digits 0 t"
  by (induction j) simp_all

lemma block_number_getBlockId: "block_number p (getBlockId p n) = Some n"
  by (simp add: block_number_def getBlockId_def zero_pad_def parse_decimal_def parse_digits_zeros parse_digits_decimal decimal_nonempty)

lemma getBlockId_inj: "getBlockId p m = getBlockId p n \<Longrightarrow> m = n"
  by (metis block_number_getBlockId option.inject)

lemma block_list_fst: "map fst (block_list p k d) = map (getBlockId p) [0..<length (chunks k d)]"
  by (simp add: block_list_def Let_def)

lemma block_list_snd: "map snd (block_list p k d) = chunks k d"
  by (simp add: block_list_def Let_def)

lemma block_list_distinct: "distinct (map fst (block_list p k d))"
  by (simp add: block_list_fst distinct_map inj_on_def getBlockId_inj)

lemma map_of_stage_block: "map_of (stage_block i t bs) = (map_of bs)(i \<mapsto> t)"
  by (induction bs) (auto simp: stage_block_def fun_eq_iff)

lemma map_of_foldl_stage:
  "map_of (foldl (\<lambda>u (i, t). stage_block i t u) u0 ps) = map_of u0 ++ map_of (rev ps)"
  by (induction ps arbitrary: u0) (auto simp: map_of_stage_block map_add_assoc)

lemma map_of_same_pairs:
  assumes "distinct (map fst bs)" and "set ps = set bs"
  shows "map_of ps = map_of bs"
proof
  fix i
  show "map_of ps i = map_of bs i"
  proof (cases "map_of bs i")
    case None
    then have "i \<notin> fst ` set ps" using assms(2) by (simp add: map_of_eq_None_iff)
    then have "map_of ps i = None" by (simp add: map_of_eq_None_iff)
    with None show ?thesis by simp
  next
    case (Some t)
    then have "(i, t) \<in> set ps" using assms(2) by (simp add: map_of_SomeD)
    then obtain t' where t': "map_of ps i = Some t'" by (meson weak_map_of_SomeI)
    then have "(i, t') \<in> set bs" using assms(2) by (auto dest: map_of_SomeD)
    then have "t' = t" using Some map_of_is_SomeI [OF assms(1)] by fastforce
    with t' Some show ?thesis by simp
  qed
qed

lemma resolve_staged_blocks:
  assumes "distinct (map fst bs)" and "set ps = set bs"
  shows "resolve_blocks (foldl (\<lambda>u (i, t). stage_block i t u) u0 ps) committed (map fst bs) = Some bs"
proof -
  let ?u = "foldl (\<lambda>u (i, t). stage_block i t u) u0 ps"
  have "map_of (rev ps) = map_of bs"
    using map_of_same_pairs [OF assms(1), of "rev ps"] assms(2) by simp
  then have m: "map_of ?u = map_of u0 ++ map_of bs" by (simp add: map_of_foldl_stage)
  have dom: "set (map fst bs) \<subseteq> fst ` set ?u"
  proof -
    have "dom (map_of ?u) = dom (map_of u0) \<union> dom (map_of bs)" by (auto simp: m)
    then show ?thesis by (auto simp: dom_map_of_conv_image_fst)
  qed
  have "\<forall>p\<in>set bs. (fst p, the (map_of ?u (fst p))) = p"
    using map_of_is_SomeI [OF assms(1)] by (auto simp: m map_add_def)
  then have "map (\<lambda>i. (i, the (map_of ?u i))) (map fst bs) = bs"
    by (simp add: map_idI)
  then show ?thesis using resolve_blocks_staged [OF dom] by simp
qed

lemma put_container_twice [simp]: "put_container n c' (put_container n c s) = put_container n c' s"
  by (simp add: put_container_def)

lemma stage_blocks_eq:
  assumes "containers s n = Some c"
  shows "stage_blocks n b ps opts s =
     (case (if ps = [] then None
            else case blobs c b of None \<Rightarrow> None | Some x \<Rightarrow> lease_check (clock s) (blobLease x) (leaseId opts)) of
        Some err \<Rightarrow> Inl err
      | None \<Rightarrow> Inr (put_container n (c\<lparr>uncommitted := (uncommitted c)(b := foldl (\<lambda>u (i, t). stage_block i t u) (uncommitted c b) ps)\<rparr>) s))"
  using assms
proof (induction ps arbitrary: s c)
  case Nil
  have "put_container n c s = s" using Nil by (simp add: put_container_def fun_upd_idem)
  then show ?case by simp
next
  case (Cons p ps)
  obtain i t where p: "p = (i, t)" by (cases p)
  let ?c1 = "c\<lparr>uncommitted := (uncommitted c)(b := stage_block i t (uncommitted c b))\<rparr>"
  have c1: "containers (put_container n ?c1 s) n = Some ?c1" "clock (put_container n ?c1 s) = clock s" by simp_all
  show ?case
    using Cons.IH [OF c1(1)] Cons.prems c1(2)
    by (cases ps) (auto simp: p createBlockFromText_def split: option.splits)
qed

lemma stage_blocks_no_container:
  assumes "containers s n = None"
  shows "stage_blocks n b ps opts s = (if ps = [] then Inr s else Inl ContainerNotFound)"
proof (cases ps)
  case (Cons p ps')
  then show ?thesis using assms by (cases p) (simp add: createBlockFromText_def)
qed simp

lemma put_whole_blob_getBlobProperties:
  "put_whole_blob n b ty txt bs sq opts s = Inr (r, s') \<Longrightarrow> getBlobProperties n b s' = Inr r"
  by (drule put_whole_blob_Inr) (auto simp: getBlobProperties_def put_blob_def)

lemma blob_result_committed [simp]: "blob_result n b (x\<lparr>committedBlocks := bs\<rparr>) = blob_result n b x"
  by (simp add: blob_result_def)

lemma put_whole_blob_staged:
  assumes "containers s n = Some c"
  shows "put_whole_blob n b ty txt bs sq opts (put_container n (c\<lparr>uncommitted := (uncommitted c)(b := u)\<rparr>) s) =
         map_sum id (\<lambda>(r, s'). (r, set_committed n b bs s')) (put_whole_blob n b ty txt [] sq opts s)"
  using assms
  by (auto simp: put_whole_blob_def Let_def write_blob_def fresh_props_def set_committed_def put_blob_def
      put_container_def tick_def fun_eq_iff blob_result_def split: option.splits)

lemma commit_upload_eq:
  assumes "distinct (map fst bs)" and "set order = set bs"
  shows "commit_upload n b bs order opts s =
         map_sum id (\<lambda>(r, s'). (r, set_committed n b bs s')) (createBlockBlobFromText n b (concat (map snd bs)) opts s)"
proof (cases "containers s n")
  case None
  then show ?thesis
    by (simp add: commit_upload_def createBlockBlobFromText_def put_whole_blob_def commitBlocks_def
        stage_blocks_no_container)
next
  case (Some c)
  let ?U = "foldl (\<lambda>u (i, t). stage_block i t u) (uncommitted c b) order"
  let ?s1 = "put_container n (c\<lparr>uncommitted := (uncommitted c)(b := ?U)\<rparr>) s"
  have ne: "order = [] \<longleftrightarrow> bs = []" using assms(2) by auto
  show ?thesis
  proof (cases "if order = [] then None
      else case blobs c b of None \<Rightarrow> None
        | Some x \<Rightarrow> lease_check (clock s) (blobLease x) (leaseId (LeaseAndAccessConditionsOptions.truncate opts))")
    case (Some err)
    then obtain x where "blobs c b = Some x" "lease_check (clock s) (blobLease x) (leaseId opts) = Some err" "bs \<noteq> []"
      using ne by (auto simp: LeaseAndAccessConditionsOptions.truncate_def split: if_splits option.splits)
    moreover have "stage_blocks n b order (LeaseAndAccessConditionsOptions.truncate opts) s = Inl err"
      using Some stage_blocks_eq [OF \<open>containers s n = Some c\<close>, of b order] by simp
    ultimately show ?thesis
      by (simp add: commit_upload_def createBlockBlobFromText_def put_whole_blob_def write_check_def blob_guard_def
          \<open>containers s n = Some c\<close> LeaseAndAccessConditionsOptions.truncate_def)
  next
    case None
    have st: "stage_blocks n b order (LeaseAndAccessConditionsOptions.truncate opts) s = Inr ?s1"
      using None stage_blocks_eq [OF \<open>containers s n = Some c\<close>, of b order] by simp
    have r: "resolve_blocks ?U cm (map fst bs) = Some bs" for cm
      by (rule resolve_staged_blocks [OF assms])
    have pw: "put_whole_blob n b BlockBlob (concat (map snd bs)) bs 0 opts ?s1 =
         map_sum id (\<lambda>(r, s'). (r, set_committed n b bs s')) (createBlockBlobFromText n b (concat (map snd bs)) opts s)"
      unfolding createBlockBlobFromText_def by (rule put_whole_blob_staged [OF \<open>containers s n = Some c\<close>])
    show ?thesis
    proof (cases "put_whole_blob n b BlockBlob (concat (map snd bs)) bs 0 opts ?s1")
      case (Inl err)
      then show ?thesis using st r pw \<open>containers s n = Some c\<close>
        by (simp add: commit_upload_def commitBlocks_def Let_def)
    next
      case (Inr rs)
      then show ?thesis using st r pw \<open>containers s n = Some c\<close> put_whole_blob_getBlobProperties [of n b]
        by (cases rs) (simp add: commit_upload_def commitBlocks_def Let_def)
    qed
  qed
qed

lemma length_decimal_le: "n < 10 ^ d \<Longrightarrow> 0 < d \<Longrightarrow> length (decimal n) \<le> d"
proof (induction n arbitrary: d rule: decimal.induct)
  case (1 n)
  show ?case
  proof (cases "n < 10")
    case True
    then show ?thesis using 1(3) by (subst decimal.simps) simp
  next
    case False
    have d: "1 < d"
    proof (rule ccontr)
      assume "\<not> 1 < d"
      then have "d = 1" using 1(3) by simp
      with 1(2) False show False by simp
    qed
    have "n div 10 < 10 ^ (d - 1)"
      using 1(2) d by (simp add: div_less_iff_less_mult power_eq_if mult.commute)
    then have "length (decimal (n div 10)) \<le> d - 1"
      using 1(1) False d by simp
    then show ?thesis using False d by (subst decimal.simps) simp
  qed
qed

lemma createBlockBlobFromStream_blocks:
  assumes "singleBlobPutThresholdInBytes cfg < streamLength"
  shows "createBlockBlobFromStream cfg k rnd n b stream streamLength opts s =
         map_sum id (\<lambda>(r, s'). (r, set_committed n b (block_list (value_or rnd (blockIdPrefix opts)) k stream) s'))
           (createBlockBlobFromText n b stream (BlobContentOptions.truncate opts) s)"
  using assms commit_upload_eq [OF block_list_distinct refl]
  by (simp add: createBlockBlobFromStream_def block_list_snd chunks_concat)

text \<open>C14: a stream longer than \<open>singleBlobPutThresholdInBytes\<close>, uploaded as
  blocks by \<open>createBlockBlobFromStream\<close>, has exactly the effect of the single put
  \<open>createBlockBlobFromText\<close> of its content: the same result or the same error, and
  the same store except that the blob's committed block list is the upload's
  blocks under their \<open>getBlockId\<close> identifiers.\<close>

theorem createBlockBlobFromStream_refines:
  assumes "singleBlobPutThresholdInBytes cfg < streamLength"
  shows "createBlockBlobFromStream cfg k rnd n b stream streamLength opts s =
         map_sum id (\<lambda>(r, s'). (r, set_committed n b (block_list (value_or rnd (blockIdPrefix opts)) k stream) s'))
           (createBlockBlobFromText n b stream (BlobContentOptions.truncate opts) s)"
  using assms by (rule createBlockBlobFromStream_blocks)

theorem createBlockBlobFromStream_refines_witness:
  "map_sum id (\<lambda>(r, s'). fst (projr (getBlobToText ''c'' ''b'' s')))
     (createBlockBlobFromStream \<lparr>singleBlobPutThresholdInBytes = 2, parallelOperationThreadCount = 2\<rparr> 2 ''r'' ''c'' ''b'' ''hello'' 5
        \<lparr>accessConditions = None, leaseId = None, blobContentMetadata = None, contentSettings = no_headers, blockIdPrefix = None\<rparr>
        (the (run_ops [OpCreateContainer ''c'' Map.empty OFF] empty_store))) = Inr ''hello''"
  using createBlockBlobFromStream_refines [of "\<lparr>singleBlobPutThresholdInBytes = 2, parallelOperationThreadCount = 2\<rparr>" 5 2 "''r''" "''c''" "''b''" "''hello''" "\<lparr>accessConditions = None, leaseId = None, blobContentMetadata = None, contentSettings = no_headers, blockIdPrefix = None\<rparr>"
          "the (run_ops [OpCreateContainer ''c'' Map.empty OFF] empty_store)"]
  by (simp add: store_eval set_committed_def)

text \<open>C15: the staged blocks of an upload may complete in any order (the library
  stages up to \<open>parallelOperationThreadCount\<close> at once): for distinct identifiers,
  every order of the stagings gives the same result and the same store.\<close>

theorem commit_upload_any_order:
  assumes "distinct (map fst bs)" and "set order = set bs"
  shows "commit_upload n b bs order opts s = commit_upload n b bs bs opts s"
  using commit_upload_eq [OF assms] commit_upload_eq [OF assms(1) refl] by simp

theorem commit_upload_any_order_witness:
  "commit_upload ''c'' ''b'' (block_list ''p'' 2 ''hello'') (rev (block_list ''p'' 2 ''hello'')) no_blob_options
      (the (run_ops [OpCreateContainer ''c'' Map.empty OFF] empty_store))
   = commit_upload ''c'' ''b'' (block_list ''p'' 2 ''hello'') (block_list ''p'' 2 ''hello'') no_blob_options
      (the (run_ops [OpCreateContainer ''c'' Map.empty OFF] empty_store))"
  by (rule commit_upload_any_order) (simp_all add: block_list_distinct)

text \<open>C26: the blocks of an upload put back together give the stream; there are
  \<open>\<lceil>length / k\<rceil>\<close> of them, none empty and none longer than the block size, under
  distinct identifiers.\<close>

theorem block_list_bounds:
  assumes "0 < k"
  shows "concat (map snd (block_list p k d)) = d \<and> length (block_list p k d) = (length d + k - 1) div k
         \<and> (\<forall>(i, t)\<in>set (block_list p k d). t \<noteq> [] \<and> length t \<le> k) \<and> distinct (map fst (block_list p k d))"
proof -
  have "length (block_list p k d) = length (chunks k d)" by (simp add: block_list_def Let_def)
  moreover have "\<forall>(i, t)\<in>set (block_list p k d). t \<in> set (chunks k d)"
    by (auto simp: block_list_def Let_def dest: set_zip_rightD)
  ultimately show ?thesis
    using chunks_bounds [OF assms] length_chunks [OF assms]
    by (fastforce simp: block_list_snd chunks_concat block_list_distinct)
qed

theorem block_list_bounds_witness:
  "0 < (2::nat) \<and> length (block_list ''p'' 2 ''hello'') = 3"
  using block_list_bounds [of 2 "''p''" "''hello''"] by simp

text \<open>C27: \<open>getBlockId\<close> reads back as its number, so different numbers give
  different identifiers, and below \<open>10^6\<close> all identifiers of a prefix have the
  same length.\<close>

theorem getBlockId_roundtrip:
  "block_number p (getBlockId p n) = Some n
   \<and> (n < 10 ^ BLOCK_ID_DIGITS \<longrightarrow> length (getBlockId p n) = length p + 1 + BLOCK_ID_DIGITS)"
proof -
  have "n < 10 ^ BLOCK_ID_DIGITS \<longrightarrow> length (getBlockId p n) = length p + 1 + BLOCK_ID_DIGITS"
    using length_decimal_le [of n BLOCK_ID_DIGITS] by (simp add: getBlockId_def zero_pad_def BLOCK_ID_DIGITS_def)
  with block_number_getBlockId show ?thesis by simp
qed

theorem getBlockId_roundtrip_witness:
  "block_number ''p'' (getBlockId ''p'' 12) = Some 12 \<and> length (getBlockId ''p'' 12) = 8"
  using getBlockId_roundtrip [of "''p''" 12] by (simp add: BLOCK_ID_DIGITS_def)

end
