(* ===== verification/Downloads.thy ===== *)
theory Downloads
  imports BlockUpload
begin

text \<open>
  Downloads of \<open>BlobService\<close> (\<open>src/azure/azure-storage.d.ts\<close>):
  \<open>getBlobToStream\<close> (lines 1637--1650), \<open>getBlobToLocalFile\<close> (1621--1634) and
  \<open>createReadStream\<close> (1344--1357) with \<open>SnapshotIdOptions\<close> (2207--2211),
  \<open>ReadStreamOptions\<close> (2340--2346), \<open>GetBlobOptions\<close> (2354--2365) and
  \<open>GetBlobToFileOptions\<close> (2366--2372).  One GET request reads the blob or one of
  its snapshots (\<open>snapshotId\<close>), under the options' lease identifier and access
  conditions, optionally only the bytes from \<open>rangeStart\<close> to \<open>rangeEnd\<close>
  (decimal strings, \<open>rangeEnd\<close> inclusive and clipped to the blob, a range
  starting beyond the blob refused with \<open>InvalidRange\<close>).  A blob larger than
  \<open>singleBlobPutThresholdInBytes\<close> is downloaded, as the library does, in ranges
  of a block size \<open>k\<close> read by separate requests and put together.  A writable
  stream is modelled by the text written to it, the local file system by a map
  from file names to contents.
\<close>

type_synonym local_files = "string \<rightharpoonup> string"

text \<open>\<open>BlobService.GetBlobOptions\<close>: \<open>SnapshotIdOptions\<close> (the lease and access
  conditions and \<open>snapshotId\<close>) with \<open>rangeStart\<close> and \<open>rangeEnd\<close>; the MD5
  flags are not modelled.  \<open>ReadStreamOptions\<close> has the same fields and
  \<open>GetBlobToFileOptions\<close> adds the thread count and speed summary, which do not
  change what is read.\<close>

record GetBlobOptions = LeaseAndAccessConditionsOptions +
  readSnapshotId :: "string option"
  readRangeStart :: "string option"
  readRangeEnd :: "string option"

type_synonym ReadStreamOptions = GetBlobOptions
type_synonym GetBlobToFileOptions = GetBlobOptions

definition no_get_options :: GetBlobOptions where
  "no_get_options =
     \<lparr>accessConditions = None, leaseId = None, readSnapshotId = None, readRangeStart = None, readRangeEnd = None\<rparr>"

subsection \<open>One read request\<close>

text \<open>The checks of a read: a lease identifier, when given, must be the blob's
  active lease (a read needs none), and the access conditions must hold.\<close>

definition read_check :: "nat \<Rightarrow> blob \<Rightarrow> LeaseAndAccessConditionsOptions \<Rightarrow> storage_error option" where
  "read_check now x opts =
     (case (case leaseId opts of None \<Rightarrow> None | Some i \<Rightarrow> lease_check now (blobLease x) (Some i)) of
        Some err \<Rightarrow> Some err
      | None \<Rightarrow> if conditions_ok opts (Some (blobProps x)) then None else Some ConditionNotMet)"

text \<open>The version a request reads: the blob, or the snapshot \<open>snapshotId\<close> names.\<close>

definition blob_version :: "string option \<Rightarrow> blob \<Rightarrow> blob option" where
  "blob_version sid x =
     (case sid of None \<Rightarrow> Some x | Some i \<Rightarrow> map_option (\<lambda>t. x\<lparr>content := t\<rparr>) (map_of (snapshots x) i))"

text \<open>The bytes a range reads: all of them without \<open>rangeStart\<close>; from
  \<open>rangeStart\<close> to the end without \<open>rangeEnd\<close>; from \<open>rangeStart\<close> to
  \<open>rangeEnd\<close> inclusive, clipped to the blob, otherwise.  A range that is not two
  decimals in order, or starts beyond the blob, is refused.\<close>

definition read_range :: "string option \<Rightarrow> string option \<Rightarrow> string \<Rightarrow> storage_error + string" where
  "read_range rs re t =
     (case rs of
        None \<Rightarrow> Inr t
      | Some a \<Rightarrow>
          (case (parse_decimal a, map_option parse_decimal re) of
             (None, _) \<Rightarrow> Inl InvalidRange
           | (Some i, Some None) \<Rightarrow> Inl InvalidRange
           | (Some i, Some (Some j)) \<Rightarrow>
               if j < i \<or> length t \<le> i then Inl InvalidRange else Inr (take (Suc j - i) (drop i t))
           | (Some i, None) \<Rightarrow> if length t \<le> i then Inl InvalidRange else Inr (drop i t)))"

text \<open>One GET request: the text read and the version's properties.\<close>

definition get_request :: "string \<Rightarrow> string \<Rightarrow> GetBlobOptions \<Rightarrow> store \<Rightarrow> storage_error + string \<times> BlobResult" where
  "get_request n b opts s =
     (case containers s n of
        None \<Rightarrow> Inl ContainerNotFound
      | Some c \<Rightarrow>
          (case blobs c b of
             None \<Rightarrow> Inl BlobNotFound
           | Some x \<Rightarrow>
               (case read_check (clock s) x (LeaseAndAccessConditionsOptions.truncate opts) of
                  Some err \<Rightarrow> Inl err
                | None \<Rightarrow>
                    (case blob_version (readSnapshotId opts) x of
                       None \<Rightarrow> Inl BlobNotFound
                     | Some v \<Rightarrow> map_sum id (\<lambda>t. (t, blob_result n b v))
                                  (read_range (readRangeStart opts) (readRangeEnd opts) (content v))))))"

text \<open>The properties request that precedes a download: the version's properties,
  without its content.\<close>

definition head_request :: "string \<Rightarrow> string \<Rightarrow> GetBlobOptions \<Rightarrow> store \<Rightarrow> storage_error + BlobResult" where
  "head_request n b opts s = map_sum id snd (get_request n b (opts\<lparr>readRangeStart := None, readRangeEnd := None\<rparr>) s)"

subsection \<open>Ranged downloads\<close>

text \<open>The ranges of a download of \<open>L\<close> bytes in pieces of \<open>k\<close>.\<close>

definition range_reads :: "nat \<Rightarrow> nat \<Rightarrow> (nat \<times> nat) list" where
  "range_reads k L = map (\<lambda>i. (i * k, i * k + k - 1)) [0..<(L + k - 1) div k]"

text \<open>Reading the ranges one request each and putting the pieces together; the
  first failure ends the download.\<close>

fun read_ranges :: "(nat \<times> nat \<Rightarrow> storage_error + string) \<Rightarrow> (nat \<times> nat) list \<Rightarrow> storage_error + string" where
  "read_ranges f [] = Inr []"
| "read_ranges f (r # rs) =
     (case f r of
        Inl err \<Rightarrow> Inl err
      | Inr t \<Rightarrow> map_sum id ((@) t) (read_ranges f rs))"

definition range_request :: "string \<Rightarrow> string \<Rightarrow> GetBlobOptions \<Rightarrow> store \<Rightarrow> nat \<times> nat \<Rightarrow> storage_error + string" where
  "range_request n b opts s r =
     map_sum id fst (get_request n b (opts\<lparr>readRangeStart := Some (decimal (fst r)), readRangeEnd := Some (decimal (snd r))\<rparr>) s)"

text \<open>\<open>getBlobToStream(container, blob, stream, options)\<close>: the text written to the
  stream and the blob's properties.  Without a range, a blob larger than the
  threshold is read in ranges of \<open>k\<close> bytes.\<close>

definition getBlobToStream ::
  "BlobServiceDefaults \<Rightarrow> nat \<Rightarrow> string \<Rightarrow> string \<Rightarrow> GetBlobOptions \<Rightarrow> store \<Rightarrow> storage_error + string \<times> BlobResult" where
  "getBlobToStream cfg k n b opts s =
     (case head_request n b opts s of
        Inl err \<Rightarrow> Inl err
      | Inr r \<Rightarrow>
          if readRangeStart opts = None \<and> singleBlobPutThresholdInBytes cfg < blobResultLength r
          then map_sum id (\<lambda>t. (t, r)) (read_ranges (range_request n b opts s) (range_reads k (blobResultLength r)))
          else get_request n b opts s)"

text \<open>\<open>getBlobToLocalFile(container, blob, localFilename, options)\<close>: the download
  is written to the file, which is left alone when the download fails.\<close>

definition getBlobToLocalFile ::
  "BlobServiceDefaults \<Rightarrow> nat \<Rightarrow> string \<Rightarrow> string \<Rightarrow> string \<Rightarrow> GetBlobToFileOptions \<Rightarrow> local_files \<Rightarrow> store
   \<Rightarrow> storage_error + BlobResult \<times> local_files" where
  "getBlobToLocalFile cfg k n b localFilename opts fs s =
     (case getBlobToStream cfg k n b opts s of
        Inl err \<Rightarrow> Inl err
      | Inr (t, r) \<Rightarrow> Inr (r, fs(localFilename \<mapsto> t)))"

text \<open>\<open>createReadStream(container, blob, options)\<close>: the text the stream yields.\<close>

definition createReadStream ::
  "string \<Rightarrow> string \<Rightarrow> ReadStreamOptions \<Rightarrow> store \<Rightarrow> storage_error + string \<times> BlobResult" where
  "createReadStream n b opts s = get_request n b opts s"

subsection \<open>Lemmas\<close>

lemma concat_take_ranges:
  "concat (map (\<lambda>i. take k (drop (i * k) t)) [0..<m]) = take (m * k) t"
proof (induction m)
  case (Suc m)
  have "take (k + m * k) t = take (m * k) t @ take k (drop (m * k) t)"
    using take_add [of "m * k" k t] by (simp add: add.commute)
  then show ?case using Suc.IH by simp
qed simp

lemma ranges_cover: "0 < (k::nat) \<Longrightarrow> L \<le> (L + k - 1) div k * k"
proof -
  assume k: "0 < k"
  have "L + k - 1 < Suc ((L + k - 1) div k) * k" using k
    by (metis div_less_iff_less_mult lessI)
  then show ?thesis using k by simp
qed

lemma range_inside: "i < (L + k - 1) div k \<Longrightarrow> 0 < (k::nat) \<Longrightarrow> i * k < L"
proof -
  assume i: "i < (L + k - 1) div k" and k: "0 < k"
  then have "\<not> (L + k - 1) div k < Suc i" by simp
  then have "Suc i * k \<le> L + k - 1" using k by (simp add: div_less_iff_less_mult not_less)
  then show ?thesis using k by simp
qed

lemma read_ranges_Inr:
  "(\<And>r. r \<in> set rs \<Longrightarrow> f r = Inr (g r)) \<Longrightarrow> read_ranges f rs = Inr (concat (map g rs))"
  by (induction rs) auto

lemma read_range_decimal:
  "read_range (Some (decimal i)) (Some (decimal j)) t =
     (if j < i \<or> length t \<le> i then Inl InvalidRange else Inr (take (Suc j - i) (drop i t)))"
  by (simp add: read_range_def)

lemma get_request_Inr_cases:
  assumes "containers s n = Some c" "blobs c b = Some x"
    "read_check (clock s) x (LeaseAndAccessConditionsOptions.truncate opts) = None"
    "blob_version (readSnapshotId opts) x = Some v"
  shows "get_request n b opts s =
           map_sum id (\<lambda>t. (t, blob_result n b v)) (read_range (readRangeStart opts) (readRangeEnd opts) (content v))"
  using assms by (simp add: get_request_def)

lemma getBlobToStream_eq:
  assumes k: "0 < k"
  shows "getBlobToStream cfg k n b opts s = get_request n b opts s"
proof (cases "\<exists>c x v. containers s n = Some c \<and> blobs c b = Some x
              \<and> read_check (clock s) x (LeaseAndAccessConditionsOptions.truncate opts) = None
              \<and> blob_version (readSnapshotId opts) x = Some v")
  case False
  then have "isl (get_request n b opts s) \<and> head_request n b opts s = map_sum id snd (get_request n b opts s)"
    by (auto simp: get_request_def head_request_def LeaseAndAccessConditionsOptions.truncate_def
        split: option.splits)
  then show ?thesis by (auto simp: getBlobToStream_def isl_def)
next
  case True
  then obtain c x v where c: "containers s n = Some c" and x: "blobs c b = Some x"
    and rc: "read_check (clock s) x (LeaseAndAccessConditionsOptions.truncate opts) = None"
    and v: "blob_version (readSnapshotId opts) x = Some v" by blast
  have tr: "LeaseAndAccessConditionsOptions.truncate (opts\<lparr>readRangeStart := a, readRangeEnd := e\<rparr>) =
            LeaseAndAccessConditionsOptions.truncate opts" for a e
    by (simp add: LeaseAndAccessConditionsOptions.truncate_def)
  have g: "get_request n b (opts\<lparr>readRangeStart := a, readRangeEnd := e\<rparr>) s =
           map_sum id (\<lambda>t. (t, blob_result n b v)) (read_range a e (content v))" for a e
    using get_request_Inr_cases [where opts = "opts\<lparr>readRangeStart := a, readRangeEnd := e\<rparr>"] c x rc v
    by (simp add: tr)
  let ?t = "content v" and ?L = "length (content v)"
  have h: "head_request n b opts s = Inr (blob_result n b v)"
    by (simp add: head_request_def g read_range_def)
  show ?thesis
  proof (cases "readRangeStart opts = None \<and> singleBlobPutThresholdInBytes cfg < ?L")
    case False
    then show ?thesis by (auto simp: getBlobToStream_def h blob_result_def)
  next
    case True
    have whole: "get_request n b opts s = Inr (?t, blob_result n b v)"
      using get_request_Inr_cases [OF c x rc v] True by (simp add: read_range_def)
    have "range_request n b opts s r = Inr (take k (drop (fst r) ?t))" if inr: "r \<in> set (range_reads k ?L)" for r
    proof -
      obtain i where i: "i < (?L + k - 1) div k" and r: "r = (i * k, i * k + k - 1)"
        using inr by (auto simp: range_reads_def)
      have "i * k < ?L" using range_inside [OF i k] .
      then show ?thesis using k by (simp add: range_request_def g r read_range_decimal)
    qed
    then have "read_ranges (range_request n b opts s) (range_reads k ?L)
               = Inr (concat (map (\<lambda>r. take k (drop (fst r) ?t)) (range_reads k ?L)))"
      by (rule read_ranges_Inr)
    also have "concat (map (\<lambda>r. take k (drop (fst r) ?t)) (range_reads k ?L)) = ?t"
      using concat_take_ranges [of k ?t "(?L + k - 1) div k"] ranges_cover [OF k, of ?L]
      by (simp add: range_reads_def comp_def)
    finally show ?thesis using True whole by (simp add: getBlobToStream_def h blob_result_def)
  qed
qed

lemma get_request_ranges:
  assumes "get_request n b (opts\<lparr>readRangeStart := None, readRangeEnd := None\<rparr>) s = Inr (t, r)"
  shows "get_request n b (opts\<lparr>readRangeStart := a, readRangeEnd := e\<rparr>) s = map_sum id (\<lambda>u. (u, r)) (read_range a e t)"
  using assms
  by (auto simp: get_request_def read_range_def LeaseAndAccessConditionsOptions.truncate_def split: option.splits)

lemma take_range_split:
  assumes "i \<le> j"
  shows "take i t @ take (Suc j - i) (drop i t) @ drop (Suc j) t = t"
proof -
  have "take i t @ take (Suc j - i) (drop i t) = take (Suc j) t"
    using take_add [of i "Suc j - i" t] assms by simp
  then show ?thesis by (metis append.assoc append_take_drop_id)
qed

text \<open>C16: the library's download of a large blob in ranges of \<open>k\<close> bytes, one request
  each, returns exactly what one GET request returns: the same text and
  properties, or the same error.\<close>

theorem getBlobToStream_ranged:
  assumes "0 < k"
  shows "getBlobToStream cfg k n b opts s = get_request n b opts s"
  using assms by (rule getBlobToStream_eq)

theorem getBlobToStream_ranged_witness:
  "getBlobToStream \<lparr>singleBlobPutThresholdInBytes = 2, parallelOperationThreadCount = 2\<rparr> 2 ''c'' ''b'' no_get_options
     (the (run_ops [OpCreateContainer ''c'' Map.empty OFF, OpCreateBlockBlob ''c'' ''b'' ''hello'' no_blob_options] empty_store))
   = map_sum id (\<lambda>t. (t, snd (projr (getBlobToText ''c'' ''b''
       (the (run_ops [OpCreateContainer ''c'' Map.empty OFF, OpCreateBlockBlob ''c'' ''b'' ''hello'' no_blob_options] empty_store))))))
       (Inr ''hello'')"
  using getBlobToStream_ranged [of 2 "\<lparr>singleBlobPutThresholdInBytes = 2, parallelOperationThreadCount = 2\<rparr>" "''c''" "''b''"
      no_get_options "the (run_ops [OpCreateContainer ''c'' Map.empty OFF, OpCreateBlockBlob ''c'' ''b'' ''hello'' no_blob_options] empty_store)"]
  by (simp add: store_eval get_request_def no_get_options_def read_check_def blob_version_def read_range_def)

text \<open>C28: a read of the range from \<open>rangeStart\<close> to \<open>rangeEnd\<close> is refused with
  \<open>InvalidRange\<close> when the range is reversed or starts beyond the blob;
  otherwise it returns the bytes of the blob from \<open>rangeStart\<close>, as many as the
  range has and the blob still holds (\<open>rangeEnd\<close> is clipped), with the
  properties of the whole blob.\<close>

theorem get_request_range:
  assumes "get_request n b (opts\<lparr>readRangeStart := None, readRangeEnd := None\<rparr>) s = Inr (t, r)"
    and "readRangeStart opts = Some (decimal i)" and "readRangeEnd opts = Some (decimal j)"
  shows "if j < i \<or> length t \<le> i then get_request n b opts s = Inl InvalidRange
         else \<exists>u. get_request n b opts s = Inr (u, r) \<and> t = take i t @ u @ drop (Suc j) t
                  \<and> length u = min (Suc j) (length t) - i"
proof -
  have "get_request n b opts s = map_sum id (\<lambda>u. (u, r)) (read_range (Some (decimal i)) (Some (decimal j)) t)"
  proof -
    have "opts\<lparr>readRangeStart := Some (decimal i), readRangeEnd := Some (decimal j)\<rparr> = opts"
      using assms(2,3) by (cases opts) simp
    then show ?thesis
      using get_request_ranges [OF assms(1), where a = "Some (decimal i)" and e = "Some (decimal j)"] by simp
  qed
  then show ?thesis
    using take_range_split [of i j t] by (auto simp: read_range_decimal min_diff)
qed

theorem get_request_range_witness:
  "get_request ''c'' ''b'' (no_get_options\<lparr>readRangeStart := Some ''1'', readRangeEnd := Some ''3''\<rparr>)
     (the (run_ops [OpCreateContainer ''c'' Map.empty OFF, OpCreateBlockBlob ''c'' ''b'' ''hello'' no_blob_options] empty_store))
   = Inr (''ell'', snd (projr (getBlobToText ''c'' ''b''
       (the (run_ops [OpCreateContainer ''c'' Map.empty OFF, OpCreateBlockBlob ''c'' ''b'' ''hello'' no_blob_options] empty_store)))))"
proof -
  let ?s = "the (run_ops [OpCreateContainer ''c'' Map.empty OFF, OpCreateBlockBlob ''c'' ''b'' ''hello'' no_blob_options] empty_store)"
  let ?o = "no_get_options\<lparr>readRangeStart := Some ''1'', readRangeEnd := Some ''3''\<rparr>"
  let ?g = "get_request ''c'' ''b'' (?o\<lparr>readRangeStart := None, readRangeEnd := None\<rparr>) ?s"
  have g: "?g = Inr (fst (projr ?g), snd (projr ?g))"
    by (simp add: store_eval get_request_def no_get_options_def read_check_def blob_version_def read_range_def)
  have d: "readRangeStart ?o = Some (decimal 1)" "readRangeEnd ?o = Some (decimal 3)"
    by (simp_all add: decimal.simps)
  from get_request_range [OF g d] show ?thesis
    by (simp add: store_eval get_request_def no_get_options_def read_check_def blob_version_def read_range_def)
qed

end
