(* ===== verification/Uploads.thy ===== *)
theory Uploads
  imports Downloads AppendText
begin

text \<open>
  Uploads from local files, streams and writable streams
  (\<open>src/azure/azure-storage.d.ts\<close>): \<open>createBlockBlobFromLocalFile\<close> (lines
  1110--1128), \<open>AppendFromLocalFile\<close> and \<open>AppendFromStream\<close> (866--910),
  \<open>createAppendBlobFromLocalFile\<close> and \<open>createAppendBlobFromStream\<close>
  (1014--1066), \<open>createPageBlobFromLocalFile\<close> and \<open>createPageBlobFromStream\<close>
  (1280--1320), \<open>appendBlockFromStream\<close> (820--842), and the five
  \<open>createWriteStreamTo*\<close> functions (1359--1455), with
  \<open>AppendFromFileOptions\<close> and \<open>AppendFromStreamOptions\<close> (2250--2265).  A local
  file is read from the file map of theory \<open>Downloads\<close>, a missing one failing
  with \<open>LocalFileNotFound\<close>; a file is uploaded as a stream of its content and
  length.  A writable stream is modelled by the text the caller writes to it,
  uploaded when the stream ends.  Streams are sent in pieces of \<open>k\<close> bytes: block
  blobs as in theory \<open>BlockUpload\<close>; append blobs one append block per piece,
  each at the offset the previous ones reached (the append-offset condition of
  theory \<open>AppendText\<close>); page blobs by creating the blob at the stream's length
  and writing the pieces as page ranges one after the other.  The pieces after
  the first request carry the options' lease identifier but not their access
  conditions, which apply to the creation of the blob.
\<close>

subsection \<open>Block blobs\<close>

definition createBlockBlobFromLocalFile ::
  "BlobServiceDefaults \<Rightarrow> nat \<Rightarrow> string \<Rightarrow> string \<Rightarrow> string \<Rightarrow> string \<Rightarrow> CreateFromFileOptions \<Rightarrow> local_files \<Rightarrow> store
   \<Rightarrow> storage_error + BlobResult \<times> store" where
  "createBlockBlobFromLocalFile cfg k rnd n b localFileName opts fs s =
     (case fs localFileName of
        None \<Rightarrow> Inl LocalFileNotFound
      | Some d \<Rightarrow> createBlockBlobFromStream cfg k rnd n b d (length d) opts s)"

text \<open>\<open>createWriteStreamToBlockBlob\<close>: the length of what will be written is not
  known when the stream opens, so the text is uploaded as blocks.\<close>

definition createWriteStreamToBlockBlob ::
  "nat \<Rightarrow> string \<Rightarrow> string \<Rightarrow> string \<Rightarrow> string \<Rightarrow> CreateFromStreamOptions \<Rightarrow> store \<Rightarrow> storage_error + unit \<times> store" where
  "createWriteStreamToBlockBlob k rnd n b written opts s =
     (let bs = block_list (value_or rnd (blockIdPrefix opts)) k written in
      map_sum id (\<lambda>(r, s'). ((), s')) (commit_upload n b bs bs (BlobContentOptions.truncate opts) s))"

subsection \<open>Append blobs\<close>

text \<open>\<open>AppendFromFileOptions\<close> and \<open>AppendFromStreamOptions\<close> have, in the model,
  the fields of \<open>AppendFromTextOptions\<close> (the MD5 flags and speed summary are not
  modelled).\<close>

type_synonym AppendFromFileOptions = AppendFromTextOptions
type_synonym AppendFromStreamOptions = AppendFromTextOptions

text \<open>Appending the pieces one after the other, each at the offset the previous
  ones reached; the result is the last append's.\<close>

fun append_chunks ::
  "string \<Rightarrow> string \<Rightarrow> string list \<Rightarrow> nat \<Rightarrow> AppendFromTextOptions \<Rightarrow> BlobResult \<Rightarrow> store
   \<Rightarrow> storage_error + BlobResult \<times> store" where
  "append_chunks n b [] pos opts r s = Inr (r, s)"
| "append_chunks n b (t # ts) pos opts r s =
     (case append_attempt n b t pos opts False s of
        Inl err \<Rightarrow> Inl err
      | Inr (r', s') \<Rightarrow> append_chunks n b ts (pos + length t) opts r' s')"

text \<open>\<open>AppendFromStream(container, blob, stream, streamLength, options)\<close>: "Appends
  to an append blob from a stream.  Assumes the blob already exists."  The offset
  is the blob's length.\<close>

definition AppendFromStream ::
  "nat \<Rightarrow> string \<Rightarrow> string \<Rightarrow> string \<Rightarrow> nat \<Rightarrow> AppendFromStreamOptions \<Rightarrow> store \<Rightarrow> storage_error + BlobResult \<times> store" where
  "AppendFromStream k n b stream streamLength opts s =
     (case getBlobProperties n b s of
        Inl err \<Rightarrow> Inl err
      | Inr r \<Rightarrow> append_chunks n b (chunks k stream) (blobResultLength r) opts r s)"

definition AppendFromLocalFile ::
  "nat \<Rightarrow> string \<Rightarrow> string \<Rightarrow> string \<Rightarrow> AppendFromFileOptions \<Rightarrow> local_files \<Rightarrow> store
   \<Rightarrow> storage_error + BlobResult \<times> store" where
  "AppendFromLocalFile k n b localFileName opts fs s =
     (case fs localFileName of
        None \<Rightarrow> Inl LocalFileNotFound
      | Some d \<Rightarrow> AppendFromStream k n b d (length d) opts s)"

text \<open>\<open>appendBlockFromStream(container, blob, readStream, streamLength, options)\<close>:
  one append block of the stream's content, with the append-offset conditions of
  \<open>AppendBlockOptions\<close>.\<close>

definition appendBlockFromStream ::
  "string \<Rightarrow> string \<Rightarrow> string \<Rightarrow> nat \<Rightarrow> AppendBlockOptions \<Rightarrow> store \<Rightarrow> storage_error + BlobResult \<times> store" where
  "appendBlockFromStream n b readStream streamLength opts s = appendBlockFromText n b readStream opts s"

text \<open>\<open>createAppendBlobFromStream\<close>: "Uploads an append blob from a stream.  If the
  blob already exists on the service, it will be overwritten."\<close>

definition createAppendBlobFromStream ::
  "nat \<Rightarrow> string \<Rightarrow> string \<Rightarrow> string \<Rightarrow> nat \<Rightarrow> AppendFromStreamOptions \<Rightarrow> store \<Rightarrow> storage_error + BlobResult \<times> store" where
  "createAppendBlobFromStream k n b stream streamLength opts s =
     (case createOrReplaceAppendBlob n b (BlobContentOptions.truncate opts) s of
        Inl err \<Rightarrow> Inl err
      | Inr (r, s1) \<Rightarrow> append_chunks n b (chunks k stream) 0 opts r s1)"

definition createAppendBlobFromLocalFile ::
  "nat \<Rightarrow> string \<Rightarrow> string \<Rightarrow> string \<Rightarrow> AppendFromFileOptions \<Rightarrow> local_files \<Rightarrow> store
   \<Rightarrow> storage_error + BlobResult \<times> store" where
  "createAppendBlobFromLocalFile k n b localFileName opts fs s =
     (case fs localFileName of
        None \<Rightarrow> Inl LocalFileNotFound
      | Some d \<Rightarrow> createAppendBlobFromStream k n b d (length d) opts s)"

text \<open>\<open>createWriteStreamToExistingAppendBlob\<close> ("Assumes that the blob exists")
  and \<open>createWriteStreamToNewAppendBlob\<close> ("If the blob already exists on the
  service, it will be overwritten").\<close>

definition createWriteStreamToExistingAppendBlob ::
  "nat \<Rightarrow> string \<Rightarrow> string \<Rightarrow> string \<Rightarrow> AppendFromStreamOptions \<Rightarrow> store \<Rightarrow> storage_error + unit \<times> store" where
  "createWriteStreamToExistingAppendBlob k n b written opts s =
     map_sum id (\<lambda>(r, s'). ((), s')) (AppendFromStream k n b written (length written) opts s)"

definition createWriteStreamToNewAppendBlob ::
  "nat \<Rightarrow> string \<Rightarrow> string \<Rightarrow> string \<Rightarrow> AppendFromStreamOptions \<Rightarrow> store \<Rightarrow> storage_error + unit \<times> store" where
  "createWriteStreamToNewAppendBlob k n b written opts s =
     map_sum id (\<lambda>(r, s'). ((), s')) (createAppendBlobFromStream k n b written (length written) opts s)"

subsection \<open>Page blobs\<close>

text \<open>Writing the pieces as consecutive page ranges from offset \<open>off\<close>.\<close>

fun write_pages ::
  "string \<Rightarrow> string \<Rightarrow> string list \<Rightarrow> nat \<Rightarrow> LeaseAndAccessConditionsOptions \<Rightarrow> BlobResult \<Rightarrow> store
   \<Rightarrow> storage_error + BlobResult \<times> store" where
  "write_pages n b [] off opts r s = Inr (r, s)"
| "write_pages n b (t # ts) off opts r s =
     (case createPagesFromStream n b t off (off + length t - 1) opts s of
        Inl err \<Rightarrow> Inl err
      | Inr (r', s') \<Rightarrow> write_pages n b ts (off + length t) opts r' s')"

text \<open>The creation request of a page blob upload: the content options, no
  sequence number; the page writes carry the lease identifier.\<close>

definition page_create_options :: "CreateFromFileOptions \<Rightarrow> PageBlobContentOptions" where
  "page_create_options opts =
     \<lparr>accessConditions = accessConditions opts, leaseId = leaseId opts, blobContentMetadata = blobContentMetadata opts,
      contentSettings = contentSettings opts, pageSequenceNumber = None\<rparr>"

definition page_write_options :: "CreateFromFileOptions \<Rightarrow> LeaseAndAccessConditionsOptions" where
  "page_write_options opts = \<lparr>accessConditions = None, leaseId = leaseId opts\<rparr>"

text \<open>\<open>createPageBlobFromStream(container, blob, stream, streamLength, options)\<close>:
  "Uploads a page blob from a stream.  If the blob already exists on the service,
  it will be overwritten."\<close>

definition createPageBlobFromStream ::
  "nat \<Rightarrow> string \<Rightarrow> string \<Rightarrow> string \<Rightarrow> nat \<Rightarrow> CreateFromStreamOptions \<Rightarrow> store \<Rightarrow> storage_error + BlobResult \<times> store" where
  "createPageBlobFromStream k n b stream streamLength opts s =
     (case createPageBlob n b streamLength (page_create_options opts) s of
        Inl err \<Rightarrow> Inl err
      | Inr (r, s1) \<Rightarrow> write_pages n b (chunks k stream) 0 (page_write_options opts) r s1)"

definition createPageBlobFromLocalFile ::
  "nat \<Rightarrow> string \<Rightarrow> string \<Rightarrow> string \<Rightarrow> CreateFromFileOptions \<Rightarrow> local_files \<Rightarrow> store
   \<Rightarrow> storage_error + BlobResult \<times> store" where
  "createPageBlobFromLocalFile k n b localFileName opts fs s =
     (case fs localFileName of
        None \<Rightarrow> Inl LocalFileNotFound
      | Some d \<Rightarrow> createPageBlobFromStream k n b d (length d) opts s)"

text \<open>\<open>createWriteStreamToExistingPageBlob\<close> ("Assumes that the blob exists")
  writes from the first page; \<open>createWriteStreamToNewPageBlob\<close> ("Creates the
  blob before writing data") is declared without a length, so the model creates
  the blob at the length of what is written.\<close>

definition createWriteStreamToExistingPageBlob ::
  "nat \<Rightarrow> string \<Rightarrow> string \<Rightarrow> string \<Rightarrow> CreateFromStreamOptions \<Rightarrow> store \<Rightarrow> storage_error + unit \<times> store" where
  "createWriteStreamToExistingPageBlob k n b written opts s =
     (case getBlobProperties n b s of
        Inl err \<Rightarrow> Inl err
      | Inr r \<Rightarrow> map_sum id (\<lambda>(r, s'). ((), s')) (write_pages n b (chunks k written) 0 (page_write_options opts) r s))"

definition createWriteStreamToNewPageBlob ::
  "nat \<Rightarrow> string \<Rightarrow> string \<Rightarrow> string \<Rightarrow> CreateFromStreamOptions \<Rightarrow> store \<Rightarrow> storage_error + unit \<times> store" where
  "createWriteStreamToNewPageBlob k n b written opts s =
     map_sum id (\<lambda>(r, s'). ((), s')) (createPageBlobFromStream k n b written (length written) opts s)"

subsection \<open>Lemmas\<close>

lemma append_attempt_succeeds:
  assumes "blob_at n b s = Some x" and "blobType x = AppendBlob" and "blobLease x = Available"
    and "leaseId opts = None"
  shows "\<exists>r s'. append_attempt n b t (length (content x)) opts rt s = Inr (r, s')
           \<and> blob_at n b s' = Some (x\<lparr>content := content x @ t, blobProps := fresh_props s\<rparr>)"
proof -
  obtain c where c: "containers s n = Some c" and x: "blobs c b = Some x"
    using assms(1) by (auto simp: blob_at_def split: option.splits)
  let ?x' = "x\<lparr>content := content x @ t, blobProps := fresh_props s\<rparr>"
  have w: "write_check (clock s) (Some (blobProps x, blobLease x))
             (LeaseAndAccessConditionsOptions.truncate (append_options (length (content x)) opts)) = None"
    using assms(3,4) by (simp add: append_write_check)
  have "appendBlockFromText n b t (append_options (length (content x)) opts) s
        = Inr (blob_result n b ?x', tick (put_blob n c b ?x' s))"
    using c x w assms(2) by (simp add: appendBlockFromText_def update_blob_def append_options_def Let_def)
  then show ?thesis by (simp add: append_attempt_def)
qed

lemma append_chunks_succeeds:
  assumes "blob_at n b s = Some x" and "blobType x = AppendBlob" and "blobLease x = Available"
    and "leaseId opts = None"
  shows "\<exists>r' s' x'. append_chunks n b ts (length (content x)) opts r s = Inr (r', s') \<and> blob_at n b s' = Some x'
           \<and> content x' = content x @ concat ts"
  using assms
proof (induction ts arbitrary: s x r)
  case (Cons t ts)
  obtain r1 s1 where a: "append_attempt n b t (length (content x)) opts False s = Inr (r1, s1)"
    and x1: "blob_at n b s1 = Some (x\<lparr>content := content x @ t, blobProps := fresh_props s\<rparr>)"
    using append_attempt_succeeds [OF Cons.prems] by blast
  have "\<exists>r' s' x'. append_chunks n b ts (length (content (x\<lparr>content := content x @ t, blobProps := fresh_props s\<rparr>))) opts r1 s1
          = Inr (r', s') \<and> blob_at n b s' = Some x'
          \<and> content x' = content (x\<lparr>content := content x @ t, blobProps := fresh_props s\<rparr>) @ concat ts"
    by (rule Cons.IH [OF x1]) (simp_all add: Cons.prems)
  then obtain r' s' x' where
    "append_chunks n b ts (length (content x @ t)) opts r1 s1 = Inr (r', s')" "blob_at n b s' = Some x'"
    "content x' = content x @ t @ concat ts" by auto
  then show ?case using a by auto
qed simp

lemma getBlobToText_blob_at:
  "blob_at n b s = Some x \<Longrightarrow> getBlobToText n b s = Inr (content x, blob_result n b x)"
  by (auto simp: getBlobToText_def blob_at_def split: option.splits)

lemma put_whole_blob_new:
  assumes "containers s n = Some c" and "blobs c b = None" and "accessConditions opts = None"
  shows "put_whole_blob n b ty txt bs sq opts s =
           Inr (blob_result n b (write_blob s None ty txt (value_or Map.empty (blobContentMetadata opts)) (blob_content_headers opts) bs sq),
                tick (put_blob n (c\<lparr>uncommitted := (uncommitted c)(b := [])\<rparr>) b
                  (write_blob s None ty txt (value_or Map.empty (blobContentMetadata opts)) (blob_content_headers opts) bs sq) s))"
  using assms
  by (simp add: put_whole_blob_def write_check_def conditions_ok_def blob_guard_def conditions_hold_empty
      LeaseAndAccessConditionsOptions.truncate_def Let_def)

lemma createAppendBlobFromStream_succeeds:
  assumes "containers s n = Some c" and "blobs c b = None" and "accessConditions opts = None"
    and "leaseId opts = None"
  shows "\<exists>r s'. createAppendBlobFromStream k n b stream len opts s = Inr (r, s')
           \<and> map_sum id fst (getBlobToText n b s') = Inr stream"
proof -
  let ?x = "write_blob s None AppendBlob [] (value_or Map.empty (blobContentMetadata opts))
              (blob_content_headers (BlobContentOptions.truncate opts)) [] 0"
  obtain s1 r where cr: "createOrReplaceAppendBlob n b (BlobContentOptions.truncate opts) s = Inr (r, s1)"
    and x: "blob_at n b s1 = Some ?x"
    using put_whole_blob_new [OF assms(1,2), of "BlobContentOptions.truncate opts" AppendBlob "[]" "[]" 0] assms(3)
    by (simp add: createOrReplaceAppendBlob_def BlobContentOptions.truncate_def)
  have "blobType ?x = AppendBlob" "blobLease ?x = Available" "content ?x = []" by (simp_all add: write_blob_def)
  then obtain r' s' x' where "append_chunks n b (chunks k stream) 0 opts r s1 = Inr (r', s')"
    "blob_at n b s' = Some x'" "content x' = concat (chunks k stream)"
    using append_chunks_succeeds [OF x _ _ assms(4), of "chunks k stream" r] by auto
  then show ?thesis
    using cr by (auto simp: createAppendBlobFromStream_def getBlobToText_blob_at chunks_concat)
qed

lemma chunks_dvd:
  assumes "0 < k" and "p dvd k" and "p dvd length xs" and "t \<in> set (chunks k xs)"
  shows "p dvd length t"
  using assms
proof (induction k xs rule: chunks.induct)
  case (1 k xs)
  show ?case
  proof (cases "xs = []")
    case False
    then have "t = take k xs \<or> t \<in> set (chunks k (drop k xs))"
      using "1.prems"(1,4) by (subst (asm) chunks.simps) auto
    then show ?thesis
    proof
      assume t: "t = take k xs"
      show ?thesis
        using "1.prems"(2,3) by (cases "k \<le> length xs") (simp_all add: t min_def)
    next
      assume "t \<in> set (chunks k (drop k xs))"
      moreover have "p dvd length (drop k xs)"
        using "1.prems"(2,3) by (cases "k \<le> length xs") (simp_all add: dvd_diff_nat)
      ultimately show ?thesis using "1.IH" False "1.prems"(1,2) by simp
    qed
  next
    case True
    with "1.prems"(4) show ?thesis by (simp add: chunks.simps)
  qed
qed

lemma write_page_succeeds:
  assumes "blob_at n b s = Some x" and "blobType x = PageBlob" and "blobLease x = Available"
    and "opts = \<lparr>accessConditions = None, leaseId = None\<rparr>" and "PAGE_SIZE dvd off" and "PAGE_SIZE dvd length t"
    and "t \<noteq> []" and "off + length t \<le> length (content x)"
  shows "\<exists>r s' x'. createPagesFromStream n b t off (off + length t - 1) opts s = Inr (r, s') \<and> blob_at n b s' = Some x'
           \<and> content x' = splice_at (content x) off t \<and> blobType x' = PageBlob \<and> blobLease x' = Available"
proof -
  obtain c where c: "containers s n = Some c" and x: "blobs c b = Some x"
    using assms(1) by (auto simp: blob_at_def split: option.splits)
  have w: "write_check (clock s) (Some (blobProps x, blobLease x)) opts = None"
    using assms(3,4) by (simp add: write_check_def lease_check_def conditions_ok_def conditions_hold_empty)
  have ok: "page_range_ok (length (content x)) off (off + length t - 1)"
  proof -
    have "PAGE_SIZE dvd off + length t" using assms(5,6) by simp
    moreover have "Suc (off + length t - 1) = off + length t" using assms(7) by simp
    moreover have "off \<le> off + length t - 1" "off + length t - 1 < length (content x)"
      using assms(7,8) by (cases t; simp)+
    ultimately show ?thesis using assms(5) by (simp add: page_range_ok_def dvd_eq_mod_eq_0)
  qed
  show ?thesis
    using c x w ok assms(2,3,7) by (simp add: createPagesFromStream_def update_blob_def page_update_def Let_def)
qed

lemma take_splice: "a + length d \<le> length txt \<Longrightarrow> take (a + length d) (splice_at txt a d) = take a txt @ d"
  by (simp add: splice_at_def)

lemma write_pages_succeeds:
  assumes "blob_at n b s = Some x" and "blobType x = PageBlob" and "blobLease x = Available"
    and "opts = \<lparr>accessConditions = None, leaseId = None\<rparr>" and "PAGE_SIZE dvd off"
    and "\<forall>t\<in>set ts. t \<noteq> [] \<and> PAGE_SIZE dvd length t" and "length (content x) = off + length (concat ts)"
  shows "\<exists>r' s' x'. write_pages n b ts off opts r s = Inr (r', s') \<and> blob_at n b s' = Some x'
           \<and> content x' = take off (content x) @ concat ts"
  using assms
proof (induction ts arbitrary: off s x r)
  case (Cons t ts)
  have le: "off + length t \<le> length (content x)" using Cons.prems(7) by simp
  obtain r1 s1 x1 where w: "createPagesFromStream n b t off (off + length t - 1) opts s = Inr (r1, s1)"
    and x1: "blob_at n b s1 = Some x1" and c1: "content x1 = splice_at (content x) off t"
    and ty: "blobType x1 = PageBlob" and l: "blobLease x1 = Available"
    using write_page_succeeds [OF Cons.prems(1-5) _ _ le] Cons.prems(6) by auto
  have len: "length (content x1) = off + length t + length (concat ts)"
    using Cons.prems(7) c1 length_splice [OF le] by simp
  have d: "PAGE_SIZE dvd off + length t" using Cons.prems(5,6) by simp
  have ts: "\<forall>t\<in>set ts. t \<noteq> [] \<and> PAGE_SIZE dvd length t" using Cons.prems(6) by simp
  have len': "length (content x1) = off + length t + length (concat ts)" using len by simp
  have "\<exists>r' s' x'. write_pages n b ts (off + length t) opts r1 s1 = Inr (r', s') \<and> blob_at n b s' = Some x'
          \<and> content x' = take (off + length t) (content x1) @ concat ts"
    by (rule Cons.IH [OF x1 ty l Cons.prems(4) d ts len'])
  then show ?case using w c1 take_splice [OF le] by auto
qed simp

lemma createPageBlobFromStream_succeeds:
  assumes "containers s n = Some c" and "blobs c b = None" and "accessConditions opts = None"
    and "leaseId opts = None" and "PAGE_SIZE dvd length stream" and "PAGE_SIZE dvd k" and "0 < k"
  shows "\<exists>r s'. createPageBlobFromStream k n b stream (length stream) opts s = Inr (r, s')
           \<and> map_sum id fst (getBlobToText n b s') = Inr stream"
proof -
  let ?o = "BlobContentOptions.truncate (page_create_options opts)"
  let ?x = "write_blob s None PageBlob (replicate (length stream) (CHR 0x00)) (value_or Map.empty (blobContentMetadata ?o))
              (blob_content_headers ?o) [] 0"
  have ac: "accessConditions ?o = None"
    using assms(3) by (simp add: page_create_options_def BlobContentOptions.truncate_def)
  obtain r s1 where cr: "createPageBlob n b (length stream) (page_create_options opts) s = Inr (r, s1)"
    and x: "blob_at n b s1 = Some ?x"
    using put_whole_blob_new [OF assms(1,2) ac, of PageBlob "replicate (length stream) (CHR 0x00)" "[]" 0] assms(5)
    by (simp add: createPageBlob_def page_create_options_def dvd_eq_mod_eq_0)
  have wo: "page_write_options opts = \<lparr>accessConditions = None, leaseId = None\<rparr>"
    using assms(4) by (simp add: page_write_options_def)
  have ch: "\<forall>t\<in>set (chunks k stream). t \<noteq> [] \<and> PAGE_SIZE dvd length t"
    using chunks_bounds [OF assms(7)] chunks_dvd [OF assms(7,6,5)] by blast
  have "blobType ?x = PageBlob" "blobLease ?x = Available" "length (content ?x) = 0 + length (concat (chunks k stream))"
    by (simp_all add: write_blob_def chunks_concat)
  then obtain r' s' x' where "write_pages n b (chunks k stream) 0 (page_write_options opts) r s1 = Inr (r', s')"
    "blob_at n b s' = Some x'" "content x' = take 0 (content ?x) @ concat (chunks k stream)"
    using write_pages_succeeds [OF x _ _ wo _ ch, where r = r] by auto
  then show ?thesis
    using cr by (auto simp: createPageBlobFromStream_def getBlobToText_blob_at chunks_concat)
qed

lemma blob_at_set_committed:
  "blob_at n b (set_committed n b bs s) = map_option (\<lambda>x. x\<lparr>committedBlocks := bs\<rparr>) (blob_at n b s)"
  by (simp add: blob_at_def set_committed_def split: option.splits)

lemma createBlockBlobFromText_blob_at:
  "createBlockBlobFromText n b txt opts s = Inr (r, s') \<Longrightarrow> \<exists>x. blob_at n b s' = Some x \<and> content x = txt"
  unfolding createBlockBlobFromText_def by (drule put_whole_blob_Inr) (auto simp: write_blob_def)

lemma createBlockBlobFromStream_blob_at:
  assumes "createBlockBlobFromStream cfg k rnd n b stream len opts s = Inr (r, s')"
  shows "\<exists>x. blob_at n b s' = Some x \<and> content x = stream"
proof (cases "len \<le> singleBlobPutThresholdInBytes cfg")
  case True
  then show ?thesis using assms by (simp add: createBlockBlobFromStream_def createBlockBlobFromText_blob_at)
next
  case False
  then obtain s1 where s1: "createBlockBlobFromText n b stream (BlobContentOptions.truncate opts) s = Inr (r, s1)"
    and s': "s' = set_committed n b (block_list (value_or rnd (blockIdPrefix opts)) k stream) s1"
    using assms createBlockBlobFromStream_blocks [of cfg len k rnd n b stream opts s]
    by (cases "createBlockBlobFromText n b stream (BlobContentOptions.truncate opts) s") (auto simp: not_le)
  show ?thesis using createBlockBlobFromText_blob_at [OF s1] by (auto simp: s' blob_at_set_committed)
qed

lemma get_request_plain:
  "blob_at n b s = Some x \<Longrightarrow> get_request n b no_get_options s = Inr (content x, blob_result n b x)"
  by (auto simp: get_request_def blob_at_def no_get_options_def read_check_def conditions_ok_def conditions_hold_empty
      blob_version_def read_range_def LeaseAndAccessConditionsOptions.truncate_def split: option.splits)

text \<open>C17: a local file uploaded with \<open>createBlockBlobFromLocalFile\<close>, as one put or
  as blocks, downloads with \<open>getBlobToLocalFile\<close>, as one read or in ranges, into
  another file with the same content; the other files are untouched.\<close>

theorem local_file_roundtrip:
  assumes "createBlockBlobFromLocalFile cfg k rnd n b p opts fs s = Inr (r, s')" and "0 < k"
  shows "\<exists>r'. getBlobToLocalFile cfg k n b q no_get_options fs s' = Inr (r', fs(q \<mapsto> the (fs p)))"
proof -
  obtain d where d: "fs p = Some d" and u: "createBlockBlobFromStream cfg k rnd n b d (length d) opts s = Inr (r, s')"
    using assms(1) by (auto simp: createBlockBlobFromLocalFile_def split: option.splits)
  obtain x where x: "blob_at n b s' = Some x" and c: "content x = d"
    using createBlockBlobFromStream_blob_at [OF u] by blast
  show ?thesis
    using getBlobToStream_eq [OF assms(2), of cfg n b no_get_options s'] get_request_plain [OF x] c d
    by (simp add: getBlobToLocalFile_def)
qed

theorem local_file_roundtrip_witness:
  "getBlobToLocalFile \<lparr>singleBlobPutThresholdInBytes = 2, parallelOperationThreadCount = 2\<rparr> 2 ''c'' ''b'' ''copy.txt''
     no_get_options [''a.txt'' \<mapsto> ''hello'']
     (snd (projr (createBlockBlobFromLocalFile \<lparr>singleBlobPutThresholdInBytes = 2, parallelOperationThreadCount = 2\<rparr> 2 ''r''
        ''c'' ''b'' ''a.txt'' \<lparr>accessConditions = None, leaseId = None, blobContentMetadata = None,
          contentSettings = no_headers, blockIdPrefix = None\<rparr> [''a.txt'' \<mapsto> ''hello'']
        (the (run_ops [OpCreateContainer ''c'' Map.empty OFF] empty_store)))))
   = Inr (fst (projr (getBlobToLocalFile \<lparr>singleBlobPutThresholdInBytes = 2, parallelOperationThreadCount = 2\<rparr> 2 ''c''
        ''b'' ''copy.txt'' no_get_options [''a.txt'' \<mapsto> ''hello'']
        (snd (projr (createBlockBlobFromLocalFile \<lparr>singleBlobPutThresholdInBytes = 2, parallelOperationThreadCount = 2\<rparr> 2 ''r''
          ''c'' ''b'' ''a.txt'' \<lparr>accessConditions = None, leaseId = None, blobContentMetadata = None,
            contentSettings = no_headers, blockIdPrefix = None\<rparr> [''a.txt'' \<mapsto> ''hello'']
          (the (run_ops [OpCreateContainer ''c'' Map.empty OFF] empty_store))))))),
        [''a.txt'' \<mapsto> ''hello'', ''copy.txt'' \<mapsto> ''hello''])"
proof -
  let ?cfg = "\<lparr>singleBlobPutThresholdInBytes = 2, parallelOperationThreadCount = 2\<rparr>"
  let ?o = "\<lparr>accessConditions = None, leaseId = None, blobContentMetadata = None, contentSettings = no_headers,
            blockIdPrefix = None\<rparr>"
  let ?s = "the (run_ops [OpCreateContainer ''c'' Map.empty OFF] empty_store)"
  let ?u = "createBlockBlobFromLocalFile ?cfg 2 ''r'' ''c'' ''b'' ''a.txt'' ?o [''a.txt'' \<mapsto> ''hello''] ?s"
  have "?u = map_sum id (\<lambda>(r, s'). (r, set_committed ''c'' ''b'' (block_list ''r'' 2 ''hello'') s'))
            (createBlockBlobFromText ''c'' ''b'' ''hello'' (BlobContentOptions.truncate ?o) ?s)"
    by (simp add: createBlockBlobFromLocalFile_def createBlockBlobFromStream_blocks)
  then have u: "?u = Inr (fst (projr ?u), snd (projr ?u))"
    by (simp add: store_eval)
  obtain r' where "getBlobToLocalFile ?cfg 2 ''c'' ''b'' ''copy.txt'' no_get_options [''a.txt'' \<mapsto> ''hello''] (snd (projr ?u))
      = Inr (r', [''a.txt'' \<mapsto> ''hello'', ''copy.txt'' \<mapsto> ''hello''])"
    using local_file_roundtrip [OF u, of "''copy.txt''"] by auto
  then show ?thesis by simp
qed

text \<open>C29: with a single writer, \<open>createAppendBlobFromStream\<close> of a new blob
  succeeds, appending the stream piece by piece at the offsets the earlier pieces
  reached, and the blob then reads as the stream.\<close>

theorem createAppendBlobFromStream_content:
  assumes "containers s n = Some c" and "blobs c b = None" and "accessConditions opts = None"
    and "leaseId opts = None"
  shows "\<exists>r s'. createAppendBlobFromStream k n b stream (length stream) opts s = Inr (r, s')
           \<and> map_sum id fst (getBlobToText n b s') = Inr stream"
  using assms by (rule createAppendBlobFromStream_succeeds)

theorem createAppendBlobFromStream_content_witness:
  "\<exists>r s'. createAppendBlobFromStream 2 ''c'' ''a'' ''hello'' (length ''hello'') no_append_options
            (the (run_ops [OpCreateContainer ''c'' Map.empty OFF] empty_store)) = Inr (r, s')
         \<and> map_sum id fst (getBlobToText ''c'' ''a'' s') = Inr ''hello''"
proof -
  let ?s = "the (run_ops [OpCreateContainer ''c'' Map.empty OFF] empty_store)"
  have c: "containers ?s ''c'' = Some (the (containers ?s ''c''))" and "blobs (the (containers ?s ''c'')) ''a'' = None"
    by (simp_all add: store_eval)
  from createAppendBlobFromStream_content [OF this, where k = 2 and stream = "''hello''" and opts = no_append_options]
  show ?thesis by (simp add: no_append_options_def)
qed

text \<open>C30: \<open>createPageBlobFromStream\<close> of a stream whose length, like the piece size,
  is a multiple of the 512-byte page, creates the page blob at that length and
  writes every piece as a valid page range, and the blob then reads as the
  stream.\<close>

theorem createPageBlobFromStream_content:
  assumes "containers s n = Some c" and "blobs c b = None" and "accessConditions opts = None"
    and "leaseId opts = None" and "PAGE_SIZE dvd length stream" and "PAGE_SIZE dvd k" and "0 < k"
  shows "\<exists>r s'. createPageBlobFromStream k n b stream (length stream) opts s = Inr (r, s')
           \<and> map_sum id fst (getBlobToText n b s') = Inr stream"
  using assms by (rule createPageBlobFromStream_succeeds)

theorem createPageBlobFromStream_content_witness:
  "\<exists>r s'. createPageBlobFromStream 512 ''c'' ''p'' (replicate 1024 (CHR ''x'')) 1024
            \<lparr>accessConditions = None, leaseId = None, blobContentMetadata = None, contentSettings = no_headers,
             blockIdPrefix = None\<rparr>
            (the (run_ops [OpCreateContainer ''c'' Map.empty OFF] empty_store)) = Inr (r, s')
         \<and> map_sum id fst (getBlobToText ''c'' ''p'' s') = Inr (replicate 1024 (CHR ''x''))"
proof -
  let ?s = "the (run_ops [OpCreateContainer ''c'' Map.empty OFF] empty_store)"
  have c: "containers ?s ''c'' = Some (the (containers ?s ''c''))" and "blobs (the (containers ?s ''c'')) ''p'' = None"
    by (simp_all add: store_eval)
  from createPageBlobFromStream_content [OF this, where k = 512 and stream = "replicate 1024 (CHR ''x'')" and
      opts = "\<lparr>accessConditions = None, leaseId = None, blobContentMetadata = None, contentSettings = no_headers,
               blockIdPrefix = None\<rparr>"]
  show ?thesis by (simp add: PAGE_SIZE_def)
qed

end
