(* ===== verification/ServiceOperations.thy ===== *)
theory ServiceOperations
  imports BlobService
begin

text \<open>
  The properties of the operations of theories \<open>BlobProperties\<close> and
  \<open>CopyBlob\<close>: blob content headers and their default, container ACLs read back,
  the evaluation of shared access signatures against the ACL as it is set, and the
  copy of a blob named by its URL, with witnesses built by \<open>run_ops\<close>.
\<close>

lemma setContainerAcl_Inr:
  assumes "setContainerAcl n sids opts s = Inr (r, s')"
  obtains c where "containers s n = Some c"
    "r = container_result n (c\<lparr>signedIdentifiers := sids, containerProps := fresh_props s\<rparr>)"
    "s' = tick (put_container n (c\<lparr>signedIdentifiers := sids, containerProps := fresh_props s\<rparr>) s)"
  using assms by (auto simp: setContainerAcl_def Let_def split: option.splits)

lemma stored_policy_absent:
  assumes "\<forall>si\<in>set sids. Id si \<noteq> Some i"
  shows "stored_policy sids i = None"
proof -
  have "find (\<lambda>si. Id si = Some i) sids = None" using assms by (auto simp: find_None_iff)
  then show ?thesis by (simp add: stored_policy_def)
qed

lemmas acl_eval = store_eval setContainerAcl_def getContainerAcl_def container_result_def
  generateSharedAccessSignature_def

text \<open>After \<open>setContainerAcl\<close> succeeds, \<open>getContainerAcl\<close> returns the
  container with exactly the given signed identifiers; the container's blobs and
  metadata, and every other container, are unchanged.\<close>

theorem setContainerAcl_getContainerAcl:
  assumes "setContainerAcl n sids opts s = Inr (r, s')"
  shows "getContainerAcl n s' = Inr r \<and> containerResultSignedIdentifiers r = sids
         \<and> (\<exists>c c'. containers s n = Some c \<and> containers s' n = Some c' \<and> blobs c' = blobs c
                   \<and> containerMetadata c' = containerMetadata c)
         \<and> (\<forall>m. m \<noteq> n \<longrightarrow> containers s' m = containers s m)"
  using assms by (rule setContainerAcl_Inr)
    (auto simp: getContainerAcl_def container_result_def tick_def put_container_def)

text \<open>C18: a shared access signature that names a stored access policy is governed by
  the container's ACL as last set: after \<open>setContainerAcl\<close> it grants a permission
  at a time exactly when the first signed identifier with that name has a policy
  granting it then, and once the ACL has no identifier of that name the signature
  grants nothing (revocation).\<close>

theorem setContainerAcl_sas_grants:
  assumes "setContainerAcl n sids opts s = Inr (r, s')"
    and "sasContainer tok = n" and "Id (sasPolicy tok) = Some i"
  shows "sas_grants s' tok t p =
           (case stored_policy sids i of None \<Rightarrow> False
            | Some pol \<Rightarrow> policy_grants Blob_SharedAccessPermissions pol t p)
         \<and> ((\<forall>si\<in>set sids. Id si \<noteq> Some i) \<longrightarrow> \<not> sas_grants s' tok t p)"
proof -
  obtain c where s': "s' = tick (put_container n (c\<lparr>signedIdentifiers := sids, containerProps := fresh_props s\<rparr>) s)"
    using assms(1) by (rule setContainerAcl_Inr)
  have "sas_policy s' tok = stored_policy sids i"
    using assms(2,3) by (simp add: sas_policy_def s' tick_def put_container_def)
  then show ?thesis
    by (auto simp: sas_grants_def stored_policy_absent)
qed

text \<open>C40: \<open>setBlobProperties\<close> sets the blob's content headers, which
  \<open>getBlobProperties\<close> then returns, and "does not modify ... the content of the
  blob": content, metadata, type and lease stay as they were.\<close>

theorem setBlobProperties_getBlobProperties:
  assumes "setBlobProperties n b hs opts s = Inr (r, s')" and "blob_at n b s = Some x"
  shows "getBlobProperties n b s' = Inr r \<and> blobResultHeaders r = hs
         \<and> (\<exists>x'. blob_at n b s' = Some x' \<and> content x' = content x \<and> blobMetadata x' = blobMetadata x
                 \<and> blobType x' = blobType x \<and> blobLease x' = blobLease x)"
proof -
  obtain c where c: "containers s n = Some c"
    and r: "r = blob_result n b (x\<lparr>blobHeaders := hs, blobProps := fresh_props s\<rparr>)"
    and s': "s' = tick (put_blob n c b (x\<lparr>blobHeaders := hs, blobProps := fresh_props s\<rparr>) s)"
    using assms by (auto simp: setBlobProperties_def update_blob_def blob_at_def Let_def
        split: option.splits sum.splits)
  show ?thesis
    by (simp add: r s' getBlobProperties_def blob_result_def tick_def put_blob_def put_container_def blob_at_def)
qed

text \<open>A blob written without a content type reports
  \<open>application/octet-stream\<close> ("The default type is application/octet-stream"),
  and one written with a content type reports that type.\<close>

theorem createBlockBlobFromText_content_type:
  assumes "createBlockBlobFromText n b t opts s = Inr (r, s')"
  shows "getBlobProperties n b s' = Inr r
         \<and> contentType (blobResultHeaders r) = Some (value_or DEFAULT_CONTENT_TYPE (contentType (contentSettings opts)))"
proof -
  from put_whole_blob_Inr [OF assms [unfolded createBlockBlobFromText_def]] show ?thesis
    by (auto simp: getBlobProperties_def blob_result_def write_blob_def blob_content_headers_def
        tick_def put_blob_def)
qed

theorem setContainerAcl_getContainerAcl_witness:
  "containerResultSignedIdentifiers (fst (projr (setContainerAcl ''c'' [\<lparr>Id = Some ''p1'', AccessPolicy = None\<rparr>] no_conditions
      (the (run_ops [OpCreateContainer ''c'' Map.empty OFF] empty_store))))) = [\<lparr>Id = Some ''p1'', AccessPolicy = None\<rparr>]"
proof -
  let ?s = "the (run_ops [OpCreateContainer ''c'' Map.empty OFF] empty_store)"
  let ?r = "setContainerAcl ''c'' [\<lparr>Id = Some ''p1'', AccessPolicy = None\<rparr>] no_conditions ?s"
  have d: "?r = Inr (fst (projr ?r), snd (projr ?r))" by (simp add: acl_eval)
  from setContainerAcl_getContainerAcl [OF d] show ?thesis by blast
qed

theorem setContainerAcl_sas_grants_witness:
  "sas_grants (snd (projr (setContainerAcl ''c''
        [\<lparr>Id = Some ''p1'', AccessPolicy = Some \<lparr>Permissions = Some ''r'', Start = None, Expiry = 100\<rparr>\<rparr>] no_conditions
        (the (run_ops [OpCreateContainer ''c'' Map.empty OFF] empty_store)))))
     (generateSharedAccessSignature ''c'' (Some ''b'') \<lparr>Id = Some ''p1'', AccessPolicy = None\<rparr>) 50 BLOB_READ
   \<and> \<not> sas_grants (snd (projr (setContainerAcl ''c'' [] no_conditions
        (the (run_ops [OpCreateContainer ''c'' Map.empty OFF] empty_store)))))
     (generateSharedAccessSignature ''c'' (Some ''b'') \<lparr>Id = Some ''p1'', AccessPolicy = None\<rparr>) 50 BLOB_READ"
proof -
  let ?s = "the (run_ops [OpCreateContainer ''c'' Map.empty OFF] empty_store)"
  let ?sids = "[\<lparr>Id = Some ''p1'', AccessPolicy = Some \<lparr>Permissions = Some ''r'', Start = None, Expiry = 100\<rparr>\<rparr>]"
  let ?tok = "generateSharedAccessSignature ''c'' (Some ''b'') \<lparr>Id = Some ''p1'', AccessPolicy = None\<rparr>"
  let ?r1 = "setContainerAcl ''c'' ?sids no_conditions ?s"
  let ?r2 = "setContainerAcl ''c'' [] no_conditions ?s"
  have d1: "?r1 = Inr (fst (projr ?r1), snd (projr ?r1))" by (simp add: acl_eval)
  have d2: "?r2 = Inr (fst (projr ?r2), snd (projr ?r2))" by (simp add: acl_eval)
  have t: "sasContainer ?tok = ''c''" "Id (sasPolicy ?tok) = Some ''p1''"
    by (simp_all add: generateSharedAccessSignature_def)
  from setContainerAcl_sas_grants [OF d1 t, of 50 BLOB_READ]
    setContainerAcl_sas_grants [OF d2 t, of 50 BLOB_READ]
  show ?thesis
    by (simp add: stored_policy_def policy_grants_def policy_active_def Blob_SharedAccessPermissions_def)
qed

theorem setBlobProperties_getBlobProperties_witness:
  "blobResultHeaders (fst (projr (setBlobProperties ''c'' ''b'' (no_headers\<lparr>contentLanguage := Some ''en''\<rparr>) no_conditions
      (the (run_ops [OpCreateContainer ''c'' Map.empty OFF, OpCreateBlockBlob ''c'' ''b'' ''hi'' no_blob_options] empty_store)))))
   = no_headers\<lparr>contentLanguage := Some ''en''\<rparr>"
proof -
  let ?s = "the (run_ops [OpCreateContainer ''c'' Map.empty OFF, OpCreateBlockBlob ''c'' ''b'' ''hi'' no_blob_options] empty_store)"
  let ?r = "setBlobProperties ''c'' ''b'' (no_headers\<lparr>contentLanguage := Some ''en''\<rparr>) no_conditions ?s"
  have d: "?r = Inr (fst (projr ?r), snd (projr ?r))" by (simp add: store_eval setBlobProperties_def update_blob_def)
  have x: "blob_at ''c'' ''b'' ?s = Some (the (blob_at ''c'' ''b'' ?s))" by (simp add: store_eval blob_at_def)
  from setBlobProperties_getBlobProperties [OF d x] show ?thesis by blast
qed

theorem createBlockBlobFromText_content_type_witness:
  "contentType (blobResultHeaders (fst (projr (createBlockBlobFromText ''c'' ''b'' ''hi'' no_blob_options
      (the (run_ops [OpCreateContainer ''c'' Map.empty OFF] empty_store)))))) = Some ''application/octet-stream''"
proof -
  let ?s = "the (run_ops [OpCreateContainer ''c'' Map.empty OFF] empty_store)"
  let ?r = "createBlockBlobFromText ''c'' ''b'' ''hi'' no_blob_options ?s"
  have d: "?r = Inr (fst (projr ?r), snd (projr ?r))" by (simp add: store_eval)
  from createBlockBlobFromText_content_type [OF d] show ?thesis
    by (simp add: no_blob_options_def blob_options_def no_headers_def DEFAULT_CONTENT_TYPE_def)
qed

lemmas copy_eval = store_eval startCopyBlob_def parse_blob_url_def location_host_def createBlobService_def
  new_BlobService_def new_StorageServiceClient_def normalize_host_def source_lease_ok_def blob_at_def

text \<open>C31: \<open>startCopyBlob\<close> from the URL \<open>getUrl\<close> gives for a blob "copies the
  entire committed blob": afterwards the destination holds the source's content,
  type, committed blocks and content headers, with the metadata of the options
  when given and the source's otherwise.\<close>

theorem startCopyBlob_copies:
  assumes "getUrl cl sn (Some sb) None True = Some u" and "CHR ''/'' \<notin> set sn"
    and "CHR ''?'' \<notin> set sn" and "CHR ''?'' \<notin> set sb"
    and "blob_at sn sb s = Some x" and "startCopyBlob cl u tn tb opts s = Inr (r, s')"
  shows "map_sum id fst (getBlobToText tn tb s') = Inr (content x)
         \<and> (\<exists>y. blob_at tn tb s' = Some y \<and> blobType y = blobType x \<and> committedBlocks y = committedBlocks x
                \<and> blobHeaders y = blobHeaders x \<and> blobMetadata y = value_or (blobMetadata x) (copyMetadata opts))"
proof -
  have p: "parse_blob_url cl u = Some (sn, sb)" using assms(1-4) by (rule parse_getUrl)
  have "\<exists>c ss ll. s' = tick (put_blob tn (c\<lparr>uncommitted := (uncommitted c)(tb := [])\<rparr>) tb
       (x\<lparr>blobProps := fresh_props s, blobMetadata := value_or (blobMetadata x) (copyMetadata opts),
          snapshots := ss, blobLease := ll\<rparr>) s)"
    using assms(6) p assms(5) by (auto simp: startCopyBlob_def Let_def split: option.splits if_splits)
  then obtain c ss ll where s': "s' = tick (put_blob tn (c\<lparr>uncommitted := (uncommitted c)(tb := [])\<rparr>) tb
       (x\<lparr>blobProps := fresh_props s, blobMetadata := value_or (blobMetadata x) (copyMetadata opts),
          snapshots := ss, blobLease := ll\<rparr>) s)" by blast
  show ?thesis by (simp add: s')
qed

theorem startCopyBlob_copies_witness:
  "map_sum id fst (getBlobToText ''c'' ''d'' (snd (projr (startCopyBlob (createBlobService ''acct'' ''key'' (Some (HostString ''h'')))
      ''h/c/b'' ''c'' ''d'' \<lparr>accessConditions = None, leaseId = None, copyMetadata = None, sourceLeaseId = None,
      sourceAccessConditions = None\<rparr>
      (the (run_ops [OpCreateContainer ''c'' Map.empty OFF, OpCreateBlockBlob ''c'' ''b'' ''hi'' no_blob_options] empty_store))))))
   = Inr ''hi''"
proof -
  let ?cl = "createBlobService ''acct'' ''key'' (Some (HostString ''h''))"
  let ?o = "\<lparr>accessConditions = None, leaseId = None, copyMetadata = None, sourceLeaseId = None,
      sourceAccessConditions = None\<rparr> :: StartCopyOptions"
  let ?s = "the (run_ops [OpCreateContainer ''c'' Map.empty OFF, OpCreateBlockBlob ''c'' ''b'' ''hi'' no_blob_options] empty_store)"
  let ?r = "startCopyBlob ?cl ''h/c/b'' ''c'' ''d'' ?o ?s"
  have u: "getUrl ?cl ''c'' (Some ''b'') None True = Some ''h/c/b''"
    by (simp add: getUrl_def copy_eval)
  have x: "blob_at ''c'' ''b'' ?s = Some (the (blob_at ''c'' ''b'' ?s))" by (simp add: copy_eval)
  have d: "?r = Inr (fst (projr ?r), snd (projr ?r))" by (simp add: copy_eval Let_def)
  have "content (the (blob_at ''c'' ''b'' ?s)) = ''hi''" by (simp add: copy_eval)
  with startCopyBlob_copies [OF u _ _ _ x d] show ?thesis by simp
qed

end
