(* ===== verification/Directories.thy ===== *)
theory Directories
  imports Listing
begin

text \<open>
  \<open>listBlobDirectoriesSegmented\<close> and \<open>listBlobDirectoriesSegmentedWithPrefix\<close>
  (\<open>src/azure/azure-storage.d.ts\<close>, lines 1761--1793) with
  \<open>ListDirectoriesOptions\<close> (2377--2381): "Lists a segment containing a collection
  of blob directory items in the container."  Blob names form a hierarchy under the
  delimiter \<open>/\<close>: the directory items under a prefix are the names with that
  prefix cut after the first \<open>/\<close> that follows it.  Directory items are listed in
  order, in segments of at most \<open>maxResults\<close>, with the continuation token of
  theory \<open>Listing\<close>.
\<close>

text \<open>\<open>BlobService.ListDirectoriesOptions\<close> has the common options and
  \<open>maxResults\<close> of \<open>ListBlobsOptions\<close>; it has no \<open>include\<close>, and the directory
  listing does not read \<open>listInclude\<close>.\<close>

type_synonym ListDirectoriesOptions = ListBlobsOptions

definition DELIMITER :: char where
  "DELIMITER = CHR ''/''"

text \<open>The directory item a blob name gives under a prefix, if it has a delimiter
  after the prefix.\<close>

definition directory_of :: "string \<Rightarrow> string \<Rightarrow> string option" where
  "directory_of p b =
     (let r = drop (length p) b in
      if starts_with p b \<and> DELIMITER \<in> set r
      then Some (p @ takeWhile (\<lambda>ch. ch \<noteq> DELIMITER) r @ [DELIMITER]) else None)"

definition directory_names :: "string \<Rightarrow> (string \<rightharpoonup> 'a) \<Rightarrow> string list" where
  "directory_names p m = sorted_list_of_set (set (List.map_filter (directory_of p) (listing_names p m)))"

text \<open>The result: the declared type is \<open>BlobListResult\<close>, whose entries are
  directory items here.\<close>

record DirectoryListResult =
  directoryEntries :: "string list"
  directoryContinuationToken :: "ContinuationToken option"

definition listBlobDirectoriesSegmentedWithPrefix ::
  "string \<Rightarrow> string \<Rightarrow> ContinuationToken option \<Rightarrow> ListDirectoriesOptions \<Rightarrow> location \<Rightarrow> store
   \<Rightarrow> storage_error + DirectoryListResult" where
  "listBlobDirectoriesSegmentedWithPrefix n p tok opts loc s =
     (case containers s n of
        None \<Rightarrow> Inl ContainerNotFound
      | Some c \<Rightarrow>
          (case page_size (maxResults opts) of
             Inl err \<Rightarrow> Inl err
           | Inr k \<Rightarrow>
               let (names, nx) = segment k (map_option nextMarker tok) (directory_names p (blobs c)) in
               Inr \<lparr>directoryEntries = names, directoryContinuationToken = token_of loc nx\<rparr>))"

definition listBlobDirectoriesSegmented ::
  "string \<Rightarrow> ContinuationToken option \<Rightarrow> ListDirectoriesOptions \<Rightarrow> location \<Rightarrow> store
   \<Rightarrow> storage_error + DirectoryListResult" where
  "listBlobDirectoriesSegmented n tok opts loc s = listBlobDirectoriesSegmentedWithPrefix n [] tok opts loc s"

definition directory_segments ::
  "string \<Rightarrow> string \<Rightarrow> ListDirectoriesOptions \<Rightarrow> location \<Rightarrow> store \<Rightarrow> ContinuationToken option
   \<Rightarrow> storage_error + string list \<times> ContinuationToken option" where
  "directory_segments n p opts loc s tok =
     map_sum id (\<lambda>r. (directoryEntries r, directoryContinuationToken r))
       (listBlobDirectoriesSegmentedWithPrefix n p tok opts loc s)"

text \<open>The caller's loop over the segments.\<close>

definition listAllDirectories ::
  "string \<Rightarrow> string \<Rightarrow> ListDirectoriesOptions \<Rightarrow> location \<Rightarrow> store \<Rightarrow> (storage_error + string list) option" where
  "listAllDirectories n p opts loc s = follow_tokens (directory_segments n p opts loc s) None"

subsection \<open>Lemmas\<close>

lemma directory_names_sorted: "sorted_wrt (<) (directory_names p m)"
  by (simp add: directory_names_def)

lemma listAllDirectories_eq:
  assumes "containers s n = Some c" and "page_size (maxResults opts) = Inr k"
  shows "listAllDirectories n p opts loc s = Some (Inr (directory_names p (blobs c)))"
proof -
  have "follow_tokens (directory_segments n p opts loc s) None =
        Some (Inr (map id (names_from (map_option nextMarker (None :: ContinuationToken option))
                                      (directory_names p (blobs c)))))"
    by (rule follow_tokens_segments [where k = k and mark = "map_option nextMarker"
          and mk = "\<lambda>m. \<lparr>nextMarker = m, targetLocation = loc\<rparr>" and g = id])
       (simp_all add: directory_segments_def listBlobDirectoriesSegmentedWithPrefix_def assms token_of_def
          split_def Let_def page_size_pos [OF assms(2)] directory_names_sorted)
  then show ?thesis by (simp add: listAllDirectories_def names_from_def)
qed

lemma set_map_filter_eq: "set (List.map_filter f xs) = {y. \<exists>x\<in>set xs. f x = Some y}"
  by (induction xs) (auto simp: map_filter_simps split: option.splits)

lemma directory_of_prefix: "directory_of p b = Some d \<Longrightarrow> starts_with p b"
  by (simp add: directory_of_def Let_def split: if_splits)

lemma set_directory_names:
  assumes "finite (dom m)"
  shows "set (directory_names p m) = {d. \<exists>b. m b \<noteq> None \<and> directory_of p b = Some d}"
proof -
  have fin: "finite {b. m b \<noteq> None \<and> starts_with p b}"
    using assms by (rule rev_finite_subset) auto
  have "set (directory_names p m) = set (List.map_filter (directory_of p) (listing_names p m))"
    by (simp add: directory_names_def)
  also have "\<dots> = {d. \<exists>b\<in>{b. m b \<noteq> None \<and> starts_with p b}. directory_of p b = Some d}"
    by (simp only: set_map_filter_eq listing_names_finite [OF assms] set_sorted_list_of_set [OF fin])
  also have "\<dots> = {d. \<exists>b. m b \<noteq> None \<and> directory_of p b = Some d}"
    by (auto dest: directory_of_prefix)
  finally show ?thesis .
qed

lemma directory_of_Some:
  assumes "directory_of p b = Some d"
  shows "starts_with p d \<and> starts_with d b \<and> last d = DELIMITER \<and> DELIMITER \<notin> set (butlast (drop (length p) d))"
proof -
  define r where "r = drop (length p) b"
  define t where "t = takeWhile (\<lambda>ch. ch \<noteq> DELIMITER) r"
  have p: "take (length p) b = p" and dl: "DELIMITER \<in> set r" and d: "d = p @ t @ [DELIMITER]"
    using assms by (auto simp: directory_of_def Let_def starts_with_def r_def t_def split: if_splits)
  have ne: "dropWhile (\<lambda>ch. ch \<noteq> DELIMITER) r \<noteq> []" using dl by (simp add: dropWhile_eq_Nil_conv)
  have "hd (dropWhile (\<lambda>ch. ch \<noteq> DELIMITER) r) = DELIMITER" using hd_dropWhile [OF ne] by simp
  then obtain w where w: "dropWhile (\<lambda>ch. ch \<noteq> DELIMITER) r = DELIMITER # w"
    using ne by (cases "dropWhile (\<lambda>ch. ch \<noteq> DELIMITER) r") auto
  have "r = t @ DELIMITER # w"
    using takeWhile_dropWhile_id [of "\<lambda>ch. ch \<noteq> DELIMITER" r] w by (simp add: t_def)
  then have b: "b = p @ t @ DELIMITER # w"
    using p append_take_drop_id [of "length p" b] by (simp add: r_def)
  have "take (length d) b = d" by (subst b) (simp add: d)
  moreover have "DELIMITER \<notin> set t" by (auto simp: t_def dest: set_takeWhileD)
  ultimately show ?thesis by (simp add: d starts_with_def)
qed


lemma listAllDirectories_page_size:
  assumes "containers s n = Some c" and "listAllDirectories n p opts loc s = Some (Inr ds)"
  shows "\<exists>k. page_size (maxResults opts) = Inr k"
proof (cases "page_size (maxResults opts)")
  case (Inl e)
  have "listAllDirectories n p opts loc s = Some (Inl e)"
    by (subst listAllDirectories_def, subst follow_tokens.simps)
       (simp add: directory_segments_def listBlobDirectoriesSegmentedWithPrefix_def assms(1) Inl)
  with assms(2) show ?thesis by simp
qed simp

text \<open>C23: following the continuation tokens of \<open>listBlobDirectoriesSegmentedWithPrefix\<close>
  on a reachable store lists, in order and once each, exactly the directory items
  of the container's blobs under the prefix; each item extends the prefix by one
  level ending in \<open>/\<close> and is a prefix of some blob's name.\<close>

theorem listAllDirectories_complete:
  assumes "store_reachable s" and "containers s n = Some c"
    and "listAllDirectories n p opts loc s = Some (Inr ds)"
  shows "sorted_wrt (<) ds \<and> set ds = {d. \<exists>b. blobs c b \<noteq> None \<and> directory_of p b = Some d}
         \<and> (\<forall>d\<in>set ds. starts_with p d \<and> last d = DELIMITER \<and> DELIMITER \<notin> set (butlast (drop (length p) d))
                     \<and> (\<exists>b. blobs c b \<noteq> None \<and> starts_with d b))"
proof -
  obtain k where k: "page_size (maxResults opts) = Inr k"
    using listAllDirectories_page_size [OF assms(2,3)] by blast
  have ds: "ds = directory_names p (blobs c)"
    using listAllDirectories_eq [OF assms(2) k, of p loc] assms(3) by simp
  have fin: "finite (dom (blobs c))"
    using reachable_store_wf [OF assms(1)] store_wf_container [OF _ assms(2)] by (simp add: container_wf_def)
  have set: "set ds = {d. \<exists>b. blobs c b \<noteq> None \<and> directory_of p b = Some d}"
    unfolding ds by (rule set_directory_names [OF fin])
  show ?thesis
    using set directory_of_Some by (auto simp: ds directory_names_sorted)
qed

lemmas directory_eval = listing_eval directory_names_def directory_of_def DELIMITER_def

theorem listAllDirectories_complete_witness:
  "list_all (\<lambda>d. last d = CHR ''/'') (projr (the (listAllDirectories ''c'' [] (list_options None) PRIMARY
      (the (run_ops [OpCreateContainer ''c'' Map.empty OFF, OpCreateBlockBlob ''c'' ''a/x'' ''1'' no_blob_options,
                     OpCreateBlockBlob ''c'' ''b'' ''2'' no_blob_options] empty_store)))))"
proof -
  let ?ops = "[OpCreateContainer ''c'' Map.empty OFF, OpCreateBlockBlob ''c'' ''a/x'' ''1'' no_blob_options,
                     OpCreateBlockBlob ''c'' ''b'' ''2'' no_blob_options]"
  let ?s = "the (run_ops ?ops empty_store)"
  let ?l = "listAllDirectories ''c'' [] (list_options None) PRIMARY ?s"
  have "run_ops ?ops empty_store = Some ?s" by (simp add: store_eval)
  then have reach: "store_reachable ?s" by (rule run_ops_reachable) (rule store_reachable.start)
  have c: "containers ?s ''c'' = Some (the (containers ?s ''c''))" by (simp add: store_eval)
  have k: "page_size (maxResults (list_options None)) = Inr 5000" by (simp add: list_options_def page_size_def)
  have l: "?l = Some (Inr (projr (the ?l)))"
    using listAllDirectories_eq [OF c k, of "[]" PRIMARY] by simp
  from listAllDirectories_complete [OF reach c l] show ?thesis by (simp add: DELIMITER_def list_all_iff)
qed

end
