(* ===== verification/Spec2Isabelle.thy ===== *)
theory Spec2Isabelle
  imports AccessCondition ServiceClient Permissions TableEntity Lease BlobService Listing WebResource AppendText Uploads
    ServiceOperations Directories
begin

text \<open>
  \<^bold>\<open>A verification model of the azure-storage type declarations.\<close>

  The repository is \<open>src/azure/azure-storage.d.ts\<close>, the TypeScript declarations
  of the \<open>azure-storage\<close> client library (v0.6.0), and \<open>src/azure/azure.d.ts\<close>,
  which re-exports it as module \<open>azure\<close>.  The declarations carry no
  implementation: what they fix is the shape of the library's values, the
  numbering of its enums, the documented (\<open>@default\<close>) values of its constant
  tables, the documented defaults of optional arguments, and, in the comments,
  the contract of each operation.  The model translates exactly that: the
  types as records and datatypes, the tables as functions to their wire
  strings, and each documented contract as an executable definition whose
  guards are the comment's conditions.  Where a contract depends on the
  service (how an HTTP conditional header is evaluated, what the network
  answers), that part is a parameter or a separate definition named as such.

  \<^bold>\<open>Parts and theories.\<close>
  \<^item> \<open>Prelude\<close>: shared types (\<open>Common.Metadata\<close>, \<open>Internal.Dictionary\<close>),
    \<open>value_or\<close> for optional arguments with a documented default, the table
    decoder \<open>decode_table\<close>, and the decimal rendering \<open>decimal\<close> of numbers sent
    in headers, with its round trip \<open>parse_decimal_decimal\<close>.
  \<^item> \<open>Constants\<close>: the namespaces \<open>BlobUtilities\<close>, \<open>FileUtilities\<close>,
    \<open>TableUtilities\<close> and \<open>StorageUtilities\<close> (lines 15--378).  Each table is a
    datatype with the member names of the source (\<open>ALL\<close> and \<open>MAX\<close> are
    \<open>ALL_FILTER\<close> and \<open>MAX_ACTION\<close>, being keywords of the logic; the second
    \<open>OFF\<close> and \<open>METADATA\<close> are \<open>SHARE_OFF\<close> and \<open>FILE_METADATA\<close>), a function to
    its documented value, and a decoder.  Numeric enums carry their TypeScript
    numbering (\<open>BlockListFilter_ordinal\<close>, \<open>LocationMode_value\<close>) and
    \<open>LocationMode_of_value\<close> is TypeScript's reverse mapping.
  \<^item> \<open>AccessCondition\<close>: namespace \<open>AccessCondition\<close> (lines 381--428).  The
    \<open>AccessConditions\<close> object is a map from header name to value; the seven
    \<open>generate*Condition\<close> functions set the header their comment names, under
    the names of \<open>BlobUtilities.AccessConditions\<close>.  \<open>conditions_hold\<close> is how
    the service evaluates the headers against a resource's ETag and
    last-modified time; \<open>spec_holds\<close> is the contract each comment states.
  \<^item> \<open>RetryPolicy\<close>: \<open>Filters.IRetryPolicyFilter\<close>, \<open>Filters.RetryInfo\<close>,
    \<open>Common.DefaultOptions\<close> and the three retry filter classes
    (lines 431--687).  \<open>retry_handle\<close> is \<open>RetryPolicyFilter._handle\<close>: send,
    and while the response is not a 2xx (\<open>validResponse\<close>, line 570) and the
    filter's \<open>shouldRetry\<close> agrees, wait and resend to the next location of
    the \<open>LocationMode\<close>, checking \<open>maximumExecutionTimeInMs\<close> before each
    retry.  The exponential filter's \<open>shouldRetry\<close> is
    \<open>exponential_shouldRetry\<close> with back-off \<open>exponential_interval\<close>; the linear
    one waits \<open>retryInterval\<close> each time.  Constructors take their documented
    defaults (3 retries, 30000, 3000 and 90000 ms).
  \<^item> \<open>ServiceClient\<close>: \<open>StorageServiceClient\<close> (lines 689--742), the
    \<open>BlobService\<close> constructor (775--782) and \<open>createBlobService*\<close>
    (2445--2462).  A host string defines the primary host only
    (\<open>normalize_host\<close>); credentials are chosen shared key first, then SAS,
    then anonymous (\<open>choose_credentials\<close>); \<open>client_request\<close> sends a request
    through the client's retry filter and refuses a location mode that needs a
    host the client lacks; \<open>getUrl\<close> builds the endpoint URL;
    \<open>setProxy\<close> (744--748) records a \<open>Filters.IProxy\<close> (449--457), a tunnel
    that leaves every request's host and URL as they were.
  \<^item> \<open>Permissions\<close>: the four \<open>SharedAccessPermissions\<close> tables, the
    permission strings of \<open>Common.SignedIdentifier.AccessPolicy\<close> with their
    parser (letters accepted once each, in table order), and the policy's
    \<open>Start\<close>/\<open>Expiry\<close> window.
  \<^item> \<open>TableEntity\<close>: \<open>TableUtilities.Entity\<close>, \<open>EntityConstructor\<close> and the
    eight \<open>entityGenerator\<close> functions, each tagging a value with its Edm type.
  \<^item> \<open>Lease\<close>: one lease of \<open>BlobService.acquireLease\<close>, \<open>renewLease\<close>,
    \<open>changeLease\<close>, \<open>releaseLease\<close> and \<open>breakLease\<close> as a state
    (\<open>lease_state\<close>: available, leased until a time or for ever, breaking
    until a time, broken) with time in seconds; \<open>lease_step\<close> is the
    \<open>inductive\<close> step relation (an operation, or a tick of the clock) and
    \<open>lease_reachable\<close> its reachable states.
  \<^item> \<open>BlobStore\<close>: \<open>BlobService\<close>'s blob and container operations
    (lines 767--2073) on a \<open>store\<close> of containers, each a map of blobs, and a
    clock.  Every write stamps the resource with the clock as its last-modified
    time and the clock's decimal as its ETag (\<open>fresh_props\<close>) and advances
    the clock; every write to an existing resource first checks its lease
    (\<open>lease_check\<close>: an active lease must be named) and then the request's
    access conditions (\<open>conditions_ok\<close>, with \<open>conditions_hold\<close> of theory
    \<open>AccessCondition\<close>).  The operations are the create, delete, exists and
    metadata operations of containers and blobs, \<open>createBlockFromText\<close> /
    \<open>commitBlocks\<close> / \<open>listBlocks\<close>, \<open>appendBlockFromText\<close> with
    \<open>appendPosition\<close> and \<open>maxBlobSize\<close>, \<open>createPageBlob\<close> (of a length
    that is a whole number of 512-byte pages, \<open>PAGE_SIZE\<close>, as the service
    requires) and
    \<open>setPageBlobSequenceNumber\<close>, \<open>createBlobSnapshot\<close>, \<open>deleteBlob\<close>
    with the \<open>deleteSnapshots\<close> rules, and the blob and container lease
    operations through \<open>Lease.lease_apply\<close> (\<open>lease_request\<close>: a blob lease
    when a blob is named, the container's lease when the blob is null).  Each
    returns its result and the new store or the error (\<open>storage_error\<close>).
  \<^item> \<open>PageBlob\<close>: the page operations \<open>createPagesFromStream\<close>,
    \<open>clearPageRange\<close>, \<open>resizePageBlob\<close> and \<open>listPageRanges\<close> (lines
    975--992, 1323--1341, 1877--1949, 2186, 2401--2407).  A page blob keeps its
    bytes and the sorted list of its valid 512-byte pages; a range must start and
    end on a page boundary inside the blob (\<open>page_range_ok\<close>);
    \<open>listPageRanges\<close> reports the maximal runs of valid pages
    (\<open>page_runs\<close>) as byte ranges, optionally within a byte window.
  \<^item> \<open>BlobService\<close>: \<open>store_op\<close> and \<open>store_apply\<close> name the
    operations of \<open>BlobStore\<close> and \<open>PageBlob\<close>, \<open>store_step\<close> and
    \<open>store_reachable\<close> make the service a state machine, \<open>run_ops\<close> runs a
    sequence of operations, and \<open>store_wf\<close> is the invariant of its states.
  \<^item> \<open>Listing\<close>: \<open>listBlobsSegmented*\<close> and \<open>listContainersSegmented*\<close>
    (lines 1795--1875, 2172--2184, 2383--2399) with \<open>Common.ContinuationToken\<close>
    (499--502): names in lexicographic order, segments of at most
    \<open>maxResults\<close> (at most 5000) entries, and a token naming the first name
    not returned; \<open>follow_tokens\<close> is the caller's loop that passes each
    token back until none is returned.  The \<open>include\<close> option (the field
    \<open>listInclude\<close>) is split at its commas (\<open>split_on\<close>); with
    \<open>'metadata'\<close> the entries carry their metadata, otherwise none
    (\<open>listed_blob\<close>, \<open>listed_container\<close>).
  \<^item> \<open>WebResource\<close>: \<open>Internal.WebResource\<close> (lines 547--572), the request
    object every operation builds: the verb constructors, the query string and
    header setters, \<open>withQueryOption\<close> with its default, and
    \<open>addOptionalMetadataHeaders\<close>, which sends each metadata key as an
    \<open>x-ms-meta-\<close> header; \<open>headers_metadata\<close> is how the service reads
    them back.
  \<^item> \<open>BlobProperties\<close>: \<open>getBlobProperties\<close>, \<open>setBlobProperties\<close> with
    \<open>BlobService.Headers\<close>, \<open>getContainerProperties\<close>,
    \<open>getContainerAcl\<close> / \<open>setContainerAcl\<close> with the container's
    \<open>Common.SignedIdentifier\<close> list, and \<open>generateSharedAccessSignature\<close>
    (lines 1570--1715, 1969--2001, 2188--2199).  A signature token keeps its
    container, blob and policy; \<open>sas_policy\<close> is how the service evaluates
    it: a token naming a signed identifier is governed by the container's
    stored policy of that identifier, so that changing or removing it revokes
    the token.  \<open>BlobStore\<close> keeps each blob's content headers
    (\<open>blobHeaders\<close>, set on upload with the default content type
    \<open>application/octet-stream\<close>) and each container's signed identifiers.
  \<^item> \<open>CopyBlob\<close>: \<open>startCopyBlob\<close> with \<open>StartCopyOptions\<close> (lines
    2057--2073, 2409--2417).  The source URI is parsed against the client's
    endpoint (\<open>parse_blob_url\<close>, the inverse of \<open>getUrl\<close>); a copy
    within the account completes at once, so the model copies synchronously
    under the source's lease and conditions and the destination's, and
    \<open>abortCopyBlob\<close> (lines 784--800) finds no pending copy
    (\<open>NoPendingCopyOperation\<close>).
  \<^item> \<open>AppendText\<close>: \<open>AppendFromText\<close> and \<open>createAppendBlobFromText\<close>
    with \<open>AppendFromTextOptions\<close> (lines 912--932, 1069--1093, 2250--2271).  The
    library reads the blob's length and appends at that offset with the
    \<open>appendPosition\<close> condition; \<open>append_attempt\<close> is one such request,
    optionally a retry that absorbs the condition error
    (\<open>absorbConditionalErrorsOnRetry\<close>).  Interleavings of two writers are
    explicit sequences of these requests.
  \<^item> \<open>Directories\<close>: \<open>listBlobDirectoriesSegmented*\<close> (lines 1761--1793,
    2377--2381): the directory items under a prefix are the blob names cut after
    the first \<open>/\<close> past the prefix, listed in order in segments with the
    tokens of \<open>Listing\<close>.
  \<^item> \<open>BlockUpload\<close>: \<open>createBlockBlobFromStream\<close>, \<open>createBlockFromStream\<close>,
    \<open>getBlockId\<close> and \<open>CreateFromFileOptions\<close> (lines 759--765, 1130--1192,
    1668--1673, 2284--2292).  A stream no longer than the service default
    \<open>singleBlobPutThresholdInBytes\<close> is one put; a longer one is cut into blocks
    (\<open>chunks\<close>, a \<open>function\<close> with a measure), each staged under the identifier
    \<open>getBlockId\<close> gives its number in the order the parallel requests complete
    (\<open>stage_blocks\<close>), then committed (\<open>commit_upload\<close>).
  \<^item> \<open>Downloads\<close>: \<open>getBlobToStream\<close>, \<open>getBlobToLocalFile\<close> and
    \<open>createReadStream\<close> with \<open>SnapshotIdOptions\<close> and \<open>GetBlobOptions\<close>
    (lines 1343--1357, 1620--1650, 2208--2211, 2354--2365).  One GET reads the
    blob or a snapshot, optionally a byte range (\<open>read_range\<close>, refused with
    \<open>InvalidRange\<close> when it starts beyond the blob); a large blob is read in
    ranges, one request each.  A writable stream is the text written to it, the
    local file system a map from names to contents.
  \<^item> \<open>Uploads\<close>: the local-file, stream and write-stream uploads of block, append
    and page blobs (lines 820--910, 1014--1066, 1110--1128, 1280--1320,
    1359--1455): a missing file fails with \<open>LocalFileNotFound\<close>; append blobs
    are written piece by piece with the append-offset condition
    (\<open>append_chunks\<close>), page blobs created at the stream's length and written
    range after range (\<open>write_pages\<close>); \<open>appendBlockFromStream\<close> (lines
    820--842) is one append block of the stream's content.
  \<^item> \<open>ServiceOperations\<close>: the lemmas over the operations above run on
    reachable stores of \<open>BlobService\<close> (whose \<open>store_op\<close> includes
    \<open>setBlobProperties\<close>, \<open>setContainerAcl\<close> and \<open>startCopyBlob\<close>).

  \<^bold>\<open>What the lemmas show.\<close>
  \<^item> Retry filters: the exponential and linear filters always return
    (\<open>ExponentialRetryPolicyFilter_handle_returns\<close>,
    \<open>LinearRetryPolicyFilter_bounded\<close>) after at most \<open>retryCount\<close> retries
    (\<open>ExponentialRetryPolicyFilter_attempts\<close>); no retry starts after the
    maximum execution time (\<open>retry_handle_deadline\<close>); each attempt goes to the
    location the \<open>LocationMode\<close> comment names (\<open>retry_handle_location\<close>);
    back-off intervals never shrink (\<open>exponential_interval_mono\<close>); a
    non-transient failure is returned without retry
    (\<open>ExponentialRetryPolicyFilter_no_retry\<close>).  The last three retry lemmas
    hold for any user \<open>shouldRetry\<close>, so they cover \<open>RetryPolicyFilter\<close> too.
  \<^item> Access conditions: each generator refines its comment's contract
    (\<open>generate_refines\<close>), and conditions on different headers combine as a
    conjunction (\<open>generate_merge\<close>).
  \<^item> Constants: decoders invert encoders (\<open>EdmType_roundtrip\<close>), the
    \<open>LocationMode\<close> numbering and its reverse mapping agree
    (\<open>LocationMode_reverse_mapping\<close>).
  \<^item> Client: the create functions choose the documented credentials
    (\<open>createBlobService_credentials\<close>); a mode that needs a host the
    client lacks is refused (\<open>string_host_no_secondary\<close>), and
    \<open>getUrl\<close> builds the endpoint URLs (\<open>getUrl_endpoints\<close>); a proxy
    changes neither
    (\<open>setProxy_tunnels\<close>).
  \<^item> Permissions and entities: permission strings round-trip and are
    canonical (\<open>SharedAccessPermissions_roundtrip\<close>,
    \<open>Blob_permissions_canonical\<close>), a policy grants its permissions only in
    its window (\<open>policy_grants_blob\<close>), and the entity generators tag each
    value with its Edm type (\<open>entityGenerator_tags\<close>).
  \<^item> Leases: reachable leases respect the documented durations and break
    periods (\<open>lease_reachable_bounds\<close>, by rule induction), a breaking
    lease blocks acquisition, a broken one allows it, and an active lease is
    exclusive.
  \<^item> Blob store: the invariant \<open>store_wf\<close> holds in every reachable store
    (\<open>store_reachable_wf\<close>, by rule induction over \<open>store_step\<close> with one
    preservation lemma per operation); committing blocks writes their
    concatenation and an unknown block fails; a written text reads back; the
    snapshot rules of \<open>deleteBlob\<close>; appends respect their position and size
    bounds; the sequence number never wraps at \<open>2^63 - 1\<close>;
    \<open>createContainerIfNotExists\<close> is idempotent; \<open>deleteContainer\<close> takes
    the container's blobs with it; staging shows in \<open>listBlocks\<close>; a leased
    container can only be deleted by naming its lease
    (\<open>leased_container_delete_needs_lease\<close>).
  \<^item> Page blobs: a page write puts the stream at its offset and is then
    covered by the listed ranges, only on aligned ranges inside the blob
    (\<open>createPagesFromStream_listPageRanges\<close>,
    \<open>createPagesFromStream_bounds\<close>); a cleared range reads as zeros and
    no listed range overlaps it (\<open>clearPageRange_listPageRanges\<close>); the runs
    of \<open>listPageRanges\<close> expand back to exactly the valid pages and are
    maximal (\<open>page_runs_correct\<close>).  The store invariant keeps valid pages
    sorted and inside the blob.
  \<^item> Listing: following continuation tokens always ends and yields exactly
    the one-shot listing (\<open>listing_follow_tokens_equivalence\<close>, from the
    generic \<open>follow_tokens_segments\<close>, stated for any sorted list of names and
    any page size); on a reachable store that listing is every blob with the
    prefix once, in order, with its metadata when \<open>include\<close> asks for it
    (\<open>listAllBlobs_complete\<close>); segments respect \<open>maxResults\<close>
    (\<open>listBlobsSegmented_bounds\<close>); the \<open>include\<close> value splits at its
    commas without loss (\<open>split_on_roundtrip\<close>, \<open>split_on_pieces\<close>).
  \<^item> Across components (this theory): an \<open>If-Match\<close> write on an ETag that
    another writer has since overwritten is refused, so no update is lost
    (\<open>ifMatch_prevents_lost_update\<close>, from the store invariant, the
    freshness of ETags and \<open>AccessCondition.generate_contract\<close>); a blob
    leased through the lease machine, for any duration and a proposed or
    generated identifier, can only be written by naming the lease
    (\<open>leased_blob_write_needs_lease\<close>); the \<open>k\<close>-th attempt of a client
    request goes to the client's host for the \<open>k\<close>-th location of its mode, so
    that the outcome depends on the transport only at those hosts
    (\<open>client_request_routes\<close>, from \<open>RetryPolicy.retry_handle_agree\<close>).
  \<^item> Properties, ACLs and signatures: an ACL written reads back
    (\<open>setContainerAcl_getContainerAcl\<close>); after \<open>setContainerAcl\<close> a token
    naming an identifier grants exactly what the new stored policy grants, and
    nothing once the identifier is removed (\<open>setContainerAcl_sas_grants\<close>);
    headers written read back and the content, metadata, type and lease stay
    (\<open>setBlobProperties_getBlobProperties\<close>).
  \<^item> Copy: a copy gives the destination the source's content and metadata
    (\<open>startCopyBlob_copies\<close>), and \<open>getUrl\<close>'s URIs parse back to their
    container and blob (\<open>parse_getUrl_roundtrip\<close>).
  \<^item> Appends: a single writer's \<open>AppendFromText\<close> appends at the end
    (\<open>AppendFromText_single_writer\<close>); when another append lands between the
    read of the offset and the append, the append is refused rather than
    written at the wrong place, though a retry that absorbs the condition error
    then reports success for a text it never wrote
    (\<open>AppendFromText_interleaving\<close>); a retry of
    an append that did succeed, with \<open>absorbConditionalErrorsOnRetry\<close>,
    returns success without appending twice (\<open>append_retry_no_duplicate\<close>);
    \<open>createAppendBlobFromText\<close> reads back its text.
  \<^item> Directories: following the tokens lists each directory item once, in
    order, and each is one level below the prefix and a prefix of a blob name
    (\<open>listAllDirectories_complete\<close>).
  \<^item> Requests: metadata sent as headers reads back as the same metadata
    (\<open>addOptionalMetadataHeaders_roundtrip\<close>), and \<open>withHeaders\<close> is a
    fold of \<open>withHeader\<close> (\<open>withHeaders_fold\<close>).
  \<^item> Transfers: above the threshold, the block upload has exactly the effect of
    the single put, up to the blob's committed block list
    (\<open>createBlockBlobFromStream_refines\<close>, a functional refinement), whatever
    order the parallel stagings complete in (\<open>commit_upload_any_order\<close>); its
    blocks put back together give the stream, at most \<open>k\<close> bytes each, under
    distinct identifiers (\<open>block_list_bounds\<close>, \<open>getBlockId_roundtrip\<close>);
    the ranged download returns exactly what one GET returns
    (\<open>getBlobToStream_ranged\<close>); a range read is clipped to the blob and
    refused when it starts beyond it (\<open>get_request_range\<close>); a file uploaded
    and downloaded again arrives unchanged (\<open>local_file_roundtrip\<close>); append
    and page blob uploads of a new blob succeed and read back as the stream
    (\<open>createAppendBlobFromStream_content\<close>,
    \<open>createPageBlobFromStream_content\<close>).
  \<^item> Findings: \<open>generateIfMatch_wildcard\<close> (an ETag of \<open>*\<close> turns the
    If-Match contract into "exists") and \<open>BlockListFilter_comitted\<close> (the
    documented value \<open>comitted\<close> is misspelt against \<open>uncommitted\<close>).

  \<^bold>\<open>Loops, fuel and bounds.\<close>  The retry loop is a
  \<open>partial_function (option)\<close>, since a user's \<open>shouldRetry\<close> may retry for
  ever; \<open>retry_handle_returns\<close> proves it returns for every policy that retries
  only below a bound (\<open>bounded_policy\<close>), which the two concrete filters do
  with their \<open>retryCount\<close>.  Times and intervals are milliseconds as \<open>nat\<close>;
  dates in headers, lease times and the store's clock are seconds.  The page
  blob sequence number is a \<open>nat\<close> bounded by \<open>seq_max = 2^63 - 1\<close>, the
  documented range, checked on every write; the other operations are
  structural recursion (\<open>resolve_blocks\<close>, \<open>run_ops\<close>, \<open>page_runs\<close>) and
  need no fuel.  The listing loop \<open>follow_tokens\<close> is also a
  \<open>partial_function (option)\<close>, since nothing in a caller's loop bounds the
  rounds; \<open>follow_tokens_segments\<close> proves it returns \<open>Some\<close> by induction on
  the number of names after the token, which each full segment of at least one
  entry decreases.  The page size is the service's 512 bytes.  The block
  upload's \<open>chunks\<close> is a \<open>function\<close> terminating by the measure of the
  remaining stream's length, which each block of \<open>k > 0\<close> bytes decreases; the
  block size \<open>k\<close> and the threshold are parameters, and block identifiers pad
  the block number to \<open>BLOCK_ID_DIGITS = 6\<close> digits, injective for every
  number (a longer number keeps all its digits) and of fixed length below
  \<open>10^6\<close> blocks.  The append and page uploads (\<open>append_chunks\<close>,
  \<open>write_pages\<close>) and the ranged reads (\<open>read_ranges\<close>) are structural
  recursion over the list of pieces.

  \<^bold>\<open>Not modelled, and why.\<close>
  \<^item> Which status codes a filter treats as transient, and the random jitter
    of the exponential back-off: neither is declared; the first is the parameter
    \<open>transient\<close>, the second is left out (the interval is its mean).
  \<^item> \<open>FileService\<close>, \<open>QueueService\<close>, \<open>TableService\<close>, \<open>TableBatch\<close> and
    \<open>TableQuery\<close> are declared empty; \<open>Common.ServiceProperties\<close>,
    \<open>SpeedSummary\<close> and \<open>StorageServiceSettings\<close> are empty interfaces.
  \<^item> Events (\<open>NodeJS.EventEmitter\<close>), the connection through a proxy and
    request signing (\<open>IStorageCredentials.signRequest\<close>) are I/O and
    cryptography of the runtime, not declared behaviour; the model records the
    proxy only.  \<open>getStorageSettings\<close> returns an empty interface.  Streams
    and files are modelled by their content (theories \<open>Downloads\<close> and
    \<open>Uploads\<close>); their MD5 checks and speed summaries are not.
  \<^item> Of the blob service: the copy status and copy identifiers, since a copy
    within the account completes at once; \<open>generateBlockIdPrefix\<close>, whose
    random prefix the block upload takes as an argument; service properties and statistics,
    whose types are empty interfaces; the metadata of \<open>CreateSnapshotOptions\<close>
    (a snapshot keeps its content); the signing of a SAS token (HMAC over the
    account key), of which the model keeps what the token carries; of listing,
    the \<open>include\<close> values \<open>'snapshots'\<close> and \<open>'uncommittedblobs'\<close> (a
    \<open>BlobResult\<close> has no field that tells a snapshot or an uncommitted blob
    from the blob) and the token's \<open>nextMarker\<close> format, which the service
    chooses (the model uses the next name).
  \<^item> The module declarations (\<open>declare module "azure"\<close>,
    \<open>declare module "azure-storage"\<close>, \<open>NodeRequireFunction\<close>) only name the
    exports.

  \<^bold>\<open>Plan.\<close>  Next: \<open>listPageRanges\<close> windows against the service's
  clipping; the retry loop sending the blob operations of the store through
  \<open>WebResource\<close> requests; snapshots with their own metadata
  (\<open>CreateSnapshotOptions\<close>).
\<close>

section \<open>Properties across components\<close>

text \<open>C7: under any retry policy, the \<open>k\<close>-th attempt of a request made through a
  client goes to the client's host for the \<open>k\<close>-th location of the request's
  location mode (\<open>StorageUtilities.LocationMode\<close>): two transports that answer
  alike at those hosts give the same outcome, whatever they answer elsewhere.\<close>

theorem client_request_routes:
  assumes "\<And>k. send1 (the (location_host c (attempt_location (value_or (defaultLocationMode c) (locationMode opts)) k))) k
              = send2 (the (location_host c (attempt_location (value_or (defaultLocationMode c) (locationMode opts)) k))) k"
  shows "client_request c sr send1 opts = client_request c sr send2 opts"
proof -
  let ?rq = "start_request (defaultLocationMode c) opts"
  let ?f1 = "\<lambda>k l. send1 (the (location_host c l)) k"
  let ?f2 = "\<lambda>k l. send2 (the (location_host c l)) k"
  have loc: "currentLocation ?rq = attempt_location (mode ?rq) (currentRetryCount ?rq)"
    using next_location_funpow [where m = "mode ?rq" and k = 0] by (simp add: start_request_def Let_def)
  have "retry_handle sr ?f1 ?rq = retry_handle sr ?f2 ?rq"
  proof (cases "retry_handle sr ?f1 ?rq")
    case None
    show ?thesis
    proof (cases "retry_handle sr ?f2 ?rq")
      case (Some r)
      have "retry_handle sr ?f1 ?rq = Some r"
        by (rule retry_handle_agree [OF Some loc]) (simp add: start_request_def Let_def assms [symmetric])
      with None show ?thesis by simp
    qed (simp add: None)
  next
    case (Some r)
    have "retry_handle sr ?f2 ?rq = Some r"
      by (rule retry_handle_agree [OF Some loc]) (simp add: start_request_def Let_def assms)
    with Some show ?thesis by simp
  qed
  then show ?thesis by (simp add: client_request_def Let_def)
qed

theorem client_request_routes_witness:
  "client_request (createBlobService ''acct'' ''key'' (Some (HostConfig \<lparr>primaryHost = ''p'', secondaryHost = Some ''s''\<rparr>)))
     (exponential_shouldRetry (\<lambda>c. 500 \<le> c) (new_ExponentialRetryPolicyFilter (Some 1) None None None))
     (\<lambda>h k. if h = ''s'' then (503, 10) else (200, 0)) (no_options\<lparr>locationMode := Some SECONDARY_ONLY\<rparr>)
   = client_request (createBlobService ''acct'' ''key'' (Some (HostConfig \<lparr>primaryHost = ''p'', secondaryHost = Some ''s''\<rparr>)))
     (exponential_shouldRetry (\<lambda>c. 500 \<le> c) (new_ExponentialRetryPolicyFilter (Some 1) None None None))
     (\<lambda>h k. if h = ''s'' then (503, 10) else (500, 0)) (no_options\<lparr>locationMode := Some SECONDARY_ONLY\<rparr>)"
  by (rule client_request_routes)
     (simp add: createBlobService_def new_BlobService_def location_host_def normalize_host_def value_or_def)


text \<open>C11: optimistic concurrency.  Of two writers that read the same version of a
  blob, once one has overwritten it, the other's overwrite conditioned by
  \<open>AccessCondition.generateIfMatchCondition\<close> on the ETag it read is refused:
  no update is lost.\<close>

theorem ifMatch_prevents_lost_update:
  assumes "store_wf s"
    and "getBlobToText n b s = Inr (t, r)"
    and "createBlockBlobFromText n b t1 opts1 s = Inr (r1, s1)"
    and "accessConditions opts2 = Some (generateIfMatchCondition (etag (blobResultProps r)))"
  shows "isl (createBlockBlobFromText n b t2 opts2 s1)"
proof -
  obtain c x where c: "containers s n = Some c" and x: "blobs c b = Some x"
    and r: "blobResultProps r = blobProps x"
    using assms(2) by (auto simp: getBlobToText_def blob_result_def split: option.splits)
  have "resource_wf (clock s) (blobProps x)"
    using store_wf_blob [OF assms(1) c x] by (simp add: blob_wf_def)
  then have old: "etag (blobResultProps r) = decimal (lastModified (blobProps x))"
    and lt: "lastModified (blobProps x) < clock s"
    by (simp_all add: resource_wf_def r)
  obtain c1 x1 where c1: "containers s1 n = Some c1" and x1: "blobs c1 b = Some x1"
    and p1: "blobProps x1 = fresh_props s"
    using put_whole_blob_Inr [OF assms(3) [unfolded createBlockBlobFromText_def]]
    by (auto simp: put_blob_def write_blob_def)
  have "etag (blobProps x1) \<noteq> decimal (lastModified (blobProps x))"
    using lt decimal_inj by (fastforce simp: p1 fresh_props_def)
  then have "\<not> conditions_ok (LeaseAndAccessConditionsOptions.truncate opts2) (Some (blobProps x1))"
    using conditions_ok_ifMatch [OF assms(4) [unfolded old]] by simp
  from put_whole_blob_refused [OF c1 x1 this] show ?thesis
    by (simp add: createBlockBlobFromText_def)
qed

theorem ifMatch_prevents_lost_update_witness:
  "isl (createBlockBlobFromText ''c'' ''b'' ''two''
          \<lparr>accessConditions = Some (generateIfMatchCondition ''1''), leaseId = None, blobContentMetadata = None, contentSettings = no_headers\<rparr>
          (snd (projr (createBlockBlobFromText ''c'' ''b'' ''one'' no_blob_options
             (the (run_ops [OpCreateContainer ''c'' Map.empty OFF, OpCreateBlockBlob ''c'' ''b'' ''hi'' no_blob_options] empty_store))))))"
proof -
  let ?ops = "[OpCreateContainer ''c'' Map.empty OFF, OpCreateBlockBlob ''c'' ''b'' ''hi'' no_blob_options]"
  let ?s = "the (run_ops ?ops empty_store)"
  have "run_ops ?ops empty_store = Some ?s" by (simp add: store_eval)
  then have wf: "store_wf ?s" using store_wf_empty by (rule run_ops_wf)
  let ?g = "getBlobToText ''c'' ''b'' ?s"
  have g: "?g = Inr (fst (projr ?g), snd (projr ?g))" by (simp add: store_eval)
  let ?w = "createBlockBlobFromText ''c'' ''b'' ''one'' no_blob_options ?s"
  have w: "?w = Inr (fst (projr ?w), snd (projr ?w))" by (simp add: store_eval)
  have e: "accessConditions \<lparr>accessConditions = Some (generateIfMatchCondition ''1''), leaseId = None, blobContentMetadata = None, contentSettings = no_headers\<rparr>
           = Some (generateIfMatchCondition (etag (blobResultProps (snd (projr ?g)))))"
    by (simp add: store_eval decimal.simps)
  from ifMatch_prevents_lost_update [OF wf g w e, of "''two''"] show ?thesis .
qed

text \<open>C12: once a lease is acquired on a blob, of any duration and with a proposed
  or a generated identifier, a write that names no lease fails with
  \<open>LeaseIdMissing\<close>, a write that names another lease fails, and a write that
  names the acquired lease succeeds.\<close>

theorem leased_blob_write_needs_lease:
  assumes "blob_lease_op n b (Acquire d p) acc s = Inr (lr, s1)"
  shows "(leaseId opts = None \<longrightarrow> createBlockBlobFromText n b txt opts s1 = Inl LeaseIdMissing)
       \<and> (\<forall>j. leaseId opts = Some j \<and> Some j \<noteq> lease_id lr \<longrightarrow>
              createBlockBlobFromText n b txt opts s1 = Inl LeaseIdMismatchWithBlobOperation)
       \<and> (\<exists>r s2. createBlockBlobFromText n b txt
                  \<lparr>accessConditions = None, leaseId = lease_id lr, blobContentMetadata = None, contentSettings = no_headers\<rparr> s1 = Inr (r, s2))"
proof -
  obtain c x l where c: "containers s n = Some c" and x: "blobs c b = Some x"
    and acq: "lease_apply (clock s) (Acquire d p) (blobLease x) = Inr (lr, l)"
    and s1: "s1 = put_blob n c b (x\<lparr>blobLease := l\<rparr>) s"
    using blob_lease_op_Inr [OF assms] by blast
  obtain i dd where i: "lease_id lr = Some i" and l: "l = Leased i dd (clock s + lease_secs dd)"
    and act: "lease_active l (clock s)"
    using acquire_grants [of "clock s" d p "blobLease x" lr l] acq by auto
  have at: "containers s1 n = Some (c\<lparr>blobs := (blobs c)(b \<mapsto> x\<lparr>blobLease := l\<rparr>)\<rparr>)" "clock s1 = clock s"
    by (simp_all add: s1 put_blob_def)
  show ?thesis
    using at act
    by (auto simp: i l createBlockBlobFromText_def put_whole_blob_def write_check_def lease_check_def
        blob_guard_def conditions_ok_def conditions_hold_empty LeaseAndAccessConditionsOptions.truncate_def Let_def)
qed

theorem leased_blob_write_needs_lease_witness:
  "createBlockBlobFromText ''c'' ''b'' ''x'' no_blob_options
     (snd (projr (blob_lease_op ''c'' ''b'' (Acquire (Some 30) None) None
        (the (run_ops [OpCreateContainer ''c'' Map.empty OFF, OpCreateBlockBlob ''c'' ''b'' ''hi'' no_blob_options] empty_store)))))
   = Inl LeaseIdMissing"
proof -
  let ?s = "the (run_ops [OpCreateContainer ''c'' Map.empty OFF, OpCreateBlockBlob ''c'' ''b'' ''hi'' no_blob_options] empty_store)"
  let ?l = "blob_lease_op ''c'' ''b'' (Acquire (Some 30) None) None ?s"
  have l: "?l = Inr (fst (projr ?l), snd (projr ?l))"
    by (simp add: store_eval acquireLease_def valid_duration_def grant_def duration_of_def)
  from leased_blob_write_needs_lease [OF l, of no_blob_options "''x''"] show ?thesis
    by (simp add: no_blob_options_def blob_options_def no_conditions_def)
qed

end
